(* ===== verification/Prelude.thy ===== *)
theory Prelude
  imports Main "HOL-Library.Word"
begin

text \<open>
  Shared vocabulary of the development: machine words and byte strings, the two ways a native
  call can fail (undefined behaviour of the C code, or a Java exception left pending by JNI),
  sequencing of fallible computations, loads and stores of a C byte buffer on the little-endian
  amd64 target that \<^verbatim>\<open>src/c/Makefile\<close> builds for, and network byte order.
\<close>

unbundle bit_operations_syntax

declare add_2_eq_Suc [simp del] add_2_eq_Suc' [simp del]

section \<open>Words, bytes and failures\<close>

type_synonym u8 = "8 word"
type_synonym u16 = "16 word"
type_synonym u32 = "32 word"
type_synonym u64 = "64 word"
type_synonym bytes = "u8 list"

text \<open>
  What the C text leaves undefined is a value of type \<open>fault\<close>, so that a read past the
  captured bytes or a write past the packet buffer is a visible outcome of the model.
\<close>

datatype fault =
    OobRead          \<comment> \<open>load outside the buffer\<close>
  | OobWrite         \<comment> \<open>store outside the buffer\<close>
  | NullPtr          \<comment> \<open>a null array or handle handed to code that dereferences it\<close>
  | WrongClass       \<comment> \<open>a method called on an object of another class\<close>
  | DeadHandle       \<comment> \<open>use or release of a handle that was already released\<close>
  | DivZero          \<comment> \<open>an integer division by zero\<close>
  | Uninit           \<comment> \<open>an uninitialised reference handed to the virtual machine\<close>

datatype jexn =
    IOException string
  | ArrayIndexOutOfBounds
  | NegativeArraySize
  | NullPointerException
  | InstantiationException

datatype failure = UB fault | Exn jexn

type_synonym 'a res = "failure + 'a"

section \<open>Sequencing\<close>

definition bindR :: "'e + 'a \<Rightarrow> ('a \<Rightarrow> 'e + 'b) \<Rightarrow> 'e + 'b" where
  "bindR r f = (case r of Inl e \<Rightarrow> Inl e | Inr x \<Rightarrow> f x)"

named_theorems res_simps \<open>inversion of sequenced computations\<close>
named_theorems mem_simps \<open>loads of freshly stored bytes\<close>
named_theorems order_simps \<open>byte order\<close>

lemma bindR_Inl [simp]: "bindR (Inl e) f = Inl e"
  by (simp add: bindR_def)

lemma bindR_Inr [simp]: "bindR (Inr x) f = f x"
  by (simp add: bindR_def)

lemma bindR_eq_Inr [res_simps]: "bindR r f = Inr y \<longleftrightarrow> (\<exists>x. r = Inr x \<and> f x = Inr y)"
  by (cases r) auto

lemma bindR_eq_Inl [res_simps]:
  "bindR r f = Inl e \<longleftrightarrow> r = Inl e \<or> (\<exists>x. r = Inr x \<and> f x = Inl e)"
  by (cases r) auto

lemma bindR_assoc: "bindR (bindR r f) g = bindR r (\<lambda>x. bindR (f x) g)"
  by (cases r) auto

lemma bindR_cong [fundef_cong]:
  "r = r' \<Longrightarrow> (\<And>x. r' = Inr x \<Longrightarrow> f x = g x) \<Longrightarrow> bindR r f = bindR r' g"
  by (cases r') auto

lemma if_Inr_eq [res_simps]: "(if c then Inr x else Inl e) = Inr y \<longleftrightarrow> c \<and> x = y"
  by simp

section \<open>Byte order\<close>

text \<open>
  Little-endian composition is what a \<^verbatim>\<open>u_short\<close> or \<^verbatim>\<open>u_int\<close> load does on the
  target; big-endian composition is the meaning of the same bytes on the wire.
\<close>

definition le16 :: "u8 \<Rightarrow> u8 \<Rightarrow> u16" where
  "le16 b0 b1 = ucast b0 OR push_bit 8 (ucast b1)"

definition be16 :: "u8 \<Rightarrow> u8 \<Rightarrow> u16" where
  "be16 b0 b1 = le16 b1 b0"

definition le32 :: "u8 \<Rightarrow> u8 \<Rightarrow> u8 \<Rightarrow> u8 \<Rightarrow> u32" where
  "le32 b0 b1 b2 b3 =
     ucast b0 OR push_bit 8 (ucast b1) OR push_bit 16 (ucast b2) OR push_bit 24 (ucast b3)"

definition be32 :: "u8 \<Rightarrow> u8 \<Rightarrow> u8 \<Rightarrow> u8 \<Rightarrow> u32" where
  "be32 b0 b1 b2 b3 = le32 b3 b2 b1 b0"

definition lo8 :: "u16 \<Rightarrow> u8" where "lo8 w = ucast w"
definition hi8 :: "u16 \<Rightarrow> u8" where "hi8 w = ucast (drop_bit 8 w)"

definition byte32 :: "nat \<Rightarrow> u32 \<Rightarrow> u8" where
  "byte32 k w = ucast (drop_bit (8 * k) w)"

text \<open>\<^verbatim>\<open>htons\<close>, \<^verbatim>\<open>ntohs\<close>, \<^verbatim>\<open>htonl\<close> and \<^verbatim>\<open>ntohl\<close> of the
  standard library on a little-endian machine.\<close>

definition htons :: "u16 \<Rightarrow> u16" where
  "htons w = le16 (hi8 w) (lo8 w)"

definition ntohs :: "u16 \<Rightarrow> u16" where
  "ntohs w = htons w"

definition htonl :: "u32 \<Rightarrow> u32" where
  "htonl w = le32 (byte32 3 w) (byte32 2 w) (byte32 1 w) (byte32 0 w)"

definition ntohl :: "u32 \<Rightarrow> u32" where
  "ntohl w = htonl w"

lemma lo8_le16 [order_simps, simp]: "lo8 (le16 a b) = a"
  by (rule bit_word_eqI) (auto simp: lo8_def le16_def bit_simps)

lemma hi8_le16 [order_simps, simp]: "hi8 (le16 a b) = b"
  by (rule bit_word_eqI) (auto simp: hi8_def le16_def bit_simps dest: bit_imp_le_length)

lemma le16_lo8_hi8 [order_simps, simp]: "le16 (lo8 w) (hi8 w) = w"
  by (rule bit_word_eqI) (auto simp: lo8_def hi8_def le16_def bit_simps)

lemma htons_le16 [order_simps, simp]: "htons (le16 a b) = le16 b a"
  by (simp add: htons_def)

lemma ntohs_le16 [order_simps, simp]: "ntohs (le16 a b) = be16 a b"
  by (simp add: ntohs_def be16_def)

lemma htons_htons [order_simps, simp]: "htons (htons w) = w"
  by (simp add: htons_def)

lemma bytes_0 [simp]: "lo8 0 = 0" "hi8 0 = 0"
  by (simp_all add: lo8_def hi8_def)

lemma htons_0 [simp]: "htons 0 = 0"
  by (rule bit_word_eqI) (simp add: htons_def le16_def lo8_def hi8_def)

lemma ntohs_htons [order_simps, simp]: "ntohs (htons w) = w"
  by (simp add: ntohs_def)

lemma lo8_htons [order_simps, simp]: "lo8 (htons w) = hi8 w"
  by (simp add: htons_def)

lemma hi8_htons [order_simps, simp]: "hi8 (htons w) = lo8 w"
  by (simp add: htons_def)

lemma be16_hi8_lo8 [order_simps, simp]: "be16 (hi8 w) (lo8 w) = w"
  by (simp add: be16_def)

lemma byte32_le32 [order_simps, simp]:
  "byte32 0 (le32 a b c d) = a"
  "byte32 (Suc 0) (le32 a b c d) = b"
  "byte32 2 (le32 a b c d) = c"
  "byte32 3 (le32 a b c d) = d"
  by ((rule bit_word_eqI,
       auto simp: byte32_def le32_def bit_simps dest: bit_imp_le_length)[1])+

lemma le32_byte32 [order_simps, simp]:
  "le32 (byte32 0 w) (byte32 (Suc 0) w) (byte32 2 w) (byte32 3 w) = w"
proof (rule bit_word_eqI)
  fix n assume "n < LENGTH(32)"
  then consider "n < 8" | "8 \<le> n" "n < 16" | "16 \<le> n" "n < 24" | "24 \<le> n" "n < 32"
    by force
  then show "bit (le32 (byte32 0 w) (byte32 (Suc 0) w) (byte32 2 w) (byte32 3 w)) n = bit w n"
    by cases (auto simp: byte32_def le32_def bit_simps)
qed

lemma byte32_htonl [order_simps, simp]:
  "byte32 0 (htonl w) = byte32 3 w"
  "byte32 (Suc 0) (htonl w) = byte32 2 w"
  "byte32 2 (htonl w) = byte32 (Suc 0) w"
  "byte32 3 (htonl w) = byte32 0 w"
  by (simp_all add: htonl_def)

lemma htonl_htonl [order_simps, simp]: "htonl (htonl w) = w"
  by (simp add: htonl_def [of "htonl w"])

lemma ntohl_htonl [order_simps, simp]: "ntohl (htonl w) = w"
  by (simp add: ntohl_def)

lemma ntohl_le32 [simp]: "ntohl (le32 a b c d) = be32 a b c d"
  by (simp add: ntohl_def htonl_def be32_def)

lemma be32_bytes [simp]: "be32 (byte32 3 w) (byte32 2 w) (byte32 (Suc 0) w) (byte32 0 w) = w"
  by (simp add: be32_def)

lemma le32_reversed [simp]:
  "le32 (byte32 3 w) (byte32 2 w) (byte32 (Suc 0) w) (byte32 0 w) = htonl w"
  by (simp add: htonl_def)

lemma byte32_0 [simp]: "byte32 k 0 = 0"
  by (simp add: byte32_def)

lemma byte32_or: "byte32 k (x OR y) = byte32 k x OR byte32 k y"
  by (rule bit_word_eqI) (auto simp: byte32_def bit_simps)

lemma le32_or:
  "le32 (a OR a') (b OR b') (c OR c') (d OR d') = le32 a b c d OR le32 a' b' c' d'"
  by (simp only: le32_def unsigned_or_eq push_bit_or or.assoc or.commute or.left_commute)

lemma htonl_or: "htonl (x OR y) = htonl x OR htonl y"
  by (simp only: htonl_def byte32_or le32_or)

lemma unat_u8_less [simp]: "unat (w :: u8) < 256"
  using unsigned_less [of w] by simp

lemma unat_u16_less [simp]: "unat (w :: u16) < 65536"
  using unsigned_less [of w] by simp

lemma unat_eqI: "unat x = unat y \<Longrightarrow> x = y"
  by (rule unsigned_word_eqI [where ?'a = nat])

lemma unat_word_of_nat_small:
  "n < 2 ^ LENGTH('a) \<Longrightarrow> unat (word_of_nat n :: 'a :: len word) = n"
  by (simp add: unsigned_of_nat take_bit_nat_eq_self)

lemma unat_u16_of_nat [simp]: "n < 65536 \<Longrightarrow> unat (word_of_nat n :: u16) = n"
  by (simp add: unat_word_of_nat_small)

lemma ucast_u16_of_nat:
  "n < 65536 \<Longrightarrow> ucast (word_of_nat n :: u16) = (word_of_nat n :: 'b :: len word)"
  by (simp add: unsigned_of_nat take_bit_nat_eq_self)

lemma ucast_ucast_small:
  fixes w :: "'a :: len word"
  assumes "unat w < 2 ^ LENGTH('b :: len)" "LENGTH('b) \<le> LENGTH('a)"
  shows "ucast (ucast w :: 'b word) = w"
proof (rule bit_word_eqI)
  fix n assume n: "n < LENGTH('a)"
  have "\<not> bit w n" if "LENGTH('b) \<le> n"
  proof -
    have "2 ^ LENGTH('b) \<le> (2 :: nat) ^ n" using that by simp
    with assms(1) have "unat w < 2 ^ n" by (rule less_le_trans)
    then have "\<not> bit (unat w) n" by (simp add: bit_iff_odd)
    then show ?thesis by (simp add: bit_unsigned_iff)
  qed
  then show "bit (ucast (ucast w :: 'b word) :: 'a word) n = bit w n"
    using n assms(2) by (cases "n < LENGTH('b)") (auto simp: bit_simps)
qed

lemma unat_le16: "unat (le16 a b) = unat a + 256 * unat b"
proof -
  have "le16 a b = ucast a + push_bit 8 (ucast b)"
    unfolding le16_def
    by (rule disjunctive_add [symmetric]) (auto simp: bit_simps dest: bit_imp_le_length)
  also have "\<dots> = word_of_nat (unat a + 256 * unat b)"
    by (simp add: push_bit_eq_mult)
  finally have eq: "le16 a b = word_of_nat (unat a + 256 * unat b)" .
  have "unat a + 256 * unat b < 65536"
    using unat_u8_less [of a] unat_u8_less [of b] by linarith
  then show ?thesis
    unfolding eq by (rule unat_u16_of_nat)
qed

lemma unat_be16: "unat (be16 a b) = 256 * unat a + unat b"
  by (simp add: be16_def unat_le16)

lemma unat_htons: "unat (htons w) = 256 * (unat w mod 256) + unat w div 256"
proof -
  have w: "unat w = unat (lo8 w) + 256 * unat (hi8 w)"
    by (simp flip: unat_le16)
  have "unat (htons w) = unat (hi8 w) + 256 * unat (lo8 w)"
    by (simp add: htons_def unat_le16)
  then show ?thesis
    by (simp add: w)
qed

section \<open>C buffers\<close>

text \<open>
  A C buffer is the list of its bytes; a pointer into it is an offset. The loads fail when they
  leave the buffer, the stores likewise, and a store keeps the size of the buffer.
\<close>

definition ld8 :: "bytes \<Rightarrow> nat \<Rightarrow> u8 res" where
  "ld8 m a = (if a < length m then Inr (m ! a) else Inl (UB OobRead))"

definition ld16 :: "bytes \<Rightarrow> nat \<Rightarrow> u16 res" where
  "ld16 m a = (if a + 2 \<le> length m then Inr (le16 (m ! a) (m ! (a + 1))) else Inl (UB OobRead))"

definition ld32 :: "bytes \<Rightarrow> nat \<Rightarrow> u32 res" where
  "ld32 m a =
     (if a + 4 \<le> length m then Inr (le32 (m ! a) (m ! (a + 1)) (m ! (a + 2)) (m ! (a + 3)))
      else Inl (UB OobRead))"

definition ld_bytes :: "bytes \<Rightarrow> nat \<Rightarrow> nat \<Rightarrow> bytes res" where
  "ld_bytes m a n = (if a + n \<le> length m then Inr (take n (drop a m)) else Inl (UB OobRead))"

definition splice :: "bytes \<Rightarrow> nat \<Rightarrow> bytes \<Rightarrow> bytes" where
  "splice m a bs = take a m @ bs @ drop (a + length bs) m"

definition st_bytes :: "bytes \<Rightarrow> nat \<Rightarrow> bytes \<Rightarrow> bytes res" where
  "st_bytes m a bs =
     (if a + length bs \<le> length m then Inr (splice m a bs) else Inl (UB OobWrite))"

definition st8 :: "bytes \<Rightarrow> nat \<Rightarrow> u8 \<Rightarrow> bytes res" where
  "st8 m a v = st_bytes m a [v]"

definition st16 :: "bytes \<Rightarrow> nat \<Rightarrow> u16 \<Rightarrow> bytes res" where
  "st16 m a v = st_bytes m a [lo8 v, hi8 v]"

definition st32 :: "bytes \<Rightarrow> nat \<Rightarrow> u32 \<Rightarrow> bytes res" where
  "st32 m a v = st_bytes m a [byte32 0 v, byte32 1 v, byte32 2 v, byte32 3 v]"

lemma length_splice [simp]:
  "a + length bs \<le> length m \<Longrightarrow> length (splice m a bs) = length m"
  by (simp add: splice_def)

lemma nth_splice [mem_simps]:
  assumes "a + length bs \<le> length m" "i < length m"
  shows "splice m a bs ! i = (if a \<le> i \<and> i < a + length bs then bs ! (i - a) else m ! i)"
  using assms by (auto simp: splice_def nth_append min_def)

lemma take_splice_prefix [mem_simps]:
  "n \<le> a \<Longrightarrow> a \<le> length m \<Longrightarrow> take n (splice m a bs) = take n m"
  by (simp add: splice_def min_def)

lemma take_drop_splice_same [mem_simps]:
  "a + length bs \<le> length m \<Longrightarrow> n = length bs \<Longrightarrow> take n (drop a (splice m a bs)) = bs"
  by (simp add: splice_def)

lemma splice_append:
  assumes "a + length xs + length ys \<le> length m"
  shows "splice (splice m a xs) (a + length xs) ys = splice m a (xs @ ys)"
  using assms by (simp add: splice_def ac_simps)

text \<open>
  A run of stores is one store: adjacent ones join, also across a store further up, and a store to
  the same place replaces the earlier one.
\<close>

named_theorems store_simps \<open>normal form of a run of stores\<close>

lemma splice_join [store_simps]:
  "b = a + length xs \<Longrightarrow> b + length ys \<le> length m \<Longrightarrow>
   splice (splice m a xs) b ys = splice m a (xs @ ys)"
  using splice_append [of a xs ys m] by simp

lemma splice_commute:
  assumes "b < a" "b + length ys \<le> a" "a + length xs \<le> length m"
  shows "splice (splice m a xs) b ys = splice (splice m b ys) a xs"
  using assms by (intro nth_equalityI) (auto simp: nth_splice)

lemma splice_join_below [store_simps]:
  "b + length ys = a \<Longrightarrow> a + length xs \<le> length m \<Longrightarrow>
   splice (splice m a xs) b ys = splice m b (ys @ xs)"
  by (intro nth_equalityI) (auto simp: nth_splice nth_append)

lemma splice_join_between [store_simps]:
  assumes "b = a + length xs" "b + length ys \<le> c" "c + length zs \<le> length m"
  shows "splice (splice (splice m a xs) c zs) b ys = splice (splice m a (xs @ ys)) c zs"
  using assms by (intro nth_equalityI) (auto simp: nth_splice nth_append)

lemma splice_replace [store_simps]:
  assumes "length xs = length ys" "a + length ys \<le> length m"
  shows "splice (splice m a xs) a ys = splice m a ys"
  using assms by (simp add: splice_def)

lemma splice_replace_under [store_simps]:
  assumes "length xs = length ys" "a + length ys \<le> c" "c + length zs \<le> length m"
  shows "splice (splice (splice m a xs) c zs) a ys = splice (splice m a ys) c zs"
  using assms by (intro nth_equalityI) (auto simp: nth_splice)

lemma splice_within:
  assumes "k + length ys \<le> length xs" "a + length xs \<le> length m"
  shows "splice (splice m a xs) (a + k) ys = splice m a (splice xs k ys)"
  using assms by (intro nth_equalityI) (auto simp: nth_splice)

lemma st_splice:
  "a + length bs \<le> length m \<Longrightarrow> st_bytes m a bs = Inr (splice m a bs)"
  "a + 1 \<le> length m \<Longrightarrow> st8 m a b = Inr (splice m a [b])"
  "a + 2 \<le> length m \<Longrightarrow> st16 m a w = Inr (splice m a [lo8 w, hi8 w])"
  "a + 4 \<le> length m \<Longrightarrow>
     st32 m a d = Inr (splice m a [byte32 0 d, byte32 1 d, byte32 2 d, byte32 3 d])"
  by (simp_all add: st_bytes_def st8_def st16_def st32_def)

lemma splice_eqI:
  assumes "length m' = length m" "a + length bs \<le> length m"
    and "\<And>i. i < length m \<Longrightarrow> i < a \<or> a + length bs \<le> i \<Longrightarrow> m' ! i = m ! i"
    and "\<And>k. k < length bs \<Longrightarrow> m' ! (a + k) = bs ! k"
  shows "m' = splice m a bs"
proof (rule nth_equalityI)
  show "length m' = length (splice m a bs)" using assms(1,2) by simp
  fix i assume "i < length m'"
  then show "m' ! i = splice m a bs ! i"
    using assms(1,2,3) assms(4) [of "i - a"]
    by (cases "i < a \<or> a + length bs \<le> i") (auto simp: nth_splice)
qed

lemma splice_join_gap:
  assumes "b = a + length xs + g" "b + length ys \<le> length m"
  shows "splice (splice m a xs) b ys = splice m a (xs @ take g (drop (a + length xs) m) @ ys)"
  using assms by (intro splice_eqI) (auto simp: nth_splice nth_append)

lemma take_2_drop: "a + 2 \<le> length m \<Longrightarrow> take 2 (drop a m) = [m ! a, m ! (a + 1)]"
  by (intro nth_equalityI) (auto simp: less_Suc_eq numeral_eq_Suc nth_Cons')

lemma splice_Nil [simp]: "splice m a [] = m"
  by (simp add: splice_def)

lemma st_bytes_Inr [res_simps]:
  "st_bytes m a bs = Inr m' \<longleftrightarrow> a + length bs \<le> length m \<and> m' = splice m a bs"
  by (auto simp: st_bytes_def)

lemma st_length:
  "st_bytes m a bs = Inr m' \<Longrightarrow> length m' = length m"
  "st8 m a b = Inr m' \<Longrightarrow> length m' = length m"
  "st16 m a w = Inr m' \<Longrightarrow> length m' = length m"
  "st32 m a d = Inr m' \<Longrightarrow> length m' = length m"
  by (auto simp: st8_def st16_def st32_def st_bytes_Inr)

lemma ld_bytes_Inr [res_simps]:
  "ld_bytes m a n = Inr bs \<longleftrightarrow> a + n \<le> length m \<and> bs = take n (drop a m)"
  by (auto simp: ld_bytes_def)

lemma ld8_Inr [res_simps]: "ld8 m a = Inr b \<longleftrightarrow> a < length m \<and> b = m ! a"
  by (auto simp: ld8_def)

lemma ld16_Inr [res_simps]:
  "ld16 m a = Inr w \<longleftrightarrow> a + 2 \<le> length m \<and> w = le16 (m ! a) (m ! (a + 1))"
  by (auto simp: ld16_def)

lemma ld32_Inr [res_simps]:
  "ld32 m a = Inr w \<longleftrightarrow>
     a + 4 \<le> length m \<and> w = le32 (m ! a) (m ! (a + 1)) (m ! (a + 2)) (m ! (a + 3))"
  by (auto simp: ld32_def)

lemma ld_fault [res_simps]:
  "ld8 m a = Inl e \<longleftrightarrow> length m \<le> a \<and> e = UB OobRead"
  "ld16 m a = Inl e \<longleftrightarrow> length m < a + 2 \<and> e = UB OobRead"
  "ld32 m a = Inl e \<longleftrightarrow> length m < a + 4 \<and> e = UB OobRead"
  "ld_bytes m a n = Inl e \<longleftrightarrow> length m < a + n \<and> e = UB OobRead"
  by (auto simp: ld8_def ld16_def ld32_def ld_bytes_def)

text \<open>Loads from a block that has just been stored, relative to the block's start.\<close>

lemma splice_nth_in:
  "a + length bs \<le> length m \<Longrightarrow> k < length bs \<Longrightarrow> splice m a bs ! (a + k) = bs ! k"
  by (simp add: nth_splice)

lemma ld8_splice [mem_simps]:
  assumes "a + length bs \<le> length m" "k < length bs"
  shows "ld8 (splice m a bs) (a + k) = Inr (bs ! k)"
  using assms by (simp add: ld8_def splice_nth_in)

lemma ld16_splice [mem_simps]:
  assumes "a + length bs \<le> length m" "k + 2 \<le> length bs"
  shows "ld16 (splice m a bs) (a + k) = Inr (le16 (bs ! k) (bs ! (k + 1)))"
  using assms splice_nth_in [of a bs m k] splice_nth_in [of a bs m "k + 1"]
  by (simp add: ld16_def)

lemma ld32_splice [mem_simps]:
  assumes "a + length bs \<le> length m" "k + 4 \<le> length bs"
  shows "ld32 (splice m a bs) (a + k)
    = Inr (le32 (bs ! k) (bs ! (k + 1)) (bs ! (k + 2)) (bs ! (k + 3)))"
  using assms splice_nth_in [of a bs m k] splice_nth_in [of a bs m "k + 1"]
    splice_nth_in [of a bs m "k + 2"] splice_nth_in [of a bs m "k + 3"]
  by (simp add: ld32_def add.assoc)

lemma ld_bytes_splice [mem_simps]:
  assumes "a + length bs \<le> length m" "k + j \<le> length bs"
  shows "ld_bytes (splice m a bs) (a + k) j = Inr (take j (drop k bs))"
proof -
  have "take j (drop (a + k) (splice m a bs)) = take j (drop k bs)"
    using assms by (intro nth_equalityI) (auto simp: nth_splice)
  then show ?thesis
    using assms by (simp add: ld_bytes_def)
qed

lemmas ld_splice = ld8_splice ld16_splice ld32_splice ld_bytes_splice
lemmas ld_splice0 = ld_splice [where k = 0, simplified] ld8_splice [where k = "Suc 0", simplified]

text \<open>Loads from the second part of a buffer.\<close>

lemma ld_append:
  "ld8 (xs @ ys) (length xs + k) = ld8 ys k"
  "ld16 (xs @ ys) (length xs + k) = ld16 ys k"
  "ld32 (xs @ ys) (length xs + k) = ld32 ys k"
  "ld_bytes (xs @ ys) (length xs + k) n = ld_bytes ys k n"
  by (simp_all add: ld8_def ld16_def ld32_def ld_bytes_def nth_append)

lemma ld_append0:
  "ld8 (xs @ ys) (length xs) = ld8 ys 0"
  "ld16 (xs @ ys) (length xs) = ld16 ys 0"
  "ld32 (xs @ ys) (length xs) = ld32 ys 0"
  "ld_bytes (xs @ ys) (length xs) n = ld_bytes ys 0 n"
  using ld_append [of xs ys 0] by simp_all

section \<open>Narrowing conversions\<close>

text \<open>
  Assignment of an \<^verbatim>\<open>int\<close> to a \<^verbatim>\<open>short\<close> variable keeps the low 16 bits,
  read as two's complement.
\<close>

definition s16 :: "int \<Rightarrow> int" where
  "s16 x = (x + 32768) mod 65536 - 32768"

lemma s16_id: "-32768 \<le> x \<Longrightarrow> x < 32768 \<Longrightarrow> s16 x = x"
  by (simp add: s16_def)

lemma s16_bounds: "-32768 \<le> s16 x" "s16 x < 32768"
  by (simp_all add: s16_def)

section \<open>Lists related element by element\<close>

lemma list_all2_factor:
  assumes "list_all2 R xs cs" "\<And>x c. x \<in> set xs \<Longrightarrow> R x c \<Longrightarrow> \<exists>d. P x d \<and> Q c d"
  shows "\<exists>ds. list_all2 P xs ds \<and> list_all2 Q cs ds"
  using assms
proof (induction rule: list_all2_induct)
  case (Cons x xs c cs)
  obtain d where "P x d" "Q c d" using Cons.prems [of x c] Cons.hyps by auto
  moreover obtain ds where "list_all2 P xs ds" "list_all2 Q cs ds" using Cons by auto
  ultimately show ?case by (metis list.rel_intros(2))
qed simp

end
