(* ===== verification/Net_Headers.thy ===== *)
theory Net_Headers
  imports Prelude
begin

text \<open>
  The wire structures of \<^verbatim>\<open>src/c/include/netinet/\<close>, \<^verbatim>\<open>src/c/include/net/\<close> and
  \<^verbatim>\<open>Jpcap_ether.h\<close>, as C type descriptions, and the offsets the compiler gives their
  fields. The native code reads and writes these fields through casted pointers, so the offsets
  computed here from the declarations are what the other theories load from and store to. Protocol
  numbers are abbreviations with the headers' names.
\<close>

section \<open>C type descriptions and their layout\<close>

datatype ctype =
    CChar                                   \<comment> \<open>8 bits: \<^verbatim>\<open>u_char\<close>, \<^verbatim>\<open>jbyte\<close>, a bit-field byte\<close>
  | CShort                                  \<comment> \<open>16 bits\<close>
  | CInt                                    \<comment> \<open>32 bits\<close>
  | CLong                                   \<comment> \<open>64 bits: \<^verbatim>\<open>long\<close>, a pointer\<close>
  | CArr nat ctype
  | CStruct "(string \<times> ctype) list"
  | CUnion "(string \<times> ctype) list"

fun calign :: "ctype \<Rightarrow> nat" and calign_fields :: "(string \<times> ctype) list \<Rightarrow> nat" where
  "calign CChar = 1"
| "calign CShort = 2"
| "calign CInt = 4"
| "calign CLong = 8"
| "calign (CArr n t) = calign t"
| "calign (CStruct fs) = calign_fields fs"
| "calign (CUnion fs) = calign_fields fs"
| "calign_fields [] = 1"
| "calign_fields ((f, t) # fs) = max (calign t) (calign_fields fs)"

definition align_up :: "nat \<Rightarrow> nat \<Rightarrow> nat" where
  "align_up n a = (n + a - 1) div a * a"

fun csize :: "ctype \<Rightarrow> nat"
  and struct_end :: "(string \<times> ctype) list \<Rightarrow> nat \<Rightarrow> nat"
  and union_max :: "(string \<times> ctype) list \<Rightarrow> nat" where
  "csize CChar = 1"
| "csize CShort = 2"
| "csize CInt = 4"
| "csize CLong = 8"
| "csize (CArr n t) = n * csize t"
| "csize (CStruct fs) = align_up (struct_end fs 0) (calign_fields fs)"
| "csize (CUnion fs) = align_up (union_max fs) (calign_fields fs)"
| "struct_end [] n = n"
| "struct_end ((f, t) # fs) n = struct_end fs (align_up n (calign t) + csize t)"
| "union_max [] = 0"
| "union_max ((f, t) # fs) = max (csize t) (union_max fs)"

fun find_field :: "(string \<times> ctype) list \<Rightarrow> string \<Rightarrow> nat \<Rightarrow> (nat \<times> ctype) option" where
  "find_field [] f n = None"
| "find_field ((g, t) # fs) f n =
     (let k = align_up n (calign t)
      in if f = g then Some (k, t) else find_field fs f (k + csize t))"

fun coffset :: "ctype \<Rightarrow> string list \<Rightarrow> nat option" where
  "coffset t [] = Some 0"
| "coffset (CStruct fs) (f # p) =
     (case find_field fs f 0 of None \<Rightarrow> None | Some (k, t) \<Rightarrow> map_option ((+) k) (coffset t p))"
| "coffset (CUnion fs) (f # p) =
     (case map_of fs f of None \<Rightarrow> None | Some t \<Rightarrow> coffset t p)"
| "coffset t (f # p) = None"

section \<open>Structures\<close>

definition in_addr :: ctype where "in_addr = CStruct [(''s_addr'', CInt)]"

definition in6_addr :: ctype where "in6_addr = CStruct [(''s6_addr'', CArr 16 CChar)]"

text \<open>\<^verbatim>\<open>Jpcap_ether.h\<close>: the Ethernet header the datalink code uses.\<close>

definition ether_header :: ctype where
  "ether_header = CStruct
     [(''ether_dest'', CArr 6 CChar), (''ether_src'', CArr 6 CChar), (''ether_type'', CShort)]"

definition struct_ip :: ctype where
  "struct_ip = CStruct
     [(''ip_hl_v'', CChar), (''ip_tos'', CChar), (''ip_len'', CShort), (''ip_id'', CShort),
      (''ip_off'', CShort), (''ip_ttl'', CChar), (''ip_p'', CChar), (''ip_sum'', CShort),
      (''ip_src'', in_addr), (''ip_dst'', in_addr)]"

definition tcphdr :: ctype where
  "tcphdr = CStruct
     [(''th_sport'', CShort), (''th_dport'', CShort), (''th_seq'', CInt), (''th_ack'', CInt),
      (''th_x2_off'', CChar), (''th_flags'', CChar), (''th_win'', CShort), (''th_sum'', CShort),
      (''th_urp'', CShort)]"

definition udphdr :: ctype where
  "udphdr = CStruct
     [(''uh_sport'', CShort), (''uh_dport'', CShort), (''uh_ulen'', CShort), (''uh_sum'', CShort)]"

definition struct_icmp :: ctype where
  "struct_icmp = CStruct
     [(''icmp_type'', CChar), (''icmp_code'', CChar), (''icmp_cksum'', CShort),
      (''icmp_hun'', CUnion
         [(''ih_pptr'', CChar), (''ih_gwaddr'', in_addr),
          (''ih_idseq'', CStruct [(''icd_id'', CShort), (''icd_seq'', CShort)]),
          (''ih_void'', CInt),
          (''ih_pmtu'', CStruct [(''ipm_void'', CShort), (''ipm_nextmtu'', CShort)])]),
      (''icmp_dun'', CUnion
         [(''id_ts'', CStruct [(''its_otime'', CInt), (''its_rtime'', CInt), (''its_ttime'', CInt)]),
          (''id_ip'', CStruct [(''idi_ip'', struct_ip)]),
          (''id_mask'', CInt), (''id_data'', CArr 1 CChar)])]"

definition arphdr :: ctype where
  "arphdr = CStruct
     [(''ar_hrd'', CShort), (''ar_pro'', CShort), (''ar_hln'', CChar), (''ar_pln'', CChar),
      (''ar_op'', CShort)]"

definition ether_arp :: ctype where
  "ether_arp = CStruct
     [(''ea_hdr'', arphdr), (''arp_sha'', CArr 6 CChar), (''arp_spa'', CArr 4 CChar),
      (''arp_tha'', CArr 6 CChar), (''arp_tpa'', CArr 4 CChar)]"

definition ip6_hdr :: ctype where
  "ip6_hdr = CStruct
     [(''ip6_ctlun'', CUnion
         [(''ip6_un1'', CStruct [(''ip6_un1_flow'', CInt), (''ip6_un1_plen'', CShort),
                                (''ip6_un1_nxt'', CChar), (''ip6_un1_hlim'', CChar)]),
          (''ip6_un2_vfc'', CChar)]),
      (''ip6_src'', in6_addr), (''ip6_dst'', in6_addr)]"

definition ip6_ext :: ctype where
  "ip6_ext = CStruct [(''ip6e_nxt'', CChar), (''ip6e_len'', CChar)]"

definition ip6_rthdr :: ctype where
  "ip6_rthdr = CStruct
     [(''ip6r_nxt'', CChar), (''ip6r_len'', CChar), (''ip6r_type'', CChar), (''ip6r_segleft'', CChar)]"

definition ip6_frag :: ctype where
  "ip6_frag = CStruct
     [(''ip6f_nxt'', CChar), (''ip6f_reserved'', CChar), (''ip6f_offlg'', CShort),
      (''ip6f_ident'', CInt)]"

text \<open>The authentication header of \<^verbatim>\<open>packet_ipv6.c\<close>.\<close>

definition newah :: ctype where
  "newah = CStruct
     [(''ah_nxt'', CChar), (''ah_len'', CChar), (''ah_reserve'', CShort), (''ah_spi'', CInt),
      (''ah_seq'', CInt)]"

lemmas struct_defs =
  in_addr_def in6_addr_def ether_header_def struct_ip_def tcphdr_def udphdr_def struct_icmp_def
  arphdr_def ether_arp_def ip6_hdr_def ip6_ext_def ip6_rthdr_def ip6_frag_def newah_def

section \<open>Sizes and field offsets\<close>

definition field :: "ctype \<Rightarrow> string list \<Rightarrow> nat" where
  "field t p = (case coffset t p of None \<Rightarrow> 0 | Some k \<Rightarrow> k)"

definition sizeof :: "ctype \<Rightarrow> nat" where
  "sizeof t = csize t"

lemmas layout_simps = field_def sizeof_def align_up_def Let_def struct_defs

lemma sizeof_structs [simp]:
  "sizeof ether_header = 14" "sizeof struct_ip = 20" "sizeof tcphdr = 20" "sizeof udphdr = 8"
  "sizeof arphdr = 8" "sizeof ether_arp = 28" "sizeof ip6_hdr = 40" "sizeof ip6_ext = 2"
  "sizeof ip6_frag = 8" "sizeof newah = 12"
  by code_simp+

lemma ether_fields [simp]:
  "field ether_header [''ether_dest''] = 0" "field ether_header [''ether_src''] = 6"
  "field ether_header [''ether_type''] = 12"
  by code_simp+

lemma ip_fields [simp]:
  "field struct_ip [''ip_hl_v''] = 0" "field struct_ip [''ip_tos''] = 1"
  "field struct_ip [''ip_len''] = 2" "field struct_ip [''ip_id''] = 4"
  "field struct_ip [''ip_off''] = 6" "field struct_ip [''ip_ttl''] = 8"
  "field struct_ip [''ip_p''] = 9" "field struct_ip [''ip_sum''] = 10"
  "field struct_ip [''ip_src''] = 12" "field struct_ip [''ip_dst''] = 16"
  by code_simp+

lemma tcp_fields [simp]:
  "field tcphdr [''th_sport''] = 0" "field tcphdr [''th_dport''] = 2"
  "field tcphdr [''th_seq''] = 4" "field tcphdr [''th_ack''] = 8"
  "field tcphdr [''th_x2_off''] = 12" "field tcphdr [''th_flags''] = 13"
  "field tcphdr [''th_win''] = 14" "field tcphdr [''th_sum''] = 16"
  "field tcphdr [''th_urp''] = 18"
  by code_simp+

lemma udp_fields [simp]:
  "field udphdr [''uh_sport''] = 0" "field udphdr [''uh_dport''] = 2"
  "field udphdr [''uh_ulen''] = 4" "field udphdr [''uh_sum''] = 6"
  by code_simp+

lemma icmp_fields [simp]:
  "field struct_icmp [''icmp_type''] = 0" "field struct_icmp [''icmp_code''] = 1"
  "field struct_icmp [''icmp_cksum''] = 2"
  "field struct_icmp [''icmp_hun'', ''ih_gwaddr''] = 4"
  "field struct_icmp [''icmp_hun'', ''ih_idseq'', ''icd_id''] = 4"
  "field struct_icmp [''icmp_hun'', ''ih_idseq'', ''icd_seq''] = 6"
  "field struct_icmp [''icmp_hun'', ''ih_pmtu'', ''ipm_nextmtu''] = 6"
  "field struct_icmp [''icmp_dun'', ''id_ts'', ''its_otime''] = 8"
  "field struct_icmp [''icmp_dun'', ''id_ts'', ''its_rtime''] = 12"
  "field struct_icmp [''icmp_dun'', ''id_ts'', ''its_ttime''] = 16"
  "field struct_icmp [''icmp_dun'', ''id_ip'', ''idi_ip''] = 8"
  "field struct_icmp [''icmp_dun'', ''id_mask''] = 8"
  "field struct_icmp [''icmp_dun'', ''id_data''] = 8"
  by code_simp+

lemma arp_fields [simp]:
  "field ether_arp [''ea_hdr'', ''ar_hrd''] = 0" "field ether_arp [''ea_hdr'', ''ar_pro''] = 2"
  "field ether_arp [''ea_hdr'', ''ar_hln''] = 4" "field ether_arp [''ea_hdr'', ''ar_pln''] = 5"
  "field ether_arp [''ea_hdr'', ''ar_op''] = 6" "field ether_arp [''arp_sha''] = 8"
  "field ether_arp [''arp_spa''] = 14" "field ether_arp [''arp_tha''] = 18"
  "field ether_arp [''arp_tpa''] = 24"
  by code_simp+

lemma ip6_fields [simp]:
  "field ip6_hdr [''ip6_ctlun'', ''ip6_un1'', ''ip6_un1_flow''] = 0"
  "field ip6_hdr [''ip6_ctlun'', ''ip6_un2_vfc''] = 0"
  "field ip6_hdr [''ip6_ctlun'', ''ip6_un1'', ''ip6_un1_plen''] = 4"
  "field ip6_hdr [''ip6_ctlun'', ''ip6_un1'', ''ip6_un1_nxt''] = 6"
  "field ip6_hdr [''ip6_ctlun'', ''ip6_un1'', ''ip6_un1_hlim''] = 7"
  "field ip6_hdr [''ip6_src''] = 8" "field ip6_hdr [''ip6_dst''] = 24"
  by code_simp+

lemma ip6_ext_fields [simp]:
  "field ip6_ext [''ip6e_nxt''] = 0" "field ip6_ext [''ip6e_len''] = 1"
  "field ip6_rthdr [''ip6r_len''] = 1" "field ip6_rthdr [''ip6r_type''] = 2"
  "field ip6_rthdr [''ip6r_segleft''] = 3" "field ip6_frag [''ip6f_offlg''] = 2"
  "field ip6_frag [''ip6f_ident''] = 4" "field newah [''ah_len''] = 1"
  "field newah [''ah_spi''] = 4" "field newah [''ah_seq''] = 8"
  by code_simp+

section \<open>Protocol numbers\<close>

text \<open>\<^verbatim>\<open>Jpcap_ether.h\<close>, \<^verbatim>\<open>Jpcap_sub.h\<close> and \<^verbatim>\<open>JpcapCaptor.c\<close>.\<close>

definition ETHERTYPE_IP :: u16 where [simp]: "ETHERTYPE_IP = 0x0800"
definition ETHERTYPE_ARP :: u16 where [simp]: "ETHERTYPE_ARP = 0x0806"
definition ETHERTYPE_REVARP :: u16 where [simp]: "ETHERTYPE_REVARP = 0x8035"
definition ETHERTYPE_IPV6 :: u16 where [simp]: "ETHERTYPE_IPV6 = 0x86dd"
definition UNKNOWN_PROTO :: u16 where [simp]: "UNKNOWN_PROTO = 0xffff"

definition IPv4HDRLEN :: nat where [simp]: "IPv4HDRLEN = 20"
definition TCPHDRLEN :: nat where [simp]: "TCPHDRLEN = 20"
definition UDPHDRLEN :: nat where [simp]: "UDPHDRLEN = 8"
definition ICMPHDRLEN :: nat where [simp]: "ICMPHDRLEN = 8"
definition MAX_PACKET_SIZE :: nat where [simp]: "MAX_PACKET_SIZE = 1600"
definition MAX_NUMBER_OF_INSTANCE :: nat where [simp]: "MAX_NUMBER_OF_INSTANCE = 255"

text \<open>Link types of \<^verbatim>\<open>pcap-bpf.h\<close>.\<close>

definition DLT_EN10MB :: nat where [simp]: "DLT_EN10MB = 1"
definition DLT_IEEE802 :: nat where [simp]: "DLT_IEEE802 = 6"
definition DLT_RAW :: nat where [simp]: "DLT_RAW = 12"

text \<open>Masks of \<^verbatim>\<open>ip.h\<close>, \<^verbatim>\<open>packet_ip.c\<close>, \<^verbatim>\<open>tcp.h\<close> and \<^verbatim>\<open>packet_tcp.c\<close>.\<close>

definition IP_RF :: u16 where [simp]: "IP_RF = 0x8000"
definition IP_DF :: u16 where [simp]: "IP_DF = 0x4000"
definition IP_MF :: u16 where [simp]: "IP_MF = 0x2000"
definition IP_OFFMASK :: u16 where [simp]: "IP_OFFMASK = 0x1fff"
definition IPTOS_LOWDELAY :: u8 where [simp]: "IPTOS_LOWDELAY = 0x10"
definition IPTOS_THROUGHPUT :: u8 where [simp]: "IPTOS_THROUGHPUT = 0x08"
definition IPTOS_RELIABILITY :: u8 where [simp]: "IPTOS_RELIABILITY = 0x04"
definition TH_FIN :: u8 where [simp]: "TH_FIN = 0x01"
definition TH_SYN :: u8 where [simp]: "TH_SYN = 0x02"
definition TH_RST :: u8 where [simp]: "TH_RST = 0x04"
definition TH_PUSH :: u8 where [simp]: "TH_PUSH = 0x08"
definition TH_ACK :: u8 where [simp]: "TH_ACK = 0x10"
definition TH_URG :: u8 where [simp]: "TH_URG = 0x20"
definition TH_RSV2 :: u8 where [simp]: "TH_RSV2 = 0x40"
definition TH_RSV1 :: u8 where [simp]: "TH_RSV1 = 0x80"

text \<open>Protocol numbers of \<^verbatim>\<open>netinet/in.h\<close>.\<close>

definition IPPROTO_HOPOPTS :: u8 where [simp]: "IPPROTO_HOPOPTS = 0"
definition IPPROTO_ICMP :: u8 where [simp]: "IPPROTO_ICMP = 1"
definition IPPROTO_TCP :: u8 where [simp]: "IPPROTO_TCP = 6"
definition IPPROTO_UDP :: u8 where [simp]: "IPPROTO_UDP = 17"
definition IPPROTO_ROUTING :: u8 where [simp]: "IPPROTO_ROUTING = 43"
definition IPPROTO_FRAGMENT :: u8 where [simp]: "IPPROTO_FRAGMENT = 44"
definition IPPROTO_ESP :: u8 where [simp]: "IPPROTO_ESP = 50"
definition IPPROTO_AH :: u8 where [simp]: "IPPROTO_AH = 51"
definition IPPROTO_NONE :: u8 where [simp]: "IPPROTO_NONE = 59"
definition IPPROTO_DSTOPTS :: u8 where [simp]: "IPPROTO_DSTOPTS = 60"

text \<open>ICMP types of \<^verbatim>\<open>ip_icmp.h\<close>.\<close>

definition ICMP_ECHOREPLY :: u8 where [simp]: "ICMP_ECHOREPLY = 0"
definition ICMP_UNREACH :: u8 where [simp]: "ICMP_UNREACH = 3"
definition ICMP_SOURCEQUENCH :: u8 where [simp]: "ICMP_SOURCEQUENCH = 4"
definition ICMP_REDIRECT :: u8 where [simp]: "ICMP_REDIRECT = 5"
definition ICMP_ECHO :: u8 where [simp]: "ICMP_ECHO = 8"
definition ICMP_ROUTERADVERT :: u8 where [simp]: "ICMP_ROUTERADVERT = 9"
definition ICMP_TIMXCEED :: u8 where [simp]: "ICMP_TIMXCEED = 11"
definition ICMP_PARAMPROB :: u8 where [simp]: "ICMP_PARAMPROB = 12"
definition ICMP_TSTAMP :: u8 where [simp]: "ICMP_TSTAMP = 13"
definition ICMP_TSTAMPREPLY :: u8 where [simp]: "ICMP_TSTAMPREPLY = 14"
definition ICMP_MASKREQ :: u8 where [simp]: "ICMP_MASKREQ = 17"
definition ICMP_MASKREPLY :: u8 where [simp]: "ICMP_MASKREPLY = 18"

end
