(* ===== verification/Java_Packets.thy ===== *)
theory Java_Packets
  imports Prelude
begin

text \<open>
  The Java packet objects of \<^verbatim>\<open>src/java/jpcap/packet/\<close> as the native code sees them:
  one record per class with the class's fields, the setters that the native code calls through JNI,
  and the JNI array accesses. A Java \<^verbatim>\<open>int\<close>, \<^verbatim>\<open>short\<close>, \<^verbatim>\<open>byte\<close>
  or \<^verbatim>\<open>long\<close> is the word of its width, read as two's complement where it is widened; a
  reference is an \<open>option\<close>, \<open>None\<close> being \<^verbatim>\<open>null\<close>; an \<^verbatim>\<open>InetAddress\<close>
  is the byte string it holds.
\<close>

section \<open>Classes\<close>

record eth_obj =                       \<comment> \<open>\<^verbatim>\<open>EthernetPacket\<close>\<close>
  eth_dst_mac :: "bytes option"
  eth_src_mac :: "bytes option"
  eth_frametype :: u16

record v6opt_obj =                     \<comment> \<open>\<^verbatim>\<open>IPv6Option\<close>\<close>
  v6_type :: u8
  v6_next_header :: u8
  v6_hlen :: u8
  v6_option :: "bytes option"
  v6_routing_type :: u8
  v6_hop_left :: u8
  v6_addrs :: "bytes option list option"
  v6_offset :: u16
  v6_m_flag :: bool
  v6_identification :: u32
  v6_spi :: u32
  v6_sequence :: u32

record ip_obj =                        \<comment> \<open>the fields \<^verbatim>\<open>IPPacket\<close> adds to \<^verbatim>\<open>Packet\<close>\<close>
  ip_version :: u8
  ip_priority :: u8
  ip_d_flag :: bool
  ip_t_flag :: bool
  ip_r_flag :: bool
  ip_rsv_tos :: u8
  ip_length :: u16
  ip_rsv_frag :: bool
  ip_dont_frag :: bool
  ip_more_frag :: bool
  ip_offset :: u16
  ip_hop_limit :: u16
  ip_protocol :: u16
  ip_ident :: u32
  ip_flow_label :: u32
  ip_src_ip :: "bytes option"
  ip_dst_ip :: "bytes option"
  ip_option :: "bytes option"
  ip_options :: "v6opt_obj list option"

record tcp_obj =                       \<comment> \<open>\<^verbatim>\<open>TCPPacket\<close>\<close>
  tcp_src_port :: u32
  tcp_dst_port :: u32
  tcp_sequence :: u64
  tcp_ack_num :: u64
  tcp_urg :: bool
  tcp_ack :: bool
  tcp_psh :: bool
  tcp_rst :: bool
  tcp_syn :: bool
  tcp_fin :: bool
  tcp_rsv1 :: bool
  tcp_rsv2 :: bool
  tcp_window :: u32
  tcp_urgent_pointer :: u16
  tcp_option :: "bytes option"

record udp_obj =                       \<comment> \<open>\<^verbatim>\<open>UDPPacket\<close>\<close>
  udp_src_port :: u32
  udp_dst_port :: u32
  udp_length :: u32

record icmp_obj =                      \<comment> \<open>\<^verbatim>\<open>ICMPPacket\<close>\<close>
  ic_type :: u8
  ic_code :: u8
  ic_checksum :: u16
  ic_id :: u16
  ic_seq :: u16
  ic_subnetmask :: u32
  ic_orig_timestamp :: u32
  ic_recv_timestamp :: u32
  ic_trans_timestamp :: u32
  ic_mtu :: u16
  ic_ippacket :: "ip_obj option"
  ic_redir_ip :: "bytes option"
  ic_addr_num :: u8
  ic_addr_entry_size :: u8
  ic_alive_time :: u16
  ic_router_ip :: "bytes option list option"
  ic_preference :: "u32 list option"

record arp_obj =                       \<comment> \<open>\<^verbatim>\<open>ARPPacket\<close>\<close>
  arp_hardtype :: u16
  arp_prototype :: u16
  arp_hlen :: u16
  arp_plen :: u16
  arp_operation :: u16
  arp_sender_hardaddr :: "bytes option"
  arp_sender_protoaddr :: "bytes option"
  arp_target_hardaddr :: "bytes option"
  arp_target_protoaddr :: "bytes option"

text \<open>The class of a packet object is the constructor of its \<open>pk_body\<close>.\<close>

datatype body =
    PlainBody
  | IPBody ip_obj
  | TCPBody ip_obj tcp_obj
  | UDPBody ip_obj udp_obj
  | ICMPBody ip_obj icmp_obj
  | ARPBody arp_obj

record packet =                        \<comment> \<open>\<^verbatim>\<open>Packet\<close> and its subclasses\<close>
  pk_sec :: u64
  pk_usec :: u64
  pk_caplen :: u32
  pk_len :: u32
  pk_datalink :: "eth_obj option"
  pk_header :: "bytes option"
  pk_data :: "bytes option"
  pk_body :: body

section \<open>\<^verbatim>\<open>AllocObject\<close>: every field zero or null, no constructor run\<close>

definition alloc_eth :: eth_obj where
  "alloc_eth = \<lparr>eth_dst_mac = None, eth_src_mac = None, eth_frametype = 0\<rparr>"

definition alloc_v6opt :: v6opt_obj where
  "alloc_v6opt = \<lparr>v6_type = 0, v6_next_header = 0, v6_hlen = 0, v6_option = None,
     v6_routing_type = 0, v6_hop_left = 0, v6_addrs = None, v6_offset = 0, v6_m_flag = False,
     v6_identification = 0, v6_spi = 0, v6_sequence = 0\<rparr>"

definition alloc_ip :: ip_obj where
  "alloc_ip = \<lparr>ip_version = 0, ip_priority = 0, ip_d_flag = False, ip_t_flag = False,
     ip_r_flag = False, ip_rsv_tos = 0, ip_length = 0, ip_rsv_frag = False,
     ip_dont_frag = False, ip_more_frag = False, ip_offset = 0, ip_hop_limit = 0,
     ip_protocol = 0, ip_ident = 0, ip_flow_label = 0, ip_src_ip = None, ip_dst_ip = None,
     ip_option = None, ip_options = None\<rparr>"

definition alloc_tcp :: tcp_obj where
  "alloc_tcp = \<lparr>tcp_src_port = 0, tcp_dst_port = 0, tcp_sequence = 0, tcp_ack_num = 0,
     tcp_urg = False, tcp_ack = False, tcp_psh = False, tcp_rst = False, tcp_syn = False,
     tcp_fin = False, tcp_rsv1 = False, tcp_rsv2 = False, tcp_window = 0,
     tcp_urgent_pointer = 0, tcp_option = None\<rparr>"

definition alloc_udp :: udp_obj where
  "alloc_udp = \<lparr>udp_src_port = 0, udp_dst_port = 0, udp_length = 0\<rparr>"

definition alloc_icmp :: icmp_obj where
  "alloc_icmp = \<lparr>ic_type = 0, ic_code = 0, ic_checksum = 0, ic_id = 0, ic_seq = 0,
     ic_subnetmask = 0, ic_orig_timestamp = 0, ic_recv_timestamp = 0, ic_trans_timestamp = 0,
     ic_mtu = 0, ic_ippacket = None, ic_redir_ip = None, ic_addr_num = 0, ic_addr_entry_size = 0,
     ic_alive_time = 0, ic_router_ip = None, ic_preference = None\<rparr>"

definition alloc_arp :: arp_obj where
  "alloc_arp = \<lparr>arp_hardtype = 0, arp_prototype = 0, arp_hlen = 0, arp_plen = 0,
     arp_operation = 0, arp_sender_hardaddr = None, arp_sender_protoaddr = None,
     arp_target_hardaddr = None, arp_target_protoaddr = None\<rparr>"

definition alloc_packet :: "body \<Rightarrow> packet" where
  "alloc_packet b = \<lparr>pk_sec = 0, pk_usec = 0, pk_caplen = 0, pk_len = 0, pk_datalink = None,
     pk_header = None, pk_data = None, pk_body = b\<rparr>"

section \<open>\<^verbatim>\<open>InetAddress\<close>\<close>

text \<open>
  \<^verbatim>\<open>InetAddress.getByAddress\<close> of the class library: four bytes give an IPv4 address,
  sixteen an IPv6 address unless they are an IPv4-mapped address, which gives the IPv4 address; any
  other length throws \<^verbatim>\<open>UnknownHostException\<close>, which the setters swallow.
\<close>

definition v4_mapped :: "bytes \<Rightarrow> bool" where
  "v4_mapped bs \<longleftrightarrow> length bs = 16 \<and> take 12 bs = replicate 10 0 @ [0xff, 0xff]"

definition getByAddress :: "bytes \<Rightarrow> bytes option" where
  "getByAddress bs =
     (if length bs = 4 then Some bs
      else if length bs = 16 then Some (if v4_mapped bs then drop 12 bs else bs)
      else None)"

text \<open>\<^verbatim>\<open>src_ip.getAddress()\<close> through \<^verbatim>\<open>CallObjectMethod\<close>.\<close>

definition getAddress :: "bytes option \<Rightarrow> bytes res" where
  "getAddress a = (case a of None \<Rightarrow> Inl (Exn NullPointerException) | Some bs \<Rightarrow> Inr bs)"

section \<open>Setters called by the native code\<close>

definition setEthernetValue :: "eth_obj \<Rightarrow> bytes \<Rightarrow> bytes \<Rightarrow> u16 \<Rightarrow> eth_obj" where
  "setEthernetValue p dst src frame =
     p\<lparr>eth_dst_mac := Some dst, eth_src_mac := Some src, eth_frametype := frame\<rparr>"

definition setIPv4Value ::
  "ip_obj \<Rightarrow> u8 \<Rightarrow> u8 \<Rightarrow> bool \<Rightarrow> bool \<Rightarrow> bool \<Rightarrow> u8 \<Rightarrow> bool \<Rightarrow> bool \<Rightarrow> bool \<Rightarrow> u16 \<Rightarrow> u16 \<Rightarrow> u16 \<Rightarrow>
   u16 \<Rightarrow> u16 \<Rightarrow> bytes \<Rightarrow> bytes \<Rightarrow> ip_obj" where
  "setIPv4Value p ver pri d t r rsv_tos rf df mf off len ident ttl proto src dst =
     (let q = p\<lparr>ip_version := ver, ip_priority := pri, ip_d_flag := d, ip_t_flag := t,
        ip_r_flag := r, ip_rsv_tos := rsv_tos, ip_rsv_frag := rf, ip_dont_frag := df,
        ip_more_frag := mf, ip_offset := off, ip_length := len, ip_ident := scast ident,
        ip_hop_limit := ttl, ip_protocol := proto\<rparr>
      in case getByAddress src of None \<Rightarrow> q
         | Some s \<Rightarrow> (case getByAddress dst of None \<Rightarrow> q\<lparr>ip_src_ip := Some s\<rparr>
                     | Some d \<Rightarrow> q\<lparr>ip_src_ip := Some s, ip_dst_ip := Some d\<rparr>))"

definition setIPv6Value ::
  "ip_obj \<Rightarrow> u8 \<Rightarrow> u8 \<Rightarrow> u32 \<Rightarrow> u16 \<Rightarrow> u8 \<Rightarrow> u16 \<Rightarrow> bytes \<Rightarrow> bytes \<Rightarrow> ip_obj" where
  "setIPv6Value p ver v6class flow payload nxt hlim src dst =
     (let q = p\<lparr>ip_version := ver, ip_priority := v6class, ip_flow_label := flow,
        ip_length := payload, ip_protocol := scast nxt, ip_hop_limit := hlim\<rparr>
      in case getByAddress src of None \<Rightarrow> q
         | Some s \<Rightarrow> (case getByAddress dst of None \<Rightarrow> q\<lparr>ip_src_ip := Some s\<rparr>
                     | Some d \<Rightarrow> q\<lparr>ip_src_ip := Some s, ip_dst_ip := Some d\<rparr>))"

definition addOptionHeader :: "ip_obj \<Rightarrow> v6opt_obj \<Rightarrow> ip_obj" where
  "addOptionHeader p h =
     p\<lparr>ip_options := Some (case ip_options p of None \<Rightarrow> [h] | Some hs \<Rightarrow> hs @ [h])\<rparr>"

definition setTCPValue ::
  "tcp_obj \<Rightarrow> u32 \<Rightarrow> u32 \<Rightarrow> u64 \<Rightarrow> u64 \<Rightarrow> bool \<Rightarrow> bool \<Rightarrow> bool \<Rightarrow> bool \<Rightarrow> bool \<Rightarrow> bool \<Rightarrow> bool \<Rightarrow>
   bool \<Rightarrow> u32 \<Rightarrow> u16 \<Rightarrow> tcp_obj" where
  "setTCPValue t src dst seq_n ack_n urg ack psh rst syn fin rsv1 rsv2 win urp =
     t\<lparr>tcp_src_port := src, tcp_dst_port := dst, tcp_sequence := seq_n, tcp_ack_num := ack_n,
       tcp_urg := urg, tcp_ack := ack, tcp_psh := psh, tcp_rst := rst, tcp_syn := syn,
       tcp_fin := fin, tcp_rsv1 := rsv1, tcp_rsv2 := rsv2, tcp_window := win,
       tcp_urgent_pointer := urp\<rparr>"

definition setUDPValue :: "udp_obj \<Rightarrow> u32 \<Rightarrow> u32 \<Rightarrow> u32 \<Rightarrow> udp_obj" where
  "setUDPValue u src dst len = u\<lparr>udp_src_port := src, udp_dst_port := dst, udp_length := len\<rparr>"

definition setICMPValue :: "icmp_obj \<Rightarrow> u8 \<Rightarrow> u8 \<Rightarrow> u16 \<Rightarrow> u16 \<Rightarrow> u16 \<Rightarrow> icmp_obj" where
  "setICMPValue c ty code cksum ident seq_n =
     c\<lparr>ic_type := ty, ic_code := code, ic_checksum := cksum, ic_id := ident, ic_seq := seq_n\<rparr>"

definition setICMPID :: "icmp_obj \<Rightarrow> u16 \<Rightarrow> u16 \<Rightarrow> icmp_obj" where
  "setICMPID c ident seq_n = c\<lparr>ic_id := ident, ic_seq := seq_n\<rparr>"

definition setTimestampValue :: "icmp_obj \<Rightarrow> u32 \<Rightarrow> u32 \<Rightarrow> u32 \<Rightarrow> icmp_obj" where
  "setTimestampValue c orig_t recv_t trans_t =
     c\<lparr>ic_orig_timestamp := orig_t, ic_recv_timestamp := recv_t, ic_trans_timestamp := trans_t\<rparr>"

definition setRedirectIP :: "icmp_obj \<Rightarrow> bytes \<Rightarrow> icmp_obj" where
  "setRedirectIP c bs =
     (case getByAddress bs of None \<Rightarrow> c | Some a \<Rightarrow> c\<lparr>ic_redir_ip := Some a\<rparr>)"

text \<open>
  \<^verbatim>\<open>setRouterAdValue\<close> stores into the arrays \<^verbatim>\<open>router_ip\<close> and
  \<^verbatim>\<open>preference\<close>, which nothing creates; its loop compares with a signed \<^verbatim>\<open>byte\<close>.
  With no address the two array arguments are not looked at.
\<close>

definition setRouterAdValue :: "icmp_obj \<Rightarrow> u8 \<Rightarrow> u8 \<Rightarrow> u16 \<Rightarrow> icmp_obj res" where
  "setRouterAdValue c addr_num entry_size alive_time =
     (if sint addr_num > 0 then Inl (Exn NullPointerException)
      else Inr (c\<lparr>ic_addr_num := addr_num, ic_addr_entry_size := entry_size,
                   ic_alive_time := alive_time\<rparr>))"

definition setRoutingOption :: "v6opt_obj \<Rightarrow> u8 \<Rightarrow> u8 \<Rightarrow> bytes list \<Rightarrow> v6opt_obj" where
  "setRoutingOption h ty left as =
     h\<lparr>v6_routing_type := ty, v6_hop_left := left, v6_addrs := Some (map getByAddress as)\<rparr>"

definition setFragmentOption :: "v6opt_obj \<Rightarrow> u16 \<Rightarrow> bool \<Rightarrow> u32 \<Rightarrow> v6opt_obj" where
  "setFragmentOption h off m ident =
     h\<lparr>v6_offset := off, v6_m_flag := m, v6_identification := ident\<rparr>"

definition setAHOption :: "v6opt_obj \<Rightarrow> u32 \<Rightarrow> u32 \<Rightarrow> v6opt_obj" where
  "setAHOption h spi seq_n = h\<lparr>v6_spi := spi, v6_sequence := seq_n\<rparr>"

definition setARPValue ::
  "arp_obj \<Rightarrow> u16 \<Rightarrow> u16 \<Rightarrow> u16 \<Rightarrow> u16 \<Rightarrow> u16 \<Rightarrow> bytes \<Rightarrow> bytes \<Rightarrow> bytes \<Rightarrow> bytes \<Rightarrow> arp_obj" where
  "setARPValue a hrd pro hl pl oper sha spa tha tpa =
     a\<lparr>arp_hardtype := hrd, arp_prototype := pro, arp_hlen := hl, arp_plen := pl,
       arp_operation := oper, arp_sender_hardaddr := Some sha, arp_sender_protoaddr := Some spa,
       arp_target_hardaddr := Some tha, arp_target_protoaddr := Some tpa\<rparr>"

section \<open>Receivers\<close>

text \<open>
  A method is called on a packet object, which must be of the method's class. The setters of
  \<^verbatim>\<open>IPPacket\<close> change its part of the object, whatever the subclass.
\<close>

fun ip_part :: "body \<Rightarrow> ip_obj res" where
  "ip_part (IPBody i) = Inr i"
| "ip_part (TCPBody i _) = Inr i"
| "ip_part (UDPBody i _) = Inr i"
| "ip_part (ICMPBody i _) = Inr i"
| "ip_part _ = Inl (UB WrongClass)"

fun with_ip :: "ip_obj \<Rightarrow> body \<Rightarrow> body res" where
  "with_ip i (IPBody _) = Inr (IPBody i)"
| "with_ip i (TCPBody _ t) = Inr (TCPBody i t)"
| "with_ip i (UDPBody _ u) = Inr (UDPBody i u)"
| "with_ip i (ICMPBody _ c) = Inr (ICMPBody i c)"
| "with_ip i _ = Inl (UB WrongClass)"

text \<open>
  \<^verbatim>\<open>setOption\<close> is declared by \<^verbatim>\<open>IPPacket\<close> and overridden by
  \<^verbatim>\<open>TCPPacket\<close>, which has a field \<^verbatim>\<open>option\<close> of its own. \<^verbatim>\<open>CallVoidMethod\<close>
  calls the method of the receiver's class, also with the method ID of \<^verbatim>\<open>IPPacket\<close>.
\<close>

fun setOption :: "bytes \<Rightarrow> body \<Rightarrow> body res" where
  "setOption opt (TCPBody i t) = Inr (TCPBody i (t\<lparr>tcp_option := Some opt\<rparr>))"
| "setOption opt (IPBody i) = Inr (IPBody (i\<lparr>ip_option := Some opt\<rparr>))"
| "setOption opt (UDPBody i u) = Inr (UDPBody (i\<lparr>ip_option := Some opt\<rparr>) u)"
| "setOption opt (ICMPBody i c) = Inr (ICMPBody (i\<lparr>ip_option := Some opt\<rparr>) c)"
| "setOption opt _ = Inl (UB WrongClass)"

section \<open>JNI array access\<close>

text \<open>
  \<^verbatim>\<open>GetByteArrayRegion(array, 0, n, dst)\<close> and \<^verbatim>\<open>GetArrayLength\<close>: both
  dereference the array handle; the former throws if the array is shorter than \<open>n\<close>.
  \<^verbatim>\<open>NewByteArray\<close> throws for a negative size.
\<close>

definition GetByteArrayRegion :: "bytes option \<Rightarrow> nat \<Rightarrow> bytes res" where
  "GetByteArrayRegion a n =
     (case a of None \<Rightarrow> Inl (UB NullPtr)
      | Some bs \<Rightarrow> if n \<le> length bs then Inr (take n bs) else Inl (Exn ArrayIndexOutOfBounds))"

definition GetArrayLength :: "bytes option \<Rightarrow> nat res" where
  "GetArrayLength a = (case a of None \<Rightarrow> Inl (UB NullPtr) | Some bs \<Rightarrow> Inr (length bs))"

definition NewByteArray :: "int \<Rightarrow> nat res" where
  "NewByteArray n = (if n < 0 then Inl (Exn NegativeArraySize) else Inr (nat n))"

lemma GetByteArrayRegion_Some [simp]:
  "n \<le> length bs \<Longrightarrow> GetByteArrayRegion (Some bs) n = Inr (take n bs)"
  by (simp add: GetByteArrayRegion_def)

lemma GetArrayLength_Some [simp]: "GetArrayLength (Some bs) = Inr (length bs)"
  by (simp add: GetArrayLength_def)

lemma NewByteArray_nat [simp]: "NewByteArray (int n) = Inr n"
  by (simp add: NewByteArray_def)

lemma getAddress_simps [simp]:
  "getAddress None = Inl (Exn NullPointerException)" "getAddress (Some bs) = Inr bs"
  by (simp_all add: getAddress_def)

lemma getByAddress_4 [simp]: "length bs = 4 \<Longrightarrow> getByAddress bs = Some bs"
  by (simp add: getByAddress_def)

lemma getByAddress_16 [simp]:
  "length bs = 16 \<Longrightarrow> \<not> v4_mapped bs \<Longrightarrow> getByAddress bs = Some bs"
  by (simp add: getByAddress_def)

end
