(* ===== verification/Codec.thy ===== *)
theory Codec
  imports Net_Headers Java_Packets
begin

text \<open>
  The contract between the writer and the reader of a fixed-size header. The sender's
  \<^verbatim>\<open>set_*\<close> functions put a header into the packet buffer, the captor's
  \<^verbatim>\<open>analyze_*\<close> functions read it back; both work through pointers into one buffer. A
  provider names the wire image of a header object, and promises that writing stores exactly that
  image and that reading a place that holds the image gives the object back.
\<close>

lemma splice_self:
  assumes "a + n \<le> length m" "take n (drop a m) = bs"
  shows "splice m a bs = m"
proof -
  have "bs @ drop (a + n) m = drop a m"
    using append_take_drop_id [of n "drop a m"] assms(2) by (simp add: add.commute)
  moreover have "length bs = n"
    using assms by auto
  ultimately show ?thesis
    by (simp add: splice_def)
qed

locale header_codec =
  fixes enc :: "'h \<Rightarrow> bytes \<Rightarrow> nat \<Rightarrow> bytes res"
    and dec :: "bytes \<Rightarrow> nat \<Rightarrow> 'h res"
    and img :: "'h \<Rightarrow> bytes"
    and len :: nat
    and wf :: "'h \<Rightarrow> bool"
  assumes img_length: "wf h \<Longrightarrow> length (img h) = len"
    and enc_img: "wf h \<Longrightarrow> a + len \<le> length m \<Longrightarrow> enc h m a = Inr (splice m a (img h))"
    and dec_img: "wf h \<Longrightarrow> a + len \<le> length m \<Longrightarrow> dec (splice m a (img h)) a = Inr h"
begin

lemma dec_at:
  assumes "wf h" "a + len \<le> length m" "take len (drop a m) = img h"
  shows "dec m a = Inr h"
proof -
  have "splice m a (img h) = m"
    using assms by (intro splice_self [of a len]) simp_all
  then show ?thesis using dec_img [OF assms(1,2)] by simp
qed

lemma enc_returns:
  assumes "wf h" "a + len \<le> length m"
  shows "\<exists>m'. enc h m a = Inr m' \<and> length m' = length m \<and> dec m' a = Inr h
              \<and> take a m' = take a m \<and> drop (a + len) m' = drop (a + len) m"
  using assms by (simp add: enc_img dec_img img_length) (simp add: splice_def img_length)

text \<open>A header survives every later write outside its bytes.\<close>

lemma dec_after_write:
  assumes "wf h" "a + len \<le> length m" "enc h m a = Inr m'"
    and "st_bytes m' b bs = Inr m''" "b + length bs \<le> a \<or> a + len \<le> b"
  shows "dec m'' a = Inr h"
proof -
  have l: "length (img h) = len" "m' = splice m a (img h)" "length m' = length m"
    using enc_img [OF assms(1,2)] assms(2,3) img_length [OF assms(1)] by simp_all
  have m'': "m'' = splice m' b bs" "b + length bs \<le> length m'"
    using assms(4) by (auto simp: st_bytes_Inr)
  have "take len (drop a m'') = img h"
    using assms(2,5) m''(2) l unfolding m''(1)
    by (intro nth_equalityI) (auto simp: nth_splice)
  then show ?thesis using dec_at [OF assms(1)] assms(2) l m'' by simp
qed

text \<open>Different headers have different images.\<close>

lemma img_inject:
  assumes "wf h" "wf h'" "img h = img h'"
  shows "h = h'"
proof -
  have "dec (splice (replicate len 0) 0 (img h)) 0 = Inr h"
    "dec (splice (replicate len 0) 0 (img h')) 0 = Inr h'"
    using assms(1,2) by (simp_all add: dec_img)
  then have "Inr h = (Inr h' :: 'h res)"
    unfolding assms(3) by (rule trans [OF sym])
  then show ?thesis by (rule sum.inject(2) [THEN iffD1])
qed

end

end
