(* ===== verification/Checksum.thy ===== *)
theory Checksum
  imports Prelude
begin

text \<open>
  The Internet checksum routines of \<^verbatim>\<open>src/c/JpcapSender.c\<close>: \<open>in_cksum\<close> (IPv4
  header, ICMP) and \<open>in_cksum2\<close> (TCP and UDP with the pseudo header). Both add 16-bit words in
  host order into an \<^verbatim>\<open>unsigned long\<close> and fold the carries twice; the reference is the
  one's complement sum of RFC 1071 over the bytes in network order. The locale \<open>ones_sum\<close> states
  what the users of the two routines rely on, and is interpreted on the code's own folding.
\<close>

section \<open>The code\<close>

fun cksum_loop :: "bytes \<Rightarrow> nat \<Rightarrow> nat \<Rightarrow> u64 \<Rightarrow> (u64 \<times> nat \<times> nat) res" where
  "cksum_loop m data n acc =
     (if n > 1
      then bindR (ld16 m data) (\<lambda>w. cksum_loop m (data + 2) (n - 2) (acc + ucast w))
      else Inr (acc, data, n))"

declare cksum_loop.simps [simp del]

definition cksum_finish :: "u64 \<Rightarrow> u16" where
  "cksum_finish acc =
     (let acc = (acc AND 0xffff) + drop_bit 16 acc
      in NOT (ucast (drop_bit 16 acc + (acc AND 0xffff))))"

definition in_cksum :: "bytes \<Rightarrow> nat \<Rightarrow> nat \<Rightarrow> u16 res" where
  "in_cksum m data n =
     bindR (cksum_loop m data n 0) (\<lambda>(acc, data, n).
     bindR (if n > 0
            then bindR (ld16 m data) (\<lambda>w. Inr (acc + ucast (w AND 0xff00)))
            else Inr acc) (\<lambda>acc.
     Inr (cksum_finish acc)))"

definition in_cksum2 :: "bytes \<Rightarrow> nat \<Rightarrow> u16 \<Rightarrow> nat \<Rightarrow> nat \<Rightarrow> u16 res" where
  "in_cksum2 m ip len data n =
     bindR (ld16 m (ip + 12)) (\<lambda>p0.
     bindR (ld16 m (ip + 14)) (\<lambda>p1.
     bindR (ld16 m (ip + 16)) (\<lambda>p2.
     bindR (ld16 m (ip + 18)) (\<lambda>p3.
     bindR (ld8 m (ip + 9)) (\<lambda>ip_p.
     bindR (cksum_loop m data n
              (ucast p0 + ucast p1 + ucast p2 + ucast p3
               + ucast (htons (ucast (ip_p AND 0x00ff))) + ucast len)) (\<lambda>(acc, data, n).
     bindR (if n > 0 then bindR (ld8 m data) (\<lambda>b. Inr (acc + ucast b)) else Inr acc) (\<lambda>acc.
     Inr (cksum_finish acc))))))))"

section \<open>Reference: the one's complement sum\<close>

fun le_words :: "bytes \<Rightarrow> u16 list" where
  "le_words (a # b # bs) = le16 a b # le_words bs"
| "le_words [a] = [le16 a 0]"
| "le_words [] = []"

fun be_words :: "bytes \<Rightarrow> u16 list" where
  "be_words (a # b # bs) = be16 a b # be_words bs"
| "be_words [a] = [be16 a 0]"
| "be_words [] = []"

definition le_sum :: "bytes \<Rightarrow> nat" where "le_sum bs = sum_list (map unat (le_words bs))"
definition be_sum :: "bytes \<Rightarrow> nat" where "be_sum bs = sum_list (map unat (be_words bs))"

definition oc_fold :: "nat \<Rightarrow> nat" where
  "oc_fold n = (if n = 0 then 0 else Suc ((n - 1) mod 65535))"

definition rfc1071 :: "bytes \<Rightarrow> u16" where
  "rfc1071 bs = word_of_nat (65535 - oc_fold (be_sum bs))"

lemma oc_fold_le: "oc_fold n \<le> 65535"
proof -
  have "(n - 1) mod 65535 < 65535" by simp
  then show ?thesis unfolding oc_fold_def by (simp add: Suc_le_eq)
qed

lemma oc_fold_cong: "oc_fold n mod 65535 = n mod 65535"
  by (cases n) (simp_all add: oc_fold_def mod_Suc_eq)

lemma oc_fold_0 [simp]: "oc_fold n = 0 \<longleftrightarrow> n = 0"
  by (simp add: oc_fold_def)

lemma oc_fold_unique:
  assumes "x \<le> 65535" "x mod 65535 = n mod 65535" "x = 0 \<longleftrightarrow> n = 0"
  shows "x = oc_fold n"
proof (cases "n = 0")
  case True
  with assms(3) show ?thesis by (simp add: oc_fold_def)
next
  case False
  have "x mod 65535 = oc_fold n mod 65535"
    using assms(2) by (simp add: oc_fold_cong)
  moreover have "0 < x" "0 < oc_fold n"
    using False assms(3) by (auto simp: oc_fold_def)
  ultimately show ?thesis
    using False assms(1) oc_fold_le [of n] by (cases "x = 65535"; cases "oc_fold n = 65535") auto
qed

lemma oc_fold_idem [simp]: "n \<le> 65535 \<Longrightarrow> oc_fold n = n"
  by (rule oc_fold_unique [symmetric]) auto

section \<open>The code's folding\<close>

lemma and_ffff: "(w :: u64) AND 0xffff = take_bit 16 w"
  by (simp add: take_bit_eq_mask mask_eq_exp_minus_1)

lemma unat_fold_step:
  assumes "unat (w :: u64) < 2 ^ 32"
  shows "unat ((w AND 0xffff) + drop_bit 16 w) = unat w mod 65536 + unat w div 65536"
proof -
  have 1: "unat (w AND 0xffff) = unat w mod 65536"
    unfolding and_ffff unsigned_take_bit_eq by (simp add: take_bit_eq_mod)
  have 2: "unat (drop_bit 16 w) = unat w div 65536"
    unfolding unat_drop_bit_eq by (simp add: drop_bit_eq_div)
  have "unat w mod 65536 < 65536" "unat w div 65536 < 65536"
    using assms by simp_all
  then have "unat w mod 65536 + unat w div 65536 < 2 ^ LENGTH(64)"
    by simp
  then show ?thesis
    by (simp add: unat_word_ariths 1 2)
qed

lemma fold_step_cong: "(n mod 65536 + n div 65536) mod 65535 = n mod (65535 :: nat)"
proof -
  have "n = (n mod 65536 + n div 65536) + 65535 * (n div 65536)"
    using mult_div_mod_eq [of 65536 n] by linarith
  then show ?thesis
    by (metis mod_mult_self2)
qed

lemma fold_step_0: "n mod 65536 + n div 65536 = 0 \<longleftrightarrow> n = (0 :: nat)"
  using mult_div_mod_eq [of 65536 n] by auto

lemma fold_step_small:
  assumes "n \<le> (131070 :: nat)"
  shows "n mod 65536 + n div 65536 \<le> 65535"
proof (cases "n < 65536")
  case True
  then show ?thesis by simp
next
  case False
  with assms have "n div 65536 = 1" "n mod 65536 = n - 65536"
    by (simp_all add: le_mod_geq div_nat_eqI)
  with assms show ?thesis by simp
qed

lemma unat_not_u16: "unat (NOT w :: u16) = 65535 - unat w"
proof -
  have "NOT w = - 1 - w" by (simp add: not_eq_complement)
  moreover have "unat (- 1 :: u16) = 65535"
    by (simp add: unsigned_minus_1_eq_mask mask_eq_exp_minus_1)
  ultimately show ?thesis by (simp only: unat_sub [OF word_n1_ge])
qed

lemma unat_cksum_finish:
  assumes "unat acc < 2 ^ 32"
  shows "unat (cksum_finish acc) = 65535 - oc_fold (unat acc)"
proof -
  let ?s1 = "(acc AND 0xffff) + drop_bit 16 acc"
  let ?s2 = "(?s1 AND 0xffff) + drop_bit 16 ?s1"
  have u1: "unat ?s1 = unat acc mod 65536 + unat acc div 65536"
    using assms by (rule unat_fold_step)
  have "unat acc div 65536 < 65536" "unat acc mod 65536 < 65536"
    using assms by (simp_all add: div_less_iff_less_mult)
  then have b1: "unat ?s1 \<le> 131070"
    unfolding u1 by linarith
  then have u2: "unat ?s2 = unat ?s1 mod 65536 + unat ?s1 div 65536"
    by (intro unat_fold_step) simp
  have b2: "unat ?s2 \<le> 65535"
    unfolding u2 using b1 by (rule fold_step_small)
  have "unat ?s2 = oc_fold (unat acc)"
  proof (rule oc_fold_unique [OF b2])
    show "unat ?s2 mod 65535 = unat acc mod 65535"
      unfolding u2 fold_step_cong unfolding u1 fold_step_cong ..
    show "unat ?s2 = 0 \<longleftrightarrow> unat acc = 0"
      unfolding u2 fold_step_0 unfolding u1 fold_step_0 ..
  qed
  moreover have "unat (ucast ?s2 :: u16) = unat ?s2"
    using b2 by (simp add: unsigned_ucast_eq take_bit_nat_eq_self_iff)
  ultimately have "unat (ucast ?s2 :: u16) = oc_fold (unat acc)" by simp
  note c = this
  moreover have "cksum_finish acc = NOT (ucast ?s2)"
    by (simp only: cksum_finish_def Let_def add.commute)
  ultimately show ?thesis by (simp only: c unat_not_u16)
qed

section \<open>The loop\<close>

lemma le_sum_simps [simp]:
  "le_sum [] = 0"
  "le_sum [a] = unat a"
  "le_sum (a # b # bs) = unat a + 256 * unat b + le_sum bs"
  by (simp_all add: le_sum_def unat_le16)

lemma be_sum_simps [simp]:
  "be_sum [] = 0"
  "be_sum [a] = 256 * unat a"
  "be_sum (a # b # bs) = 256 * unat a + unat b + be_sum bs"
  by (simp_all add: be_sum_def unat_be16)

lemma take_drop_two:
  assumes "a + 2 \<le> length m"
  shows "take (Suc (Suc k)) (drop a m) = m ! a # m ! (a + 1) # take k (drop (a + 2) m)"
  using assms by (simp add: take_Suc_conv_app_nth add_2_eq_Suc' flip: Cons_nth_drop_Suc)

lemma cksum_loop_return:
  assumes "data + 2 * (n div 2) \<le> length m"
  shows "cksum_loop m data n acc =
    Inr (acc + word_of_nat (le_sum (take (2 * (n div 2)) (drop data m))),
         data + 2 * (n div 2), n mod 2)"
  using assms
proof (induction m data n acc rule: cksum_loop.induct)
  case (1 m data n acc)
  show ?case
  proof (cases "n > 1")
    case False
    then have "n div 2 = 0" "n mod 2 = n" by auto
    with False show ?thesis by (subst cksum_loop.simps) simp
  next
    case True
    define k where "k = (n - 2) div 2"
    have k: "n div 2 = Suc k" "n mod 2 = (n - 2) mod 2"
      using True by (simp_all add: k_def le_div_geq le_mod_geq)
    with "1.prems" have b: "data + 2 \<le> length m" "data + 2 + 2 * k \<le> length m" by auto
    let ?w = "le16 (m ! data) (m ! (data + 1))"
    have ld: "ld16 m data = Inr ?w" using b by (simp add: ld16_def)
    have tk: "take (2 * (n div 2)) (drop data m)
        = m ! data # m ! (data + 1) # take (2 * k) (drop (data + 2) m)"
      using take_drop_two [OF b(1), of "2 * k"] by (simp add: k add_2_eq_Suc)
    have uc: "ucast ?w = (word_of_nat (unat (m ! data) + 256 * unat (m ! (data + 1))) :: u64)"
      by (simp flip: unat_le16)
    have "cksum_loop m (data + 2) (n - 2) (acc + ucast ?w) =
        Inr (acc + ucast ?w + word_of_nat (le_sum (take (2 * k) (drop (data + 2) m))),
             data + 2 + 2 * k, n mod 2)"
      using "1.IH" [OF True ld] b(2) by (simp add: k_def k(2))
    moreover have "(word_of_nat (le_sum (take (2 * (n div 2)) (drop data m))) :: u64)
        = ucast ?w + word_of_nat (le_sum (take (2 * k) (drop (data + 2) m)))"
      by (simp only: tk le_sum_simps uc of_nat_add)
    moreover have "data + 2 * (n div 2) = data + 2 + 2 * k" by (simp add: k(1))
    ultimately show ?thesis
      by (subst cksum_loop.simps) (simp only: True ld if_True bindR_Inr add.assoc)
  qed
qed

lemma cksum_loop_fault:
  assumes "length m < data + 2 * (n div 2)" "data \<le> length m \<or> n > 1"
  shows "cksum_loop m data n acc = Inl (UB OobRead)"
  using assms
proof (induction m data n acc rule: cksum_loop.induct)
  case (1 m data n acc)
  show ?case
  proof (cases "n > 1")
    case False
    with "1.prems" show ?thesis by simp
  next
    case True
    show ?thesis
    proof (cases "ld16 m data")
      case (Inl e)
      then have "e = UB OobRead" by (simp add: ld_fault)
      with True Inl show ?thesis by (subst cksum_loop.simps) simp
    next
      case (Inr w)
      have "length m < data + 2 + 2 * ((n - 2) div 2)"
        using "1.prems" True by (simp add: le_div_geq)
      moreover have "data + 2 \<le> length m" using Inr by (simp add: ld16_Inr)
      ultimately show ?thesis
        using True Inr "1.IH" [OF True Inr] by (subst cksum_loop.simps) simp
    qed
  qed
qed

section \<open>What the users of a checksum rely on\<close>

text \<open>
  \<open>fin\<close> turns the raw total of the 16-bit words of a block into its checksum. The contract: it is
  the complement of the one's complement sum. A block that carries its own checksum then has
  checksum zero, which is the receiver's test, and the checksum of the byte-swapped words is the
  byte-swapped checksum, which is why host-order arithmetic computes the network-order field.
\<close>

locale ones_sum =
  fixes fin :: "nat \<Rightarrow> u16" and bound :: nat
  assumes fin_value: "t \<le> bound \<Longrightarrow> unat (fin t) = 65535 - oc_fold t"
begin

lemma fin_eq: "t \<le> bound \<Longrightarrow> fin t = word_of_nat (65535 - oc_fold t)"
  by (metis fin_value of_nat_unat ucast_id)

lemma accepts:
  assumes "t + 65535 \<le> bound"
  shows "fin (t + unat (fin t)) = 0"
proof -
  let ?f = "oc_fold t"
  have f: "?f \<le> 65535" by (rule oc_fold_le)
  have u: "unat (fin t) = 65535 - ?f" using assms by (simp add: fin_value)
  have "(t + (65535 - ?f)) mod 65535 = (?f + (65535 - ?f)) mod 65535"
    by (metis mod_add_left_eq oc_fold_cong)
  also have "\<dots> = 0" using f by simp
  finally have "oc_fold (t + (65535 - ?f)) = 65535"
    using f by (intro oc_fold_unique [symmetric]) (auto simp: le_less)
  then have "unat (fin (t + (65535 - ?f))) = 0"
    using assms by (simp add: fin_value)
  then show ?thesis by (simp add: u unsigned_eq_0_iff)
qed

text \<open>The checksum 0 may be sent as \<^verbatim>\<open>0xffff\<close>, as UDP does.\<close>

lemma accepts_ones:
  assumes "t + 65535 \<le> bound" "fin t = 0"
  shows "fin (t + 65535) = 0"
proof -
  have "oc_fold t = 65535"
    using fin_value [of t] assms oc_fold_le [of t] by simp
  then have "t mod 65535 = 0" using oc_fold_cong [of t] by simp
  then have "oc_fold (t + 65535) = 65535"
    by (intro oc_fold_unique [symmetric]) auto
  then have "unat (fin (t + 65535)) = 0" using assms(1) by (simp add: fin_value)
  then show ?thesis by (simp add: unsigned_eq_0_iff)
qed

lemma swaps:
  assumes "s \<le> bound" "t \<le> bound" "t mod 65535 = 256 * s mod 65535" "s = 0 \<longleftrightarrow> t = 0"
  shows "fin t = htons (fin s)"
proof -
  have inv: "fin x = NOT (word_of_nat (oc_fold x))" if "x \<le> bound" for x
    using that oc_fold_le [of x]
    by (intro unat_eqI) (simp add: fin_value unat_not_u16)
  let ?w = "word_of_nat (oc_fold s) :: u16"
  have w: "unat ?w = oc_fold s"
    using oc_fold_le [of s] by simp
  have "unat (htons ?w) = oc_fold t"
  proof (rule oc_fold_unique)
    show "unat (htons ?w) \<le> 65535" using unat_u16_less [of "htons ?w"] by linarith
    have "256 * unat ?w = unat (htons ?w) + 65535 * (unat ?w div 256)"
      unfolding unat_htons using mult_div_mod_eq [of 256 "unat ?w"] by linarith
    then have "unat (htons ?w) mod 65535 = 256 * oc_fold s mod 65535"
      by (metis mod_mult_self2 w)
    then show "unat (htons ?w) mod 65535 = t mod 65535"
      by (metis assms(3) mod_mult_right_eq oc_fold_cong)
    have "unat (htons ?w) = 0 \<longleftrightarrow> unat ?w = 0"
      unfolding unat_htons using mult_div_mod_eq [of 256 "unat ?w"] by auto
    then show "unat (htons ?w) = 0 \<longleftrightarrow> t = 0"
      using assms(4) by (simp add: w)
  qed
  then have "htons ?w = word_of_nat (oc_fold t)"
    by (metis of_nat_unat ucast_id)
  moreover have "htons (NOT v) = NOT (htons v)" for v
    by (rule bit_word_eqI) (auto simp: htons_def le16_def lo8_def hi8_def bit_simps)
  ultimately show ?thesis by (simp add: inv assms(1,2))
qed

end

interpretation fold16: ones_sum "\<lambda>t. cksum_finish (word_of_nat t)" "2 ^ 32 - 1"
proof
  fix t :: nat
  assume t: "t \<le> 2 ^ 32 - 1"
  then have "unat (word_of_nat t :: u64) = t"
    by (intro unat_word_of_nat_small) simp
  with t show "unat (cksum_finish (word_of_nat t)) = 65535 - oc_fold t"
    by (simp add: unat_cksum_finish)
qed

section \<open>Values of the two routines\<close>

lemma le16_and_ff00: "le16 a b AND 0xff00 = le16 0 b"
proof -
  have "le16 a b AND push_bit 8 (mask 8) = le16 0 b"
    by (rule bit_word_eqI) (auto simp: le16_def bit_simps dest: bit_imp_le_length)
  then show ?thesis
    by (simp add: mask_eq_exp_minus_1 push_bit_eq_mult)
qed

text \<open>
  The total that \<open>in_cksum\<close> folds: the pairs of the block and, for an odd size, the byte that
  follows the block (the code masks \<^verbatim>\<open>*data\<close> with \<^verbatim>\<open>0xff00\<close>, the high byte of a
  little-endian load).
\<close>

definition in_cksum_total :: "bytes \<Rightarrow> nat \<Rightarrow> nat \<Rightarrow> nat" where
  "in_cksum_total m p n =
     le_sum (take (2 * (n div 2)) (drop p m)) + (if odd n then 256 * unat (m ! (p + n)) else 0)"

lemma in_cksum_value:
  assumes "p + n + n mod 2 \<le> length m"
  shows "in_cksum m p n = Inr (cksum_finish (word_of_nat (in_cksum_total m p n)))"
proof -
  have n: "n = 2 * (n div 2) + n mod 2" by simp
  then have b: "p + 2 * (n div 2) \<le> length m" using assms by linarith
  show ?thesis
  proof (cases "odd n")
    case False
    then have "n mod 2 = 0" by presburger
    then show ?thesis
      using False by (simp add: in_cksum_def cksum_loop_return [OF b] in_cksum_total_def)
  next
    case True
    then obtain k where k: "n = 2 * k + 1" by (rule oddE)
    let ?q = "p + 2 * k"
    have q: "?q + 2 \<le> length m" "?q + 1 = p + n"
      using assms by (simp_all add: k)
    have ld: "ld16 m ?q = Inr (le16 (m ! ?q) (m ! (p + n)))"
      using q(1) by (simp only: ld16_def if_True flip: q(2))
    have uc: "(ucast (le16 0 b) :: u64) = word_of_nat (256 * unat b)" for b
      using unat_le16 [of 0 b] by (metis add_0 of_nat_unat unsigned_0)
    have "in_cksum_total m p n = le_sum (take (2 * k) (drop p m)) + 256 * unat (m ! (p + n))"
      by (simp add: in_cksum_total_def k)
    moreover have "cksum_loop m p n 0
        = Inr (word_of_nat (le_sum (take (2 * k) (drop p m))), ?q, 1)"
      using cksum_loop_return [OF b, of 0] by (simp add: k)
    ultimately show ?thesis
      by (simp add: in_cksum_def ld le16_and_ff00 uc)
  qed
qed

lemma in_cksum_fault:
  assumes "length m < p + n + n mod 2" "0 < n"
  shows "in_cksum m p n = Inl (UB OobRead)"
proof (cases "length m < p + 2 * (n div 2) \<and> (p \<le> length m \<or> n > 1)")
  case True
  then show ?thesis by (simp add: in_cksum_def cksum_loop_fault)
next
  case False
  have n: "n = 2 * (n div 2) + n mod 2" by simp
  show ?thesis
  proof (cases "p + 2 * (n div 2) \<le> length m")
    case True
    with assms n have "n mod 2 = 1" by linarith
    moreover from this True assms n have "length m < p + 2 * (n div 2) + 2" by linarith
    ultimately show ?thesis
      by (simp add: in_cksum_def cksum_loop_return [OF True] ld16_def)
  next
    case 2: False
    with False assms(2) have "n = 1" "length m < p" by auto
    then show ?thesis
      by (simp add: in_cksum_def cksum_loop.simps [of m p "Suc 0"] ld16_def)
  qed
qed

lemma le_sum_bound: "le_sum bs \<le> 65535 * ((length bs + 1) div 2)"
proof (induction bs rule: le_words.induct)
  case (1 a b bs)
  have "unat a + 256 * unat b \<le> 65535"
    using unat_u8_less [of a] unat_u8_less [of b] by linarith
  with 1 show ?case by simp
next
  case (2 a)
  have "unat a \<le> 65535" using unat_u8_less [of a] by linarith
  then show ?case by simp
qed simp

lemma be_sum_bound: "be_sum bs \<le> 65535 * ((length bs + 1) div 2)"
proof (induction bs rule: be_words.induct)
  case (1 a b bs)
  have "256 * unat a + unat b \<le> 65535"
    using unat_u8_less [of a] unat_u8_less [of b] by linarith
  with 1 show ?case by simp
next
  case (2 a)
  have "256 * unat a \<le> 65535" using unat_u8_less [of a] by linarith
  then show ?case by simp
qed simp

lemma be_sum_eq: "be_sum bs mod 65535 = 256 * le_sum bs mod 65535 \<and> (le_sum bs = 0 \<longleftrightarrow> be_sum bs = 0)"
proof (induction bs rule: le_words.induct)
  case (1 a b bs)
  have "256 * (unat a + 256 * unat b) = (256 * unat a + unat b) + 65535 * unat b" by simp
  then have "256 * (unat a + 256 * unat b) mod 65535 = (256 * unat a + unat b) mod 65535"
    by (metis mod_mult_self2)
  then have "(256 * (unat a + 256 * unat b) + 256 * le_sum bs) mod 65535
      = (256 * unat a + unat b + be_sum bs) mod 65535"
    using 1 [THEN conjunct1, symmetric] by (rule mod_add_cong)
  then have "be_sum (a # b # bs) mod 65535 = 256 * le_sum (a # b # bs) mod 65535"
    by (simp add: algebra_simps)
  moreover have "le_sum (a # b # bs) = 0 \<longleftrightarrow> be_sum (a # b # bs) = 0"
    using 1 by auto
  ultimately show ?case ..
qed simp_all

lemma le_sum_append: "even (length xs) \<Longrightarrow> le_sum (xs @ ys) = le_sum xs + le_sum ys"
  by (induction xs rule: le_words.induct) auto

lemma cksum_finish_rfc1071:
  assumes "length bs \<le> 131072"
  shows "htons (cksum_finish (word_of_nat (le_sum bs))) = rfc1071 bs"
proof -
  have "(length bs + 1) div 2 \<le> 65536" using assms by linarith
  then have b: "65535 * ((length bs + 1) div 2) \<le> 2 ^ 32 - 1" by simp
  have l: "le_sum bs \<le> 2 ^ 32 - 1" using le_sum_bound b by (rule order_trans)
  have "be_sum bs \<le> 2 ^ 32 - 1" using be_sum_bound b by (rule order_trans)
  then have "cksum_finish (word_of_nat (be_sum bs)) = rfc1071 bs"
    unfolding rfc1071_def by (rule fold16.fin_eq)
  moreover have "cksum_finish (word_of_nat (be_sum bs))
      = htons (cksum_finish (word_of_nat (le_sum bs)))"
    using l \<open>be_sum bs \<le> 2 ^ 32 - 1\<close> be_sum_eq [of bs] by (intro fold16.swaps) blast+
  ultimately show ?thesis by simp
qed

text \<open>The total that \<open>in_cksum2\<close> folds is the pseudo header followed by the segment.\<close>

definition pseudo_header :: "bytes \<Rightarrow> nat \<Rightarrow> u16 \<Rightarrow> bytes" where
  "pseudo_header m ip len =
     take 8 (drop (ip + 12) m) @ [0, m ! (ip + 9), hi8 len, lo8 len]"

lemma take_8_drop:
  assumes "a + 8 \<le> length m"
  shows "take 8 (drop a m) = [m ! a, m ! (a + 1), m ! (a + 2), m ! (a + 3),
                              m ! (a + 4), m ! (a + 5), m ! (a + 6), m ! (a + 7)]"
  using assms by (intro nth_equalityI) (auto simp: less_Suc_eq numeral_eq_Suc)

lemma in_cksum2_value:
  assumes "ip + 20 \<le> length m" "data + n \<le> length m"
  shows "in_cksum2 m ip (htons len) data n =
    Inr (cksum_finish (word_of_nat (le_sum (pseudo_header m ip len @ take n (drop data m)))))"
proof -
  have b0: "ip + 12 + 8 \<le> length m" using assms(1) by simp
  define base :: u64 where "base =
     ucast (le16 (m ! (ip + 12)) (m ! (ip + 13))) + ucast (le16 (m ! (ip + 14)) (m ! (ip + 15)))
     + ucast (le16 (m ! (ip + 16)) (m ! (ip + 17))) + ucast (le16 (m ! (ip + 18)) (m ! (ip + 19)))
     + ucast (htons (ucast (m ! (ip + 9) AND 0x00ff))) + ucast (htons len)"
  have "(0x00ff :: u8) = - 1" by simp
  then have ff: "b AND 0x00ff = b" for b :: u8 by (simp only: and.right_neutral)
  have up: "htons (ucast b) = le16 0 b" for b :: u8
    by (rule bit_word_eqI)
      (auto simp: htons_def hi8_def lo8_def le16_def bit_simps dest: bit_imp_le_length)
  have uc: "(ucast (le16 a b) :: u64) = word_of_nat (unat a + 256 * unat b)" for a b
    by (simp flip: unat_le16)
  have base: "base = word_of_nat (le_sum (pseudo_header m ip len))"
    unfolding base_def ff up htons_def [of len] uc pseudo_header_def take_8_drop [of "ip + 12" m, OF b0]
    by (simp add: add.commute add.left_commute)
  have pre: "even (length (pseudo_header m ip len))"
    using b0 by (simp add: pseudo_header_def)
  have k: "data + 2 * (n div 2) \<le> length m"
    using assms(2) mult_div_mod_eq [of 2 n] by linarith
  have "in_cksum2 m ip (htons len) data n =
      bindR (cksum_loop m data n base) (\<lambda>(acc, data, n).
      bindR (if n > 0 then bindR (ld8 m data) (\<lambda>b. Inr (acc + ucast b)) else Inr acc) (\<lambda>acc.
      Inr (cksum_finish acc)))"
    using assms(1) by (simp add: in_cksum2_def ld16_def ld8_def base_def add.commute [of ip])
  also have "\<dots> = Inr (cksum_finish (word_of_nat
      (le_sum (pseudo_header m ip len) + le_sum (take n (drop data m)))))"
  proof (cases "odd n")
    case False
    then show ?thesis by (simp add: cksum_loop_return [OF k] base)
  next
    case True
    then obtain j where j: "n = 2 * j + 1" by (rule oddE)
    then have d: "data + 2 * j < length m" using assms(2) by simp
    then have "take n (drop data m) = take (2 * j) (drop data m) @ [m ! (data + 2 * j)]"
      by (simp add: j take_Suc_conv_app_nth)
    moreover have "even (length (take (2 * j) (drop data m)))" using d by simp
    ultimately have "le_sum (take n (drop data m))
        = le_sum (take (2 * j) (drop data m)) + unat (m ! (data + 2 * j))"
      by (simp add: le_sum_append)
    with cksum_loop_return [OF k, of base] d show ?thesis
      by (simp add: j base ld8_def add.assoc)
  qed
  finally show ?thesis using pre by (simp add: le_sum_append)
qed

section \<open>Properties\<close>

text \<open>
  C10: over an even number of bytes \<open>in_cksum\<close> returns, and its value, once stored by a
  host-order store, is the RFC 1071 checksum of the block in network byte order.
\<close>

theorem in_cksum_rfc1071:
  assumes "even n" "p + n \<le> length m" "n \<le> 131072"
  shows "\<exists>r. in_cksum m p n = Inr r \<and> htons r = rfc1071 (take n (drop p m))"
proof -
  have "in_cksum_total m p n = le_sum (take n (drop p m))"
    using assms(1) by (simp add: in_cksum_total_def)
  moreover have "p + n + n mod 2 \<le> length m" using assms(1,2) by simp
  ultimately show ?thesis
    using in_cksum_value cksum_finish_rfc1071 [of "take n (drop p m)"] assms(3) by simp
qed

theorem in_cksum_rfc1071_witness:
  "\<exists>r. in_cksum [0x45, 0, 0, 0x1c] 0 4 = Inr r
      \<and> htons r = rfc1071 (take 4 (drop 0 [0x45, 0, 0, 0x1c]))"
  by (rule in_cksum_rfc1071) simp_all

text \<open>
  C11: \<open>in_cksum2\<close>, given the length in network order, returns the RFC 1071 checksum of the
  pseudo header (addresses, zero, protocol, length) followed by the segment, for odd sizes too.
\<close>

theorem in_cksum2_rfc1071:
  assumes "ip + 20 \<le> length m" "data + n \<le> length m" "n \<le> 65535"
  shows "\<exists>r. in_cksum2 m ip (htons len) data n = Inr r \<and>
    htons r = rfc1071 (take 8 (drop (ip + 12) m) @ [0, m ! (ip + 9), hi8 len, lo8 len]
                       @ take n (drop data m))"
  using assms cksum_finish_rfc1071 [of "pseudo_header m ip len @ take n (drop data m)"]
  by (simp add: in_cksum2_value pseudo_header_def)

theorem in_cksum2_rfc1071_witness:
  "\<exists>r. in_cksum2 (replicate 20 1 @ [1, 2, 3]) 0 (htons 3) 20 3 = Inr r \<and>
    htons r = rfc1071 (take 8 (drop (0 + 12) (replicate 20 1 @ [1, 2, 3]))
       @ [0, (replicate 20 1 @ [1, 2, 3]) ! (0 + 9), hi8 3, lo8 3]
       @ take 3 (drop 20 (replicate 20 1 @ [1, 2, 3])))"
  by (rule in_cksum2_rfc1071) simp_all

text \<open>
  \<open>in_cksum\<close> returns exactly when the block, rounded up to a whole number of 16-bit words,
  lies inside the buffer: for an odd size it reads one byte beyond the block.
\<close>

theorem in_cksum_returns_iff:
  "(\<exists>r. in_cksum m p n = Inr r) \<longleftrightarrow> n = 0 \<or> p + n + n mod 2 \<le> length m"
proof (cases "n = 0")
  case True
  then show ?thesis by (simp add: in_cksum_def cksum_loop.simps)
next
  case False
  then show ?thesis
    using in_cksum_value [of p n m] in_cksum_fault [of m p n] by fastforce
qed

text \<open>
  Over an odd number of bytes the value of \<open>in_cksum\<close> does not depend on the last byte of
  the block, so the checksum of an odd-sized ICMP message does not cover its last byte.
\<close>

theorem in_cksum_odd_ignores_last:
  assumes "odd n" "p + n + 1 \<le> length m"
  shows "in_cksum (m[p + n - 1 := b]) p n = in_cksum m p n"
proof -
  obtain k where k: "n = 2 * k + 1" using assms(1) by (rule oddE)
  have "in_cksum_total (m[p + n - 1 := b]) p n = in_cksum_total m p n"
    by (simp add: in_cksum_total_def k drop_update_swap)
  then show ?thesis using assms by (simp add: in_cksum_value k)
qed

theorem in_cksum_odd_ignores_last_witness:
  "in_cksum ([8, 0, 7, 9][0 + 3 - 1 := 42]) 0 3 = in_cksum [8, 0, 7, 9] 0 3"
  by (rule in_cksum_odd_ignores_last) simp_all

text \<open>A block that carries its own checksum passes the receiver's test.\<close>

lemma le_sum_middle:
  "even (length xs) \<Longrightarrow> le_sum (xs @ a # b # ys) = le_sum (xs @ 0 # 0 # ys) + unat (le16 a b)"
  by (simp add: le_sum_append unat_le16)

lemma in_cksum_accepts:
  assumes "even n" "n \<le> 131070" "p + n \<le> length m" "even c" "c + 2 \<le> n"
    and "m ! (p + c) = 0" "m ! (p + c + 1) = 0"
    and "in_cksum m p n = Inr r" "st16 m (p + c) r = Inr m'"
  shows "in_cksum m' p n = Inr 0"
proof -
  let ?xs = "take c (drop p m)" and ?ys = "take (n - c - 2) (drop (p + c + 2) m)"
  have split: "take n (drop p v) = take c (drop p v) @ v ! (p + c) # v ! (p + c + 1)
      # take (n - c - 2) (drop (p + c + 2) v)" if "length v = length m" for v :: bytes
  proof -
    have "take n (drop p v) = take c (drop p v) @ take (n - c) (drop (p + c) v)"
      using assms(5) by (metis add_leD1 drop_drop le_add_diff_inverse take_add add.commute)
    moreover have "n - c = Suc (Suc (n - c - 2))" using assms(5) by simp
    ultimately show ?thesis
      using take_drop_two [of "p + c" v "n - c - 2"] assms(3,5) that by simp
  qed
  have m': "m' = splice m (p + c) [lo8 r, hi8 r]" "length m' = length m"
    using assms(9) by (auto simp: st16_def st_bytes_Inr)
  have "take n (drop p m') = ?xs @ lo8 r # hi8 r # ?ys"
    using assms(3,5) by (subst split) (auto simp: m' splice_def nth_append min_def drop_take add_2_eq_Suc')
  moreover have "even (length ?xs)" using assms(3,4,5) by (simp add: min_def)
  ultimately have "le_sum (take n (drop p m')) = le_sum (?xs @ 0 # 0 # ?ys) + unat r"
    using le_sum_middle [of ?xs "lo8 r" "hi8 r" ?ys] by (simp only: le16_lo8_hi8)
  then have "in_cksum_total m' p n = le_sum (?xs @ 0 # 0 # ?ys) + unat r"
    using assms(1) by (simp add: in_cksum_total_def)
  moreover have "take n (drop p m) = ?xs @ 0 # 0 # ?ys"
    using assms(6,7) split [OF refl] by simp
  then have S: "in_cksum_total m p n = le_sum (?xs @ 0 # 0 # ?ys)"
    using assms(1) by (simp add: in_cksum_total_def)
  moreover have "p + n + n mod 2 \<le> length m" using assms(1,3) by simp
  then have "r = cksum_finish (word_of_nat (in_cksum_total m p n))"
    using assms(8) in_cksum_value by simp
  moreover have "in_cksum_total m p n + 65535 \<le> 2 ^ 32 - 1"
  proof -
    have "(length (take n (drop p m)) + 1) div 2 \<le> 65535" using assms(2) by simp
    then have "le_sum (take n (drop p m)) \<le> 65535 * 65535"
      using le_sum_bound [of "take n (drop p m)"] by (meson mult_le_mono2 order_trans)
    then show ?thesis using assms(1) by (simp add: in_cksum_total_def)
  qed
  ultimately have "cksum_finish (word_of_nat (in_cksum_total m' p n)) = 0"
    using fold16.accepts [of "in_cksum_total m p n"] by simp
  moreover have "p + n + n mod 2 \<le> length m'" using assms(1,3) m'(2) by simp
  ultimately show ?thesis by (simp add: in_cksum_value)
qed

lemma le_sum_small: "length bs \<le> 131070 \<Longrightarrow> le_sum bs + 65535 \<le> 2 ^ 32 - 1"
proof -
  assume "length bs \<le> 131070"
  then have "(length bs + 1) div 2 \<le> 65535" by simp
  then have "le_sum bs \<le> 65535 * 65535"
    using le_sum_bound [of bs] by (meson mult_le_mono2 order_trans)
  then show ?thesis by simp
qed

text \<open>The value stored for the sum of a segment whose checksum field is zero.\<close>

definition seg_sum :: "bytes \<Rightarrow> u16" where
  "seg_sum bs = cksum_finish (word_of_nat (le_sum bs))"

lemma rfc1071_accepts:
  assumes "even (length xs)" "length xs + 2 + length ys \<le> 131070"
    and "r = seg_sum (xs @ 0 # 0 # ys)" "r' = r \<or> r = 0 \<and> r' = 0xffff"
  shows "rfc1071 (xs @ lo8 r' # hi8 r' # ys) = 0"
proof -
  let ?t = "le_sum (xs @ 0 # 0 # ys)"
  have t: "?t + 65535 \<le> 2 ^ 32 - 1" using assms(2) by (intro le_sum_small) simp
  have r: "r = cksum_finish (word_of_nat ?t)" using assms(3) by (simp add: seg_sum_def)
  have sum: "le_sum (xs @ lo8 r' # hi8 r' # ys) = ?t + unat r'"
    using le_sum_middle [OF assms(1), of "lo8 r'" "hi8 r'" ys] by (simp only: le16_lo8_hi8)
  have "cksum_finish (word_of_nat (?t + unat r')) = 0"
    using assms(4) fold16.accepts [OF t] fold16.accepts_ones [OF t] r by auto
  then have "htons (rfc1071 (xs @ lo8 r' # hi8 r' # ys)) = 0"
    using cksum_finish_rfc1071 [of "xs @ lo8 r' # hi8 r' # ys", symmetric] assms(2)
    by (simp add: sum)
  then show ?thesis by (metis htons_0 htons_htons)
qed

end
