(* ===== verification/Udp.thy ===== *)
theory Udp
  imports Codec Checksum
begin

text \<open>
  \<^verbatim>\<open>src/c/packet_udp.c\<close>: reading a UDP header and writing a UDP segment with its
  checksum over the pseudo header. The written segment is read back unchanged and passes the
  receiver's checksum test of RFC 768.
\<close>

definition analyze_udp :: "bytes \<Rightarrow> nat \<Rightarrow> udp_obj res" where
  "analyze_udp m data =
     bindR (ld16 m (data + field udphdr [''uh_sport''])) (\<lambda>uh_sport.
     bindR (ld16 m (data + field udphdr [''uh_dport''])) (\<lambda>uh_dport.
     bindR (ld16 m (data + field udphdr [''uh_ulen''])) (\<lambda>uh_ulen.
     Inr (setUDPValue alloc_udp (ucast (ntohs uh_sport)) (ucast (ntohs uh_dport))
            (ucast (ntohs uh_ulen))))))"

text \<open>The payload length after the test against \<^verbatim>\<open>MAX_PACKET_SIZE\<close>, which leaves room for
  an IPv4 header and the transport header.\<close>

definition clip_length :: "nat \<Rightarrow> nat \<Rightarrow> nat" where
  "clip_length hdr n =
     (if n + IPv4HDRLEN + hdr > MAX_PACKET_SIZE then MAX_PACKET_SIZE - IPv4HDRLEN - hdr else n)"

definition set_udp :: "udp_obj \<Rightarrow> bytes \<Rightarrow> nat \<Rightarrow> bytes option \<Rightarrow> nat \<Rightarrow> bytes res" where
  "set_udp packet m pointer data ip =
     bindR (GetArrayLength data) (\<lambda>n.
     bindR (st16 m (pointer + field udphdr [''uh_sport''])
              (htons (ucast (udp_src_port packet)))) (\<lambda>m.
     bindR (st16 m (pointer + field udphdr [''uh_dport''])
              (htons (ucast (udp_dst_port packet)))) (\<lambda>m.
     let n = clip_length UDPHDRLEN n
     in bindR (st16 m (pointer + field udphdr [''uh_ulen''])
                (htons (word_of_nat (n + UDPHDRLEN)))) (\<lambda>m.
        bindR (GetByteArrayRegion data n) (\<lambda>region.
        bindR (st_bytes m (pointer + UDPHDRLEN) region) (\<lambda>m.
        bindR (st16 m (pointer + field udphdr [''uh_sum'']) 0) (\<lambda>m.
        bindR (ld16 m (pointer + field udphdr [''uh_ulen''])) (\<lambda>uh_ulen.
        bindR (in_cksum2 m ip uh_ulen pointer (n + UDPHDRLEN)) (\<lambda>uh_sum.
        bindR (st16 m (pointer + field udphdr [''uh_sum'']) uh_sum) (\<lambda>m.
        bindR (ld16 m (pointer + field udphdr [''uh_sum''])) (\<lambda>uh_sum.
        if uh_sum = 0 then st16 m (pointer + field udphdr [''uh_sum'']) 0xffff
        else Inr m)))))))))))"

lemma analyze_udp_append: "analyze_udp (xs @ ys) (length xs) = analyze_udp ys 0"
  by (simp add: analyze_udp_def ld_append ld_append0)

lemma analyze_udp_returns: "8 \<le> length ys \<Longrightarrow> \<exists>u. analyze_udp ys 0 = Inr u"
  by (simp add: analyze_udp_def ld16_def)

section \<open>What the writer stores\<close>

definition udp_hdr :: "udp_obj \<Rightarrow> nat \<Rightarrow> bytes" where
  "udp_hdr u n =
     (let sport = ucast (udp_src_port u) :: u16; dport = ucast (udp_dst_port u) :: u16;
          ulen = word_of_nat (n + UDPHDRLEN) :: u16
      in [hi8 sport, lo8 sport, hi8 dport, lo8 dport, hi8 ulen, lo8 ulen])"

definition udp_segment :: "udp_obj \<Rightarrow> u16 \<Rightarrow> bytes \<Rightarrow> bytes" where
  "udp_segment u ck payload = udp_hdr u (length payload) @ lo8 ck # hi8 ck # payload"

definition udp_checksum :: "bytes \<Rightarrow> udp_obj \<Rightarrow> bytes \<Rightarrow> u16" where
  "udp_checksum pseudo u payload =
     (let s = seg_sum (pseudo @ udp_segment u 0 payload) in if s = 0 then 0xffff else s)"

lemma length_udp_hdr [simp]: "length (udp_hdr u n) = 6"
  by (simp add: udp_hdr_def Let_def)

lemma length_udp_segment [simp]: "length (udp_segment u ck payload) = 8 + length payload"
  by (simp add: udp_segment_def)

lemma clip_length_le: "clip_length hdr n \<le> n"
  by (auto simp: clip_length_def)

lemma pseudo_header_splice:
  "ip + 20 \<le> a \<Longrightarrow> a + length bs \<le> length m \<Longrightarrow>
   pseudo_header (splice m a bs) ip len = pseudo_header m ip len"
  by (auto simp: pseudo_header_def nth_splice take_8_drop)

lemma length_pseudo_header [simp]:
  "ip + 20 \<le> length m \<Longrightarrow> length (pseudo_header m ip len) = 12"
  by (simp add: pseudo_header_def)

lemma set_udp_bytes:
  assumes n: "n = clip_length UDPHDRLEN (length d)"
    and ip: "ip + 20 \<le> p" and p: "p + 8 + n \<le> length m"
  shows "set_udp u m p (Some d) ip =
    Inr (splice m p (udp_segment u
          (udp_checksum (pseudo_header m ip (word_of_nat (n + 8))) u (take n d)) (take n d)))"
proof -
  define pd where "pd = take n d"
  have pd: "length pd = n" "GetByteArrayRegion (Some d) n = Inr pd"
    using n clip_length_le by (simp_all add: pd_def)
  let ?sport = "ucast (udp_src_port u) :: u16" and ?dport = "ucast (udp_dst_port u) :: u16"
  let ?ulen = "word_of_nat (n + 8) :: u16"
  define m0 where "m0 = splice m p (udp_segment u 0 pd)"
  have len0: "length m0 = length m" using p pd by (simp add: m0_def)
  have ck: "in_cksum2 m0 ip (htons ?ulen) p (n + 8)
      = Inr (seg_sum (pseudo_header m ip ?ulen @ udp_segment u 0 pd))"
    using ip p pd len0
    by (simp add: in_cksum2_value seg_sum_def)
       (simp add: m0_def pseudo_header_splice take_drop_splice_same)
  have stores: "splice (splice (splice (splice (splice m p [hi8 ?sport, lo8 ?sport])
        (p + 2) [hi8 ?dport, lo8 ?dport]) (p + 4) [hi8 ?ulen, lo8 ?ulen])
        (p + 8) pd) (p + 6) [0, 0] = m0"
    using p pd(1) by (simp add: store_simps m0_def udp_segment_def udp_hdr_def Let_def)
  have ulen: "ld16 m0 (p + 4) = Inr (htons ?ulen)"
    using p pd(1) unfolding m0_def
    by (simp add: ld_splice) (simp add: udp_segment_def udp_hdr_def Let_def htons_def)
  have final: "splice (splice m p (udp_segment u v pd)) (p + 6) [lo8 w, hi8 w]
      = splice m p (udp_segment u w pd)"
    "ld16 (splice m p (udp_segment u v pd)) (p + 6) = Inr v" for v w
  proof -
    show "splice (splice m p (udp_segment u v pd)) (p + 6) [lo8 w, hi8 w]
        = splice m p (udp_segment u w pd)"
      using p pd(1)
      by (intro nth_equalityI) (auto simp: nth_splice udp_segment_def nth_append nth_Cons')
    show "ld16 (splice m p (udp_segment u v pd)) (p + 6) = Inr v"
      using p pd(1) by (simp add: ld_splice) (simp add: udp_segment_def nth_append)
  qed
  show ?thesis
    unfolding pd_def [symmetric]
    using p pd ck stores ulen len0 n
    by (simp add: set_udp_def Let_def st_splice final m0_def udp_checksum_def)
qed

lemma analyze_udp_segment:
  assumes "p + 8 + length d \<le> length m" "length d + 8 < 65536"
  shows "analyze_udp (splice m p (udp_segment u ck d)) p =
    Inr \<lparr>udp_src_port = ucast (ucast (udp_src_port u) :: u16),
         udp_dst_port = ucast (ucast (udp_dst_port u) :: u16),
         udp_length = word_of_nat (length d + 8)\<rparr>"
proof -
  have "ucast (word_of_nat (length d + 8) :: u16) = (word_of_nat (length d + 8) :: u32)"
    using assms(2) by (rule ucast_u16_of_nat)
  then show ?thesis
    using assms(1) unfolding analyze_udp_def
    by (simp add: ld_splice ld_splice0)
       (simp add: udp_segment_def udp_hdr_def Let_def setUDPValue_def alloc_udp_def)
qed

section \<open>Properties\<close>

definition wf_udp :: "udp_obj \<Rightarrow> bool" where
  "wf_udp u \<longleftrightarrow> unat (udp_src_port u) < 65536 \<and> unat (udp_dst_port u) < 65536"

text \<open>
  C18: a UDP segment written by \<^verbatim>\<open>set_udp\<close> into the buffer behind the IP header at
  \<open>ip\<close>: \<^verbatim>\<open>analyze_udp\<close> reads back the ports and the true length, the bytes after the
  header are the payload (cut to what \<^verbatim>\<open>MAX_PACKET_SIZE\<close> allows), the checksum field
  is not zero, and the receiver's RFC 768 test over the pseudo header and the segment succeeds.
\<close>

theorem udp_roundtrip:
  assumes "wf_udp u" "n = clip_length UDPHDRLEN (length d)" "ip + 20 \<le> p" "p + 8 + n \<le> length m"
  shows "\<exists>m'. set_udp u m p (Some d) ip = Inr m' \<and> length m' = length m \<and> take p m' = take p m
      \<and> analyze_udp m' p = Inr (u\<lparr>udp_length := word_of_nat (n + 8)\<rparr>)
      \<and> take n (drop (p + 8) m') = take n d
      \<and> ld16 m' (p + 6) \<noteq> Inr 0
      \<and> rfc1071 (pseudo_header m' ip (word_of_nat (n + 8)) @ take (n + 8) (drop p m')) = 0"
proof -
  let ?ps = "pseudo_header m ip (word_of_nat (n + 8))" and ?pd = "take n d"
  define ck where "ck = udp_checksum ?ps u ?pd"
  define m' where "m' = splice m p (udp_segment u ck ?pd)"
  have n: "n \<le> length d" "n \<le> 1572" "length ?pd = n"
    using assms(2) clip_length_le [of 8 "length d"] by (auto simp: clip_length_def)
  have set: "set_udp u m p (Some d) ip = Inr m'"
    using set_udp_bytes [OF assms(2-4)] by (simp add: m'_def ck_def)
  have "ucast (ucast (udp_src_port u) :: u16) = udp_src_port u"
    "ucast (ucast (udp_dst_port u) :: u16) = udp_dst_port u"
    using assms(1) by (simp_all add: wf_udp_def ucast_ucast_small)
  then have rd: "analyze_udp m' p = Inr (u\<lparr>udp_length := word_of_nat (n + 8)\<rparr>)"
    using analyze_udp_segment [of p ?pd m u ck] assms(4) n by (cases u) (simp add: m'_def)
  have pay: "take n (drop (p + 8) m') = ?pd"
    using assms(4) n unfolding m'_def
    by (intro nth_equalityI) (auto simp: nth_splice udp_segment_def nth_append)
  have "ld16 m' (p + 6) = Inr ck"
    using assms(4) n unfolding m'_def by (simp add: ld_splice) (simp add: udp_segment_def nth_append)
  moreover have "ck \<noteq> 0" by (simp add: ck_def udp_checksum_def Let_def)
  moreover have "rfc1071 ((?ps @ udp_hdr u n) @ lo8 ck # hi8 ck # ?pd) = 0"
    using assms(3,4) n
    by (intro rfc1071_accepts [where r = "seg_sum (?ps @ udp_segment u 0 ?pd)"])
       (simp_all add: udp_segment_def ck_def udp_checksum_def Let_def)
  moreover have "pseudo_header m' ip (word_of_nat (n + 8)) = ?ps"
    using assms(3,4) n by (simp add: m'_def pseudo_header_splice)
  moreover have "take (n + 8) (drop p m') = udp_segment u ck ?pd"
    using assms(4) n unfolding m'_def by (intro take_drop_splice_same) simp_all
  ultimately show ?thesis
    using set rd pay assms(4) n by (simp add: udp_segment_def) (simp add: m'_def take_splice_prefix)
qed

theorem udp_roundtrip_witness:
  "\<exists>m'. set_udp \<lparr>udp_src_port = 53, udp_dst_port = 1024, udp_length = 0\<rparr> (replicate 40 0) 20
        (Some [1, 2, 3]) 0 = Inr m' \<and> length m' = length (replicate 40 (0 :: u8))
      \<and> take 20 m' = take 20 (replicate 40 0)
      \<and> analyze_udp m' 20 = Inr (\<lparr>udp_src_port = 53, udp_dst_port = 1024, udp_length = 0\<rparr>
            \<lparr>udp_length := word_of_nat (3 + 8)\<rparr>)
      \<and> take 3 (drop (20 + 8) m') = take 3 [1, 2, 3]
      \<and> ld16 m' (20 + 6) \<noteq> Inr 0
      \<and> rfc1071 (pseudo_header m' 0 (word_of_nat (3 + 8)) @ take (3 + 8) (drop 20 m')) = 0"
  by (rule udp_roundtrip) (simp_all add: wf_udp_def clip_length_def)

end
