(* ===== verification/Tcp.thy ===== *)
theory Tcp
  imports Udp
begin

text \<open>
  \<^verbatim>\<open>src/c/packet_tcp.c\<close>: reading a TCP header with its options and writing a segment
  without options. The checksum and the length limit are those of \<open>Udp\<close>; the data offset shares
  its byte with four reserved bits, which the writer leaves as it finds them in the buffer.
\<close>

text \<open>The receiver of the setters may have IP options in its field \<^verbatim>\<open>option\<close> already.\<close>

definition analyze_tcp :: "bytes \<Rightarrow> nat \<Rightarrow> tcp_obj \<Rightarrow> (tcp_obj \<times> nat) res" where
  "analyze_tcp m data packet =
     bindR (ld16 m (data + field tcphdr [''th_sport''])) (\<lambda>th_sport.
     bindR (ld16 m (data + field tcphdr [''th_dport''])) (\<lambda>th_dport.
     bindR (ld32 m (data + field tcphdr [''th_seq''])) (\<lambda>th_seq.
     bindR (ld32 m (data + field tcphdr [''th_ack''])) (\<lambda>th_ack.
     bindR (ld8 m (data + field tcphdr [''th_flags''])) (\<lambda>th_flags.
     bindR (ld16 m (data + field tcphdr [''th_win''])) (\<lambda>th_win.
     bindR (ld16 m (data + field tcphdr [''th_urp''])) (\<lambda>th_urp.
     bindR (ld8 m (data + field tcphdr [''th_x2_off''])) (\<lambda>x2_off.
     let packet = setTCPValue packet (ucast (ntohs th_sport)) (ucast (ntohs th_dport))
           (ucast (ntohl th_seq)) (ucast (ntohl th_ack))
           (th_flags AND TH_URG > 0) (th_flags AND TH_ACK > 0) (th_flags AND TH_PUSH > 0)
           (th_flags AND TH_RST > 0) (th_flags AND TH_SYN > 0) (th_flags AND TH_FIN > 0)
           (th_flags AND TH_RSV1 > 0) (th_flags AND TH_RSV2 > 0)
           (ucast (ntohs th_win)) (ntohs th_urp);
         hdrlen = unat (drop_bit 4 x2_off) * 4
     in if hdrlen > TCPHDRLEN
        then bindR (ld_bytes m (data + TCPHDRLEN) (hdrlen - TCPHDRLEN)) (\<lambda>dataArray.
             Inr (packet\<lparr>tcp_option := Some dataArray\<rparr>, hdrlen))
        else Inr (packet, hdrlen)))))))))"

lemma analyze_tcp_append: "analyze_tcp (xs @ ys) (length xs) packet = analyze_tcp ys 0 packet"
  by (simp add: analyze_tcp_def ld_append ld_append0 Let_def cong: if_cong)

lemma unat_high_nibble: "unat (drop_bit 4 (w :: u8)) \<le> 15"
proof -
  have "unat (drop_bit 4 w) = unat w div 16"
    by (simp add: drop_bit_eq_div unat_div)
  moreover have "unat w < 16 * 16" using unat_u8_less [of w] by simp
  then have "unat w div 16 < 16" by (rule less_mult_imp_div_less)
  ultimately show ?thesis by simp
qed

lemma analyze_tcp_hdrlen_60: "analyze_tcp m a packet = Inr (t, k) \<Longrightarrow> k \<le> 60"
  using unat_high_nibble [of "m ! (a + 12)"]
  by (auto simp: analyze_tcp_def Let_def res_simps split: if_splits)

lemma analyze_tcp_hdrlen: "analyze_tcp ys 0 packet = Inr (t, k) \<Longrightarrow> k \<le> length ys \<and> k \<le> 60"
  using unat_high_nibble [of "ys ! 12"]
  by (auto simp: analyze_tcp_def Let_def res_simps split: if_splits)

lemma analyze_tcp_option:
  "analyze_tcp m 0 packet = Inr (t, k) \<Longrightarrow>
    tcp_option t = (if k > 20 then Some (take (k - 20) (drop 20 m)) else tcp_option packet)"
  by (auto simp: analyze_tcp_def Let_def res_simps setTCPValue_def split: if_splits)

definition jbool :: "bool \<Rightarrow> u8" where
  "jbool b = (if b then 1 else 0)"

definition tcp_flag_byte :: "tcp_obj \<Rightarrow> u8" where
  "tcp_flag_byte packet =
     push_bit 7 (jbool (tcp_rsv1 packet)) + push_bit 6 (jbool (tcp_rsv2 packet))
     + push_bit 5 (jbool (tcp_urg packet)) + push_bit 4 (jbool (tcp_ack packet))
     + push_bit 3 (jbool (tcp_psh packet)) + push_bit 2 (jbool (tcp_rst packet))
     + push_bit 1 (jbool (tcp_syn packet)) + jbool (tcp_fin packet)"

definition set_tcp :: "tcp_obj \<Rightarrow> bytes \<Rightarrow> nat \<Rightarrow> bytes option \<Rightarrow> nat \<Rightarrow> bytes res" where
  "set_tcp packet m pointer data ip =
     bindR (GetArrayLength data) (\<lambda>n.
     bindR (st16 m (pointer + field tcphdr [''th_sport''])
              (htons (ucast (tcp_src_port packet)))) (\<lambda>m.
     bindR (st16 m (pointer + field tcphdr [''th_dport''])
              (htons (ucast (tcp_dst_port packet)))) (\<lambda>m.
     bindR (st32 m (pointer + field tcphdr [''th_seq''])
              (htonl (ucast (tcp_sequence packet)))) (\<lambda>m.
     bindR (st32 m (pointer + field tcphdr [''th_ack''])
              (htonl (ucast (tcp_ack_num packet)))) (\<lambda>m.
     bindR (ld8 m (pointer + field tcphdr [''th_x2_off''])) (\<lambda>x2_off.
     bindR (st8 m (pointer + field tcphdr [''th_x2_off''])
              ((x2_off AND 0x0f) OR push_bit 4 5)) (\<lambda>m.
     bindR (st8 m (pointer + field tcphdr [''th_flags'']) (tcp_flag_byte packet)) (\<lambda>m.
     bindR (st16 m (pointer + field tcphdr [''th_win''])
              (htons (ucast (tcp_window packet)))) (\<lambda>m.
     bindR (st16 m (pointer + field tcphdr [''th_urp''])
              (htons (tcp_urgent_pointer packet))) (\<lambda>m.
     let n = clip_length TCPHDRLEN n
     in bindR (GetByteArrayRegion data n) (\<lambda>region.
        bindR (st_bytes m (pointer + TCPHDRLEN) region) (\<lambda>m.
        bindR (st16 m (pointer + field tcphdr [''th_sum'']) 0) (\<lambda>m.
        bindR (in_cksum2 m ip (htons (word_of_nat (n + TCPHDRLEN))) pointer (n + TCPHDRLEN))
          (\<lambda>th_sum.
        st16 m (pointer + field tcphdr [''th_sum'']) th_sum))))))))))))))"

section \<open>What the writer stores\<close>

definition tcp_hdr :: "u8 \<Rightarrow> tcp_obj \<Rightarrow> bytes" where
  "tcp_hdr x2 t =
     (let sport = ucast (tcp_src_port t) :: u16; dport = ucast (tcp_dst_port t) :: u16;
          sq = ucast (tcp_sequence t) :: u32; ak = ucast (tcp_ack_num t) :: u32;
          win = ucast (tcp_window t) :: u16
      in [hi8 sport, lo8 sport, hi8 dport, lo8 dport,
          byte32 3 sq, byte32 2 sq, byte32 1 sq, byte32 0 sq,
          byte32 3 ak, byte32 2 ak, byte32 1 ak, byte32 0 ak,
          (x2 AND 0x0f) OR 0x50, tcp_flag_byte t, hi8 win, lo8 win])"

definition tcp_segment :: "u8 \<Rightarrow> tcp_obj \<Rightarrow> u16 \<Rightarrow> bytes \<Rightarrow> bytes" where
  "tcp_segment x2 t ck payload =
     tcp_hdr x2 t @ lo8 ck # hi8 ck #
     hi8 (tcp_urgent_pointer t) # lo8 (tcp_urgent_pointer t) # payload"

lemma length_tcp_hdr [simp]: "length (tcp_hdr x2 t) = 16"
  by (simp add: tcp_hdr_def Let_def)

lemma length_tcp_segment [simp]: "length (tcp_segment x2 t ck payload) = 20 + length payload"
  by (simp add: tcp_segment_def)

lemma tcp_flag_bits:
  "(tcp_flag_byte t AND TH_URG > 0) = tcp_urg t" "(tcp_flag_byte t AND TH_ACK > 0) = tcp_ack t"
  "(tcp_flag_byte t AND TH_PUSH > 0) = tcp_psh t" "(tcp_flag_byte t AND TH_RST > 0) = tcp_rst t"
  "(tcp_flag_byte t AND TH_SYN > 0) = tcp_syn t" "(tcp_flag_byte t AND TH_FIN > 0) = tcp_fin t"
  "(tcp_flag_byte t AND TH_RSV1 > 0) = tcp_rsv1 t" "(tcp_flag_byte t AND TH_RSV2 > 0) = tcp_rsv2 t"
  unfolding tcp_flag_byte_def
  by (cases "tcp_rsv1 t"; cases "tcp_rsv2 t"; cases "tcp_urg t"; cases "tcp_ack t";
      cases "tcp_psh t"; cases "tcp_rst t"; cases "tcp_syn t"; cases "tcp_fin t";
      simp add: jbool_def push_bit_eq_mult)+

lemma tcp_offset_byte: "drop_bit 4 ((x2 AND 0x0f) OR 0x50 :: u8) = 5"
  by (rule bit_word_eqI) (auto simp: bit_simps less_Suc_eq numeral_eq_Suc dest: bit_imp_le_length)

lemma set_tcp_bytes:
  assumes n: "n = clip_length TCPHDRLEN (length d)"
    and ip: "ip + 20 \<le> p" and p: "p + 20 + n \<le> length m"
  shows "set_tcp t m p (Some d) ip =
    Inr (splice m p (tcp_segment (m ! (p + 12)) t
          (seg_sum (pseudo_header m ip (word_of_nat (n + 20))
             @ tcp_segment (m ! (p + 12)) t 0 (take n d))) (take n d)))"
proof -
  define pd where "pd = take n d"
  have pd: "length pd = n" "GetByteArrayRegion (Some d) n = Inr pd"
    using n clip_length_le by (simp_all add: pd_def)
  let ?x2 = "m ! (p + 12)" and ?len = "word_of_nat (n + 20) :: u16"
  define m0 where "m0 = splice m p (tcp_segment ?x2 t 0 pd)"
  have len0: "length m0 = length m" using p pd by (simp add: m0_def)
  have ck: "in_cksum2 m0 ip (htons ?len) p (n + 20)
      = Inr (seg_sum (pseudo_header m ip ?len @ tcp_segment ?x2 t 0 pd))"
    using ip p pd len0
    by (simp add: in_cksum2_value seg_sum_def)
       (simp add: m0_def pseudo_header_splice take_drop_splice_same)
  have final: "splice (splice m p (tcp_segment ?x2 t v pd)) (p + 16) [lo8 w, hi8 w]
      = splice m p (tcp_segment ?x2 t w pd)" for v w
    using p pd(1)
    by (intro nth_equalityI) (auto simp: nth_splice tcp_segment_def nth_append nth_Cons')
  let ?sport = "ucast (tcp_src_port t) :: u16" and ?dport = "ucast (tcp_dst_port t) :: u16"
  let ?sq = "ucast (tcp_sequence t) :: u32" and ?ak = "ucast (tcp_ack_num t) :: u32"
  let ?win = "ucast (tcp_window t) :: u16"
  define m4 where "m4 = splice (splice (splice (splice m p [hi8 ?sport, lo8 ?sport])
        (p + 2) [hi8 ?dport, lo8 ?dport])
        (p + 4) [byte32 3 ?sq, byte32 2 ?sq, byte32 (Suc 0) ?sq, byte32 0 ?sq])
        (p + 8) [byte32 3 ?ak, byte32 2 ?ak, byte32 (Suc 0) ?ak, byte32 0 ?ak]"
  have m4: "length m4 = length m" "ld8 m4 (p + 12) = Inr ?x2"
    using p unfolding m4_def by (simp_all add: ld8_def nth_splice)
  have stores: "splice (splice (splice (splice (splice (splice m4
        (p + 12) [(?x2 AND 0x0f) OR 0x50]) (p + 13) [tcp_flag_byte t]) (p + 14) [hi8 ?win, lo8 ?win])
        (p + 18) [hi8 (tcp_urgent_pointer t), lo8 (tcp_urgent_pointer t)])
        (p + 20) pd) (p + 16) [0, 0] = m0"
    using p pd(1)
    by (simp add: m4_def store_simps m0_def tcp_segment_def tcp_hdr_def Let_def)
  show ?thesis
    unfolding pd_def [symmetric]
    using p pd ck len0 n m4 stores
    by (simp add: set_tcp_def Let_def st_splice m4_def [symmetric] final [of 0] m0_def)
qed

section \<open>Properties\<close>

definition wf_tcp :: "tcp_obj \<Rightarrow> bool" where
  "wf_tcp t \<longleftrightarrow> unat (tcp_src_port t) < 65536 \<and> unat (tcp_dst_port t) < 65536
     \<and> unat (tcp_window t) < 65536
     \<and> unat (tcp_sequence t) < 2 ^ 32 \<and> unat (tcp_ack_num t) < 2 ^ 32"

lemma wf_tcp_narrow:
  assumes "wf_tcp t"
  shows "ucast (ucast (tcp_src_port t) :: u16) = tcp_src_port t"
    "ucast (ucast (tcp_dst_port t) :: u16) = tcp_dst_port t"
    "ucast (ucast (tcp_window t) :: u16) = tcp_window t"
    "ucast (ucast (tcp_sequence t) :: u32) = tcp_sequence t"
    "ucast (ucast (tcp_ack_num t) :: u32) = tcp_ack_num t"
  using assms by (simp_all add: wf_tcp_def ucast_ucast_small)

lemma analyze_tcp_segment:
  assumes "p + 20 + length d \<le> length m" "wf_tcp t"
  shows "analyze_tcp (splice m p (tcp_segment x2 t ck d)) p packet = Inr (t\<lparr>tcp_option := tcp_option packet\<rparr>, 20)"
  using assms(1) unfolding analyze_tcp_def
  by (simp add: ld_splice ld_splice0, simp add: tcp_segment_def nth_append,
      simp add: tcp_hdr_def Let_def tcp_offset_byte,
      simp add: tcp_flag_bits [simplified] setTCPValue_def wf_tcp_narrow [OF assms(2)])

text \<open>
  C17: a TCP segment written by \<^verbatim>\<open>set_tcp\<close> behind the IP header at \<open>ip\<close>:
  \<^verbatim>\<open>analyze_tcp\<close> reads back ports, sequence and acknowledgment numbers, all eight flags,
  window and urgent pointer and leaves the options of the receiver, the header length is 20, the bytes after the header are the payload
  (cut to what \<^verbatim>\<open>MAX_PACKET_SIZE\<close> allows), and the receiver's checksum test over the
  pseudo header and the segment succeeds whatever the buffer held before.
\<close>

theorem tcp_roundtrip:
  assumes "wf_tcp t" "n = clip_length TCPHDRLEN (length d)" "ip + 20 \<le> p" "p + 20 + n \<le> length m"
  shows "\<exists>m'. set_tcp t m p (Some d) ip = Inr m' \<and> length m' = length m \<and> take p m' = take p m
      \<and> analyze_tcp m' p packet = Inr (t\<lparr>tcp_option := tcp_option packet\<rparr>, 20)
      \<and> take n (drop (p + 20) m') = take n d
      \<and> rfc1071 (pseudo_header m' ip (word_of_nat (n + 20)) @ take (n + 20) (drop p m')) = 0"
proof -
  let ?ps = "pseudo_header m ip (word_of_nat (n + 20))" and ?pd = "take n d"
  let ?x2 = "m ! (p + 12)"
  define ck where "ck = seg_sum (?ps @ tcp_segment ?x2 t 0 ?pd)"
  define m' where "m' = splice m p (tcp_segment ?x2 t ck ?pd)"
  have n: "n \<le> length d" "n \<le> 1560" "length ?pd = n"
    using assms(2) clip_length_le [of 20 "length d"] by (auto simp: clip_length_def)
  have set: "set_tcp t m p (Some d) ip = Inr m'"
    using set_tcp_bytes [OF assms(2-4)] by (simp add: m'_def ck_def)
  have rd: "analyze_tcp m' p packet = Inr (t\<lparr>tcp_option := tcp_option packet\<rparr>, 20)"
    using analyze_tcp_segment [of p ?pd m t ?x2 ck] assms(1,4) n by (simp add: m'_def)
  have pay: "take n (drop (p + 20) m') = ?pd"
    using assms(4) n unfolding m'_def
    by (intro nth_equalityI) (auto simp: nth_splice tcp_segment_def nth_append)
  have "rfc1071 ((?ps @ tcp_hdr ?x2 t) @ lo8 ck # hi8 ck # hi8 (tcp_urgent_pointer t)
      # lo8 (tcp_urgent_pointer t) # ?pd) = 0"
    using assms(3,4) n
    by (intro rfc1071_accepts [where r = ck]) (simp_all add: ck_def tcp_segment_def)
  moreover have "pseudo_header m' ip (word_of_nat (n + 20)) = ?ps"
    using assms(3,4) n by (simp add: m'_def pseudo_header_splice)
  moreover have "take (n + 20) (drop p m') = tcp_segment ?x2 t ck ?pd"
    using assms(4) n unfolding m'_def by (intro take_drop_splice_same) simp_all
  ultimately show ?thesis
    using set rd pay assms(4) n by (simp add: tcp_segment_def) (simp add: m'_def take_splice_prefix)
qed

definition sample_tcp :: tcp_obj where
  "sample_tcp = \<lparr>tcp_src_port = 80, tcp_dst_port = 40000, tcp_sequence = 0xdeadbeef,
     tcp_ack_num = 7, tcp_urg = False, tcp_ack = True, tcp_psh = True, tcp_rst = False,
     tcp_syn = False, tcp_fin = True, tcp_rsv1 = False, tcp_rsv2 = True, tcp_window = 512,
     tcp_urgent_pointer = 3, tcp_option = None\<rparr>"

theorem tcp_roundtrip_witness:
  "\<exists>m'. set_tcp sample_tcp (replicate 60 0xff) 20 (Some [1, 2, 3]) 0 = Inr m'
      \<and> length m' = length (replicate 60 (0xff :: u8)) \<and> take 20 m' = take 20 (replicate 60 0xff)
      \<and> analyze_tcp m' 20 alloc_tcp = Inr (sample_tcp\<lparr>tcp_option := tcp_option alloc_tcp\<rparr>, 20)
      \<and> take 3 (drop (20 + 20) m') = take 3 [1, 2, 3]
      \<and> rfc1071 (pseudo_header m' 0 (word_of_nat (3 + 20)) @ take (3 + 20) (drop 20 m')) = 0"
  by (rule tcp_roundtrip) (simp_all add: wf_tcp_def sample_tcp_def clip_length_def)

end
