(* ===== verification/Ipv4.thy ===== *)
theory Ipv4
  imports Codec Checksum
begin

text \<open>
  \<^verbatim>\<open>src/c/packet_ip.c\<close>: reading an IPv4 header with its options and writing one without.
  The reader is compared with the header format of RFC 791. The writer fills every field except
  total length, protocol and checksum, which \<^verbatim>\<open>set_packet\<close> completes (theory
  \<open>Sender\<close>).
\<close>

section \<open>Bit-fields\<close>

text \<open>On the target the first declared bit-field, \<^verbatim>\<open>ip_hl\<close> or \<^verbatim>\<open>th_x2\<close>, is the
  low nibble of its byte.\<close>

definition get_lo_nibble :: "u8 \<Rightarrow> u8" where "get_lo_nibble b = b AND 0x0f"

definition put_lo_nibble :: "u8 \<Rightarrow> u8 \<Rightarrow> u8" where
  "put_lo_nibble b v = (b AND 0xf0) OR (v AND 0x0f)"

definition put_hi_nibble :: "u8 \<Rightarrow> u8 \<Rightarrow> u8" where
  "put_hi_nibble b v = (b AND 0x0f) OR push_bit 4 v"

lemma put_both_nibbles: "put_lo_nibble (put_hi_nibble b 4) 5 = 0x45"
  by (rule bit_word_eqI)
     (auto simp: put_lo_nibble_def put_hi_nibble_def bit_simps less_Suc_eq numeral_eq_Suc)

section \<open>The two routines\<close>

text \<open>
  The receiver \<open>packet\<close> of the setters is the packet object made by \<^verbatim>\<open>get_packet\<close>, of class
  \<^verbatim>\<open>IPPacket\<close> or a subclass, or the \<^verbatim>\<open>IPPacket\<close> embedded in an ICMP error.
\<close>

definition analyze_ip :: "bytes \<Rightarrow> nat \<Rightarrow> body \<Rightarrow> (body \<times> nat) res" where
  "analyze_ip m data packet =
     bindR (ld_bytes m (data + field struct_ip [''ip_src'']) 4) (\<lambda>src_addr.
     bindR (ld_bytes m (data + field struct_ip [''ip_dst'']) 4) (\<lambda>dst_addr.
     bindR (ld8 m (data + field struct_ip [''ip_tos''])) (\<lambda>ip_tos.
     bindR (ld16 m (data + field struct_ip [''ip_off''])) (\<lambda>ip_off.
     bindR (ld16 m (data + field struct_ip [''ip_len''])) (\<lambda>ip_len.
     bindR (ld16 m (data + field struct_ip [''ip_id''])) (\<lambda>ip_id.
     bindR (ld8 m (data + field struct_ip [''ip_ttl''])) (\<lambda>ip_ttl.
     bindR (ld8 m (data + field struct_ip [''ip_p''])) (\<lambda>ip_p.
     bindR (ip_part packet) (\<lambda>obj.
     bindR (with_ip (setIPv4Value obj 4 (drop_bit 5 ip_tos)
              (ip_tos AND IPTOS_LOWDELAY > 0) (ip_tos AND IPTOS_THROUGHPUT > 0)
              (ip_tos AND IPTOS_RELIABILITY > 0) (ip_tos AND 0x3)
              (ip_off AND IP_RF > 0) (ip_off AND IP_DF > 0) (ip_off AND IP_MF > 0)
              (ntohs ip_off AND IP_OFFMASK) (ntohs ip_len) (ntohs ip_id)
              (ucast ip_ttl) (ucast ip_p) src_addr dst_addr) packet) (\<lambda>packet.
     bindR (ld8 m (data + field struct_ip [''ip_hl_v''])) (\<lambda>ip_hl_v.
     let hdrlen = unat (get_lo_nibble ip_hl_v) * 4
     in if hdrlen > IPv4HDRLEN
        then bindR (ld_bytes m (data + IPv4HDRLEN) (hdrlen - IPv4HDRLEN)) (\<lambda>dataArray.
             bindR (setOption dataArray packet) (\<lambda>packet. Inr (packet, hdrlen)))
        else Inr (packet, hdrlen))))))))))))"

definition ip_off_field :: "ip_obj \<Rightarrow> u16" where
  "ip_off_field packet =
     (if ip_rsv_frag packet then IP_RF else 0) + (if ip_dont_frag packet then IP_DF else 0)
     + (if ip_more_frag packet then IP_MF else 0) + htons (ip_offset packet)"

definition ip_tos_field :: "ip_obj \<Rightarrow> u8" where
  "ip_tos_field packet =
     push_bit 5 (ip_priority packet) + ip_rsv_tos packet
     + (if ip_d_flag packet then IPTOS_LOWDELAY else 0)
     + (if ip_t_flag packet then IPTOS_THROUGHPUT else 0)
     + (if ip_r_flag packet then IPTOS_RELIABILITY else 0)"

definition set_ip :: "ip_obj \<Rightarrow> bytes \<Rightarrow> nat \<Rightarrow> bytes res" where
  "set_ip packet m pointer =
     bindR (getAddress (ip_src_ip packet)) (\<lambda>src.
     bindR (getAddress (ip_dst_ip packet)) (\<lambda>dst.
     bindR (ld8 m (pointer + field struct_ip [''ip_hl_v''])) (\<lambda>b.
     bindR (st8 m (pointer + field struct_ip [''ip_hl_v''])
              (put_lo_nibble (put_hi_nibble b 4) (word_of_nat (IPv4HDRLEN div 4)))) (\<lambda>m.
     bindR (st16 m (pointer + field struct_ip [''ip_id'']) (htons (ucast (ip_ident packet)))) (\<lambda>m.
     bindR (st16 m (pointer + field struct_ip [''ip_off'']) (ip_off_field packet)) (\<lambda>m.
     bindR (st8 m (pointer + field struct_ip [''ip_ttl'']) (ucast (ip_hop_limit packet))) (\<lambda>m.
     bindR (st8 m (pointer + field struct_ip [''ip_tos'']) (ip_tos_field packet)) (\<lambda>m.
     bindR (GetByteArrayRegion (Some src) 4) (\<lambda>src4.
     bindR (st_bytes m (pointer + field struct_ip [''ip_src'']) src4) (\<lambda>m.
     bindR (GetByteArrayRegion (Some dst) 4) (\<lambda>dst4.
     st_bytes m (pointer + field struct_ip [''ip_dst'']) dst4)))))))))))"

section \<open>The header format of RFC 791\<close>

record v4_header =
  h4_tos :: u8
  h4_len :: u16
  h4_id :: u16
  h4_flags :: "bool \<times> bool \<times> bool"     \<comment> \<open>reserved, don't fragment, more fragments\<close>
  h4_off :: u16
  h4_ttl :: u8
  h4_proto :: u8
  h4_sum :: u16
  h4_src :: bytes
  h4_dst :: bytes
  h4_opts :: bytes

definition wf_v4 :: "v4_header \<Rightarrow> bool" where
  "wf_v4 h \<longleftrightarrow> unat (h4_off h) < 8192 \<and> length (h4_src h) = 4 \<and> length (h4_dst h) = 4
     \<and> length (h4_opts h) \<le> 40 \<and> length (h4_opts h) mod 4 = 0"

definition v4_fragment :: "v4_header \<Rightarrow> u16" where
  "v4_fragment h = (case h4_flags h of (rf, df, mf) \<Rightarrow>
     push_bit 15 (of_bool rf) OR push_bit 14 (of_bool df) OR push_bit 13 (of_bool mf) OR h4_off h)"

definition v4_bytes :: "v4_header \<Rightarrow> bytes" where
  "v4_bytes h =
     [0x40 OR word_of_nat (5 + length (h4_opts h) div 4), h4_tos h, hi8 (h4_len h), lo8 (h4_len h),
      hi8 (h4_id h), lo8 (h4_id h), hi8 (v4_fragment h), lo8 (v4_fragment h), h4_ttl h,
      h4_proto h, hi8 (h4_sum h), lo8 (h4_sum h)]
     @ h4_src h @ h4_dst h @ h4_opts h"

text \<open>
  What \<^verbatim>\<open>analyze_ip\<close> makes of such a header, and the receiver with it. The options of a
  \<^verbatim>\<open>TCPPacket\<close> go into the field meant for TCP options.
\<close>

definition v4_object :: "v4_header \<Rightarrow> ip_obj" where
  "v4_object h = alloc_ip\<lparr>
     ip_version := 4, ip_priority := drop_bit 5 (h4_tos h),
     ip_d_flag := bit (h4_tos h) 4, ip_t_flag := bit (h4_tos h) 3, ip_r_flag := bit (h4_tos h) 2,
     ip_rsv_tos := h4_tos h AND 3,
     ip_rsv_frag := bit (h4_off h) 7, ip_dont_frag := bit (h4_off h) 6,
     ip_more_frag := bit (h4_off h) 5,
     ip_offset := h4_off h, ip_length := h4_len h, ip_ident := scast (h4_id h),
     ip_hop_limit := ucast (h4_ttl h), ip_protocol := ucast (h4_proto h),
     ip_src_ip := Some (h4_src h), ip_dst_ip := Some (h4_dst h),
     ip_option := (if h4_opts h = [] then None else Some (h4_opts h))\<rparr>"

definition no_option :: "v4_header \<Rightarrow> ip_obj" where "no_option h = (v4_object h)\<lparr>ip_option := None\<rparr>"

definition tcp_receiver :: "v4_header \<Rightarrow> tcp_obj \<Rightarrow> tcp_obj" where
  "tcp_receiver h t = (if h4_opts h = [] then t else t\<lparr>tcp_option := Some (h4_opts h)\<rparr>)"

fun v4_received :: "v4_header \<Rightarrow> body \<Rightarrow> body" where
  "v4_received h (TCPBody _ t) = TCPBody (no_option h) (tcp_receiver h t)"
| "v4_received h (IPBody _) = IPBody (v4_object h)"
| "v4_received h (UDPBody _ u) = UDPBody (v4_object h) u"
| "v4_received h (ICMPBody _ c) = ICMPBody (v4_object h) c"
| "v4_received h b = b"

lemma no_options [simp]:
  "h4_opts h = [] \<Longrightarrow> no_option h = v4_object h" "h4_opts h = [] \<Longrightarrow> tcp_receiver h t = t"
  by (simp_all add: no_option_def tcp_receiver_def v4_object_def)

lemma length_v4_bytes [simp]:
  "wf_v4 h \<Longrightarrow> length (v4_bytes h) = 20 + length (h4_opts h)"
  by (simp add: wf_v4_def v4_bytes_def)

lemma masked_bit:
  "(w AND 0x10 > (0 :: u8)) = bit w 4" "(w AND 0x08 > (0 :: u8)) = bit w 3"
  "(w AND 0x04 > (0 :: u8)) = bit w 2"
  "(v AND 0x8000 > (0 :: u16)) = bit v 15" "(v AND 0x4000 > (0 :: u16)) = bit v 14"
  "(v AND 0x2000 > (0 :: u16)) = bit v 13"
  using bit_iff_and_push_bit_not_eq_0 [of w 4] bit_iff_and_push_bit_not_eq_0 [of w 3]
    bit_iff_and_push_bit_not_eq_0 [of w 2] bit_iff_and_push_bit_not_eq_0 [of v 15]
    bit_iff_and_push_bit_not_eq_0 [of v 14] bit_iff_and_push_bit_not_eq_0 [of v 13]
  by (simp_all add: word_gt_0)

lemma v4_nibble:
  assumes "k \<le> 10"
  shows "unat (get_lo_nibble (0x40 OR word_of_nat (5 + k))) = 5 + k"
proof -
  have "\<forall>k\<in>set [0..<11]. unat (get_lo_nibble (0x40 OR word_of_nat (5 + k))) = 5 + k"
    by code_simp
  then show ?thesis using assms by simp
qed

lemma small_bit:
  "unat (w :: u16) < 8192 \<Longrightarrow> 13 \<le> n \<Longrightarrow> \<not> bit w n"
proof -
  assume w: "unat w < 8192" and n: "13 \<le> n"
  have "(2 :: nat) ^ 13 \<le> 2 ^ n" using n by (intro power_increasing) auto
  then have "unat w < 2 ^ n" using w by simp
  then have "\<not> bit (unat w) n" by (simp add: bit_iff_odd)
  then show ?thesis by (simp add: bit_unsigned_iff)
qed

lemma v4_fragment_bits:
  assumes "unat (h4_off h) < 8192"
  shows "bit (v4_fragment h) 7 = bit (h4_off h) 7" "bit (v4_fragment h) 6 = bit (h4_off h) 6"
    "bit (v4_fragment h) 5 = bit (h4_off h) 5" "v4_fragment h AND 0x1fff = h4_off h"
proof -
  have f: "n < 13 \<Longrightarrow> bit (v4_fragment h) n = bit (h4_off h) n" for n
    by (auto simp: v4_fragment_def bit_simps split: prod.splits)
  show "bit (v4_fragment h) 7 = bit (h4_off h) 7" "bit (v4_fragment h) 6 = bit (h4_off h) 6"
    "bit (v4_fragment h) 5 = bit (h4_off h) 5"
    by (simp_all add: f)
  have m: "(0x1fff :: u16) = mask 13" by (simp add: mask_eq_exp_minus_1)
  show "v4_fragment h AND 0x1fff = h4_off h"
    unfolding m
  proof (rule bit_word_eqI)
    fix n assume "n < LENGTH(16)"
    then show "bit (v4_fragment h AND mask 13) n = bit (h4_off h) n"
      using f [of n] small_bit [OF assms, of n] by (cases "n < 13") (auto simp: bit_simps)
  qed
qed

lemma swapped_bits:
  "bit (le16 (hi8 w) (lo8 w)) 15 = bit w 7" "bit (le16 (hi8 w) (lo8 w)) 14 = bit w 6"
  "bit (le16 (hi8 w) (lo8 w)) 13 = bit w 5"
  by (simp_all add: le16_def hi8_def lo8_def bit_simps)

lemma v4_bytes_at:
  assumes "wf_v4 h"
  shows "v4_bytes h ! 0 = 0x40 OR word_of_nat (5 + length (h4_opts h) div 4)"
    "v4_bytes h ! 1 = h4_tos h"
    "v4_bytes h ! 2 = hi8 (h4_len h)" "v4_bytes h ! 3 = lo8 (h4_len h)"
    "v4_bytes h ! 4 = hi8 (h4_id h)" "v4_bytes h ! 5 = lo8 (h4_id h)"
    "v4_bytes h ! 6 = hi8 (v4_fragment h)" "v4_bytes h ! 7 = lo8 (v4_fragment h)"
    "v4_bytes h ! 8 = h4_ttl h" "v4_bytes h ! 9 = h4_proto h"
    "take 4 (drop 12 (v4_bytes h)) = h4_src h" "take 4 (drop 16 (v4_bytes h)) = h4_dst h"
    "drop 20 (v4_bytes h) = h4_opts h"
  using assms by (simp_all add: wf_v4_def v4_bytes_def nth_append)

lemma v4_header_length:
  assumes "wf_v4 h"
  shows "unat (get_lo_nibble (v4_bytes h ! 0)) * 4 = length (v4_bytes h)"
proof -
  have "length (h4_opts h) div 4 \<le> 10" "4 * (length (h4_opts h) div 4) = length (h4_opts h)"
    using assms by (auto simp: wf_v4_def)
  then show ?thesis
    using v4_nibble [of "length (h4_opts h) div 4"] assms
    unfolding v4_bytes_at(1) [OF assms] by simp
qed

lemma v4_fragment_offset:
  "wf_v4 h \<Longrightarrow> ntohs (le16 (hi8 (v4_fragment h)) (lo8 (v4_fragment h))) AND 0x1fff = h4_off h"
  using v4_fragment_bits(4) [of h] by (simp add: wf_v4_def)

lemma analyze_ip_v4:
  assumes "wf_v4 h" "a + length (v4_bytes h) \<le> length m" "ip_part packet = Inr alloc_ip"
  shows "analyze_ip (splice m a (v4_bytes h)) a packet = Inr (v4_received h packet, length (v4_bytes h))"
proof -
  have off: "unat (h4_off h) < 8192" using assms(1) by (simp add: wf_v4_def)
  have L: "length (v4_bytes h) = 20 + length (h4_opts h)" using assms(1) by simp
  have ne: "v4_bytes h \<noteq> []" by (simp add: v4_bytes_def)
  note at = v4_bytes_at [OF assms(1)]
  have ads: "getByAddress (h4_src h) = Some (h4_src h)" "getByAddress (h4_dst h) = Some (h4_dst h)"
    using assms(1) by (simp_all add: wf_v4_def)
  have hl: "unat (get_lo_nibble (v4_bytes h ! 0)) * 4 = 20 + length (h4_opts h)"
    using v4_header_length [OF assms(1)] L by simp
  have opts: "5 < unat (get_lo_nibble (v4_bytes h ! 0)) \<longleftrightarrow> h4_opts h \<noteq> []"
  proof -
    have "5 < unat (get_lo_nibble (v4_bytes h ! 0)) \<longleftrightarrow> 0 < length (h4_opts h)"
      using hl by linarith
    then show ?thesis by simp
  qed
  show ?thesis
    unfolding analyze_ip_def
    using assms(2,3) L hl at(2-) off ne opts ads
    by (cases packet; simp add: Let_def ld_splice ld_splice0)
       (auto simp: masked_bit swapped_bits v4_fragment_bits v4_object_def no_option_def tcp_receiver_def
           setIPv4Value_def alloc_ip_def)
qed

section \<open>What the writer stores\<close>

definition ip_image :: "ip_obj \<Rightarrow> u8 \<Rightarrow> u8 \<Rightarrow> u16 \<Rightarrow> u8 \<Rightarrow> u8 \<Rightarrow> u8 \<Rightarrow> bytes" where
  "ip_image p l0 l1 off proto c0 c1 =
     (let ident = ucast (ip_ident p) :: u16
      in [0x45, ip_tos_field p, l0, l1, hi8 ident, lo8 ident, lo8 off, hi8 off,
          ucast (ip_hop_limit p), proto, c0, c1]
         @ take 4 (the (ip_src_ip p)) @ take 4 (the (ip_dst_ip p)))"

definition has_addrs :: "nat \<Rightarrow> ip_obj \<Rightarrow> bool" where
  "has_addrs n p \<longleftrightarrow> (\<exists>src dst. ip_src_ip p = Some src \<and> ip_dst_ip p = Some dst
                          \<and> n \<le> length src \<and> n \<le> length dst)"

lemma length_ip_image [simp]:
  "has_addrs 4 p \<Longrightarrow> length (ip_image p l0 l1 off proto c0 c1) = 20"
  by (auto simp: has_addrs_def ip_image_def Let_def)

lemma set_ip_bytes:
  assumes "has_addrs 4 p" "a + 20 \<le> length m"
  shows "set_ip p m a = Inr (splice m a
    (ip_image p (m ! (a + 2)) (m ! (a + 3)) (ip_off_field p) (m ! (a + 9)) (m ! (a + 10))
       (m ! (a + 11))))"
proof -
  obtain src dst where ad: "ip_src_ip p = Some src" "ip_dst_ip p = Some dst"
    "4 \<le> length src" "4 \<le> length dst"
    using assms(1) by (auto simp: has_addrs_def)
  define s4 d4 where "s4 = take 4 src" and "d4 = take 4 dst"
  have sd: "GetByteArrayRegion (Some src) 4 = Inr s4" "GetByteArrayRegion (Some dst) 4 = Inr d4"
    "length s4 = 4" "length d4 = 4"
    using ad by (simp_all add: s4_def d4_def)
  let ?id = "ucast (ip_ident p) :: u16"
  define m' where "m' = splice (splice (splice m a [0x45, ip_tos_field p])
      (a + 4) [hi8 ?id, lo8 ?id, lo8 (ip_off_field p), hi8 (ip_off_field p),
               ucast (ip_hop_limit p)]) (a + 12) (s4 @ d4)"
  have "set_ip p m a = Inr m'"
    using assms(2) ad(1,2) sd
    by (simp add: set_ip_def st_splice ld8_def put_both_nibbles) (simp add: m'_def store_simps)
  moreover have "m' = splice m a
    (ip_image p (m ! (a + 2)) (m ! (a + 3)) (ip_off_field p) (m ! (a + 9)) (m ! (a + 10))
       (m ! (a + 11)))" (is "_ = splice m a ?img")
  proof (rule splice_eqI)
    have img: "?img = [0x45, ip_tos_field p, m ! (a + 2), m ! (a + 3), hi8 ?id, lo8 ?id,
        lo8 (ip_off_field p), hi8 (ip_off_field p), ucast (ip_hop_limit p), m ! (a + 9),
        m ! (a + 10), m ! (a + 11)] @ s4 @ d4"
      using ad by (simp add: ip_image_def Let_def s4_def d4_def)
    have l: "length ?img = 20" using assms(1) by simp
    show "length m' = length m" using assms(2) sd by (simp add: m'_def)
    show "a + length ?img \<le> length m" using assms(2) l by simp
    show "m' ! i = m ! i" if "i < length m" "i < a \<or> a + length ?img \<le> i" for i
      using that assms(2) sd unfolding m'_def l by (auto simp: nth_splice)
    fix k assume "k < length ?img"
    then have k: "k < 20" using l by simp
    show "m' ! (a + k) = ?img ! k"
    proof (cases "k < 12")
      case True
      then show ?thesis using assms(2) sd unfolding img m'_def
        by (auto simp: nth_splice nth_append less_Suc_eq numeral_eq_Suc)
    next
      case False
      then obtain j where j: "k = 12 + j" "j < 8" using k le_Suc_ex [of 12 k] by auto
      have "?img ! k = (s4 @ d4) ! j"
        unfolding img j(1) by (subst nth_append) (simp add: numeral_eq_Suc)
      then show ?thesis using assms(2) sd j unfolding m'_def
        by (simp add: nth_splice)
    qed
  qed
  ultimately show ?thesis by simp
qed

section \<open>Properties\<close>

text \<open>
  C14: \<^verbatim>\<open>analyze_ip\<close> on an RFC 791 header with any options, anywhere in a buffer, called
  with a newly allocated packet object of \<^verbatim>\<open>IPPacket\<close> or one of its subclasses: it returns
  the header length, and the IP part of the object has every field of the header except that the three
  flags are taken from bits 7, 6 and 5 of the fragment offset. The options are in the object's field
  \<^verbatim>\<open>option\<close>, which for a \<^verbatim>\<open>TCPPacket\<close> is the field of TCP options, while that of
  its IP part stays null.
\<close>

theorem analyze_ip_rfc791:
  assumes "wf_v4 h" "ip_part packet = Inr alloc_ip"
  shows "analyze_ip (pre @ v4_bytes h @ post) (length pre) packet
    = Inr (v4_received h packet, length (v4_bytes h))"
proof -
  have "splice (pre @ v4_bytes h @ post) (length pre) (v4_bytes h) = pre @ v4_bytes h @ post"
    by (simp add: splice_def)
  then show ?thesis
    using analyze_ip_v4 [OF assms(1) _ assms(2), of "length pre" "pre @ v4_bytes h @ post"] by simp
qed

definition sample_v4 :: v4_header where
  "sample_v4 = \<lparr>h4_tos = 0xb4, h4_len = 48, h4_id = 0x1234, h4_flags = (False, True, False),
     h4_off = 0, h4_ttl = 64, h4_proto = 17, h4_sum = 0xabcd, h4_src = [10, 0, 0, 1],
     h4_dst = [10, 0, 0, 2], h4_opts = [1, 1, 1, 0]\<rparr>"

theorem analyze_ip_rfc791_witness:
  "analyze_ip ([7, 7] @ v4_bytes sample_v4 @ [9]) (length [7, 7 :: u8]) (TCPBody alloc_ip alloc_tcp)
     = Inr (v4_received sample_v4 (TCPBody alloc_ip alloc_tcp), length (v4_bytes sample_v4))
   \<and> v4_received sample_v4 (TCPBody alloc_ip alloc_tcp)
     = TCPBody ((v4_object sample_v4)\<lparr>ip_option := None\<rparr>) (alloc_tcp\<lparr>tcp_option := Some [1, 1, 1, 0]\<rparr>)"
  by (rule conjI, rule analyze_ip_rfc791)
     (simp_all add: wf_v4_def sample_v4_def no_option_def tcp_receiver_def)

text \<open>
  Whatever \<^verbatim>\<open>analyze_ip\<close> reads, the flags it reports are bits of the fragment
  offset it reports: the masks are applied to the field before \<^verbatim>\<open>ntohs\<close>, so an
  unfragmented packet with DF or MF set is reported with both flags clear.
\<close>

definition offset_flags :: "ip_obj \<Rightarrow> bool" where
  "offset_flags p \<longleftrightarrow> ip_rsv_frag p = bit (ip_offset p) 7 \<and> ip_dont_frag p = bit (ip_offset p) 6
     \<and> ip_more_frag p = bit (ip_offset p) 5"

lemma ip_part_with_ip: "with_ip i b = Inr b' \<Longrightarrow> ip_part b' = Inr i"
  by (cases b) auto

lemma offset_flags_setOption:
  "setOption d b = Inr b' \<Longrightarrow> ip_part b' = Inr p \<Longrightarrow> ip_part b = Inr i \<Longrightarrow> offset_flags i \<Longrightarrow> offset_flags p"
  by (cases b) (auto simp: offset_flags_def)

lemma offset_flags_setIPv4Value:
  "offset_flags (setIPv4Value i v pr d t r s rf df mf off len ident ttl proto sa da)
    \<longleftrightarrow> rf = bit off 7 \<and> df = bit off 6 \<and> mf = bit off 5"
  by (simp add: offset_flags_def setIPv4Value_def Let_def split: option.splits)

lemma swapped_flags:
  "bit (le16 x y) 15 = bit (be16 x y AND 0x1fff) 7" "bit (le16 x y) 14 = bit (be16 x y AND 0x1fff) 6"
  "bit (le16 x y) 13 = bit (be16 x y AND 0x1fff) 5"
  by (auto simp: le16_def be16_def bit_simps dest: bit_imp_le_length)

theorem analyze_ip_flags:
  assumes "analyze_ip m a packet = Inr (b, n)" "ip_part b = Inr p"
  shows "ip_rsv_frag p = bit (ip_offset p) 7 \<and> ip_dont_frag p = bit (ip_offset p) 6
       \<and> ip_more_frag p = bit (ip_offset p) 5"
proof -
  obtain i b' where i: "with_ip i packet = Inr b'" "offset_flags i" "b = b' \<or> (\<exists>d. setOption d b' = Inr b)"
    using assms(1)
    by (auto simp: analyze_ip_def Let_def res_simps masked_bit swapped_flags split: if_splits)
       (erule that; auto simp: offset_flags_setIPv4Value)+
  then have "offset_flags p"
    using ip_part_with_ip [OF i(1)] assms(2) offset_flags_setOption by auto
  then show ?thesis by (simp add: offset_flags_def)
qed

theorem analyze_ip_flags_witness:
  "ip_rsv_frag (v4_object sample_v4) = bit (ip_offset (v4_object sample_v4)) 7
   \<and> ip_dont_frag (v4_object sample_v4) = bit (ip_offset (v4_object sample_v4)) 6
   \<and> ip_more_frag (v4_object sample_v4) = bit (ip_offset (v4_object sample_v4)) 5"
proof (rule analyze_ip_flags)
  have "splice (v4_bytes sample_v4) 0 (v4_bytes sample_v4) = v4_bytes sample_v4"
    by (simp add: splice_def)
  then show "analyze_ip (v4_bytes sample_v4) 0 (IPBody alloc_ip) = Inr (IPBody (v4_object sample_v4), 24)"
    using analyze_ip_v4 [of sample_v4 0 "v4_bytes sample_v4" "IPBody alloc_ip"]
    by (simp add: wf_v4_def sample_v4_def)
qed simp

end
