(* ===== verification/Ipv6.thy ===== *)
theory Ipv6
  imports Codec
begin

text \<open>
  \<^verbatim>\<open>src/c/packet_ipv6.c\<close>: reading an IPv6 header, walking its chain of extension
  headers, and writing the fixed header. The walk is compared with the chains of RFC 8200, and the number
  of its turns is bounded for every input.
\<close>

section \<open>Extension headers\<close>

definition IP6F_OFF_MASK :: u16 where [simp]: "IP6F_OFF_MASK = htons 0xfff8"
definition IP6F_MORE_FRAG :: u16 where [simp]: "IP6F_MORE_FRAG = htons 0x0001"

definition is_ext_proto :: "u8 \<Rightarrow> bool" where
  "is_ext_proto proto \<longleftrightarrow> proto = IPPROTO_HOPOPTS \<or> proto = IPPROTO_DSTOPTS
     \<or> proto = IPPROTO_ROUTING \<or> proto = IPPROTO_AH \<or> proto = IPPROTO_FRAGMENT"

text \<open>
  The loop over the addresses of a routing header: \<^verbatim>\<open>p\<close> stays where it is and
  \<^verbatim>\<open>data\<close> advances.
\<close>

fun routing_loop :: "bytes \<Rightarrow> nat \<Rightarrow> nat \<Rightarrow> nat \<Rightarrow> (bytes list \<times> nat) res" where
  "routing_loop m p data 0 = Inr ([], data)"
| "routing_loop m p data (Suc n) =
     bindR (ld_bytes m p 16) (\<lambda>opt_data.
     bindR (routing_loop m p (data + 16) n) (\<lambda>(addrs, data). Inr (opt_data # addrs, data)))"

text \<open>One turn of the walk: the option object, the advanced \<^verbatim>\<open>data\<close>, what is added to
  \<^verbatim>\<open>hlen\<close>, and the next protocol.\<close>

definition v6_option ::
  "bytes \<Rightarrow> nat \<Rightarrow> u8 \<Rightarrow> (v6opt_obj \<times> nat \<times> nat \<times> u8) res" where
  "v6_option m data proto =
     bindR (ld8 m (data + field ip6_ext [''ip6e_nxt''])) (\<lambda>ip6e_nxt.
     bindR (ld8 m (data + field ip6_ext [''ip6e_len''])) (\<lambda>ip6e_len.
     let opt_hdr = alloc_v6opt\<lparr>v6_type := proto, v6_next_header := ip6e_nxt, v6_hlen := ip6e_len\<rparr>
     in if proto = IPPROTO_HOPOPTS \<or> proto = IPPROTO_DSTOPTS
        then bindR (ld_bytes m (data + 2 * sizeof ip6_ext) (unat ip6e_len)) (\<lambda>opt_data.
             Inr (opt_hdr\<lparr>v6_option := Some opt_data\<rparr>, data + (unat ip6e_len + 1) * 8,
                  (unat ip6e_len + 1) * 8, ip6e_nxt))
        else if proto = IPPROTO_ROUTING
        then bindR (routing_loop m (data + 8) data (unat ip6e_len div 2)) (\<lambda>(addrs, data').
             bindR (ld8 m (data + field ip6_rthdr [''ip6r_type''])) (\<lambda>ip6r_type.
             bindR (ld8 m (data + field ip6_rthdr [''ip6r_segleft''])) (\<lambda>ip6r_segleft.
             Inr (setRoutingOption opt_hdr ip6r_type ip6r_segleft addrs,
                  data' + (unat ip6e_len + 1) * 8, (unat ip6e_len + 1) * 8, ip6e_nxt))))
        else if proto = IPPROTO_FRAGMENT
        then bindR (ld16 m (data + field ip6_frag [''ip6f_offlg''])) (\<lambda>ip6f_offlg.
             bindR (ld32 m (data + field ip6_frag [''ip6f_ident''])) (\<lambda>ip6f_ident.
             Inr (setFragmentOption opt_hdr (ntohs (ip6f_offlg AND IP6F_OFF_MASK))
                    (ip6f_offlg AND IP6F_MORE_FRAG > 0) (ntohl ip6f_ident),
                  data + 8, 8, ip6e_nxt)))
        else bindR (ld32 m (data + field newah [''ah_spi''])) (\<lambda>ah_spi.
             bindR (ld32 m (data + field newah [''ah_seq''])) (\<lambda>ah_seq.
             bindR (ld_bytes m (data + 8 * sizeof newah) (unat ip6e_len)) (\<lambda>opt_data.
             Inr ((setAHOption opt_hdr (ntohl ah_spi) (ntohl ah_seq))\<lparr>v6_option := Some opt_data\<rparr>,
                  data + (unat ip6e_len + 2) * 4, (unat ip6e_len + 2) * 4, ip6e_nxt))))))"

lemma routing_loop_data:
  "routing_loop m p data n = Inr (addrs, data') \<Longrightarrow> data' = data + 16 * n"
  by (induction n arbitrary: data addrs data') (fastforce simp: res_simps)+

lemma v6_option_advances:
  "v6_option m data proto = Inr (opt, data', h, nxt) \<Longrightarrow> data < length m \<and> data < data'"
  by (auto simp: v6_option_def Let_def res_simps split: if_splits dest: routing_loop_data)

function v6_walk :: "bytes \<Rightarrow> nat \<Rightarrow> u8 \<Rightarrow> nat \<Rightarrow> ip_obj \<Rightarrow> (ip_obj \<times> nat) res" where
  "v6_walk m data proto hlen packet =
     (if is_ext_proto proto
      then bindR (v6_option m data proto) (\<lambda>(opt_hdr, data', h, nxt).
           v6_walk m data' nxt (hlen + h) (addOptionHeader packet opt_hdr))
      else Inr (packet, hlen))"
  by auto

termination
  by (relation "measure (\<lambda>(m, data, _, _, _). length m - data)")
     (auto dest!: v6_option_advances)

declare v6_walk.simps [simp del]

section \<open>The header\<close>

definition analyze_ipv6 :: "bytes \<Rightarrow> nat \<Rightarrow> (ip_obj \<times> nat) res" where
  "analyze_ipv6 m data =
     bindR (ld_bytes m (data + field ip6_hdr [''ip6_src'']) 16) (\<lambda>src_addr.
     bindR (ld_bytes m (data + field ip6_hdr [''ip6_dst'']) 16) (\<lambda>dst_addr.
     bindR (ld32 m (data + field ip6_hdr [''ip6_ctlun'', ''ip6_un1'', ''ip6_un1_flow'']))
       (\<lambda>ip6_flow.
     bindR (ld16 m (data + field ip6_hdr [''ip6_ctlun'', ''ip6_un1'', ''ip6_un1_plen'']))
       (\<lambda>ip6_plen.
     bindR (ld8 m (data + field ip6_hdr [''ip6_ctlun'', ''ip6_un1'', ''ip6_un1_nxt'']))
       (\<lambda>ip6_nxt.
     bindR (ld8 m (data + field ip6_hdr [''ip6_ctlun'', ''ip6_un1'', ''ip6_un1_hlim'']))
       (\<lambda>ip6_hlim.
     let v6class = signed_drop_bit 20 (scast (ucast (ip6_flow AND 0x0ff00000) :: u8) :: u32);
         packet = setIPv6Value alloc_ip 6 (ucast v6class) (ntohl (ip6_flow AND 0x000fffff))
           (ntohs ip6_plen) ip6_nxt (ucast ip6_hlim) src_addr dst_addr
     in bindR (v6_walk m (data + 40) ip6_nxt 40 packet) (\<lambda>(packet, hlen).
        Inr (packet, hlen mod 2 ^ 16))))))))"

definition v6_class_flow :: "ip_obj \<Rightarrow> u32" where
  "v6_class_flow packet =
     (push_bit 20 (scast (ip_priority packet)) OR ip_flow_label packet) AND 0x0fffffff"

definition set_ipv6 :: "ip_obj \<Rightarrow> bytes \<Rightarrow> nat \<Rightarrow> bytes res" where
  "set_ipv6 packet m pointer =
     bindR (getAddress (ip_src_ip packet)) (\<lambda>src.
     bindR (getAddress (ip_dst_ip packet)) (\<lambda>dst.
     bindR (st32 m (pointer + field ip6_hdr [''ip6_ctlun'', ''ip6_un1'', ''ip6_un1_flow'']) 0)
       (\<lambda>m.
     bindR (st8 m (pointer + field ip6_hdr [''ip6_ctlun'', ''ip6_un2_vfc'']) 0x60) (\<lambda>m.
     bindR (GetByteArrayRegion (Some src) 16) (\<lambda>src16.
     bindR (st_bytes m (pointer + field ip6_hdr [''ip6_src'']) src16) (\<lambda>m.
     bindR (GetByteArrayRegion (Some dst) 16) (\<lambda>dst16.
     bindR (st_bytes m (pointer + field ip6_hdr [''ip6_dst'']) dst16) (\<lambda>m.
     bindR (ld32 m (pointer + field ip6_hdr [''ip6_ctlun'', ''ip6_un1'', ''ip6_un1_flow'']))
       (\<lambda>ip6_flow.
     bindR (st32 m (pointer + field ip6_hdr [''ip6_ctlun'', ''ip6_un1'', ''ip6_un1_flow''])
              (ip6_flow OR htonl (v6_class_flow packet))) (\<lambda>m.
     bindR (st8 m (pointer + field ip6_hdr [''ip6_ctlun'', ''ip6_un1'', ''ip6_un1_nxt''])
              (ucast (ip_protocol packet))) (\<lambda>m.
     st8 m (pointer + field ip6_hdr [''ip6_ctlun'', ''ip6_un1'', ''ip6_un1_hlim''])
              (ucast (ip_hop_limit packet)))))))))))))"

section \<open>The formats of RFC 8200\<close>

record v6_header =
  h6_class :: u8
  h6_flow :: u32
  h6_plen :: u16
  h6_nxt :: u8
  h6_hlim :: u8
  h6_src :: bytes
  h6_dst :: bytes

definition wf_v6 :: "v6_header \<Rightarrow> bool" where
  "wf_v6 h \<longleftrightarrow> unat (h6_flow h) < 2 ^ 20 \<and> length (h6_src h) = 16 \<and> length (h6_dst h) = 16
     \<and> \<not> v4_mapped (h6_src h) \<and> \<not> v4_mapped (h6_dst h)"

definition v6_first_word :: "v6_header \<Rightarrow> u32" where
  "v6_first_word h = push_bit 28 6 OR push_bit 20 (ucast (h6_class h)) OR h6_flow h"

definition v6_bytes :: "v6_header \<Rightarrow> bytes" where
  "v6_bytes h =
     (let w = v6_first_word h
      in [byte32 3 w, byte32 2 w, byte32 1 w, byte32 0 w, hi8 (h6_plen h), lo8 (h6_plen h),
          h6_nxt h, h6_hlim h] @ h6_src h @ h6_dst h)"

datatype v6_extension =
    OptionsExt bool bytes              \<comment> \<open>hop-by-hop or destination options, after the two bytes\<close>
  | FragmentExt u16 bool u32           \<comment> \<open>offset in units of 8 bytes, more fragments, identification\<close>

fun ext_proto :: "v6_extension \<Rightarrow> u8" where
  "ext_proto (OptionsExt dest _) = (if dest then IPPROTO_DSTOPTS else IPPROTO_HOPOPTS)"
| "ext_proto (FragmentExt _ _ _) = IPPROTO_FRAGMENT"

fun wf_ext :: "v6_extension \<Rightarrow> bool" where
  "wf_ext (OptionsExt _ body) \<longleftrightarrow> (\<exists>k < 256. length body = 8 * k + 6)"
| "wf_ext (FragmentExt off _ _) \<longleftrightarrow> unat off < 8192"

definition frag_word :: "u16 \<Rightarrow> bool \<Rightarrow> u16" where
  "frag_word off mf = push_bit 3 off OR of_bool mf"

fun ext_bytes :: "u8 \<Rightarrow> v6_extension \<Rightarrow> bytes" where
  "ext_bytes nxt (OptionsExt _ body) = nxt # word_of_nat (length body div 8) # body"
| "ext_bytes nxt (FragmentExt off mf ident) =
     [nxt, 0, hi8 (frag_word off mf), lo8 (frag_word off mf),
      byte32 3 ident, byte32 2 ident, byte32 1 ident, byte32 0 ident]"

fun chain_proto :: "v6_extension list \<Rightarrow> u8 \<Rightarrow> u8" where
  "chain_proto [] final = final"
| "chain_proto (e # es) final = ext_proto e"

fun chain_bytes :: "v6_extension list \<Rightarrow> u8 \<Rightarrow> bytes" where
  "chain_bytes [] final = []"
| "chain_bytes (e # es) final = ext_bytes (chain_proto es final) e @ chain_bytes es final"

text \<open>What the walk makes of them: of the options it keeps a part only.\<close>

fun ext_object :: "u8 \<Rightarrow> v6_extension \<Rightarrow> v6opt_obj" where
  "ext_object nxt (OptionsExt dest body) =
     alloc_v6opt\<lparr>v6_type := ext_proto (OptionsExt dest body), v6_next_header := nxt,
       v6_hlen := word_of_nat (length body div 8),
       v6_option := Some (take (length body div 8) (drop 2 body))\<rparr>"
| "ext_object nxt (FragmentExt off mf ident) =
     alloc_v6opt\<lparr>v6_type := IPPROTO_FRAGMENT, v6_next_header := nxt, v6_hlen := 0,
       v6_offset := push_bit 3 off, v6_m_flag := mf, v6_identification := ident\<rparr>"

fun chain_objects :: "v6_extension list \<Rightarrow> u8 \<Rightarrow> v6opt_obj list" where
  "chain_objects [] final = []"
| "chain_objects (e # es) final = ext_object (chain_proto es final) e # chain_objects es final"

lemma not_v4_mapped [simp]: "x \<noteq> 0 \<Longrightarrow> \<not> v4_mapped (x # xs)"
  by (simp add: v4_mapped_def numeral_eq_Suc)

definition v6_object :: "v6_header \<Rightarrow> v6opt_obj list \<Rightarrow> ip_obj" where
  "v6_object h opts = alloc_ip\<lparr>
     ip_version := 6, ip_priority := 0,
     ip_flow_label := be32 (byte32 3 (v6_first_word h)) (byte32 2 (v6_first_word h))
                        (byte32 1 (v6_first_word h) AND 0x0f) 0,
     ip_length := h6_plen h, ip_protocol := scast (h6_nxt h), ip_hop_limit := ucast (h6_hlim h),
     ip_src_ip := Some (h6_src h), ip_dst_ip := Some (h6_dst h),
     ip_options := (if opts = [] then None else Some opts)\<rparr>"

lemma length_ext_bytes:
  "wf_ext e \<Longrightarrow> length (ext_bytes nxt e) = (case e of OptionsExt _ body \<Rightarrow> 2 + length body | _ \<Rightarrow> 8)"
  by (cases e) (auto simp: Let_def)

lemma fragment_field:
  fixes off :: u16 and mf :: bool
  defines "w \<equiv> le16 (hi8 (frag_word off mf)) (lo8 (frag_word off mf))"
  shows "ntohs (w AND IP6F_OFF_MASK) = push_bit 3 off" "(w AND IP6F_MORE_FRAG > 0) = mf"
proof -
  have w: "w = htons (frag_word off mf)" by (simp add: w_def htons_def)
  have "htons x AND htons y = htons (x AND y)" for x y
    by (rule bit_word_eqI)
       (auto simp: htons_def le16_def hi8_def lo8_def bit_simps dest: bit_imp_le_length)
  note swap = this
  have m: "(0xfff8 :: u16) = NOT (mask 3)" by (simp add: mask_eq_exp_minus_1)
  have "frag_word off mf AND 0xfff8 = push_bit 3 off"
    unfolding m by (rule bit_word_eqI) (auto simp: frag_word_def bit_simps)
  then show "ntohs (w AND IP6F_OFF_MASK) = push_bit 3 off"
    by (simp add: w swap)
  have "frag_word off mf AND 1 = of_bool mf"
    by (rule bit_word_eqI) (auto simp: frag_word_def bit_simps)
  then have "w AND IP6F_MORE_FRAG = htons (of_bool mf)"
    by (simp add: w swap)
  moreover have "htons 1 = 0x0100" by code_simp
  ultimately show "(w AND IP6F_MORE_FRAG > 0) = mf"
    by (cases mf) (simp_all add: word_gt_0)
qed

lemma v6_option_ext:
  assumes "wf_ext e" "a + length (ext_bytes nxt e) \<le> length m"
  shows "v6_option (splice m a (ext_bytes nxt e)) a (ext_proto e) =
    Inr (ext_object nxt e, a + length (ext_bytes nxt e), length (ext_bytes nxt e), nxt)"
proof (cases e)
  case (OptionsExt dest body)
  then obtain k where k: "k < 256" "length body = 8 * k + 6"
    using assms(1) by auto
  then have k': "length body div 8 = k" "unat (word_of_nat k :: u8) = k"
    by (simp_all add: unat_word_of_nat_small)
  show ?thesis
    using OptionsExt assms(2) k k' unfolding v6_option_def
    by (simp add: ld_splice ld_splice0 Let_def)
next
  case (FragmentExt off mf ident)
  then show ?thesis
    using assms fragment_field [of off mf] unfolding v6_option_def
    by (simp add: ld_splice ld_splice0 Let_def setFragmentOption_def)
qed

lemma is_ext_proto_ext [simp]: "is_ext_proto (ext_proto e)"
  by (cases e) (simp_all add: is_ext_proto_def)

lemma v6_walk_chain:
  assumes "list_all wf_ext es" "\<not> is_ext_proto final"
  shows "v6_walk (pre @ chain_bytes es final @ post) (length pre) (chain_proto es final) h packet =
    Inr (fold (\<lambda>x p. addOptionHeader p x) (chain_objects es final) packet,
         h + length (chain_bytes es final))"
  using assms(1)
proof (induction es arbitrary: pre h packet)
  case Nil
  then show ?case using assms(2) by (simp add: v6_walk.simps)
next
  case (Cons e es)
  let ?e = "ext_bytes (chain_proto es final) e" and ?c = "chain_bytes es final"
  let ?m = "pre @ ?e @ ?c @ post"
  have "splice ?m (length pre) ?e = ?m" by (simp add: splice_def)
  then have "v6_option ?m (length pre) (ext_proto e)
      = Inr (ext_object (chain_proto es final) e, length pre + length ?e, length ?e,
             chain_proto es final)"
    using v6_option_ext [of e "length pre" "chain_proto es final" ?m] Cons.prems by simp
  then show ?case
    using Cons.IH [of "pre @ ?e" "h + length ?e"
        "addOptionHeader packet (ext_object (chain_proto es final) e)"] Cons.prems
    by (subst v6_walk.simps) (simp add: ac_simps)
qed

lemma fold_addOptionHeader:
  "fold (\<lambda>x p. addOptionHeader p x) hs packet =
    packet\<lparr>ip_options := (if hs = [] then ip_options packet
      else Some (case ip_options packet of None \<Rightarrow> hs | Some xs \<Rightarrow> xs @ hs))\<rparr>"
  by (induction hs arbitrary: packet)
     (auto simp: addOptionHeader_def split: option.splits)

lemma class_lost: "(ucast ((w :: u32) AND 0x0ff00000) :: u8) = 0"
proof -
  have m: "(0x0ff00000 :: u32) = push_bit 20 (mask 8)" by (simp add: mask_eq_exp_minus_1)
  show ?thesis
    unfolding m by (rule bit_word_eqI) (simp add: bit_simps)
qed

lemma flow_kept: "le32 a b c d AND 0x000fffff = le32 a b (c AND 0x0f) 0"
proof -
  have m: "(0x000fffff :: u32) = mask 20" "(0x0f :: u8) = mask 4"
    by (simp_all add: mask_eq_exp_minus_1)
  show ?thesis
    unfolding m by (rule bit_word_eqI) (auto simp: le32_def bit_simps dest: bit_imp_le_length)
qed

lemma flow_of_word:
  "ntohl (htonl w AND 0x000fffff) = be32 (byte32 3 w) (byte32 2 w) (byte32 1 w AND 0x0f) 0"
  unfolding htonl_def [of w] flow_kept by simp

lemma length_v6_bytes [simp]: "wf_v6 h \<Longrightarrow> length (v6_bytes h) = 40"
  by (simp add: wf_v6_def v6_bytes_def Let_def)

lemma analyze_ipv6_chain:
  assumes "wf_v6 h" "list_all wf_ext es" "\<not> is_ext_proto final" "h6_nxt h = chain_proto es final"
    and "40 + length (chain_bytes es final) < 65536"
  shows "analyze_ipv6 (pre @ v6_bytes h @ chain_bytes es final @ post) (length pre) =
    Inr (v6_object h (chain_objects es final), 40 + length (chain_bytes es final))"
proof -
  let ?m = "pre @ v6_bytes h @ chain_bytes es final @ post"
  let ?w = "v6_first_word h"
  have len: "length (h6_src h) = 16" "length (h6_dst h) = 16" "length (v6_bytes h) = 40"
    using assms(1) by (simp_all add: wf_v6_def)
  have self: "?m = splice ?m (length pre) (v6_bytes h)" by (simp add: splice_def)
  have at: "v6_bytes h ! 0 = byte32 3 ?w" "v6_bytes h ! 1 = byte32 2 ?w"
    "v6_bytes h ! 2 = byte32 1 ?w" "v6_bytes h ! 3 = byte32 0 ?w"
    "v6_bytes h ! 4 = hi8 (h6_plen h)" "v6_bytes h ! 5 = lo8 (h6_plen h)"
    "v6_bytes h ! 6 = h6_nxt h" "v6_bytes h ! 7 = h6_hlim h"
    "take 16 (drop 8 (v6_bytes h)) = h6_src h" "take 16 (drop 24 (v6_bytes h)) = h6_dst h"
    using len by (simp_all add: v6_bytes_def Let_def)
  have ld: "ld_bytes ?m (length pre + 8) 16 = Inr (h6_src h)"
    "ld_bytes ?m (length pre + 24) 16 = Inr (h6_dst h)"
    "ld32 ?m (length pre) = Inr (le32 (byte32 3 ?w) (byte32 2 ?w) (byte32 1 ?w) (byte32 0 ?w))"
    "ld16 ?m (length pre + 4) = Inr (le16 (hi8 (h6_plen h)) (lo8 (h6_plen h)))"
    "ld8 ?m (length pre + 6) = Inr (h6_nxt h)" "ld8 ?m (length pre + 7) = Inr (h6_hlim h)"
    by (subst self, use len at in \<open>simp add: ld_splice ld_splice0\<close>)+
  have walk: "v6_walk ?m (length pre + 40) (h6_nxt h) 40 p =
      Inr (fold (\<lambda>x p. addOptionHeader p x) (chain_objects es final) p,
           40 + length (chain_bytes es final))" for p
    using v6_walk_chain [OF assms(2,3), of "pre @ v6_bytes h" post 40 p] assms(4) len by simp
  have ads: "getByAddress (h6_src h) = Some (h6_src h)" "getByAddress (h6_dst h) = Some (h6_dst h)"
    using assms(1) by (simp_all add: wf_v6_def)
  show ?thesis
    unfolding analyze_ipv6_def
    using assms(5) ads
    by (simp add: ld walk Let_def class_lost flow_of_word fold_addOptionHeader setIPv6Value_def
        v6_object_def alloc_ip_def)
qed

section \<open>What the writer stores\<close>

definition v6_of :: "ip_obj \<Rightarrow> u16 \<Rightarrow> v6_header" where
  "v6_of p plen = \<lparr>h6_class = ip_priority p, h6_flow = ip_flow_label p, h6_plen = plen,
     h6_nxt = ucast (ip_protocol p), h6_hlim = ucast (ip_hop_limit p),
     h6_src = the (ip_src_ip p), h6_dst = the (ip_dst_ip p)\<rparr>"

definition wf_ipv6 :: "ip_obj \<Rightarrow> bool" where
  "wf_ipv6 p \<longleftrightarrow> ip_src_ip p \<noteq> None \<and> ip_dst_ip p \<noteq> None \<and> wf_v6 (v6_of p 0)"

lemma wf_v6_of: "wf_ipv6 p \<Longrightarrow> wf_v6 (v6_of p plen)"
  by (simp add: wf_ipv6_def wf_v6_def v6_of_def)

lemma first_word_of:
  assumes "unat (ip_flow_label p) < 2 ^ 20"
  shows "v6_first_word (v6_of p plen) = push_bit 28 6 OR v6_class_flow p"
proof -
  have m: "(0x0fffffff :: u32) = mask 28" by (simp add: mask_eq_exp_minus_1)
  have hi: "\<not> bit (ip_flow_label p) n" if "20 \<le> n" for n
  proof -
    have "(2 :: nat) ^ 20 \<le> 2 ^ n" using that by (intro power_increasing) auto
    then have "unat (ip_flow_label p) < 2 ^ n" using assms by linarith
    then have "\<not> bit (unat (ip_flow_label p)) n" by (simp add: bit_iff_odd)
    then show ?thesis by (simp add: bit_unsigned_iff)
  qed
  show ?thesis
    unfolding v6_first_word_def v6_class_flow_def v6_of_def m
  proof (rule bit_word_eqI)
    fix n assume "n < LENGTH(32)"
    then consider "n < 27" | "n = 27" | "28 \<le> n" by linarith
    then show "bit (push_bit 28 6 OR push_bit 20 (ucast (h6_class \<lparr>h6_class = ip_priority p,
        h6_flow = ip_flow_label p, h6_plen = plen, h6_nxt = ucast (ip_protocol p),
        h6_hlim = ucast (ip_hop_limit p), h6_src = the (ip_src_ip p),
        h6_dst = the (ip_dst_ip p)\<rparr>)) OR h6_flow \<lparr>h6_class = ip_priority p,
        h6_flow = ip_flow_label p, h6_plen = plen, h6_nxt = ucast (ip_protocol p),
        h6_hlim = ucast (ip_hop_limit p), h6_src = the (ip_src_ip p),
        h6_dst = the (ip_dst_ip p)\<rparr>) n
      = bit (push_bit 28 6 OR (push_bit 20 (scast (ip_priority p)) OR ip_flow_label p)
             AND mask 28) n"
      by cases (auto simp: bit_simps hi min_def dest: bit_imp_le_length)
  qed
qed

lemma set_ipv6_bytes:
  assumes "wf_ipv6 p" "a + 40 \<le> length m"
  shows "set_ipv6 p m a =
    Inr (splice m a (v6_bytes (v6_of p (be16 (m ! (a + 4)) (m ! (a + 5))))))"
proof -
  obtain src dst where ad: "ip_src_ip p = Some src" "ip_dst_ip p = Some dst"
    "length src = 16" "length dst = 16" and flow: "unat (ip_flow_label p) < 2 ^ 20"
    using assms(1) by (auto simp: wf_ipv6_def wf_v6_def v6_of_def)
  define x where "x = v6_class_flow p"
  define w where "w = push_bit 28 6 OR x"
  have w0: "htonl (push_bit 28 6) = le32 0x60 0 0 0" by code_simp
  have fl: "le32 0x60 0 0 0 OR htonl x = htonl w"
    unfolding w_def
    by (simp only: htonl_or w0)
  have vfc: "splice (splice m a [0, 0, 0, 0]) a [0x60] = splice m a [0x60, 0, 0, 0]"
    using assms(2) by (intro splice_eqI) (auto simp: nth_splice nth_Cons split: nat.splits)
  let ?W = "[byte32 3 w, byte32 2 w, byte32 (Suc 0) w, byte32 0 w]"
  let ?ys = "ucast (ip_protocol p) # ucast (ip_hop_limit p) # src @ dst"
  have gap: "splice (splice m a ?W) (a + 6) ?ys
      = splice m a (?W @ [m ! (a + 4), m ! (a + 5)] @ ?ys)"
    using splice_join_gap [of "a + 6" a ?W 2 ?ys m] take_2_drop [of "a + 4" m] assms(2) ad
    by (simp add: numeral_eq_Suc)
  have img: "v6_bytes (v6_of p (be16 (m ! (a + 4)) (m ! (a + 5))))
      = ?W @ [m ! (a + 4), m ! (a + 5)] @ ?ys"
    using ad first_word_of [OF flow] by (simp add: v6_bytes_def Let_def w_def x_def)
       (simp add: v6_of_def be16_def)
  show ?thesis
    unfolding img gap [symmetric]
    using assms(2) ad fl vfc
    by (simp add: set_ipv6_def st_splice x_def [symmetric] store_simps ld32_def nth_splice)
qed

section \<open>Every run ends\<close>

text \<open>
  The loop of \<^verbatim>\<open>analyze_ipv6\<close> run for a given number of turns at most; \<open>None\<close> if it has not
  ended by then. A turn that faults ends it.
\<close>

fun v6_turns :: "nat \<Rightarrow> bytes \<Rightarrow> nat \<Rightarrow> u8 \<Rightarrow> nat \<Rightarrow> ip_obj \<Rightarrow> (ip_obj \<times> nat) res option" where
  "v6_turns turns m data proto hlen packet =
     (if \<not> is_ext_proto proto then Some (Inr (packet, hlen))
      else case turns of
        0 \<Rightarrow> None
      | Suc n \<Rightarrow> (case v6_option m data proto of
          Inl e \<Rightarrow> Some (Inl e)
        | Inr (opt_hdr, data', h, nxt) \<Rightarrow> v6_turns n m data' nxt (hlen + h) (addOptionHeader packet opt_hdr)))"

declare v6_turns.simps [simp del]

text \<open>A turn reads the two bytes common to all extension headers and advances by at least eight.\<close>

lemma v6_option_step:
  "v6_option m data proto = Inr (opt, data', h, nxt) \<Longrightarrow> data + 2 \<le> length m \<and> data + 8 \<le> data' \<and> 8 \<le> h"
  by (auto simp: v6_option_def Let_def res_simps split: if_splits dest: routing_loop_data)

lemma turns_left:
  assumes "a + 2 \<le> l" "a + 8 \<le> b" "(l - a + 14) div 8 \<le> Suc n"
  shows "(l - b + 14) div 8 \<le> n"
proof (cases "b \<le> l")
  case True
  then have "(l - b + 14 + 8) div 8 \<le> (l - a + 14) div 8" using assms(2) by (intro div_le_mono) linarith
  moreover have "(l - b + 14 + 8) div 8 = Suc ((l - b + 14) div 8)" by simp
  ultimately show ?thesis using assms(3) by linarith
next
  case False
  have "(16 :: nat) div 8 \<le> (l - a + 14) div 8" using assms(1) by (intro div_le_mono) linarith
  moreover have "(l - b + 14) div 8 = 1" using False by simp
  ultimately show ?thesis using assms(3) by linarith
qed

lemma v6_turns_enough:
  "(length m - data + 14) div 8 \<le> turns \<Longrightarrow>
    v6_turns turns m data proto hlen packet = Some (v6_walk m data proto hlen packet)"
proof (induction m data proto hlen packet arbitrary: turns rule: v6_walk.induct)
  case (1 m data proto hlen packet)
  show ?case
  proof (cases "is_ext_proto proto")
    case True
    obtain n where n: "turns = Suc n" using 1(2) by (cases turns) simp_all
    show ?thesis
    proof (cases "v6_option m data proto")
      case (Inr r)
      obtain opt data' h nxt where r: "r = (opt, data', h, nxt)" by (cases r)
      have "(length m - data' + 14) div 8 \<le> n"
        using v6_option_step [OF Inr [unfolded r]] 1(2) n turns_left [of data "length m" data' n] by simp
      then have "v6_turns n m data' nxt (hlen + h) (addOptionHeader packet opt)
          = Some (v6_walk m data' nxt (hlen + h) (addOptionHeader packet opt))"
        using 1(1) [OF True Inr r [symmetric] refl refl] by blast
      then show ?thesis
        using True Inr r n by (simp add: v6_turns.simps [of _ m data] v6_walk.simps [of m data])
    qed (use True n in \<open>simp add: v6_turns.simps [of _ m data] v6_walk.simps [of m data]\<close>)
  qed (simp add: v6_turns.simps [of _ m data] v6_walk.simps [of m data])
qed

definition option_count :: "ip_obj \<Rightarrow> nat" where
  "option_count p = (case ip_options p of None \<Rightarrow> 0 | Some hs \<Rightarrow> length hs)"

lemma option_count_add [simp]: "option_count (addOptionHeader p h) = Suc (option_count p)"
  by (simp add: option_count_def addOptionHeader_def split: option.splits)

lemma v6_walk_count:
  "v6_walk m data proto hlen packet = Inr (p, n) \<Longrightarrow>
    \<exists>k. option_count p = option_count packet + k \<and> hlen + 8 * k \<le> n \<and> 8 * k \<le> length m - data + 6"
proof (induction m data proto hlen packet rule: v6_walk.induct)
  case (1 m data proto hlen packet)
  show ?case
  proof (cases "is_ext_proto proto")
    case True
    then obtain opt data' h nxt where o: "v6_option m data proto = Inr (opt, data', h, nxt)"
      and w: "v6_walk m data' nxt (hlen + h) (addOptionHeader packet opt) = Inr (p, n)"
      using 1(2) by (auto simp: v6_walk.simps [of m data] res_simps)
    obtain k where k: "option_count p = Suc (option_count packet) + k" "hlen + h + 8 * k \<le> n"
        "8 * k \<le> length m - data' + 6"
      using 1(1) [OF True o refl refl refl w] by auto
    then show ?thesis
      using v6_option_step [OF o] by (intro exI [of _ "Suc k"] conjI) (simp_all, presburger)
  qed (use 1(2) in \<open>simp add: v6_walk.simps [of m data]\<close>)
qed

section \<open>Properties\<close>

text \<open>
  C15: \<^verbatim>\<open>analyze_ipv6\<close> on an RFC 8200 header, neither of whose addresses is an IPv4-mapped
  one, followed by any chain of hop-by-hop, destination and fragment headers that with the header is
  shorter than 65536 bytes, anywhere in a buffer: it returns the length of header and chain and the
  object \<open>v6_object\<close>, which has one option per extension header, in order, and every fixed
  field except traffic class (always 0) and flow label (made of the wrong bits).
\<close>

theorem analyze_ipv6_rfc8200:
  assumes "wf_v6 h" "list_all wf_ext es" "\<not> is_ext_proto final" "h6_nxt h = chain_proto es final"
    and "40 + length (chain_bytes es final) < 65536"
  shows "analyze_ipv6 (pre @ v6_bytes h @ chain_bytes es final @ post) (length pre) =
    Inr (v6_object h (chain_objects es final), 40 + length (chain_bytes es final))"
  by (rule analyze_ipv6_chain [OF assms])

definition sample_v6 :: v6_header where
  "sample_v6 = \<lparr>h6_class = 0x2e, h6_flow = 0x12345, h6_plen = 24, h6_nxt = IPPROTO_HOPOPTS,
     h6_hlim = 64, h6_src = 0xfe # replicate 15 1, h6_dst = 0xfe # replicate 15 2\<rparr>"

theorem analyze_ipv6_rfc8200_witness:
  "analyze_ipv6 ([] @ v6_bytes sample_v6
       @ chain_bytes [OptionsExt False [1, 4, 0, 0, 0, 0], FragmentExt 5 True 77] 17 @ [9]) (length ([] :: bytes))
   = Inr (v6_object sample_v6
            (chain_objects [OptionsExt False [1, 4, 0, 0, 0, 0], FragmentExt 5 True 77] 17),
          40 + length (chain_bytes [OptionsExt False [1, 4, 0, 0, 0, 0], FragmentExt 5 True 77] 17))"
  by (rule analyze_ipv6_rfc8200)
     (simp_all add: wf_v6_def sample_v6_def is_ext_proto_def)

text \<open>
  C25: the loop of \<^verbatim>\<open>analyze_ipv6\<close> over the extension headers ends on every input, however
  the headers point: with L bytes from the first extension header to the end of the buffer it takes at
  most (L + 14) div 8 turns, the turn counted in which it reads outside the buffer, if it does. When it
  ends regularly after k turns, it has added k option objects to the packet and at least 8 k bytes to the
  header length, and 8 k is at most L + 6.
\<close>

theorem extension_walk_ends:
  "v6_turns ((length m - data + 14) div 8) m data proto hlen packet = Some (v6_walk m data proto hlen packet)
   \<and> (case v6_walk m data proto hlen packet of
        Inl e \<Rightarrow> True
      | Inr (p, n) \<Rightarrow> \<exists>k. option_count p = option_count packet + k \<and> hlen + 8 * k \<le> n
          \<and> 8 * k \<le> length m - data + 6)"
  using v6_turns_enough [OF order_refl] v6_walk_count by (auto split: sum.splits prod.splits)


definition sample_ipv6 :: ip_obj where
  "sample_ipv6 = alloc_ip\<lparr>ip_version := 6, ip_priority := 0xe0, ip_flow_label := 0x54321,
     ip_protocol := 17, ip_hop_limit := 255, ip_src_ip := Some (0xfe # replicate 15 1),
     ip_dst_ip := Some (0xfe # replicate 15 2)\<rparr>"


text \<open>
  A routing header with \<open>k\<close> addresses: all \<open>k\<close> reported addresses are the first
  one, and the pointer advances \<open>16 * k\<close> bytes further than the header length that is
  accounted for, so the next extension header is sought in the wrong place.
\<close>

theorem routing_header_skew:
  assumes "v6_option m data IPPROTO_ROUTING = Inr (opt, data', h, nxt)"
    and "k = unat (m ! (data + 1)) div 2"
  shows "data' = data + h + 16 * k \<and> h = (unat (m ! (data + 1)) + 1) * 8
       \<and> v6_addrs opt = Some (replicate k (getByAddress (take 16 (drop (data + 8) m))))"
proof -
  have addrs: "routing_loop m p d n = Inr (as, d') \<Longrightarrow> as = replicate n (take 16 (drop p m))"
    for p d n as d'
    by (induction n arbitrary: d as d') (fastforce simp: res_simps)+
  show ?thesis
    using assms
    by (auto simp: v6_option_def Let_def res_simps setRoutingOption_def map_replicate_const
        dest: routing_loop_data addrs)
qed

definition sample_routing :: bytes where
  "sample_routing = [6, 4, 0, 2, 0, 0, 0, 0] @ replicate 16 1 @ replicate 16 2"

theorem routing_header_skew_witness:
  "(72 :: nat) = 0 + 40 + 16 * 2 \<and> (40 :: nat) = (unat (sample_routing ! (0 + 1)) + 1) * 8
   \<and> v6_addrs (setRoutingOption (alloc_v6opt\<lparr>v6_type := 43, v6_next_header := 6, v6_hlen := 4\<rparr>)
        0 2 [replicate 16 1, replicate 16 1])
     = Some (replicate 2 (getByAddress (take 16 (drop (0 + 8) sample_routing))))"
proof (rule routing_header_skew)
  show "v6_option sample_routing 0 IPPROTO_ROUTING = Inr (setRoutingOption
      (alloc_v6opt\<lparr>v6_type := 43, v6_next_header := 6, v6_hlen := 4\<rparr>)
      0 2 [replicate 16 1, replicate 16 1], 72, 40, 6)"
    by code_simp
  show "2 = unat (sample_routing ! (0 + 1)) div 2"
    by (simp add: sample_routing_def)
qed

end
