(* ===== verification/Icmp.thy ===== *)
theory Icmp
  imports Ipv4
begin

text \<open>
  \<^verbatim>\<open>src/c/packet_icmp.c\<close>: reading an ICMP message, with its fall-through
  \<^verbatim>\<open>switch\<close>, and writing one with its checksum.

  \<^verbatim>\<open>analyze_icmp\<close> calls the five-argument \<^verbatim>\<open>setValue\<close> with three arguments; the
  values the callee finds in the place of the other two are the parameter \<open>stray\<close> of the model.
  The router advertisement branch is compiled where \<^verbatim>\<open>icmp_num_addrs\<close> is a macro. The
  repository's own \<^verbatim>\<open>IP_ICMP.H\<close> has no such macro, but the C library's
  \<^verbatim>\<open>netinet/ip_icmp.h\<close>, which the build includes, does.
\<close>

section \<open>Reading\<close>

definition icmp_has_id :: "u8 \<Rightarrow> bool" where
  "icmp_has_id ty \<longleftrightarrow> ty = ICMP_ECHOREPLY \<or> ty = ICMP_ECHO \<or> ty > ICMP_PARAMPROB"

definition analyze_icmp_embedded :: "icmp_obj \<Rightarrow> bytes \<Rightarrow> nat \<Rightarrow> int \<Rightarrow> icmp_obj res" where
  "analyze_icmp_embedded packet m data clen =
     (if clen < int IPv4HDRLEN + 16 then Inr packet
      else bindR (analyze_ip m (data + field struct_icmp [''icmp_dun'', ''id_ip'', ''idi_ip'']) (IPBody alloc_ip))
             (\<lambda>(ippacket, _).
           bindR (ip_part ippacket) (\<lambda>obj. Inr (packet\<lparr>ic_ippacket := Some obj\<rparr>))))"

definition analyze_icmp_mtu :: "icmp_obj \<Rightarrow> bytes \<Rightarrow> nat \<Rightarrow> icmp_obj res" where
  "analyze_icmp_mtu packet m data =
     bindR (ld16 m (data + field struct_icmp [''icmp_hun'', ''ih_pmtu'', ''ipm_nextmtu'']))
       (\<lambda>nextmtu. Inr (packet\<lparr>ic_mtu := nextmtu\<rparr>))"

definition analyze_icmp_gateway :: "icmp_obj \<Rightarrow> bytes \<Rightarrow> nat \<Rightarrow> icmp_obj res" where
  "analyze_icmp_gateway packet m data =
     bindR (ld_bytes m (data + field struct_icmp [''icmp_hun'', ''ih_gwaddr'']) 4)
       (\<lambda>addr. Inr (setRedirectIP packet addr))"

text \<open>
  The C library's \<^verbatim>\<open>struct icmp\<close> has in \<^verbatim>\<open>icmp_hun\<close> one more alternative,
  \<^verbatim>\<open>ih_rtradv\<close>: number and size of the entries and their lifetime.
\<close>

definition ih_rtradv :: ctype where
  "ih_rtradv = CStruct [(''irt_num_addrs'', CChar), (''irt_wpa'', CChar), (''irt_lifetime'', CShort)]"

lemma ih_rtradv_fields [simp]:
  "field ih_rtradv [''irt_num_addrs''] = 0" "field ih_rtradv [''irt_wpa''] = 1" "field ih_rtradv [''irt_lifetime''] = 2"
  by code_simp+

text \<open>
  Each turn of the loop over the entries reads an address for \<^verbatim>\<open>inet_ntoa\<close>, 16 bytes behind
  the start of the message, but stores the local variable \<^verbatim>\<open>addr\<close>, which only the redirect
  branch assigns, into the Java array. So the branch is defined for messages without entries only.
\<close>

definition analyze_icmp_router_ad :: "icmp_obj \<Rightarrow> bytes \<Rightarrow> nat \<Rightarrow> icmp_obj res" where
  "analyze_icmp_router_ad packet m data =
     (let icmp_hun = data + field struct_icmp [''icmp_hun'', ''ih_void'']
      in bindR (ld8 m (icmp_hun + field ih_rtradv [''irt_num_addrs''])) (\<lambda>num_addrs.
         if num_addrs > 0
         then bindR (ld_bytes m (data + field struct_icmp [''icmp_dun'', ''id_data''] + 8) 4) (\<lambda>in_addr.
              Inl (UB Uninit))
         else bindR (ld8 m (icmp_hun + field ih_rtradv [''irt_wpa''])) (\<lambda>wpa.
              bindR (ld16 m (icmp_hun + field ih_rtradv [''irt_lifetime''])) (\<lambda>lifetime.
              setRouterAdValue packet num_addrs wpa lifetime))))"

definition analyze_icmp :: "u16 \<times> u16 \<Rightarrow> bytes \<Rightarrow> nat \<Rightarrow> int \<Rightarrow> icmp_obj res" where
  "analyze_icmp stray m data clen =
     bindR (ld8 m (data + field struct_icmp [''icmp_type''])) (\<lambda>icmp_type.
     bindR (ld8 m (data + field struct_icmp [''icmp_code''])) (\<lambda>icmp_code.
     bindR (ld16 m (data + field struct_icmp [''icmp_cksum''])) (\<lambda>icmp_cksum.
     let packet = setICMPValue alloc_icmp icmp_type icmp_code icmp_cksum (fst stray) (snd stray)
     in bindR
       (if icmp_has_id icmp_type
        then bindR (ld16 m (data + field struct_icmp [''icmp_hun'', ''ih_idseq'', ''icd_id'']))
               (\<lambda>icmp_id.
             bindR (ld16 m (data + field struct_icmp [''icmp_hun'', ''ih_idseq'', ''icd_seq'']))
               (\<lambda>icmp_seq.
             Inr (setICMPID packet (signed_drop_bit 8 icmp_id) (signed_drop_bit 8 icmp_seq))))
        else Inr packet) (\<lambda>packet.
       if icmp_type = ICMP_REDIRECT
       then bindR (analyze_icmp_gateway packet m data) (\<lambda>packet.
            bindR (analyze_icmp_mtu packet m data) (\<lambda>packet.
            analyze_icmp_embedded packet m data clen))
       else if icmp_type = ICMP_UNREACH
       then bindR (analyze_icmp_mtu packet m data) (\<lambda>packet.
            analyze_icmp_embedded packet m data clen)
       else if icmp_type = ICMP_SOURCEQUENCH \<or> icmp_type = ICMP_TIMXCEED
               \<or> icmp_type = ICMP_PARAMPROB
       then analyze_icmp_embedded packet m data clen
       else if icmp_type = ICMP_ROUTERADVERT
       then analyze_icmp_router_ad packet m data
       else if icmp_type = ICMP_TSTAMP \<or> icmp_type = ICMP_TSTAMPREPLY
       then bindR (ld32 m (data + field struct_icmp [''icmp_dun'', ''id_ts'', ''its_otime'']))
              (\<lambda>otime.
            bindR (ld32 m (data + field struct_icmp [''icmp_dun'', ''id_ts'', ''its_rtime'']))
              (\<lambda>rtime.
            bindR (ld32 m (data + field struct_icmp [''icmp_dun'', ''id_ts'', ''its_ttime'']))
              (\<lambda>ttime.
            Inr (setTimestampValue packet otime rtime ttime))))
       else if icmp_type = ICMP_MASKREQ \<or> icmp_type = ICMP_MASKREPLY
       then bindR (ld32 m (data + field struct_icmp [''icmp_dun'', ''id_mask''])) (\<lambda>mask.
            Inr (packet\<lparr>ic_subnetmask := mask\<rparr>))
       else Inr packet))))"

section \<open>Writing\<close>

text \<open>
  \<^verbatim>\<open>set_icmp\<close> returns the length it adds to the packet, with the length of the data
  subtracted where the message has no data; \<^verbatim>\<open>set_packet\<close> has already counted the data.
\<close>

definition set_icmp_cksum :: "bytes \<Rightarrow> nat \<Rightarrow> nat \<Rightarrow> bytes res" where
  "set_icmp_cksum m pointer n =
     bindR (st16 m (pointer + field struct_icmp [''icmp_cksum'']) 0) (\<lambda>m.
     bindR (in_cksum m pointer n) (\<lambda>ck.
     st16 m (pointer + field struct_icmp [''icmp_cksum'']) ck))"

definition set_icmp_id :: "icmp_obj \<Rightarrow> bytes \<Rightarrow> nat \<Rightarrow> bytes res" where
  "set_icmp_id packet m pointer =
     bindR (st16 m (pointer + field struct_icmp [''icmp_hun'', ''ih_idseq'', ''icd_id''])
              (htons (ic_id packet))) (\<lambda>m.
     st16 m (pointer + field struct_icmp [''icmp_hun'', ''ih_idseq'', ''icd_seq''])
              (htons (ic_seq packet)))"

definition set_icmp_embedded :: "icmp_obj \<Rightarrow> bytes \<Rightarrow> nat \<Rightarrow> nat \<Rightarrow> (bytes \<times> int) res" where
  "set_icmp_embedded packet m pointer n =
     bindR (case ic_ippacket packet of None \<Rightarrow> Inr m
            | Some p \<Rightarrow>
                set_ip p m (pointer + field struct_icmp [''icmp_dun'', ''id_ip'', ''idi_ip''])) (\<lambda>m.
     let k = 12 + (if ic_ippacket packet = None then 0 else 20)
     in bindR (set_icmp_cksum m pointer k) (\<lambda>m. Inr (m, int k - int n)))"

definition set_icmp :: "icmp_obj \<Rightarrow> bytes \<Rightarrow> nat \<Rightarrow> bytes option \<Rightarrow> (bytes \<times> int) res" where
  "set_icmp packet m pointer data =
     (let n = (case data of None \<Rightarrow> 0 | Some d \<Rightarrow> length d); ty = ic_type packet
      in bindR (st8 m (pointer + field struct_icmp [''icmp_type'']) ty) (\<lambda>m.
         bindR (st8 m (pointer + field struct_icmp [''icmp_code'']) (ic_code packet)) (\<lambda>m.
         if ty = ICMP_ECHOREPLY \<or> ty = ICMP_ECHO
         then bindR (set_icmp_id packet m pointer) (\<lambda>m.
              bindR (case data of None \<Rightarrow> Inr m
                     | Some d \<Rightarrow>
                         st_bytes m (pointer + field struct_icmp [''icmp_dun'', ''id_data'']) d) (\<lambda>m.
              bindR (set_icmp_cksum m pointer (8 + n)) (\<lambda>m. Inr (m, 8))))
         else if ty = ICMP_REDIRECT
         then bindR (getAddress (ic_redir_ip packet)) (\<lambda>addr.
              bindR (GetByteArrayRegion (Some addr) 4) (\<lambda>gw.
              bindR (st_bytes m (pointer + field struct_icmp [''icmp_hun'', ''ih_gwaddr'']) gw) (\<lambda>m.
              set_icmp_embedded packet m pointer n)))
         else if ty = ICMP_UNREACH \<or> ty = ICMP_SOURCEQUENCH \<or> ty = ICMP_TIMXCEED
                 \<or> ty = ICMP_PARAMPROB
         then set_icmp_embedded packet m pointer n
         else if ty = ICMP_TSTAMP \<or> ty = ICMP_TSTAMPREPLY
         then bindR (set_icmp_id packet m pointer) (\<lambda>m.
              bindR (st32 m (pointer + field struct_icmp [''icmp_dun'', ''id_ts'', ''its_otime''])
                       (htonl (ic_orig_timestamp packet))) (\<lambda>m.
              bindR (st32 m (pointer + field struct_icmp [''icmp_dun'', ''id_ts'', ''its_rtime''])
                       (htonl (ic_recv_timestamp packet))) (\<lambda>m.
              bindR (st32 m (pointer + field struct_icmp [''icmp_dun'', ''id_ts'', ''its_ttime''])
                       (htonl (ic_trans_timestamp packet))) (\<lambda>m.
              bindR (set_icmp_cksum m pointer 20) (\<lambda>m. Inr (m, 20 - int n))))))
         else if ty = ICMP_MASKREQ \<or> ty = ICMP_MASKREPLY
         then bindR (set_icmp_id packet m pointer) (\<lambda>m.
              bindR (st32 m (pointer + field struct_icmp [''icmp_dun'', ''id_mask''])
                       (htonl (ic_subnetmask packet))) (\<lambda>m.
              bindR (set_icmp_cksum m pointer 12) (\<lambda>m. Inr (m, 12 - int n))))
         else Inr (m, 0))))"

section \<open>Checksums of messages\<close>

lemma set_icmp_cksum_stores:
  assumes "p + 4 + length rest \<le> length m"
    and "in_cksum (splice m p (a # b # 0 # 0 # rest)) p k = Inr ck"
  shows "set_icmp_cksum (splice m p (a # b # c # d # rest)) p k =
    Inr (splice m p (a # b # lo8 ck # hi8 ck # rest))"
proof -
  have "splice (splice m p (a # b # c # d # rest)) (p + 2) [x, y]
      = splice m p (a # b # x # y # rest)" for c d x y
    using assms(1) by (intro splice_eqI)
      (auto simp: nth_splice nth_Cons split: nat.splits)
  then show ?thesis
    using assms by (simp add: set_icmp_cksum_def st_splice)
qed

lemma set_icmp_cksum_splice:
  assumes "even (length rest)" "p + 4 + length rest \<le> length m" "k = 4 + length rest"
    and "ck = seg_sum (a # b # 0 # 0 # rest)"
  shows "set_icmp_cksum (splice m p (a # b # c # d # rest)) p k =
    Inr (splice m p (a # b # lo8 ck # hi8 ck # rest))"
proof (rule set_icmp_cksum_stores [OF assms(2)])
  let ?m0 = "splice m p (a # b # 0 # 0 # rest)"
  have "take k (drop p ?m0) = a # b # 0 # 0 # rest"
    using assms(2,3) by (intro take_drop_splice_same) simp_all
  then have total: "in_cksum_total ?m0 p k = le_sum (a # b # 0 # 0 # rest)"
    using assms(1,3) by (simp add: in_cksum_total_def)
  have "p + k + k mod 2 \<le> length ?m0" using assms(1-3) by simp
  then show "in_cksum ?m0 p k = Inr ck"
    using assms(4) by (simp only: in_cksum_value total seg_sum_def)
qed

lemma icmp_accepts:
  assumes "length rest \<le> 131000" "ck = seg_sum (a # b # 0 # 0 # rest)"
  shows "rfc1071 (a # b # lo8 ck # hi8 ck # rest) = 0"
  using rfc1071_accepts [of "[a, b]" rest ck ck] assms by simp

section \<open>Echo\<close>

definition wf_echo :: "icmp_obj \<Rightarrow> bool" where
  "wf_echo c \<longleftrightarrow> ic_type c = ICMP_ECHO \<or> ic_type c = ICMP_ECHOREPLY"

definition echo_bytes :: "icmp_obj \<Rightarrow> u16 \<Rightarrow> bytes \<Rightarrow> bytes" where
  "echo_bytes c ck d = ic_type c # ic_code c # lo8 ck # hi8 ck #
     hi8 (ic_id c) # lo8 (ic_id c) # hi8 (ic_seq c) # lo8 (ic_seq c) # d"

lemma wf_echo_cases: "wf_echo c \<Longrightarrow> ic_type c = 8 \<or> ic_type c = 0"
  by (simp add: wf_echo_def)

lemmas set_icmp_simps = set_icmp_def set_icmp_id_def set_icmp_embedded_def Let_def st_splice
  store_simps splice_join_gap [where g = 2] take_2_drop set_icmp_cksum_splice

lemma set_icmp_echo_bytes:
  assumes "wf_echo c" "even (length d)" "p + 8 + length d \<le> length m"
  shows "set_icmp c m p (Some d) =
    Inr (splice m p (echo_bytes c (seg_sum (echo_bytes c 0 d)) d), 8)"
  using wf_echo_cases [OF assms(1)] assms(2,3)
  by (elim disjE) (simp_all add: set_icmp_simps echo_bytes_def)

text \<open>For an odd payload the checksum is over the payload with its last byte replaced.\<close>

lemma set_icmp_echo_odd:
  assumes "wf_echo c" "even (length d)" "p + 10 + length d \<le> length m"
  shows "set_icmp c m p (Some (d @ [x])) =
    Inr (splice m p (echo_bytes c
      (cksum_finish (word_of_nat (le_sum (echo_bytes c 0 d)
         + unat (le16 0 (m ! (p + 9 + length d)))))) (d @ [x])), 8)"
proof -
  let ?m0 = "splice m p (echo_bytes c 0 (d @ [x]))"
  let ?ck = "cksum_finish (word_of_nat (le_sum (echo_bytes c 0 d)
         + unat (le16 0 (m ! (p + 9 + length d)))))"
  have len: "length (echo_bytes c 0 (d @ [x])) = 9 + length d" "length ?m0 = length m"
    using assms(3) by (simp_all add: echo_bytes_def)
  have "take (8 + length d) (drop p ?m0) = echo_bytes c 0 d"
    using assms(3) len by (intro nth_equalityI)
      (auto simp: nth_splice echo_bytes_def nth_append nth_Cons split: nat.splits)
  moreover have "?m0 ! (p + 9 + length d) = m ! (p + 9 + length d)"
    using assms(3) len by (simp add: nth_splice)
  ultimately have "in_cksum_total ?m0 p (9 + length d) = le_sum (echo_bytes c 0 d)
       + unat (le16 0 (m ! (p + 9 + length d)))"
    using assms(2) by (simp add: in_cksum_total_def unat_le16 add.assoc)
  moreover have "p + (9 + length d) + (9 + length d) mod 2 \<le> length ?m0"
    using assms(2,3) len by simp
  ultimately have ck: "in_cksum ?m0 p (9 + length d) = Inr ?ck"
    by (simp only: in_cksum_value)
  define r where "r = ?ck"
  have ck': "in_cksum (splice m p (ic_type c # ic_code c # 0 # 0 # hi8 (ic_id c) #
      lo8 (ic_id c) # hi8 (ic_seq c) # lo8 (ic_seq c) # d @ [x])) p (9 + length d) = Inr r"
    using ck by (simp add: echo_bytes_def r_def del: le_sum_simps)
  have fin: "set_icmp_cksum (splice m p (ic_type c # ic_code c # y # z # hi8 (ic_id c) #
      lo8 (ic_id c) # hi8 (ic_seq c) # lo8 (ic_seq c) # d @ [x])) p (9 + length d)
    = Inr (splice m p (echo_bytes c r (d @ [x])))" for y z
    using set_icmp_cksum_stores [OF _ ck', of y z] assms(3) by (simp add: echo_bytes_def)
  show ?thesis
    unfolding r_def [symmetric]
    using wf_echo_cases [OF assms(1)] assms(3) fin
    by (elim disjE)
       (simp_all add: set_icmp_simps del: set_icmp_cksum_splice)
qed

lemma signed_drop_le16: "signed_drop_bit 8 (le16 a b) = scast b"
proof (rule bit_word_eqI)
  fix n assume "n < LENGTH(16)"
  then consider "n < 7" | "n = 7" | "8 \<le> n" by linarith
  then show "bit (signed_drop_bit 8 (le16 a b)) n = bit (scast b :: u16) n"
    by cases (auto simp: le16_def bit_simps min_def dest: bit_imp_le_length)
qed

lemma analyze_icmp_echo:
  assumes "wf_echo c" "p + 8 + length d \<le> length m"
  shows "analyze_icmp stray (splice m p (echo_bytes c ck d)) p n =
    Inr (alloc_icmp\<lparr>ic_type := ic_type c, ic_code := ic_code c, ic_checksum := ck,
       ic_id := scast (lo8 (ic_id c)), ic_seq := scast (lo8 (ic_seq c))\<rparr>)"
  using wf_echo_cases [OF assms(1)] assms(2) unfolding analyze_icmp_def echo_bytes_def
  by (elim disjE) (simp_all add: ld_splice ld_splice0 Let_def icmp_has_id_def signed_drop_le16
      setICMPValue_def setICMPID_def alloc_icmp_def)

section \<open>Other messages\<close>

definition wf_timestamp :: "icmp_obj \<Rightarrow> bool" where
  "wf_timestamp c \<longleftrightarrow> ic_type c = ICMP_TSTAMP \<or> ic_type c = ICMP_TSTAMPREPLY"

definition timestamp_tail :: "icmp_obj \<Rightarrow> bytes" where
  "timestamp_tail c = concat (map (\<lambda>w. [byte32 3 w, byte32 2 w, byte32 1 w, byte32 0 w])
     [ic_orig_timestamp c, ic_recv_timestamp c, ic_trans_timestamp c])"

lemma wf_timestamp_cases: "wf_timestamp c \<Longrightarrow> ic_type c = 13 \<or> ic_type c = 14"
  by (simp add: wf_timestamp_def)

lemma set_icmp_timestamp_bytes:
  assumes "wf_timestamp c" "p + 20 \<le> length m"
  shows "set_icmp c m p None = Inr (splice m p (echo_bytes c
    (seg_sum (echo_bytes c 0 (timestamp_tail c))) (timestamp_tail c)), 20)"
  using wf_timestamp_cases [OF assms(1)] assms(2)
  by (elim disjE) (simp_all add: set_icmp_simps echo_bytes_def timestamp_tail_def)

lemma analyze_icmp_timestamp:
  assumes "wf_timestamp c" "p + 20 \<le> length m"
  shows "analyze_icmp stray (splice m p (echo_bytes c ck (timestamp_tail c))) p n =
    Inr (alloc_icmp\<lparr>ic_type := ic_type c, ic_code := ic_code c, ic_checksum := ck,
       ic_id := scast (lo8 (ic_id c)), ic_seq := scast (lo8 (ic_seq c)),
       ic_orig_timestamp := htonl (ic_orig_timestamp c),
       ic_recv_timestamp := htonl (ic_recv_timestamp c),
       ic_trans_timestamp := htonl (ic_trans_timestamp c)\<rparr>)"
  using wf_timestamp_cases [OF assms(1)] assms(2)
  unfolding analyze_icmp_def echo_bytes_def timestamp_tail_def
  by (elim disjE) (simp_all add: ld_splice ld_splice0 Let_def icmp_has_id_def signed_drop_le16
      setICMPValue_def setICMPID_def setTimestampValue_def alloc_icmp_def)

definition icmp_error :: "icmp_obj \<Rightarrow> bool" where
  "icmp_error c \<longleftrightarrow> ic_type c \<in> {ICMP_UNREACH, ICMP_SOURCEQUENCH, ICMP_TIMXCEED, ICMP_PARAMPROB}"

section \<open>Properties\<close>

text \<open>
  C21: an echo or echo reply with an even payload is written as the RFC 792 message, identifier
  and sequence number in network order, and the receiver's checksum test on it succeeds.
\<close>

theorem icmp_echo_verifies:
  assumes "wf_echo c" "even (length d)" "length d \<le> 65535" "p + 8 + length d \<le> length m"
  shows "\<exists>ck. set_icmp c m p (Some d) = Inr (splice m p (echo_bytes c ck d), 8)
            \<and> rfc1071 (echo_bytes c ck d) = 0"
  using set_icmp_echo_bytes [OF assms(1,2,4)] assms(3) icmp_accepts
  by (auto simp: echo_bytes_def)

definition sample_echo :: icmp_obj where
  "sample_echo = alloc_icmp\<lparr>ic_type := 8, ic_id := 0x1234, ic_seq := 0x0180\<rparr>"

theorem icmp_echo_verifies_witness:
  "\<exists>ck. set_icmp sample_echo (replicate 40 0) 20 (Some [1, 2])
          = Inr (splice (replicate 40 0) 20 (echo_bytes sample_echo ck [1, 2]), 8)
      \<and> rfc1071 (echo_bytes sample_echo ck [1, 2]) = 0"
  by (rule icmp_echo_verifies) (simp_all add: wf_echo_def sample_echo_def)

text \<open>
  The checksum of an echo with an odd payload does not cover the last payload byte: two
  echoes that differ only there are sent with the same checksum.
\<close>

theorem icmp_echo_odd_checksum:
  assumes "wf_echo c" "even (length d)" "p + 10 + length d \<le> length m"
  shows "\<exists>ck. set_icmp c m p (Some (d @ [x])) = Inr (splice m p (echo_bytes c ck (d @ [x])), 8)
            \<and> set_icmp c m p (Some (d @ [y])) = Inr (splice m p (echo_bytes c ck (d @ [y])), 8)"
  using set_icmp_echo_odd [OF assms, of x] set_icmp_echo_odd [OF assms, of y] by blast

theorem icmp_echo_odd_checksum_witness:
  "\<exists>ck. set_icmp sample_echo (replicate 40 0) 20 (Some ([1, 2] @ [3]))
          = Inr (splice (replicate 40 0) 20 (echo_bytes sample_echo ck ([1, 2] @ [3])), 8)
      \<and> set_icmp sample_echo (replicate 40 0) 20 (Some ([1, 2] @ [99]))
          = Inr (splice (replicate 40 0) 20 (echo_bytes sample_echo ck ([1, 2] @ [99])), 8)"
  by (rule icmp_echo_odd_checksum) (simp_all add: wf_echo_def sample_echo_def)

text \<open>
  C24: reading back a written timestamp message: type and code survive; identifier and sequence
  number come back as the sign extension of their low byte, because the raw field is shifted
  instead of converted; and the three timestamps come back byte-swapped, because the reader omits
  the conversion the writer applies.
\<close>

theorem icmp_timestamp_roundtrip:
  assumes "wf_timestamp c" "p + 20 \<le> length m"
  shows "\<exists>m' ck. set_icmp c m p None = Inr (m', 20)
      \<and> analyze_icmp stray m' p n =
          Inr (alloc_icmp\<lparr>ic_type := ic_type c, ic_code := ic_code c, ic_checksum := ck,
             ic_id := scast (lo8 (ic_id c)), ic_seq := scast (lo8 (ic_seq c)),
             ic_orig_timestamp := htonl (ic_orig_timestamp c),
             ic_recv_timestamp := htonl (ic_recv_timestamp c),
             ic_trans_timestamp := htonl (ic_trans_timestamp c)\<rparr>)"
  using set_icmp_timestamp_bytes [OF assms] analyze_icmp_timestamp [OF assms] by blast

definition sample_timestamp :: icmp_obj where
  "sample_timestamp = alloc_icmp\<lparr>ic_type := 13, ic_id := 0x1234, ic_orig_timestamp := 1\<rparr>"

theorem icmp_timestamp_roundtrip_witness:
  "\<exists>m' ck. set_icmp sample_timestamp (replicate 40 0) 20 None = Inr (m', 20)
      \<and> analyze_icmp (7, 9) m' 20 20 =
          Inr (alloc_icmp\<lparr>ic_type := ic_type sample_timestamp, ic_code := ic_code sample_timestamp,
             ic_checksum := ck, ic_id := scast (lo8 (ic_id sample_timestamp)),
             ic_seq := scast (lo8 (ic_seq sample_timestamp)),
             ic_orig_timestamp := htonl (ic_orig_timestamp sample_timestamp),
             ic_recv_timestamp := htonl (ic_recv_timestamp sample_timestamp),
             ic_trans_timestamp := htonl (ic_trans_timestamp sample_timestamp)\<rparr>)"
  by (rule icmp_timestamp_roundtrip) (simp_all add: wf_timestamp_def sample_timestamp_def)

text \<open>
  An error message (unreachable, source quench, time exceeded, parameter problem) without an
  embedded IP packet is sent as 12 bytes, the last eight of which are what the packet buffer held
  before: only type, code and checksum are written.
\<close>

theorem icmp_error_sends_buffer:
  assumes "icmp_error c" "ic_ippacket c = None" "p + 12 \<le> length m"
  shows "\<exists>ck. set_icmp c m p None = Inr (splice m p
            (ic_type c # ic_code c # lo8 ck # hi8 ck # take 8 (drop (p + 4) m)), 12)"
proof -
  let ?rest = "take 8 (drop (p + 4) m)"
  have r: "length ?rest = 8" using assms(3) by simp
  have eq: "splice m p (ic_type c # ic_code c # m ! (p + 2) # m ! (p + 3) # ?rest)
      = splice m p [ic_type c, ic_code c]"
    using assms(3) by (intro splice_eqI [symmetric])
      (auto simp: nth_splice nth_Cons numeral_eq_Suc split: nat.splits)
  have st: "set_icmp_cksum (splice m p [ic_type c, ic_code c]) p 12
      = Inr (splice m p (ic_type c # ic_code c #
          lo8 (seg_sum (ic_type c # ic_code c # 0 # 0 # ?rest)) #
          hi8 (seg_sum (ic_type c # ic_code c # 0 # 0 # ?rest)) # ?rest))"
    unfolding eq [symmetric]
    by (rule set_icmp_cksum_splice [OF _ _ _ refl]) (use r assms(3) in simp_all)
  have "ic_type c = 3 \<or> ic_type c = 4 \<or> ic_type c = 11 \<or> ic_type c = 12"
    using assms(1) by (simp add: icmp_error_def)
  then have "set_icmp c m p None = Inr (splice m p (ic_type c # ic_code c #
          lo8 (seg_sum (ic_type c # ic_code c # 0 # 0 # ?rest)) #
          hi8 (seg_sum (ic_type c # ic_code c # 0 # 0 # ?rest)) # ?rest), 12)"
    using st assms(2,3)
    by (elim disjE) (simp_all add: set_icmp_def set_icmp_embedded_def Let_def st_splice store_simps)
  then show ?thesis by blast
qed

definition sample_unreach :: icmp_obj where
  "sample_unreach = alloc_icmp\<lparr>ic_type := 3, ic_code := 1\<rparr>"

theorem icmp_error_sends_buffer_witness:
  "\<exists>ck. set_icmp sample_unreach (replicate 40 0xee) 20 None = Inr (splice (replicate 40 0xee) 20
            (ic_type sample_unreach # ic_code sample_unreach # lo8 ck # hi8 ck
             # take 8 (drop (20 + 4) (replicate 40 0xee))), 12)"
  by (rule icmp_error_sends_buffer) (simp_all add: icmp_error_def sample_unreach_def alloc_icmp_def)

end
