(* ===== verification/Arp.thy ===== *)
theory Arp
  imports Codec
begin

text \<open>
  \<^verbatim>\<open>src/c/packet_arp.c\<close>: reading an ARP packet whose address lengths are the ones it
  announces, and writing one through the fixed layout of \<^verbatim>\<open>struct ether_arp\<close>. The reader
  is compared with the variable-length format of RFC 826; reader and writer form a
  \<open>header_codec\<close> for the Ethernet/IPv4 address lengths 6 and 4.
\<close>

definition analyze_arp :: "bytes \<Rightarrow> nat \<Rightarrow> (arp_obj \<times> nat) res" where
  "analyze_arp m data =
     bindR (ld8 m (data + field ether_arp [''ea_hdr'', ''ar_hln''])) (\<lambda>hl.
     bindR (ld8 m (data + field ether_arp [''ea_hdr'', ''ar_pln''])) (\<lambda>pl.
     bindR (ld_bytes m (data + sizeof arphdr) (unat hl)) (\<lambda>sha.
     bindR (ld_bytes m (data + (sizeof arphdr + unat hl)) (unat pl)) (\<lambda>spa.
     bindR (ld_bytes m (data + (sizeof arphdr + unat hl + unat pl)) (unat hl)) (\<lambda>tha.
     bindR (ld_bytes m (data + (sizeof arphdr + unat hl + unat pl + unat hl)) (unat pl)) (\<lambda>tpa.
     bindR (ld16 m (data + field ether_arp [''ea_hdr'', ''ar_hrd''])) (\<lambda>arp_hrd.
     bindR (ld16 m (data + field ether_arp [''ea_hdr'', ''ar_pro''])) (\<lambda>arp_pro.
     bindR (ld16 m (data + field ether_arp [''ea_hdr'', ''ar_op''])) (\<lambda>arp_op.
     Inr (setARPValue alloc_arp (ntohs arp_hrd) (ntohs arp_pro) (ucast hl) (ucast pl)
            (ntohs arp_op) sha spa tha tpa,
          sizeof arphdr + unat hl * 2 + unat pl * 2))))))))))"

definition set_arp :: "arp_obj \<Rightarrow> bytes \<Rightarrow> nat \<Rightarrow> (bytes \<times> nat) res" where
  "set_arp packet m pointer =
     (let arp_hln = ucast (arp_hlen packet) :: u8;
          arp_pln = ucast (arp_plen packet) :: u8
      in bindR (st16 m (pointer + field ether_arp [''ea_hdr'', ''ar_hrd''])
                 (htons (arp_hardtype packet))) (\<lambda>m.
         bindR (st16 m (pointer + field ether_arp [''ea_hdr'', ''ar_pro''])
                 (htons (arp_prototype packet))) (\<lambda>m.
         bindR (st16 m (pointer + field ether_arp [''ea_hdr'', ''ar_op''])
                 (htons (arp_operation packet))) (\<lambda>m.
         bindR (st8 m (pointer + field ether_arp [''ea_hdr'', ''ar_hln'']) arp_hln) (\<lambda>m.
         bindR (st8 m (pointer + field ether_arp [''ea_hdr'', ''ar_pln'']) arp_pln) (\<lambda>m.
         bindR (GetByteArrayRegion (arp_sender_hardaddr packet) (unat arp_hln)) (\<lambda>sha.
         bindR (st_bytes m (pointer + field ether_arp [''arp_sha'']) sha) (\<lambda>m.
         bindR (GetByteArrayRegion (arp_sender_protoaddr packet) (unat arp_pln)) (\<lambda>spa.
         bindR (st_bytes m (pointer + field ether_arp [''arp_spa'']) spa) (\<lambda>m.
         bindR (GetByteArrayRegion (arp_target_hardaddr packet) (unat arp_hln)) (\<lambda>tha.
         bindR (st_bytes m (pointer + field ether_arp [''arp_tha'']) tha) (\<lambda>m.
         bindR (GetByteArrayRegion (arp_target_protoaddr packet) (unat arp_pln)) (\<lambda>tpa.
         bindR (st_bytes m (pointer + field ether_arp [''arp_tpa'']) tpa) (\<lambda>m.
         Inr (m, sizeof ether_arp)))))))))))))))"

section \<open>The format of RFC 826\<close>

definition arp_addr_ok :: "u16 \<Rightarrow> bytes option \<Rightarrow> bool" where
  "arp_addr_ok n a \<longleftrightarrow> (case a of None \<Rightarrow> False | Some bs \<Rightarrow> length bs = unat n)"

definition wf_arp :: "arp_obj \<Rightarrow> bool" where
  "wf_arp p \<longleftrightarrow> unat (arp_hlen p) < 256 \<and> unat (arp_plen p) < 256
     \<and> arp_addr_ok (arp_hlen p) (arp_sender_hardaddr p)
     \<and> arp_addr_ok (arp_plen p) (arp_sender_protoaddr p)
     \<and> arp_addr_ok (arp_hlen p) (arp_target_hardaddr p)
     \<and> arp_addr_ok (arp_plen p) (arp_target_protoaddr p)"

definition wf_ether_arp :: "arp_obj \<Rightarrow> bool" where
  "wf_ether_arp p \<longleftrightarrow> wf_arp p \<and> arp_hlen p = 6 \<and> arp_plen p = 4"

definition arp_fixed :: "arp_obj \<Rightarrow> bytes" where
  "arp_fixed p = [hi8 (arp_hardtype p), lo8 (arp_hardtype p), hi8 (arp_prototype p),
     lo8 (arp_prototype p), ucast (arp_hlen p), ucast (arp_plen p),
     hi8 (arp_operation p), lo8 (arp_operation p)]"

definition arp_wire :: "arp_obj \<Rightarrow> bytes" where
  "arp_wire p = arp_fixed p
     @ the (arp_sender_hardaddr p) @ the (arp_sender_protoaddr p)
     @ the (arp_target_hardaddr p) @ the (arp_target_protoaddr p)"

lemma wf_arp_cases:
  assumes "wf_arp p"
  obtains sha spa tha tpa where
    "arp_sender_hardaddr p = Some sha" "length sha = unat (arp_hlen p)"
    "arp_sender_protoaddr p = Some spa" "length spa = unat (arp_plen p)"
    "arp_target_hardaddr p = Some tha" "length tha = unat (arp_hlen p)"
    "arp_target_protoaddr p = Some tpa" "length tpa = unat (arp_plen p)"
  using assms by (auto simp: wf_arp_def arp_addr_ok_def split: option.splits)

lemma length_arp_fixed [simp]: "length (arp_fixed p) = 8"
  by (simp add: arp_fixed_def)

lemma length_arp_wire [simp]:
  "wf_arp p \<Longrightarrow> length (arp_wire p) = 8 + 2 * unat (arp_hlen p) + 2 * unat (arp_plen p)"
  by (elim wf_arp_cases) (simp add: arp_wire_def)

lemma ucast_small_u16: "unat (w :: u16) < 256 \<Longrightarrow> unat (ucast w :: u8) = unat w"
  by (simp add: unsigned_ucast_eq unsigned_take_bit_eq take_bit_nat_eq_self)

lemma ucast_ucast_u16: "unat (w :: u16) < 256 \<Longrightarrow> ucast (ucast w :: u8) = w"
  by (rule unat_eqI) (simp add: unsigned_ucast_eq unsigned_take_bit_eq take_bit_nat_eq_self)

lemma analyze_arp_wire:
  assumes "wf_arp p" "a + length (arp_wire p) \<le> length m"
  shows "analyze_arp (splice m a (arp_wire p)) a = Inr (p, length (arp_wire p))"
  using assms(1)
proof (cases rule: wf_arp_cases)
  case (1 sha spa tha tpa)
  have small: "unat (arp_hlen p) < 256" "unat (arp_plen p) < 256"
    using assms(1) by (simp_all add: wf_arp_def)
  have len: "length (arp_wire p) = 8 + 2 * unat (arp_hlen p) + 2 * unat (arp_plen p)"
    using assms(1) by simp
  have w: "arp_wire p = arp_fixed p @ sha @ spa @ tha @ tpa"
    using 1 by (simp add: arp_wire_def)
  have fixed: "arp_wire p ! 0 = hi8 (arp_hardtype p)" "arp_wire p ! 1 = lo8 (arp_hardtype p)"
    "arp_wire p ! 2 = hi8 (arp_prototype p)" "arp_wire p ! 3 = lo8 (arp_prototype p)"
    "arp_wire p ! 4 = ucast (arp_hlen p)" "arp_wire p ! 5 = ucast (arp_plen p)"
    "arp_wire p ! 6 = hi8 (arp_operation p)" "arp_wire p ! 7 = lo8 (arp_operation p)"
    by (simp_all add: w arp_fixed_def)
  have addrs: "take (unat (arp_hlen p)) (drop 8 (arp_wire p)) = sha"
    "take (unat (arp_plen p)) (drop (8 + unat (arp_hlen p)) (arp_wire p)) = spa"
    "take (unat (arp_hlen p)) (drop (8 + unat (arp_hlen p) + unat (arp_plen p)) (arp_wire p)) = tha"
    "take (unat (arp_plen p))
       (drop (8 + unat (arp_hlen p) + unat (arp_plen p) + unat (arp_hlen p)) (arp_wire p)) = tpa"
    using 1 by (simp_all add: w)
  show ?thesis
    using assms(2) small len fixed addrs 1 unfolding analyze_arp_def
    by (cases p)
       (simp add: ld_splice ld_splice0 ucast_small_u16 ucast_ucast_u16 setARPValue_def alloc_arp_def)
qed

lemma set_arp_bytes:
  assumes "wf_ether_arp p" "a + 28 \<le> length m"
  shows "set_arp p m a = Inr (splice m a (arp_wire p), 28)"
proof -
  have wf: "wf_arp p" and n: "arp_hlen p = 6" "arp_plen p = 4"
    using assms(1) by (auto simp: wf_ether_arp_def)
  show ?thesis
    using wf
  proof (cases rule: wf_arp_cases)
    case (1 sha spa tha tpa)
    then show ?thesis
      using assms(2) n
      by (simp add: set_arp_def Let_def st_splice)
         (simp add: store_simps arp_wire_def arp_fixed_def)
  qed
qed

definition put_arp :: "arp_obj \<Rightarrow> bytes \<Rightarrow> nat \<Rightarrow> bytes res" where
  "put_arp p m a = bindR (set_arp p m a) (\<lambda>r. Inr (fst r))"

definition get_arp :: "bytes \<Rightarrow> nat \<Rightarrow> arp_obj res" where
  "get_arp m a = bindR (analyze_arp m a) (\<lambda>r. Inr (fst r))"

lemma length_ether_arp_wire: "wf_ether_arp p \<Longrightarrow> length (arp_wire p) = 28"
  by (simp add: wf_ether_arp_def)

interpretation arp: header_codec put_arp get_arp arp_wire 28 wf_ether_arp
  by unfold_locales
     (simp_all add: length_ether_arp_wire put_arp_def set_arp_bytes get_arp_def
        analyze_arp_wire wf_ether_arp_def)

text \<open>
  C23: \<^verbatim>\<open>analyze_arp\<close> reads every RFC 826 packet, whatever address lengths it
  announces: the nine values of the wire format come back, and the length returned is the length
  of the packet, so that the bytes after it are taken as data.
\<close>

theorem analyze_arp_rfc826:
  assumes "wf_arp p"
  shows "analyze_arp (pre @ arp_wire p @ post) (length pre) = Inr (p, length (arp_wire p))"
proof -
  have "splice (pre @ arp_wire p @ post) (length pre) (arp_wire p) = pre @ arp_wire p @ post"
    by (simp add: splice_def)
  then show ?thesis
    using analyze_arp_wire [OF assms, of "length pre" "pre @ arp_wire p @ post"] by simp
qed

theorem analyze_arp_rfc826_witness:
  "analyze_arp ([0xAA] @ arp_wire \<lparr>arp_hardtype = 1, arp_prototype = 0x0800, arp_hlen = 2,
        arp_plen = 1, arp_operation = 2, arp_sender_hardaddr = Some [1, 2],
        arp_sender_protoaddr = Some [3], arp_target_hardaddr = Some [4, 5],
        arp_target_protoaddr = Some [6]\<rparr> @ [7]) (length [0xAA :: u8])
   = Inr (\<lparr>arp_hardtype = 1, arp_prototype = 0x0800, arp_hlen = 2,
        arp_plen = 1, arp_operation = 2, arp_sender_hardaddr = Some [1, 2],
        arp_sender_protoaddr = Some [3], arp_target_hardaddr = Some [4, 5],
        arp_target_protoaddr = Some [6]\<rparr>,
      length (arp_wire \<lparr>arp_hardtype = 1, arp_prototype = 0x0800, arp_hlen = 2,
        arp_plen = 1, arp_operation = 2, arp_sender_hardaddr = Some [1, 2],
        arp_sender_protoaddr = Some [3], arp_target_hardaddr = Some [4, 5],
        arp_target_protoaddr = Some [6]\<rparr>))"
  by (rule analyze_arp_rfc826) (simp add: wf_arp_def arp_addr_ok_def)

text \<open>
  C22: for Ethernet and IPv4 addresses \<^verbatim>\<open>set_arp\<close> writes the 28-byte packet that
  \<^verbatim>\<open>analyze_arp\<close> reads back unchanged, and nothing else in the buffer changes.
\<close>

theorem arp_roundtrip:
  assumes "wf_ether_arp p" "a + 28 \<le> length m"
  shows "\<exists>m'. set_arp p m a = Inr (m', 28) \<and> analyze_arp m' a = Inr (p, 28)
              \<and> take a m' = take a m \<and> drop (a + 28) m' = drop (a + 28) m"
  using arp.enc_returns [OF assms] set_arp_bytes [OF assms] analyze_arp_wire [of p a m] assms
  by (auto simp: put_arp_def length_ether_arp_wire wf_ether_arp_def)

theorem arp_roundtrip_witness:
  "\<exists>m'. set_arp \<lparr>arp_hardtype = 1, arp_prototype = 0x0800, arp_hlen = 6,
        arp_plen = 4, arp_operation = 2, arp_sender_hardaddr = Some [1, 2, 3, 4, 5, 6],
        arp_sender_protoaddr = Some [10, 0, 0, 1], arp_target_hardaddr = Some [6, 5, 4, 3, 2, 1],
        arp_target_protoaddr = Some [10, 0, 0, 2]\<rparr> (replicate 42 0) 14 = Inr (m', 28)
    \<and> analyze_arp m' 14 = Inr (\<lparr>arp_hardtype = 1, arp_prototype = 0x0800, arp_hlen = 6,
        arp_plen = 4, arp_operation = 2, arp_sender_hardaddr = Some [1, 2, 3, 4, 5, 6],
        arp_sender_protoaddr = Some [10, 0, 0, 1], arp_target_hardaddr = Some [6, 5, 4, 3, 2, 1],
        arp_target_protoaddr = Some [10, 0, 0, 2]\<rparr>, 28)
    \<and> take 14 m' = take 14 (replicate 42 0) \<and> drop (14 + 28) m' = drop (14 + 28) (replicate 42 0)"
  by (rule arp_roundtrip) (simp_all add: wf_ether_arp_def wf_arp_def arp_addr_ok_def)

end
