(* ===== verification/Datalink.thy ===== *)
theory Datalink
  imports Codec
begin

text \<open>
  \<^verbatim>\<open>src/c/packet_datalink.c\<close>: reading and writing the Ethernet header.
  \<^verbatim>\<open>DatalinkPacket\<close> is an abstract class, so the default branch of
  \<open>analyze_datalink\<close>, which calls \<^verbatim>\<open>AllocObject\<close> on it, leaves an
  \<^verbatim>\<open>InstantiationException\<close> pending.
\<close>

definition analyze_datalink :: "bytes \<Rightarrow> nat \<Rightarrow> nat \<Rightarrow> eth_obj res" where
  "analyze_datalink m data linktype =
     (if linktype = DLT_EN10MB
      then bindR (ld_bytes m (data + field ether_header [''ether_src'']) 6) (\<lambda>src_addr.
           bindR (ld_bytes m (data + field ether_header [''ether_dest'']) 6) (\<lambda>dst_addr.
           bindR (ld16 m (data + field ether_header [''ether_type''])) (\<lambda>ether_type.
           Inr (setEthernetValue alloc_eth dst_addr src_addr (ntohs ether_type)))))
      else Inl (Exn InstantiationException))"

text \<open>
  \<^verbatim>\<open>GetByteArrayRegion\<close> straight into the packet. For an array that is too short it copies
  nothing and leaves an exception pending; the code goes on, and the \<^verbatim>\<open>ExceptionDescribe\<close>
  at the end prints and clears it, so the bytes of the buffer are sent as the address.
\<close>

definition copy_region :: "bytes option \<Rightarrow> nat \<Rightarrow> bytes \<Rightarrow> nat \<Rightarrow> bytes res" where
  "copy_region a n m dst =
     (case a of
        None \<Rightarrow> Inl (UB NullPtr)
      | Some bs \<Rightarrow> if n \<le> length bs then st_bytes m dst (take n bs) else Inr m)"

definition set_ether :: "eth_obj option \<Rightarrow> bytes \<Rightarrow> nat \<Rightarrow> (bytes \<times> nat) res" where
  "set_ether datalink m pointer =
     (case datalink of
        None \<Rightarrow> Inr (m, 0)
      | Some e \<Rightarrow>
          bindR (copy_region (eth_src_mac e) 6 m (pointer + field ether_header [''ether_src''])) (\<lambda>m.
          bindR (copy_region (eth_dst_mac e) 6 m (pointer + field ether_header [''ether_dest''])) (\<lambda>m.
          bindR (st16 m (pointer + field ether_header [''ether_type'']) (htons (eth_frametype e)))
            (\<lambda>m.
          Inr (m, sizeof ether_header)))))"

section \<open>The Ethernet header as a codec\<close>

definition wf_eth :: "eth_obj \<Rightarrow> bool" where
  "wf_eth e \<longleftrightarrow> (\<exists>dst src. eth_dst_mac e = Some dst \<and> eth_src_mac e = Some src
                        \<and> length dst = 6 \<and> length src = 6)"

definition eth_bytes :: "eth_obj \<Rightarrow> bytes" where
  "eth_bytes e = the (eth_dst_mac e) @ the (eth_src_mac e)
                 @ [hi8 (eth_frametype e), lo8 (eth_frametype e)]"

lemma length_eth_bytes [simp]: "wf_eth e \<Longrightarrow> length (eth_bytes e) = 14"
  by (auto simp: wf_eth_def eth_bytes_def)

lemma set_ether_bytes:
  assumes "wf_eth e" "a + 14 \<le> length m"
  shows "set_ether (Some e) m a = Inr (splice m a (eth_bytes e), 14)"
proof -
  obtain dst src where e: "eth_dst_mac e = Some dst" "eth_src_mac e = Some src"
    "length dst = 6" "length src = 6"
    using assms(1) by (auto simp: wf_eth_def)
  have "set_ether (Some e) m a
      = Inr (splice (splice (splice m (a + 6) src) a dst) (a + 12)
               [hi8 (eth_frametype e), lo8 (eth_frametype e)], 14)"
    using e assms(2) by (simp add: set_ether_def copy_region_def st_bytes_def st16_def)
  also have "splice (splice (splice m (a + 6) src) a dst) (a + 12)
               [hi8 (eth_frametype e), lo8 (eth_frametype e)] = splice m a (eth_bytes e)"
    using e assms(2)
    by (intro nth_equalityI) (auto simp: nth_splice eth_bytes_def nth_append add.commute [of a])
  finally show ?thesis .
qed

lemma analyze_datalink_bytes:
  assumes "wf_eth e" "a + 14 \<le> length m"
  shows "analyze_datalink (splice m a (eth_bytes e)) a DLT_EN10MB = Inr e"
proof -
  obtain dst src where e: "eth_dst_mac e = Some dst" "eth_src_mac e = Some src"
    "length dst = 6" "length src = 6"
    using assms(1) by (auto simp: wf_eth_def)
  have "length (eth_bytes e) = 14" using assms(1) by simp
  then show ?thesis
    using e assms(2) unfolding analyze_datalink_def
    by (simp add: ld_splice ld_splice0, simp add: eth_bytes_def nth_append setEthernetValue_def
        alloc_eth_def)
qed

definition put_ether :: "eth_obj \<Rightarrow> bytes \<Rightarrow> nat \<Rightarrow> bytes res" where
  "put_ether e m a = bindR (set_ether (Some e) m a) (\<lambda>r. Inr (fst r))"

interpretation eth: header_codec put_ether "\<lambda>m a. analyze_datalink m a DLT_EN10MB" eth_bytes 14 wf_eth
  by unfold_locales
     (simp, simp add: put_ether_def set_ether_bytes, rule analyze_datalink_bytes)

text \<open>
  An Ethernet header written by \<^verbatim>\<open>set_ether\<close> and read by
  \<^verbatim>\<open>analyze_datalink\<close> is the same header: 14 bytes, source, destination and frame type
  unchanged, and the rest of the packet buffer untouched.
\<close>

theorem ether_roundtrip:
  assumes "wf_eth e" "a + 14 \<le> length m"
  shows "\<exists>m'. set_ether (Some e) m a = Inr (m', 14) \<and> analyze_datalink m' a DLT_EN10MB = Inr e
              \<and> take a m' = take a m \<and> drop (a + 14) m' = drop (a + 14) m"
  using eth.enc_returns [OF assms] set_ether_bytes [OF assms] by (auto simp: put_ether_def)

theorem ether_roundtrip_witness:
  "\<exists>m'. set_ether (Some \<lparr>eth_dst_mac = Some [1, 2, 3, 4, 5, 6], eth_src_mac = Some [7, 8, 9, 10, 11, 12],
            eth_frametype = 0x0800\<rparr>) (replicate 20 0) 2 = Inr (m', 14)
      \<and> analyze_datalink m' 2 DLT_EN10MB
          = Inr \<lparr>eth_dst_mac = Some [1, 2, 3, 4, 5, 6], eth_src_mac = Some [7, 8, 9, 10, 11, 12],
              eth_frametype = 0x0800\<rparr>
      \<and> take 2 m' = take 2 (replicate 20 0) \<and> drop (2 + 14) m' = drop (2 + 14) (replicate 20 0)"
  by (rule ether_roundtrip) (simp_all add: wf_eth_def)

end
