(* ===== verification/Sender.thy ===== *)
theory Sender
  imports Tcp Ipv4 Ipv6 Icmp Arp Datalink
begin

text \<open>
  \<^verbatim>\<open>set_packet\<close> of \<^verbatim>\<open>src/c/JpcapSender.c\<close>: a Java packet object is
  written into the stack buffer of \<^verbatim>\<open>nativeSendPacket\<close>, layer by layer, in the phases
  of the C function; then the buffer is padded to the Ethernet minimum. A buffer is a byte string of
  length \<^verbatim>\<open>MAX_PACKET_SIZE\<close> whose initial contents are arbitrary, because the C array
  is not initialised. The results are stated over RFC 791 headers and the segments of the transport
  theories.
\<close>

section \<open>The phases of \<^verbatim>\<open>set_packet\<close>\<close>

text \<open>\<^verbatim>\<open>IsInstanceOf(packet, IPPacket)\<close> and the fields it gives access to.\<close>

fun body_ip :: "body \<Rightarrow> ip_obj option" where
  "body_ip PlainBody = None"
| "body_ip (IPBody i) = Some i"
| "body_ip (TCPBody i t) = Some i"
| "body_ip (UDPBody i u) = Some i"
| "body_ip (ICMPBody i c) = Some i"
| "body_ip (ARPBody a) = None"

definition set_network :: "ip_obj \<Rightarrow> bytes \<Rightarrow> nat \<Rightarrow> (bytes \<times> nat) res" where
  "set_network i m ip =
     (if ip_version i = 4
      then bindR (set_ip i m ip) (\<lambda>m. Inr (m, IPv4HDRLEN))
      else bindR (set_ipv6 i m ip) (\<lambda>m. Inr (m, 40)))"

text \<open>
  Protocol and length fields, which \<^verbatim>\<open>set_packet\<close> stores in host order; the length
  includes the network header in both versions.
\<close>

definition set_proto :: "u8 \<Rightarrow> u8 \<Rightarrow> bytes \<Rightarrow> nat \<Rightarrow> bytes res" where
  "set_proto ver proto m ip =
     (if ver = 4 then st8 m (ip + field struct_ip [''ip_p'']) proto
      else st8 m (ip + field ip6_hdr [''ip6_ctlun'', ''ip6_un1'', ''ip6_un1_nxt'']) proto)"

definition set_length :: "u8 \<Rightarrow> int \<Rightarrow> bytes \<Rightarrow> nat \<Rightarrow> bytes res" where
  "set_length ver n m ip =
     (if ver = 4 then st16 m (ip + field struct_ip [''ip_len'']) (word_of_int n)
      else st16 m (ip + field ip6_hdr [''ip6_ctlun'', ''ip6_un1'', ''ip6_un1_plen'']) (word_of_int n))"

text \<open>
  Lines 266 to 318: \<open>n\<close> is \<^verbatim>\<open>length\<close> with the network header already added and
  \<open>hl\<close> the length of that header, so the transport header starts at \<open>ip + hl\<close>.
\<close>

definition set_transport ::
  "packet \<Rightarrow> ip_obj \<Rightarrow> bytes \<Rightarrow> nat \<Rightarrow> nat \<Rightarrow> int \<Rightarrow> (bytes \<times> int) res" where
  "set_transport p i m ip hl n =
     (let ver = ip_version i in
      case pk_body p of
        TCPBody _ t \<Rightarrow>
          let n = n + int TCPHDRLEN
          in bindR (set_proto ver IPPROTO_TCP m ip) (\<lambda>m.
             bindR (set_length ver n m ip) (\<lambda>m.
             bindR (set_tcp t m (ip + hl) (pk_data p) ip) (\<lambda>m. Inr (m, n))))
      | UDPBody _ u \<Rightarrow>
          let n = n + int UDPHDRLEN
          in bindR (set_proto ver IPPROTO_UDP m ip) (\<lambda>m.
             bindR (set_length ver n m ip) (\<lambda>m.
             bindR (set_udp u m (ip + hl) (pk_data p) ip) (\<lambda>m. Inr (m, n))))
      | ICMPBody _ c \<Rightarrow>
          bindR (set_icmp c m (ip + hl) (pk_data p)) (\<lambda>(m, k).
          bindR (set_proto ver IPPROTO_ICMP m ip) (\<lambda>m.
          bindR (set_length ver (n + k) m ip) (\<lambda>m. Inr (m, n + k))))
      | _ \<Rightarrow>
          bindR (if ver = 4 then set_proto ver (ucast (ip_protocol i)) m ip else Inr m) (\<lambda>m.
          bindR (set_length ver n m ip) (\<lambda>m.
          bindR (GetByteArrayRegion (pk_data p) (nat (n - int hl))) (\<lambda>bs.
          bindR (st_bytes m (ip + hl) bs) (\<lambda>m. Inr (m, n))))))"

text \<open>Lines 320 to 327 (\<^verbatim>\<open>BSD_BUG\<close> is not defined on the target).\<close>

definition finish_ip :: "bytes \<Rightarrow> nat \<Rightarrow> bytes res" where
  "finish_ip m ip =
     bindR (ld16 m (ip + field struct_ip [''ip_len''])) (\<lambda>ip_len.
     bindR (st16 m (ip + field struct_ip [''ip_len'']) (htons ip_len)) (\<lambda>m.
     bindR (ld16 m (ip + field struct_ip [''ip_off''])) (\<lambda>ip_off.
     bindR (st16 m (ip + field struct_ip [''ip_off'']) (htons ip_off)) (\<lambda>m.
     bindR (st16 m (ip + field struct_ip [''ip_sum'']) 0) (\<lambda>m.
     bindR (in_cksum m ip 20) (\<lambda>ck.
     st16 m (ip + field struct_ip [''ip_sum'']) ck))))))"

definition set_packet :: "packet \<Rightarrow> bytes \<Rightarrow> bool \<Rightarrow> (bytes \<times> int) res" where
  "set_packet p m include_datalink =
     bindR (if include_datalink then set_ether (pk_datalink p) m 0 else Inr (m, 0)) (\<lambda>(m, dthlen).
     let n = (case pk_data p of None \<Rightarrow> 0 | Some d \<Rightarrow> length d)
     in bindR (case body_ip (pk_body p) of
          Some i \<Rightarrow>
            bindR (set_network i m dthlen) (\<lambda>(m, hl).
            bindR (set_transport p i m dthlen hl (int (n + hl))) (\<lambda>(m, n).
            bindR (if ip_version i = 4 then finish_ip m dthlen else Inr m) (\<lambda>m.
            Inr (m, n))))
        | None \<Rightarrow>
            (case pk_body p of
               ARPBody a \<Rightarrow> bindR (set_arp a m dthlen) (\<lambda>(m, k). Inr (m, int (n + k)))
             | _ \<Rightarrow> bindR (GetByteArrayRegion (pk_data p) n) (\<lambda>bs.
                    bindR (st_bytes m dthlen bs) (\<lambda>m. Inr (m, int n)))))
        (\<lambda>(m, n). Inr (m, n + int dthlen)))"

text \<open>
  The bytes \<^verbatim>\<open>nativeSendPacket\<close> hands to \<^verbatim>\<open>pcap_sendpacket\<close>: a short
  frame is padded to 60 bytes, with one more zero byte behind it; \<^verbatim>\<open>pcap_sendpacket\<close>
  reads the announced number of bytes from the buffer.
\<close>

definition pad_frame :: "bytes \<Rightarrow> int \<Rightarrow> (bytes \<times> int) res" where
  "pad_frame m n =
     (if n < 0 then Inl (UB OobWrite)
      else if n < 60
      then bindR (st_bytes m (nat n) (replicate (nat (60 - n + 1)) 0)) (\<lambda>m. Inr (m, 60))
      else Inr (m, n))"

definition frame_to_send :: "packet \<Rightarrow> bytes \<Rightarrow> bytes res" where
  "frame_to_send p buf =
     bindR (set_packet p buf True) (\<lambda>(m, n).
     bindR (pad_frame m n) (\<lambda>(m, n).
     ld_bytes m 0 (nat n)))"

text \<open>The bytes given to \<^verbatim>\<open>sendto\<close> by the raw-socket path.\<close>

definition raw_to_send :: "packet \<Rightarrow> bytes \<Rightarrow> bytes res" where
  "raw_to_send p buf =
     bindR (set_packet p buf False) (\<lambda>(m, n). ld_bytes m 0 (nat n))"

section \<open>The IPv4 header on the wire\<close>

text \<open>
  The header that \<^verbatim>\<open>set_packet\<close> produces from an IP object, as an RFC 791 header: flags and
  offset are whatever the two bytes of \<^verbatim>\<open>ip_off\<close> mean in network order, the checksum is
  the RFC 1071 checksum of the header with a zero checksum field.
\<close>

definition sent_v4 :: "ip_obj \<Rightarrow> u8 \<Rightarrow> nat \<Rightarrow> u16 \<Rightarrow> v4_header" where
  "sent_v4 i proto n ck = (let f = ip_off_field i in
     \<lparr>h4_tos = ip_tos_field i, h4_len = word_of_nat n, h4_id = ucast (ip_ident i),
      h4_flags = (bit f 15, bit f 14, bit f 13), h4_off = f AND IP_OFFMASK,
      h4_ttl = ucast (ip_hop_limit i), h4_proto = proto, h4_sum = ck,
      h4_src = take 4 (the (ip_src_ip i)), h4_dst = take 4 (the (ip_dst_ip i)), h4_opts = []\<rparr>)"

definition v4_sent :: "ip_obj \<Rightarrow> u8 \<Rightarrow> nat \<Rightarrow> v4_header" where
  "v4_sent i proto n = sent_v4 i proto n (rfc1071 (v4_bytes (sent_v4 i proto n 0)))"

lemma fragment_bits:
  "push_bit 15 (of_bool (bit f 15)) OR push_bit 14 (of_bool (bit f 14))
     OR push_bit 13 (of_bool (bit f 13)) OR (f AND 0x1fff) = (f :: u16)"
proof -
  have m: "(0x1fff :: u16) = mask 13" by (simp add: mask_eq_exp_minus_1)
  have c: "n < 13 \<or> n = 13 \<or> n = 14 \<or> n = 15" if "n < 16" for n :: nat using that by linarith
  show ?thesis
  proof (rule bit_word_eqI)
    fix n assume "n < LENGTH(16)"
    then show "bit (push_bit 15 (of_bool (bit f 15)) OR push_bit 14 (of_bool (bit f 14))
        OR push_bit 13 (of_bool (bit f 13)) OR (f AND 0x1fff)) n = bit f n"
      using c [of n] unfolding m by (auto simp: bit_simps)
  qed
qed

lemma v4_fragment_sent [simp]: "v4_fragment (sent_v4 i proto n ck) = ip_off_field i"
  by (simp add: v4_fragment_def sent_v4_def Let_def fragment_bits)

lemma and_1fff_lt: "unat (f AND 0x1fff :: u16) < 8192"
proof -
  have m: "(0x1fff :: u16) = mask 13" by (simp add: mask_eq_exp_minus_1)
  have "unat (f AND 0x1fff) = take_bit 13 (unat f)"
    unfolding m by (simp flip: take_bit_eq_mask add: unsigned_take_bit_eq)
  then show ?thesis by (simp add: take_bit_eq_mod)
qed

lemma sent_v4_fields [simp]:
  "h4_opts (sent_v4 i proto n ck) = []" "h4_proto (sent_v4 i proto n ck) = proto"
  "h4_len (sent_v4 i proto n ck) = word_of_nat n"
  by (simp_all add: sent_v4_def Let_def)

lemma wf_sent_v4 [simp]: "has_addrs 4 i \<Longrightarrow> wf_v4 (sent_v4 i proto n ck)" "has_addrs 4 i \<Longrightarrow> wf_v4 (v4_sent i proto n)"
  by (auto simp: sent_v4_def v4_sent_def wf_v4_def has_addrs_def Let_def and_1fff_lt)

lemma ip_off_unfragmented:
  assumes "ip_offset i = 0"
  shows "ip_off_field i AND 0x1fff = 0" "bit (ip_off_field i) 15 = ip_rsv_frag i"
    "bit (ip_off_field i) 14 = ip_dont_frag i" "bit (ip_off_field i) 13 = ip_more_frag i"
  unfolding ip_off_field_def assms htons_0
  by (cases "ip_rsv_frag i"; cases "ip_dont_frag i"; cases "ip_more_frag i"; simp; fail)+

lemma sent_unfragmented:
  assumes "ip_offset i = 0"
  shows "h4_off (v4_sent i proto n) = 0"
    "h4_flags (v4_sent i proto n) = (ip_rsv_frag i, ip_dont_frag i, ip_more_frag i)"
  using ip_off_unfragmented [OF assms] by (simp_all add: v4_sent_def sent_v4_def Let_def)

definition wire_order :: "bytes \<Rightarrow> bytes" where
  "wire_order h = [h ! 0, h ! 1, h ! 3, h ! 2, h ! 4, h ! 5, h ! 7, h ! 6, h ! 8, h ! 9, 0, 0] @ drop 12 h"

lemma header_split:
  assumes "length (h :: bytes) = 20"
  shows "h = [h ! 0, h ! 1, h ! 2, h ! 3, h ! 4, h ! 5, h ! 6, h ! 7, h ! 8, h ! 9, h ! 10, h ! 11] @ drop 12 h"
  using assms by (intro nth_equalityI) (auto simp: nth_append nth_Cons' less_Suc_eq numeral_eq_Suc)

lemma finish_ip_bytes:
  assumes "length h = 20" "a + 20 \<le> length m"
  shows "finish_ip (splice m a h) a =
    (let w = wire_order h; s = seg_sum w
     in Inr (splice m a (take 10 w @ [lo8 s, hi8 s] @ drop 12 h)))"
proof -
  let ?w = "wire_order h" and ?m = "splice (splice m a h) (a + 2) [h ! 3, h ! 2]"
  have w: "length ?w = 20" using assms by (simp add: wire_order_def)
  have off: "ld16 ?m (a + 6) = Inr (le16 (h ! 6) (h ! 7))"
    using assms by (simp add: ld16_def nth_splice)
  have st: "splice (splice ?m (a + 6) [h ! 7, h ! 6]) (a + 10) [0, 0] = splice m a ?w"
    using assms by (simp add: splice_within)
       (subst header_split [OF assms(1)], simp add: splice_def wire_order_def)
  have ck: "in_cksum (splice m a ?w) a 20 = Inr (seg_sum ?w)"
    using assms w by (simp add: in_cksum_value in_cksum_total_def seg_sum_def take_drop_splice_same)
  have fin: "splice (splice m a ?w) (a + 10) [lo8 s, hi8 s]
      = splice m a (take 10 ?w @ [lo8 s, hi8 s] @ drop 12 h)" for s
    using assms w by (simp add: splice_within)
       (simp add: splice_def wire_order_def)
  show ?thesis
    using assms w by (simp add: finish_ip_def ld_splice st_splice off st ck fin Let_def)
qed

lemma wire_order_image:
  assumes "has_addrs 4 i"
  shows "wire_order (ip_image i (lo8 (word_of_nat n)) (hi8 (word_of_nat n)) (ip_off_field i) proto c0 c1)
    = v4_bytes (sent_v4 i proto n 0)"
  using v4_fragment_sent [of i proto n 0] unfolding v4_bytes_def
  by (simp add: wire_order_def ip_image_def Let_def sent_v4_def lo8_def hi8_def)

lemma v4_bytes_sum:
  "v4_bytes (sent_v4 i proto n ck) =
     take 10 (v4_bytes (sent_v4 i proto n 0)) @ [hi8 ck, lo8 ck]
     @ drop 12 (v4_bytes (sent_v4 i proto n 0))"
  unfolding v4_bytes_def v4_fragment_sent by (simp add: sent_v4_def Let_def)

lemma v4_sent_bytes:
  assumes "has_addrs 4 i" and z: "z = v4_bytes (sent_v4 i proto n 0)"
  shows "v4_bytes (v4_sent i proto n) = take 10 z @ [lo8 (seg_sum z), hi8 (seg_sum z)] @ drop 12 z"
    and "rfc1071 (v4_bytes (v4_sent i proto n)) = 0"
proof -
  have l: "length z = 20" using assms by simp
  have "htons (seg_sum z) = rfc1071 z"
    unfolding seg_sum_def using l by (intro cksum_finish_rfc1071) simp
  then have s: "lo8 (seg_sum z) = hi8 (rfc1071 z)" "hi8 (seg_sum z) = lo8 (rfc1071 z)"
    by (metis hi8_htons lo8_htons)+
  show eq: "v4_bytes (v4_sent i proto n)
      = take 10 z @ [lo8 (seg_sum z), hi8 (seg_sum z)] @ drop 12 z"
    unfolding s unfolding v4_sent_def z by (rule v4_bytes_sum)
  have "z = take 10 z @ 0 # 0 # drop 12 z"
    using v4_bytes_sum [of i proto n 0] unfolding z by (simp add: hi8_def lo8_def)
  then show "rfc1071 (v4_bytes (v4_sent i proto n)) = 0"
    unfolding eq using l rfc1071_accepts [of "take 10 z" "drop 12 z" "seg_sum z" "seg_sum z"] by simp
qed

lemma finish_ip_image:
  assumes "has_addrs 4 i" "a + 20 \<le> length m"
  shows "finish_ip (splice m a (ip_image i (lo8 (word_of_nat n)) (hi8 (word_of_nat n))
      (ip_off_field i) proto c0 c1)) a = Inr (splice m a (v4_bytes (v4_sent i proto n)))"
proof -
  let ?h = "ip_image i (lo8 (word_of_nat n)) (hi8 (word_of_nat n)) (ip_off_field i) proto c0 c1"
  have w: "wire_order ?h = v4_bytes (sent_v4 i proto n 0)" using assms(1) by (rule wire_order_image)
  have "drop 12 ?h = drop 12 (wire_order ?h)" by (simp add: wire_order_def)
  then show ?thesis
    using assms finish_ip_bytes [of ?h a m] v4_sent_bytes(1) [OF assms(1) refl]
    by (simp add: w Let_def)
qed

text \<open>The pseudo header of RFC 768 and RFC 793 for the addresses of an IP object.\<close>

definition ip_pseudo :: "ip_obj \<Rightarrow> u8 \<Rightarrow> u16 \<Rightarrow> bytes" where
  "ip_pseudo i proto len =
     take 4 (the (ip_src_ip i)) @ take 4 (the (ip_dst_ip i)) @ [0, proto, hi8 len, lo8 len]"

section \<open>What \<^verbatim>\<open>set_packet\<close> writes for IPv4\<close>

lemma v4_sent_fields [simp]:
  "h4_opts (v4_sent i proto n) = []" "h4_proto (v4_sent i proto n) = proto"
  "h4_len (v4_sent i proto n) = word_of_nat n"
  by (simp_all add: v4_sent_def)

lemma length_v4_sent [simp]: "has_addrs 4 i \<Longrightarrow> length (v4_bytes (v4_sent i proto n)) = 20"
  by simp

lemma pseudo_image:
  assumes "has_addrs 4 i" "a + 20 \<le> length m"
  shows "pseudo_header (splice m a (ip_image i l0 l1 f proto c0 c1)) a len =
    ip_pseudo i proto len"
proof -
  obtain src dst where ad: "ip_src_ip i = Some src" "ip_dst_ip i = Some dst"
    "4 \<le> length src" "4 \<le> length dst"
    using assms(1) by (auto simp: has_addrs_def)
  let ?img = "ip_image i l0 l1 f proto c0 c1" and ?m = "splice m a (ip_image i l0 l1 f proto c0 c1)"
  have l: "length ?img = 20" using assms(1) by simp
  have "take 8 (drop (a + 12) ?m) = take 8 (drop 12 ?img)"
    using l assms(2) by (intro nth_equalityI) (auto simp: nth_splice)
  moreover have "?m ! (a + 9) = ?img ! 9" using l assms(2) by (simp add: nth_splice)
  ultimately show ?thesis
    using ad by (simp add: pseudo_header_def ip_pseudo_def ip_image_def Let_def)
qed

lemma set_proto_image:
  assumes "has_addrs 4 i" "a + 20 \<le> length m"
  shows "set_proto 4 proto (splice m a (ip_image i l0 l1 f p0 c0 c1)) a =
    Inr (splice m a (ip_image i l0 l1 f proto c0 c1))"
proof -
  have "splice (ip_image i l0 l1 f p0 c0 c1) 9 [proto] = ip_image i l0 l1 f proto c0 c1"
    by (simp add: ip_image_def Let_def splice_def)
  then show ?thesis using assms by (simp add: set_proto_def st_splice splice_within)
qed

lemma set_length_image:
  assumes "has_addrs 4 i" "a + 20 \<le> length m"
  shows "set_length 4 (int n) (splice m a (ip_image i l0 l1 f p0 c0 c1)) a =
    Inr (splice m a (ip_image i (lo8 (word_of_nat n)) (hi8 (word_of_nat n)) f p0 c0 c1))"
proof -
  have "splice (ip_image i l0 l1 f p0 c0 c1) 2 [lo8 w, hi8 w] = ip_image i (lo8 w) (hi8 w) f p0 c0 c1" for w
    by (simp add: ip_image_def Let_def splice_def)
  then show ?thesis using assms by (simp add: set_length_def st_splice splice_within)
qed

lemma finish_ip_packet:
  assumes "has_addrs 4 i" "a + 20 + length seg \<le> length m"
  shows "finish_ip (splice (splice m a (ip_image i (lo8 (word_of_nat n)) (hi8 (word_of_nat n))
      (ip_off_field i) proto c0 c1)) (a + 20) seg) a
    = Inr (splice m a (v4_bytes (v4_sent i proto n) @ seg))"
proof -
  let ?img = "ip_image i (lo8 (word_of_nat n)) (hi8 (word_of_nat n)) (ip_off_field i) proto c0 c1"
  have "splice (splice m a ?img) (a + 20) seg = splice (splice m (a + 20) seg) a ?img"
    using assms by (intro nth_equalityI) (auto simp: nth_splice)
  moreover have "splice (splice m (a + 20) seg) a (v4_bytes (v4_sent i proto n))
      = splice m a (v4_bytes (v4_sent i proto n) @ seg)"
    using assms by (simp add: store_simps)
  ultimately show ?thesis
    using assms finish_ip_image [of i a "splice m (a + 20) seg" n proto c0 c1] by simp
qed

lemma set_packet_v4:
  assumes pre: "(if dl then set_ether (pk_datalink p) m 0 else Inr (m, 0)) = Inr (m1, a)"
    and p: "body_ip (pk_body p) = Some i" "ip_version i = 4" "has_addrs 4 i"
    and n: "n = (case pk_data p of None \<Rightarrow> 0 | Some d \<Rightarrow> length d)"
    and t: "\<And>l0 l1 p0 c0 c1. set_transport p i
          (splice m1 a (ip_image i l0 l1 (ip_off_field i) p0 c0 c1)) a 20 (int (n + 20))
        = Inr (splice (splice m1 a (ip_image i (lo8 (word_of_nat k)) (hi8 (word_of_nat k))
            (ip_off_field i) proto c0 c1)) (a + 20) seg, int k)"
    and l: "a + 20 + length seg \<le> length m1"
  shows "set_packet p m dl =
    Inr (splice m1 a (v4_bytes (v4_sent i proto k) @ seg), int (a + k))"
proof -
  let ?hd = "\<lambda>c0 c1. ip_image i (lo8 (word_of_nat k)) (hi8 (word_of_nat k)) (ip_off_field i) proto c0 c1"
  have net: "set_network i m1 a = Inr (splice m1 a (ip_image i (m1 ! (a + 2)) (m1 ! (a + 3))
      (ip_off_field i) (m1 ! (a + 9)) (m1 ! (a + 10)) (m1 ! (a + 11))), 20)"
    using p l set_ip_bytes [of i a m1] by (simp add: set_network_def)
  have fin: "finish_ip (splice (splice m1 a (?hd c0 c1)) (a + 20) seg) a
      = Inr (splice m1 a (v4_bytes (v4_sent i proto k) @ seg))" for c0 c1
    using p l by (intro finish_ip_packet) auto
  show ?thesis
    unfolding set_packet_def pre using p net t fin by (simp add: Let_def add.commute flip: n)
qed

lemma set_packet_udp_bytes:
  assumes pre: "(if dl then set_ether (pk_datalink p) m 0 else Inr (m, 0)) = Inr (m1, a)"
    and p: "pk_body p = UDPBody i u" "ip_version i = 4" "has_addrs 4 i" "pk_data p = Some d"
    and c: "c = clip_length 8 (length d)" and l: "a + 28 + c \<le> length m1"
    and k: "k = 28 + length d"
    and seg: "seg = udp_segment u (udp_checksum (ip_pseudo i IPPROTO_UDP (word_of_nat (c + 8))) u
           (take c d)) (take c d)"
  shows "set_packet p m dl =
    Inr (splice m1 a (v4_bytes (v4_sent i IPPROTO_UDP k) @ seg), int (a + k))"
proof -
  have cl: "length (take c d) = c" using c clip_length_le by simp
  have ki: "int (length d + 20) + 8 = int k" using k by simp
  have b: "a + 20 \<le> length m1" using l by linarith
  have tr: "set_transport p i (splice m1 a (ip_image i l0 l1 (ip_off_field i) p0 c0 c1)) a 20
      (int (length d + 20)) = Inr (splice (splice m1 a (ip_image i (lo8 (word_of_nat k))
        (hi8 (word_of_nat k)) (ip_off_field i) IPPROTO_UDP c0 c1)) (a + 20) seg, int k)" for l0 l1 p0 c0 c1
  proof -
    let ?hd = "\<lambda>l0 l1 p0. splice m1 a (ip_image i l0 l1 (ip_off_field i) p0 c0 c1)"
    let ?m2 = "?hd (lo8 (word_of_nat k)) (hi8 (word_of_nat k)) IPPROTO_UDP"
    have st: "set_proto 4 IPPROTO_UDP (?hd l0 l1 p0) a = Inr (?hd l0 l1 IPPROTO_UDP)"
      "set_length 4 (int k) (?hd l0 l1 IPPROTO_UDP) a = Inr ?m2"
      by (rule set_proto_image [OF p(3) b] set_length_image [OF p(3) b])+
    have l2: "length ?m2 = length m1" using b p by simp
    then have "set_udp u ?m2 (a + 20) (Some d) a = Inr (splice ?m2 (a + 20) seg)"
      using set_udp_bytes [of c d a "a + 20" ?m2 u] pseudo_image [OF p(3) b] c l l2 by (simp add: seg)
    then show ?thesis
      using p st ki by (simp add: set_transport_def Let_def del: of_nat_add)
  qed
  show ?thesis
  proof (rule set_packet_v4 [OF pre _ p(2,3)])
    show "length d = (case pk_data p of None \<Rightarrow> 0 | Some d \<Rightarrow> length d)" using p by simp
    show "body_ip (pk_body p) = Some i" using p by simp
    show "a + 20 + length seg \<le> length m1" using l cl by (simp add: seg)
  qed (rule tr)
qed

lemma set_packet_tcp_bytes:
  assumes pre: "(if dl then set_ether (pk_datalink p) m 0 else Inr (m, 0)) = Inr (m1, a)"
    and p: "pk_body p = TCPBody i t" "ip_version i = 4" "has_addrs 4 i" "pk_data p = Some d"
    and c: "c = clip_length 20 (length d)" and l: "a + 40 + c \<le> length m1"
    and k: "k = 40 + length d"
    and seg: "seg = tcp_segment (m1 ! (a + 32)) t (seg_sum (ip_pseudo i IPPROTO_TCP
           (word_of_nat (c + 20)) @ tcp_segment (m1 ! (a + 32)) t 0 (take c d))) (take c d)"
  shows "set_packet p m dl =
    Inr (splice m1 a (v4_bytes (v4_sent i IPPROTO_TCP k) @ seg), int (a + k))"
proof -
  have cl: "length (take c d) = c" using c clip_length_le by simp
  have ki: "int (length d + 20) + 20 = int k" using k by simp
  have b: "a + 20 \<le> length m1" using l by linarith
  have tr: "set_transport p i (splice m1 a (ip_image i l0 l1 (ip_off_field i) p0 c0 c1)) a 20
      (int (length d + 20)) = Inr (splice (splice m1 a (ip_image i (lo8 (word_of_nat k))
        (hi8 (word_of_nat k)) (ip_off_field i) IPPROTO_TCP c0 c1)) (a + 20) seg, int k)" for l0 l1 p0 c0 c1
  proof -
    let ?hd = "\<lambda>l0 l1 p0. splice m1 a (ip_image i l0 l1 (ip_off_field i) p0 c0 c1)"
    let ?m2 = "?hd (lo8 (word_of_nat k)) (hi8 (word_of_nat k)) IPPROTO_TCP"
    have st: "set_proto 4 IPPROTO_TCP (?hd l0 l1 p0) a = Inr (?hd l0 l1 IPPROTO_TCP)"
      "set_length 4 (int k) (?hd l0 l1 IPPROTO_TCP) a = Inr ?m2"
      by (rule set_proto_image [OF p(3) b] set_length_image [OF p(3) b])+
    have l2: "length ?m2 = length m1" using b p by simp
    have x2: "?m2 ! (32 + a) = m1 ! (32 + a)"
      using p l b by (simp add: nth_splice)
    have "set_tcp t ?m2 (a + 20) (Some d) a = Inr (splice ?m2 (a + 20) seg)"
      using set_tcp_bytes [of c d a "a + 20" ?m2 t] pseudo_image [OF p(3) b] c l l2 x2
      by (simp add: seg add.commute [of a])
    then show ?thesis
      using p st ki by (simp add: set_transport_def Let_def del: of_nat_add)
  qed
  show ?thesis
  proof (rule set_packet_v4 [OF pre _ p(2,3)])
    show "length d = (case pk_data p of None \<Rightarrow> 0 | Some d \<Rightarrow> length d)" using p by simp
    show "body_ip (pk_body p) = Some i" using p by simp
    show "a + 20 + length seg \<le> length m1" using l cl by (simp add: seg)
  qed (rule tr)
qed

section \<open>The frame that is sent\<close>

lemma pad_frame_bytes:
  assumes "length fr \<le> length m" "61 \<le> length m"
  shows "bindR (pad_frame (splice m 0 fr) (int (length fr))) (\<lambda>(m, n). ld_bytes m 0 (nat n))
    = Inr (fr @ replicate (60 - length fr) 0)"
proof (cases "length fr < 60")
  case True
  let ?n = "length fr"
  have n: "nat (60 - int ?n + 1) = 61 - ?n" using True by linarith
  have z: "fr @ replicate (61 - ?n) 0 = (fr @ replicate (60 - ?n) 0) @ [0 :: u8]"
  proof -
    have "61 - ?n = Suc (60 - ?n)" using True by simp
    then show ?thesis by (simp only: replicate_Suc append_assoc flip: replicate_append_same)
  qed
  have "splice (splice m 0 fr) ?n (replicate (61 - ?n) 0) = splice m 0 (fr @ replicate (61 - ?n) 0)"
    using assms True by (intro splice_join) auto
  then show ?thesis
    using assms True by (simp add: pad_frame_def st_splice ld_bytes_def z n) (simp add: splice_def)
next
  case False
  then show ?thesis using assms by (simp add: pad_frame_def ld_bytes_def splice_def)
qed

lemma udp_segment_verifies:
  assumes "length ps = 12" "length d \<le> 65527"
  shows "rfc1071 (ps @ udp_segment u (udp_checksum ps u d) d) = 0"
proof -
  let ?s = "seg_sum (ps @ udp_segment u 0 d)"
  have "rfc1071 ((ps @ udp_hdr u (length d)) @ lo8 (udp_checksum ps u d)
      # hi8 (udp_checksum ps u d) # d) = 0"
    using assms by (intro rfc1071_accepts [where r = ?s])
      (auto simp: udp_checksum_def udp_segment_def Let_def lo8_def hi8_def)
  then show ?thesis by (simp add: udp_segment_def)
qed

lemma tcp_segment_verifies:
  assumes "length ps = 12" "length d \<le> 65515"
  shows "rfc1071 (ps @ tcp_segment x2 t (seg_sum (ps @ tcp_segment x2 t 0 d)) d) = 0"
proof -
  let ?s = "seg_sum (ps @ tcp_segment x2 t 0 d)"
  have "rfc1071 ((ps @ tcp_hdr x2 t) @ lo8 ?s # hi8 ?s # hi8 (tcp_urgent_pointer t)
      # lo8 (tcp_urgent_pointer t) # d) = 0"
    using assms by (intro rfc1071_accepts [where r = ?s])
      (auto simp: tcp_segment_def lo8_def hi8_def)
  then show ?thesis by (simp add: tcp_segment_def)
qed

lemma length_ip_pseudo [simp]: "has_addrs 4 i \<Longrightarrow> length (ip_pseudo i proto len) = 12"
  by (auto simp: ip_pseudo_def has_addrs_def)

lemma frame_to_send_bytes:
  assumes "set_packet p buf True = Inr (splice buf 0 fr, int (length fr))"
    and "length fr \<le> length buf" "61 \<le> length buf"
  shows "frame_to_send p buf = Inr (fr @ replicate (60 - length fr) 0)"
  using assms(1) pad_frame_bytes [OF assms(2,3)] by (simp add: frame_to_send_def)

lemma clip_small: "n + IPv4HDRLEN + h \<le> MAX_PACKET_SIZE \<Longrightarrow> clip_length h n = n"
  by (simp add: clip_length_def)

lemma udp_frame:
  assumes p: "pk_datalink p = Some e" "wf_eth e" "pk_body p = UDPBody i u" "ip_version i = 4"
      "has_addrs 4 i" "pk_data p = Some d"
    and l: "length d \<le> 1558" "length buf = MAX_PACKET_SIZE"
    and seg: "seg = udp_segment u (udp_checksum (ip_pseudo i IPPROTO_UDP (word_of_nat (length d + 8))) u d) d"
    and fr: "fr = eth_bytes e @ v4_bytes (v4_sent i IPPROTO_UDP (28 + length d)) @ seg"
  shows "frame_to_send p buf = Inr (fr @ replicate (60 - length fr) 0)" "length fr = 42 + length d"
proof -
  let ?m1 = "splice buf 0 (eth_bytes e)"
  show lf: "length fr = 42 + length d" using p by (simp add: fr seg)
  have pre: "(if True then set_ether (pk_datalink p) buf 0 else Inr (buf, 0)) = Inr (?m1, 14)"
    using p l by (simp add: set_ether_bytes)
  have "set_packet p buf True = Inr (splice ?m1 14 (v4_bytes (v4_sent i IPPROTO_UDP (28 + length d)) @ seg), int (14 + (28 + length d)))"
    using p l by (intro set_packet_udp_bytes [OF pre p(3-6), where c = "length d"]) (simp_all add: clip_small seg)
  moreover have "splice ?m1 14 (v4_bytes (v4_sent i IPPROTO_UDP (28 + length d)) @ seg) = splice buf 0 fr"
    unfolding fr using p l by (intro splice_join) (auto simp: seg)
  ultimately have "set_packet p buf True = Inr (splice buf 0 fr, int (length fr))" using lf by simp
  then show "frame_to_send p buf = Inr (fr @ replicate (60 - length fr) 0)"
    using l lf by (intro frame_to_send_bytes) auto
qed

lemma tcp_frame:
  assumes p: "pk_datalink p = Some e" "wf_eth e" "pk_body p = TCPBody i t" "ip_version i = 4"
      "has_addrs 4 i" "pk_data p = Some d"
    and l: "length d \<le> 1546" "length buf = MAX_PACKET_SIZE"
    and seg: "seg = tcp_segment (buf ! 46) t (seg_sum (ip_pseudo i IPPROTO_TCP (word_of_nat (length d + 20)) @ tcp_segment (buf ! 46) t 0 d)) d"
    and fr: "fr = eth_bytes e @ v4_bytes (v4_sent i IPPROTO_TCP (40 + length d)) @ seg"
  shows "frame_to_send p buf = Inr (fr @ replicate (60 - length fr) 0)" "length fr = 54 + length d"
proof -
  let ?m1 = "splice buf 0 (eth_bytes e)"
  show lf: "length fr = 54 + length d" using p by (simp add: fr seg)
  have pre: "(if True then set_ether (pk_datalink p) buf 0 else Inr (buf, 0)) = Inr (?m1, 14)"
    using p l by (simp add: set_ether_bytes)
  have x2: "?m1 ! 46 = buf ! 46" using p l by (simp add: nth_splice)
  have "set_packet p buf True = Inr (splice ?m1 14 (v4_bytes (v4_sent i IPPROTO_TCP (40 + length d)) @ seg), int (14 + (40 + length d)))"
    using p l x2 by (intro set_packet_tcp_bytes [OF pre p(3-6), where c = "length d"]) (simp_all add: clip_small seg)
  moreover have "splice ?m1 14 (v4_bytes (v4_sent i IPPROTO_TCP (40 + length d)) @ seg) = splice buf 0 fr"
    unfolding fr using p l by (intro splice_join) (auto simp: seg)
  ultimately have "set_packet p buf True = Inr (splice buf 0 fr, int (length fr))" using lf by simp
  then show "frame_to_send p buf = Inr (fr @ replicate (60 - length fr) 0)"
    using l lf by (intro frame_to_send_bytes) auto
qed

lemma set_udp_overflow:
  assumes "p + 8 + clip_length UDPHDRLEN (length d) > length m" "p + 6 \<le> length m"
  shows "set_udp u m p (Some d) ip = Inl (UB OobWrite)"
proof -
  let ?c = "clip_length 8 (length d)"
  have "min (length d) ?c = ?c" using clip_length_le by simp
  moreover have "?c \<le> length d" by (rule clip_length_le)
  ultimately show ?thesis
    using assms by (simp add: set_udp_def Let_def st_splice) (simp add: st_bytes_def)
qed

lemma udp_frame_overflow:
  assumes p: "pk_datalink p = Some e" "wf_eth e" "pk_body p = UDPBody i u" "ip_version i = 4"
      "has_addrs 4 i" "pk_data p = Some d"
    and l: "1558 < length d" "length buf = MAX_PACKET_SIZE"
  shows "frame_to_send p buf = Inl (UB OobWrite)"
proof -
  define m1 where "m1 = splice buf 0 (eth_bytes e)"
  define k where "k = 28 + length d"
  let ?hd = "\<lambda>l0 l1 p0. splice m1 14 (ip_image i l0 l1 (ip_off_field i) p0 (m1 ! 24) (m1 ! 25))"
  have l1: "length m1 = 1600" using p l by (simp add: m1_def)
  then have a: "14 + 20 \<le> length m1" by simp
  have net: "set_network i m1 14 = Inr (?hd (m1 ! 16) (m1 ! 17) (m1 ! 23), 20)"
    using p l1 set_ip_bytes [of i 14 m1] by (simp add: set_network_def)
  have st: "set_proto 4 17 (?hd l0 l1 p0) 14 = Inr (?hd l0 l1 17)"
    "set_length 4 (int k) (?hd l0 l1 17) 14
       = Inr (?hd (lo8 (word_of_nat k)) (hi8 (word_of_nat k)) 17)" for l0 l1 p0
    by (rule set_proto_image [OF p(5) a] set_length_image [OF p(5) a])+
  have lh: "length (?hd l0 l1 p0) = 1600" for l0 l1 p0 using l1 p by simp
  have ov: "set_udp u (?hd l0 l1 p0) 34 (Some d) 14 = Inl (UB OobWrite)" for l0 l1 p0
    using lh l by (intro set_udp_overflow) (auto simp: clip_length_def)
  have ki: "int (length d + 20) + 8 = int k" by (simp add: k_def)
  have eth: "set_ether (pk_datalink p) buf 0 = Inr (m1, 14)"
    using p l by (simp add: set_ether_bytes m1_def)
  have "set_packet p buf True = Inl (UB OobWrite)"
    unfolding set_packet_def if_True eth
    using p net st ov ki by (simp add: set_transport_def Let_def del: of_nat_add)
  then show ?thesis by (simp add: frame_to_send_def)
qed

lemma udp_raw:
  assumes p: "pk_body p = UDPBody i u" "ip_version i = 4" "has_addrs 4 i" "pk_data p = Some d"
    and l: "length buf = MAX_PACKET_SIZE" and c: "c = clip_length UDPHDRLEN (length d)"
    and seg: "seg = udp_segment u (udp_checksum (ip_pseudo i IPPROTO_UDP (word_of_nat (c + 8))) u
                 (take c d)) (take c d)"
  shows "raw_to_send p buf =
    (if length d \<le> 1572 then Inr (v4_bytes (v4_sent i IPPROTO_UDP (28 + length d)) @ seg)
     else Inl (UB OobRead))"
proof -
  have c': "c \<le> 1572" "c \<le> length d" "length d \<le> 1572 \<Longrightarrow> c = length d"
    unfolding c by (auto simp: clip_length_def)
  have c8: "c = clip_length 8 (length d)" using c by simp
  let ?fr = "v4_bytes (v4_sent i IPPROTO_UDP (28 + length d)) @ seg"
  have fr: "length ?fr = 28 + c" using p c' by (simp add: seg)
  have "set_packet p buf False = Inr (splice buf 0 ?fr, int (28 + length d))"
    using set_packet_udp_bytes [OF _ p c8 _ refl seg, of False buf buf 0] l c' by simp
  moreover have "take (28 + length d) (splice buf 0 ?fr) = ?fr" if "length d \<le> 1572"
    using that c' fr by (simp add: splice_def)
  ultimately show ?thesis
    using l c' fr by (simp add: raw_to_send_def ld_bytes_def nat_add_distrib)
qed

section \<open>Header checksum and IPv6 length field\<close>

lemma v6_bytes_length_field:
  "splice (v6_bytes (v6_of i x)) 4 [lo8 w, hi8 w] = v6_bytes (v6_of i (htons w))"
  by (simp add: v6_bytes_def Let_def splice_def v6_of_def v6_first_word_def)

lemma length_v6_of [simp]: "wf_ipv6 i \<Longrightarrow> length (v6_bytes (v6_of i x)) = 40"
  using wf_v6_of [of i x] by (simp add: v6_bytes_def wf_v6_def Let_def)

lemma finish_ip_verifies:
  assumes "finish_ip m a = Inr m'"
  shows "a + 20 \<le> length m'" "in_cksum m' a 20 = Inr 0"
proof -
  obtain m1 m2 ck where m1: "st16 m1 (a + 10) 0 = Inr m2" and ck: "in_cksum m2 a 20 = Inr ck"
      and m': "st16 m2 (a + 10) ck = Inr m'"
    using assms unfolding finish_ip_def bindR_eq_Inr by auto
  have z: "m2 ! (a + 10) = 0" "m2 ! (a + 10 + 1) = 0"
    using m1 by (auto simp: st16_def st_bytes_Inr nth_splice lo8_def hi8_def)
  have l: "a + 20 \<le> length m2"
    using ck in_cksum_fault [of m2 a 20] by fastforce
  then show "a + 20 \<le> length m'" using st_length(3) [OF m'] by simp
  show "in_cksum m' a 20 = Inr 0"
    using in_cksum_accepts [OF _ _ l _ _ z ck m'] by simp
qed

lemma set_packet_finishes:
  assumes "set_packet p m dl = Inr (m', n)" "body_ip (pk_body p) = Some i" "ip_version i = 4"
  obtains a m1 where "finish_ip m1 a = Inr m'" "a = 0 \<or> a = 14" "dl \<or> a = 0"
proof -
  obtain m0 a where e: "(if dl then set_ether (pk_datalink p) m 0 else Inr (m, 0)) = Inr (m0, a)"
      and f: "\<exists>m1. finish_ip m1 a = Inr m'"
    using assms unfolding set_packet_def bindR_eq_Inr by (auto simp: Let_def res_simps)
  have "a = 0 \<or> a = 14" "dl \<or> a = 0"
    using e by (auto simp: set_ether_def res_simps split: if_splits option.splits)
  with f show ?thesis using that by blast
qed

definition sample_ip :: ip_obj where
  "sample_ip = alloc_ip\<lparr>ip_version := 4, ip_priority := 2, ip_t_flag := True, ip_hop_limit := 64,
     ip_protocol := 17, ip_ident := 0x1234, ip_src_ip := Some [10, 0, 0, 1],
     ip_dst_ip := Some [192, 168, 1, 77]\<rparr>"

definition sample_udp :: udp_obj where
  "sample_udp = \<lparr>udp_src_port = 5353, udp_dst_port = 53, udp_length = 0\<rparr>"

definition sample_link :: eth_obj where
  "sample_link = \<lparr>eth_dst_mac = Some [1, 2, 3, 4, 5, 6], eth_src_mac = Some [7, 8, 9, 10, 11, 12],
     eth_frametype = 0x0800\<rparr>"

definition sample_packet :: "body \<Rightarrow> bytes \<Rightarrow> packet" where
  "sample_packet b d = (alloc_packet b)\<lparr>pk_data := Some d,
     pk_datalink := Some sample_link\<rparr>"

lemma sample_ip_facts [simp]:
  "ip_version sample_ip = 4" "has_addrs 4 sample_ip" "ip_offset sample_ip = 0"
  by (simp_all add: sample_ip_def has_addrs_def alloc_ip_def)

lemma wf_sample_link [simp]: "wf_eth sample_link" "eth_frametype sample_link = 0x0800"
  by (simp_all add: sample_link_def wf_eth_def)

lemma sample_packet_facts [simp]:
  "pk_body (sample_packet b d) = b" "pk_data (sample_packet b d) = Some d"
  "pk_datalink (sample_packet b d) = Some sample_link"
  by (simp_all add: sample_packet_def alloc_packet_def)

section \<open>Properties\<close>



text \<open>
  C13: a UDP packet object sent through the capture device: the frame handed to
  \<^verbatim>\<open>pcap_sendpacket\<close> is the Ethernet header, the IPv4 header with total length, protocol
  and checksum filled in, the UDP segment and zeros up to 60 bytes, whatever the buffer held before,
  as long as the payload has at most 1558 bytes. One byte more and the payload is stored beyond the
  end of the 1600-byte buffer: the limit in \<^verbatim>\<open>set_udp\<close> leaves room for the IP and UDP
  headers, but not for the Ethernet header.
\<close>

theorem send_udp_bounds:
  assumes "pk_datalink p = Some e" "wf_eth e" "pk_body p = UDPBody i u" "ip_version i = 4"
    and "has_addrs 4 i" "pk_data p = Some d" "length buf = MAX_PACKET_SIZE"
    and "ck = udp_checksum (ip_pseudo i IPPROTO_UDP (word_of_nat (length d + 8))) u d"
    and "fr = eth_bytes e @ v4_bytes (v4_sent i IPPROTO_UDP (28 + length d)) @ udp_segment u ck d"
  shows "frame_to_send p buf =
    (if length d \<le> 1558 then Inr (fr @ replicate (60 - length fr) 0) else Inl (UB OobWrite))"
  using udp_frame(1) [OF assms(1-6) _ assms(7) refl] udp_frame_overflow [OF assms(1-6) _ assms(7)]
  by (simp add: assms(8,9))

theorem send_udp_bounds_witness:
  "\<exists>fr. frame_to_send (sample_packet (UDPBody sample_ip sample_udp) [65, 66])
        (replicate MAX_PACKET_SIZE 0xcc)
      = (if length [65, 66 :: u8] \<le> 1558 then Inr (fr @ replicate (60 - length fr) 0)
         else Inl (UB OobWrite))"
  by (rule exI, rule send_udp_bounds [OF _ _ _ _ _ _ _ refl refl, where e = sample_link and i = sample_ip
        and u = sample_udp]) simp_all

text \<open>
  The same packet object through the raw socket, where no datalink header is written: up to 1572
  payload bytes the datagram handed to \<^verbatim>\<open>sendto\<close> is the IPv4 header followed by the UDP
  segment. Beyond, \<^verbatim>\<open>set_udp\<close> cuts the payload but \<^verbatim>\<open>set_packet\<close>
  returns the uncut length, and \<^verbatim>\<open>sendto\<close> reads past the end of the buffer.
\<close>

theorem raw_udp_bounds:
  assumes "pk_body p = UDPBody i u" "ip_version i = 4" "has_addrs 4 i" "pk_data p = Some d"
    and "length buf = MAX_PACKET_SIZE"
    and "ck = udp_checksum (ip_pseudo i IPPROTO_UDP (word_of_nat (length d + 8))) u d"
  shows "raw_to_send p buf =
    (if length d \<le> 1572
     then Inr (v4_bytes (v4_sent i IPPROTO_UDP (28 + length d)) @ udp_segment u ck d)
     else Inl (UB OobRead))"
proof (cases "length d \<le> 1572")
  case True
  then have "clip_length UDPHDRLEN (length d) = length d" by (simp add: clip_length_def)
  then show ?thesis using udp_raw [OF assms(1-5) refl refl] True by (simp add: assms(6))
next
  case False
  then show ?thesis using udp_raw [OF assms(1-5) refl refl] by simp
qed

theorem raw_udp_bounds_witness:
  "raw_to_send (sample_packet (UDPBody sample_ip sample_udp) (replicate 1573 9)) (replicate MAX_PACKET_SIZE 0)
    = (if length (replicate 1573 (9 :: u8)) \<le> 1572
       then Inr (v4_bytes (v4_sent sample_ip IPPROTO_UDP (28 + length (replicate 1573 (9 :: u8))))
          @ udp_segment sample_udp (udp_checksum (ip_pseudo sample_ip IPPROTO_UDP
              (word_of_nat (length (replicate 1573 (9 :: u8)) + 8))) sample_udp (replicate 1573 9))
            (replicate 1573 9))
       else Inl (UB OobRead))"
  by (rule raw_udp_bounds) simp_all

text \<open>
  A plain IPv6 packet object: the frame is the Ethernet header, the RFC 8200 header and the
  payload, but the payload length field holds the length with the 40 header bytes counted in, in
  host byte order.
\<close>

theorem set_packet_v6_length:
  assumes "pk_datalink p = Some e" "wf_eth e" "pk_body p = IPBody i" "ip_version i = 6"
    and "wf_ipv6 i" "pk_data p = Some d" "54 + length d \<le> length m"
    and "h = v6_of i (htons (word_of_nat (40 + length d)))"
  shows "set_packet p m True =
    Inr (splice m 0 (eth_bytes e @ v6_bytes h @ d), int (54 + length d))"
proof -
  define m1 where "m1 = splice m 0 (eth_bytes e)"
  define k where "k = length d + 40"
  define x where "x = be16 (m1 ! 18) (m1 ! 19)"
  have l1: "length m1 = length m" "54 + length d \<le> length m1" using assms by (simp_all add: m1_def)
  have eth: "set_ether (pk_datalink p) m 0 = Inr (m1, 14)"
    using assms by (simp add: set_ether_bytes m1_def)
  have net: "set_network i m1 14 = Inr (splice m1 14 (v6_bytes (v6_of i x)), 40)"
    using assms l1 set_ipv6_bytes [of i 14 m1] by (simp add: set_network_def x_def)
  have len: "set_length 6 (int k) (splice m1 14 (v6_bytes (v6_of i x))) 14
      = Inr (splice m1 14 (v6_bytes h))"
  proof -
    let ?w = "word_of_nat k :: u16"
    have "splice (splice m1 14 (v6_bytes (v6_of i x))) (14 + 4) [lo8 ?w, hi8 ?w]
        = splice m1 14 (v6_bytes (v6_of i (htons ?w)))"
      using assms l1 by (subst splice_within) (simp_all add: v6_bytes_length_field)
    moreover have "h = v6_of i (htons ?w)" using assms by (simp add: k_def add.commute)
    ultimately show ?thesis using assms l1 by (simp add: set_length_def st_splice)
  qed
  have st: "st_bytes (splice m1 14 (v6_bytes h)) 54 d = Inr (splice m 0 (eth_bytes e @ v6_bytes h @ d))"
  proof -
    have "splice (splice m1 14 (v6_bytes h)) 54 d = splice m1 14 (v6_bytes h @ d)"
      using assms l1 by (intro splice_join) auto
    also have "\<dots> = splice m 0 (eth_bytes e @ v6_bytes h @ d)"
      unfolding m1_def using assms by (intro splice_join) auto
    finally show ?thesis using assms l1 by (simp add: st_splice)
  qed
  show ?thesis
    unfolding set_packet_def if_True eth
    using assms net len st by (simp add: set_transport_def Let_def flip: k_def)
      (simp add: k_def)
qed

theorem set_packet_v6_length_witness:
  "set_packet (sample_packet (IPBody sample_ipv6) [1, 2, 3]) (replicate 70 0) True =
    Inr (splice (replicate 70 0) 0 (eth_bytes sample_link
          @ v6_bytes (v6_of sample_ipv6 (htons (word_of_nat (40 + length [1 :: u8, 2, 3]))))
          @ [1, 2, 3]), int (54 + length [1 :: u8, 2, 3]))"
  by (rule set_packet_v6_length [OF _ _ _ _ _ _ _ refl])
     (simp_all add: wf_ipv6_def wf_v6_def v6_of_def sample_ipv6_def)

end
