(* ===== verification/Captor_Packet.thy ===== *)
theory Captor_Packet
  imports Datalink Arp Ipv4 Ipv6 Tcp Udp Icmp
begin

text \<open>
  \<^verbatim>\<open>get_packet\<close> of \<^verbatim>\<open>src/c/JpcapCaptor.c\<close>: from the captured bytes to the
  Java packet object, in the phases of the function. \<^verbatim>\<open>clen\<close> and \<^verbatim>\<open>hlen\<close> are
  \<^verbatim>\<open>short\<close>, so every assignment to them is wrapped by \<open>s16\<close>; \<^verbatim>\<open>data\<close> is an
  integer offset, because the final cut of \<^verbatim>\<open>hlen\<close> can move it backwards. The captured
  bytes are a buffer of their own: a read behind them is \<open>OobRead\<close>.

  Two values are indeterminate in the C text and are parameters here: what the uninitialised
  \<^verbatim>\<open>tproto\<close> holds, and the stray arguments of the ICMP setter (theory \<open>Icmp\<close>).
\<close>

section \<open>Link types\<close>

definition offset_type :: "int list" where
  "offset_type = [0, 12, -1, -1, -1, -1, 20, -1, -1, 2, 19, 6, -1, -1, 5]"

definition offset_data :: "int list" where
  "offset_data = [4, 14, -1, -1, -1, -1, 22, -1, 16, 4, 21, 8, 0, 24, 24]"

definition at_ptr :: "int \<Rightarrow> nat res" where
  "at_ptr i = (if i < 0 then Inl (UB OobRead) else Inr (nat i))"

text \<open>The tables are indexed by the link type, which may be any number: a bad index is a fault.\<close>

definition table_at :: "int list \<Rightarrow> nat \<Rightarrow> int res" where
  "table_at t k = (if k < length t then Inr (t ! k) else Inl (UB OobRead))"

definition get_network_type :: "bytes \<Rightarrow> nat \<Rightarrow> u16 res" where
  "get_network_type m linktype =
     bindR (table_at offset_type linktype) (\<lambda>off.
     bindR (at_ptr off) (\<lambda>a.
     bindR (ld16 m a) (\<lambda>w. Inr (ntohs w))))"

definition datalink_hlen :: "nat \<Rightarrow> int res" where
  "datalink_hlen linktype = table_at offset_data linktype"

definition skip_datalink_header :: "nat \<Rightarrow> nat res" where
  "skip_datalink_header linktype = bindR (table_at offset_data linktype) at_ptr"

record pcap_pkthdr =
  ph_tv_sec :: u64
  ph_tv_usec :: u64
  ph_caplen :: u32
  ph_len :: u32

section \<open>Which protocols: first pass over the frame\<close>

definition detect_network :: "bytes \<Rightarrow> nat \<Rightarrow> u32 \<Rightarrow> (u16 \<times> int) res" where
  "detect_network m linktype caplen =
     (let clen = s16 (uint caplen)
      in if linktype = DLT_RAW
         then bindR (datalink_hlen linktype) (\<lambda>dlen. Inr (ETHERTYPE_IP, s16 (clen - dlen)))
         else if linktype = DLT_IEEE802 \<or> linktype = DLT_EN10MB
         then bindR (get_network_type m linktype) (\<lambda>nproto.
              bindR (datalink_hlen linktype) (\<lambda>dlen. Inr (nproto, s16 (clen - dlen))))
         else Inr (UNKNOWN_PROTO, clen))"

definition is_ext_tproto :: "u16 \<Rightarrow> bool" where
  "is_ext_tproto t \<longleftrightarrow> t = ucast IPPROTO_HOPOPTS \<or> t = ucast IPPROTO_DSTOPTS
     \<or> t = ucast IPPROTO_ROUTING \<or> t = ucast IPPROTO_AH \<or> t = ucast IPPROTO_FRAGMENT"

definition skip_ext :: "bytes \<Rightarrow> nat \<Rightarrow> u16 \<Rightarrow> (u16 \<times> nat) res" where
  "skip_ext m dp tproto =
     bindR (ld8 m (dp + field ip6_ext [''ip6e_nxt''])) (\<lambda>ip6e_nxt.
     bindR (if tproto = ucast IPPROTO_FRAGMENT then Inr 8
            else bindR (ld8 m (dp + field ip6_ext [''ip6e_len''])) (\<lambda>ip6e_len.
                 Inr (if tproto = ucast IPPROTO_AH then (unat ip6e_len + 2) * 4
                      else (unat ip6e_len + 1) * 8))) (\<lambda>adv.
     Inr (if ip6e_nxt = IPPROTO_ESP \<or> ip6e_nxt = IPPROTO_NONE then 0xffff else ucast ip6e_nxt,
          adv)))"

lemma skip_ext_advances: "skip_ext m dp t = Inr (t', adv) \<Longrightarrow> dp < length m \<and> 0 < adv"
  by (auto simp: skip_ext_def res_simps split: if_splits)

function v6_tproto :: "bytes \<Rightarrow> nat \<Rightarrow> u16 \<Rightarrow> int \<Rightarrow> (u16 \<times> int) res" where
  "v6_tproto m dp tproto clen =
     (if is_ext_tproto tproto \<and> clen > 0
      then bindR (skip_ext m dp tproto) (\<lambda>(tproto', adv).
           v6_tproto m (dp + adv) tproto' (s16 (clen - int adv)))
      else Inr (tproto, clen))"
  by auto

termination
  by (relation "measure (\<lambda>(m, dp, _, _). length m - dp)") (auto dest!: skip_ext_advances)

declare v6_tproto.simps [simp del]

definition detect_transport ::
  "u16 \<Rightarrow> bytes \<Rightarrow> nat \<Rightarrow> u16 \<Rightarrow> int \<Rightarrow> (u16 \<times> int) res" where
  "detect_transport tproto0 m linktype nproto clen =
     (if clen > 0
      then if nproto = ETHERTYPE_IP
           then bindR (skip_datalink_header linktype) (\<lambda>ip.
                bindR (ld8 m (ip + field struct_ip [''ip_hl_v''])) (\<lambda>hl_v.
                let clen = s16 (clen - int (unat (get_lo_nibble hl_v) * 4))
                in if clen > 0
                   then bindR (ld16 m (ip + field struct_ip [''ip_off''])) (\<lambda>ip_off.
                        if ntohs ip_off AND IP_OFFMASK = 0
                        then bindR (ld8 m (ip + field struct_ip [''ip_p''])) (\<lambda>ip_p.
                             Inr (ucast ip_p, clen))
                        else Inr (ETHERTYPE_IP, clen))
                   else Inr (ETHERTYPE_IP, clen)))
           else if nproto = ETHERTYPE_IPV6
           then let clen = s16 (clen - 40)
                in if clen > 0
                   then bindR (skip_datalink_header linktype) (\<lambda>dp.
                        bindR (ld8 m (dp + field ip6_hdr [''ip6_ctlun'', ''ip6_un1'', ''ip6_un1_nxt'']))
                          (\<lambda>ip6_nxt.
                        v6_tproto m dp (ucast ip6_nxt) clen))
                   else Inr (tproto0, clen)
           else if nproto = ETHERTYPE_ARP
           then let clen = s16 (clen - 28)
                in Inr (if clen > 0 then ETHERTYPE_ARP else tproto0, clen)
           else if nproto = UNKNOWN_PROTO then Inr (UNKNOWN_PROTO, clen)
           else bindR (get_network_type m linktype) (\<lambda>tproto. Inr (tproto, clen))
      else Inr (tproto0, clen))"

definition check_truncated :: "u16 \<Rightarrow> int \<Rightarrow> u16" where
  "check_truncated tproto clen =
     (if tproto = ucast IPPROTO_TCP \<and> clen < int TCPHDRLEN
         \<or> tproto = ucast IPPROTO_UDP \<and> clen < int UDPHDRLEN
         \<or> tproto = ucast IPPROTO_ICMP \<and> clen < int ICMPHDRLEN
      then 0xffff else tproto)"

section \<open>The packet object\<close>

definition create_packet :: "u16 \<Rightarrow> u16 \<Rightarrow> body" where
  "create_packet tproto nproto =
     (if tproto = ucast IPPROTO_TCP then TCPBody alloc_ip alloc_tcp
      else if tproto = ucast IPPROTO_UDP then UDPBody alloc_ip alloc_udp
      else if tproto = ucast IPPROTO_ICMP then ICMPBody alloc_ip alloc_icmp
      else if nproto = ETHERTYPE_IP \<or> nproto = ETHERTYPE_IPV6 then IPBody alloc_ip
      else if nproto = ETHERTYPE_ARP \<or> nproto = ETHERTYPE_REVARP then ARPBody alloc_arp
      else PlainBody)"

fun with_arp :: "arp_obj \<Rightarrow> body \<Rightarrow> body res" where
  "with_arp a (ARPBody _) = Inr (ARPBody a)"
| "with_arp a _ = Inl (UB WrongClass)"

fun with_tcp :: "tcp_obj \<Rightarrow> body \<Rightarrow> body res" where
  "with_tcp t (TCPBody i _) = Inr (TCPBody i t)"
| "with_tcp t _ = Inl (UB WrongClass)"

fun with_udp :: "udp_obj \<Rightarrow> body \<Rightarrow> body res" where
  "with_udp u (UDPBody i _) = Inr (UDPBody i u)"
| "with_udp u _ = Inl (UB WrongClass)"

fun with_icmp :: "icmp_obj \<Rightarrow> body \<Rightarrow> body res" where
  "with_icmp c (ICMPBody i _) = Inr (ICMPBody i c)"
| "with_icmp c _ = Inl (UB WrongClass)"

section \<open>Second pass: the headers\<close>

text \<open>Network layer: the filled object, \<^verbatim>\<open>clen\<close> and \<^verbatim>\<open>hlen\<close>.\<close>

definition analyze_network ::
  "bytes \<Rightarrow> nat \<Rightarrow> u32 \<Rightarrow> u16 \<Rightarrow> int \<Rightarrow> body \<Rightarrow> (body \<times> int \<times> int) res" where
  "analyze_network m linktype caplen nproto data packet =
     (if nproto = ETHERTYPE_IP
      then bindR (at_ptr data) (\<lambda>ip.
           bindR (ld16 m (ip + field struct_ip [''ip_len''])) (\<lambda>ip_len.
           bindR (analyze_ip m ip packet) (\<lambda>(packet, hlen).
           Inr (packet, s16 (uint (ntohs ip_len)), s16 (int hlen)))))
      else if nproto = ETHERTYPE_IPV6
      then bindR (at_ptr data) (\<lambda>ip6.
           bindR (ld16 m (ip6 + field ip6_hdr [''ip6_ctlun'', ''ip6_un1'', ''ip6_un1_plen'']))
             (\<lambda>plen.
           bindR (analyze_ipv6 m ip6) (\<lambda>(obj, hlen).
           bindR (with_ip obj packet) (\<lambda>packet.
           Inr (packet, s16 (s16 (uint (ntohs plen)) + 40), s16 (int hlen))))))
      else if nproto = ETHERTYPE_ARP
      then bindR (at_ptr data) (\<lambda>arp.
           bindR (analyze_arp m arp) (\<lambda>(obj, hlen).
           bindR (with_arp obj packet) (\<lambda>packet.
           Inr (packet, s16 (int hlen), s16 (int hlen)))))
      else if nproto = UNKNOWN_PROTO then Inr (packet, s16 (uint caplen), 0)
      else bindR (datalink_hlen linktype) (\<lambda>dlen.
           Inr (packet, s16 (uint (caplen - word_of_int dlen)), 0)))"

text \<open>The comparison with what was captured is made in unsigned 32-bit arithmetic.\<close>

definition clamp_length :: "nat \<Rightarrow> u32 \<Rightarrow> u16 \<Rightarrow> u16 \<Rightarrow> int \<Rightarrow> int res" where
  "clamp_length linktype caplen nproto tproto clen =
     (if nproto \<noteq> UNKNOWN_PROTO \<and> tproto \<noteq> UNKNOWN_PROTO
      then bindR (datalink_hlen linktype) (\<lambda>dlen.
           let rest = caplen - word_of_int dlen
           in Inr (if (word_of_int clen :: u32) > rest then s16 (uint rest) else clen))
      else Inr clen)"

text \<open>The TCP setters find what the object's field \<^verbatim>\<open>option\<close> holds already.\<close>

fun tcp_part :: "body \<Rightarrow> tcp_obj res" where
  "tcp_part (TCPBody _ t) = Inr t"
| "tcp_part _ = Inl (UB WrongClass)"

definition analyze_transport ::
  "u16 \<times> u16 \<Rightarrow> bytes \<Rightarrow> u16 \<Rightarrow> int \<Rightarrow> int \<Rightarrow> body \<Rightarrow> (body \<times> int) res" where
  "analyze_transport stray m tproto data clen packet =
     (if tproto = ucast IPPROTO_TCP
      then bindR (at_ptr data) (\<lambda>a. bindR (tcp_part packet) (\<lambda>t.
           bindR (analyze_tcp m a t) (\<lambda>(t, hlen).
           bindR (with_tcp t packet) (\<lambda>packet. Inr (packet, s16 (int hlen))))))
      else if tproto = ucast IPPROTO_UDP
      then bindR (at_ptr data) (\<lambda>a. bindR (analyze_udp m a) (\<lambda>u.
           bindR (with_udp u packet) (\<lambda>packet. Inr (packet, int UDPHDRLEN))))
      else if tproto = ucast IPPROTO_ICMP
      then bindR (at_ptr data) (\<lambda>a. bindR (analyze_icmp stray m a (clen mod 65536)) (\<lambda>c.
           bindR (with_icmp c packet) (\<lambda>packet. Inr (packet, int ICMPHDRLEN))))
      else Inr (packet, 0))"

definition copy_data :: "bytes \<Rightarrow> int \<Rightarrow> int \<Rightarrow> int \<Rightarrow> (bytes \<times> bytes option) res" where
  "copy_data m data clen hlen =
     (let hlen = (if hlen > clen then clen else hlen);
          clen = s16 (clen - hlen); data = data + hlen; hlen = s16 (data mod 65536)
      in bindR (NewByteArray hlen) (\<lambda>n.
         bindR (ld_bytes m 0 n) (\<lambda>header.
         if clen \<ge> 0
         then bindR (at_ptr data) (\<lambda>a. bindR (ld_bytes m a (nat clen)) (\<lambda>payload.
              Inr (header, Some payload)))
         else Inr (header, None))))"

definition get_packet ::
  "u16 \<Rightarrow> u16 \<times> u16 \<Rightarrow> nat \<Rightarrow> pcap_pkthdr \<Rightarrow> bytes \<Rightarrow> packet res" where
  "get_packet tproto0 stray linktype hdr m =
     bindR (detect_network m linktype (ph_caplen hdr)) (\<lambda>(nproto, clen).
     bindR (detect_transport tproto0 m linktype nproto clen) (\<lambda>(tproto, clen).
     let tproto = check_truncated tproto clen; packet = create_packet tproto nproto
     in bindR (analyze_datalink m 0 linktype) (\<lambda>dlpacket.
        bindR (if nproto \<noteq> UNKNOWN_PROTO then datalink_hlen linktype else Inr 0) (\<lambda>data.
        bindR (analyze_network m linktype (ph_caplen hdr) nproto data packet) (\<lambda>(packet, clen, hlen).
        bindR (clamp_length linktype (ph_caplen hdr) nproto tproto clen) (\<lambda>clen.
           let data = data + hlen; clen = s16 (clen - hlen)
           in bindR (analyze_transport stray m tproto data clen packet) (\<lambda>(packet, hlen).
              bindR (copy_data m data clen hlen) (\<lambda>(header, payload).
              Inr ((alloc_packet packet)\<lparr>pk_sec := ph_tv_sec hdr, pk_usec := ph_tv_usec hdr,
                     pk_caplen := ph_caplen hdr, pk_len := ph_len hdr,
                     pk_datalink := Some dlpacket, pk_header := Some header,
                     pk_data := payload\<rparr>)))))))))"

section \<open>IPv4 frames\<close>

definition v4_frame :: "eth_obj \<Rightarrow> v4_header \<Rightarrow> bytes \<Rightarrow> bytes" where
  "v4_frame e h rest = eth_bytes e @ v4_bytes h @ rest"

definition wf_frame :: "eth_obj \<Rightarrow> v4_header \<Rightarrow> bytes \<Rightarrow> pcap_pkthdr \<Rightarrow> bool" where
  "wf_frame e h rest hdr \<longleftrightarrow> wf_eth e \<and> eth_frametype e = ETHERTYPE_IP \<and> wf_v4 h \<and> rest \<noteq> []
     \<and> unat (ph_caplen hdr) = length (v4_frame e h rest) \<and> length (v4_frame e h rest) < 32768
     \<and> length (v4_bytes h) \<le> unat (h4_len h) \<and> unat (h4_len h) < 32768"

text \<open>The transport protocol decided on, and the length of the IP payload that is used.\<close>

definition v4_tproto :: "v4_header \<Rightarrow> bytes \<Rightarrow> u16" where
  "v4_tproto h rest =
     check_truncated (if h4_off h = 0 then ucast (h4_proto h) else ETHERTYPE_IP) (int (length rest))"

definition v4_payload :: "v4_header \<Rightarrow> bytes \<Rightarrow> nat" where
  "v4_payload h rest =
     (let n = unat (h4_len h) - length (v4_bytes h)
      in if v4_tproto h rest = UNKNOWN_PROTO then n else min n (length rest))"

lemma length_v4_frame:
  "wf_eth e \<Longrightarrow> length (v4_frame e h rest) = 14 + length (v4_bytes h) + length rest"
  by (simp add: v4_frame_def)

lemma s16_nat [simp]: "n < 32768 \<Longrightarrow> s16 (int n) = int n"
  by (simp add: s16_id)

lemma offset_tables [simp]:
  "datalink_hlen (Suc 0) = Inr 14" "skip_datalink_header (Suc 0) = Inr 14"
  "get_network_type m (Suc 0) = bindR (ld16 m 12) (\<lambda>w. Inr (ntohs w))"
  by (simp_all add: datalink_hlen_def skip_datalink_header_def get_network_type_def table_at_def offset_data_def
      offset_type_def at_ptr_def)

lemma v4_frame_splice:
  assumes "wf_eth e"
  shows "v4_frame e h rest = splice (v4_frame e h rest) 14 (v4_bytes h)"
    "v4_frame e h rest = splice (v4_frame e h rest) 0 (eth_bytes e)"
  using assms by (simp_all add: v4_frame_def splice_def)

lemma v4_frame_loads:
  fixes rest :: bytes
  assumes "wf_eth e" "wf_v4 h"
  defines "m \<equiv> v4_frame e h rest"
  shows "ld8 m 14 = Inr (v4_bytes h ! 0)" "ld8 m 23 = Inr (h4_proto h)"
    "ld16 m 16 = Inr (le16 (hi8 (h4_len h)) (lo8 (h4_len h)))"
    "ld16 m 20 = Inr (le16 (hi8 (v4_fragment h)) (lo8 (v4_fragment h)))"
    "ld16 m 12 = Inr (le16 (hi8 (eth_frametype e)) (lo8 (eth_frametype e)))"
    "analyze_datalink m 0 DLT_EN10MB = Inr e"
    "\<And>packet. ip_part packet = Inr alloc_ip
      \<Longrightarrow> analyze_ip m 14 packet = Inr (v4_received h packet, length (v4_bytes h))"
proof -
  have L: "14 + length (v4_bytes h) \<le> length m"
    using length_v4_frame [OF assms(1)] by (simp add: m_def)
  have S: "m = splice m 14 (v4_bytes h)" "m = splice m 0 (eth_bytes e)"
    using v4_frame_splice [OF assms(1)] by (simp_all add: m_def)
  have len: "length (v4_bytes h) = 20 + length (h4_opts h)" using assms(2) by simp
  note ld = ld8_splice [OF L] ld16_splice [OF L]
  show "ld8 m 14 = Inr (v4_bytes h ! 0)"
    using ld(1) [of 0] len S(1) by simp
  show "ld8 m 23 = Inr (h4_proto h)"
    using ld(1) [of 9] len S(1) v4_bytes_at(10) [OF assms(2)] by simp
  show "ld16 m 16 = Inr (le16 (hi8 (h4_len h)) (lo8 (h4_len h)))"
    using ld(2) [of 2] len S(1) v4_bytes_at(3,4) [OF assms(2)] by simp
  show "ld16 m 20 = Inr (le16 (hi8 (v4_fragment h)) (lo8 (v4_fragment h)))"
    using ld(2) [of 6] len S(1) v4_bytes_at(7,8) [OF assms(2)] by simp
  have E: "0 + length (eth_bytes e) \<le> length m" using L assms(1) by simp
  have "eth_bytes e ! 12 = hi8 (eth_frametype e) \<and> eth_bytes e ! 13 = lo8 (eth_frametype e)"
    using assms(1) by (auto simp: wf_eth_def eth_bytes_def nth_append)
  then show "ld16 m 12 = Inr (le16 (hi8 (eth_frametype e)) (lo8 (eth_frametype e)))"
    using ld16_splice [OF E, of 12] S(2) assms(1) by simp
  show "analyze_datalink m 0 DLT_EN10MB = Inr e"
    using analyze_datalink_bytes [OF assms(1), of 0 m] S(2) L by simp
  show "analyze_ip m 14 packet = Inr (v4_received h packet, length (v4_bytes h))"
    if "ip_part packet = Inr alloc_ip" for packet
    using analyze_ip_v4 [OF assms(2) _ that, of 14 m] S(1) L by simp
qed

lemma detect_v4:
  assumes "wf_frame e h rest hdr"
  defines "m \<equiv> v4_frame e h rest"
  shows "detect_network m DLT_EN10MB (ph_caplen hdr) = Inr (ETHERTYPE_IP, int (length m) - 14)"
    "detect_transport t0 m DLT_EN10MB ETHERTYPE_IP (int (length m) - 14) =
       Inr (if h4_off h = 0 then ucast (h4_proto h) else ETHERTYPE_IP, int (length rest))"
proof -
  have wf: "wf_eth e" "eth_frametype e = 0x0800" "wf_v4 h" "rest \<noteq> []"
    "uint (ph_caplen hdr) = int (length m)" "length m < 32768"
    using assms(1) by (auto simp: wf_frame_def m_def uint_nat)
  note ld = v4_frame_loads [OF wf(1,3), where rest = rest, folded m_def]
  have L: "length m = 14 + length (v4_bytes h) + length rest"
    using length_v4_frame [OF wf(1)] by (simp add: m_def)
  have s: "s16 (int (length m)) = int (length m)" "s16 (int (length m) - 14) = int (length m) - 14"
    "s16 (int (length m) - 14 - int (length (v4_bytes h))) = int (length rest)"
    using wf(6) L by (simp_all add: s16_id)
  show "detect_network m DLT_EN10MB (ph_caplen hdr) = Inr (ETHERTYPE_IP, int (length m) - 14)"
    using wf(2,5) ld(5) s
    by (simp add: detect_network_def Let_def be16_def)
  have hl: "int (unat (get_lo_nibble (v4_bytes h ! 0)) * 4) = int (length (v4_bytes h))"
    using v4_header_length [OF wf(3)] by simp
  have pos: "int (length m) - 14 > 0" "int (length rest) > 0"
  proof -
    have "0 < length rest" using wf(4) by simp
    then show "int (length m) - 14 > 0" "int (length rest) > 0" using L by linarith+
  qed
  show "detect_transport t0 m DLT_EN10MB ETHERTYPE_IP (int (length m) - 14) =
       Inr (if h4_off h = 0 then ucast (h4_proto h) else ETHERTYPE_IP, int (length rest))"
    unfolding detect_transport_def
    using pos ld(1,2,4) s(3) hl v4_fragment_offset [OF wf(3)] wf(4)
    by (simp add: Let_def)
qed

lemma clamp_length_small:
  assumes "unat caplen = L" "14 \<le> L" "L < 32768" "n < 32768" "nproto \<noteq> UNKNOWN_PROTO"
  shows "clamp_length DLT_EN10MB caplen nproto tproto (int n) =
    Inr (int (if tproto = UNKNOWN_PROTO then n else min n (L - 14)))"
proof -
  have "word_of_int 14 \<le> caplen" using assms by (simp add: word_le_nat_alt)
  then have sub: "unat (caplen - word_of_int 14) = L - 14"
    using assms(1) by (simp add: unat_sub)
  have u: "uint (caplen - word_of_int 14) = int (L - 14)"
    unfolding uint_nat sub ..
  have "unat (word_of_nat n :: u32) = n"
    using assms(4) by (intro unat_word_of_nat_small) simp
  then have cmp: "(word_of_int (int n) :: u32) > caplen - word_of_int 14 \<longleftrightarrow> n > L - 14"
    unfolding word_less_nat_alt sub by simp
  show ?thesis
    using cmp u assms by (simp add: clamp_length_def Let_def s16_id min_def)
qed

lemma clamp_v4:
  assumes "wf_frame e h rest hdr"
  shows "clamp_length DLT_EN10MB (ph_caplen hdr) ETHERTYPE_IP (v4_tproto h rest) (int (unat (h4_len h)))
    = Inr (int (length (v4_bytes h)) + int (v4_payload h rest))"
proof -
  let ?L = "length (v4_frame e h rest)"
  have wf: "unat (ph_caplen hdr) = ?L" "14 \<le> ?L" "?L < 32768" "unat (h4_len h) < 32768"
    "length (v4_bytes h) \<le> unat (h4_len h)" "?L = 14 + length (v4_bytes h) + length rest"
    using assms length_v4_frame [of e h rest] by (auto simp: wf_frame_def)
  have ip: "ETHERTYPE_IP \<noteq> UNKNOWN_PROTO" by simp
  have "min (unat (h4_len h)) (length (v4_bytes h) + length rest) - length (v4_bytes h)
      = min (unat (h4_len h) - length (v4_bytes h)) (length rest)"
    using wf(5) by linarith
  then show ?thesis
    unfolding clamp_length_small [OF wf(1-4) ip] v4_payload_def Let_def
    using wf(5,6) by (auto simp: of_nat_add [symmetric] simp del: of_nat_add of_nat_diff of_nat_unat)
qed

lemma get_packet_v4:
  assumes wf: "wf_frame e h rest hdr" and m: "m = v4_frame e h rest"
    and b: "v4_received h (create_packet (v4_tproto h rest) ETHERTYPE_IP) = b"
  shows "get_packet t0 stray DLT_EN10MB hdr m =
    bindR (analyze_transport stray m (v4_tproto h rest) (14 + int (length (v4_bytes h)))
             (int (v4_payload h rest)) b) (\<lambda>(packet, hlen).
    bindR (copy_data m (14 + int (length (v4_bytes h))) (int (v4_payload h rest)) hlen)
      (\<lambda>(header, payload).
    Inr ((alloc_packet packet)\<lparr>pk_sec := ph_tv_sec hdr, pk_usec := ph_tv_usec hdr,
           pk_caplen := ph_caplen hdr, pk_len := ph_len hdr, pk_datalink := Some e,
           pk_header := Some header, pk_data := payload\<rparr>)))"
proof -
  have w: "wf_eth e" "wf_v4 h" "unat (h4_len h) < 32768" "length (v4_bytes h) \<le> unat (h4_len h)"
    using wf by (auto simp: wf_frame_def)
  have k: "length (v4_bytes h) < 32768" using w(3,4) by simp
  note ld = v4_frame_loads [OF w(1,2), where rest = rest, folded m]
  have fresh: "ip_part (create_packet (v4_tproto h rest) ETHERTYPE_IP) = Inr alloc_ip"
    by (simp add: create_packet_def)
  have len: "s16 (uint (ntohs (le16 (hi8 (h4_len h)) (lo8 (h4_len h))))) = int (unat (h4_len h))"
    using s16_nat [OF w(3)] by (simp only: ntohs_le16 be16_hi8_lo8 uint_nat)
  have net: "analyze_network m DLT_EN10MB (ph_caplen hdr) ETHERTYPE_IP 14
      (create_packet (v4_tproto h rest) ETHERTYPE_IP)
    = Inr (b, int (unat (h4_len h)), int (length (v4_bytes h)))"
    unfolding analyze_network_def
    using ld(3) ld(7) [OF fresh] b k len by (simp add: at_ptr_def del: of_nat_unat)
  have pay: "s16 (int (v4_payload h rest)) = int (v4_payload h rest)"
  proof -
    have "v4_payload h rest \<le> unat (h4_len h)"
      by (auto simp: v4_payload_def Let_def)
    then show ?thesis using w(3) by (intro s16_id) linarith+
  qed
  have tp: "check_truncated (if h4_off h = 0 then ucast (h4_proto h) else ETHERTYPE_IP)
      (int (length rest)) = v4_tproto h rest" by (simp only: v4_tproto_def)
  have ne: "(if ETHERTYPE_IP \<noteq> UNKNOWN_PROTO then datalink_hlen DLT_EN10MB else Inr 0) = Inr 14" by simp
  show ?thesis
    unfolding get_packet_def m detect_v4(1) [OF wf] bindR_Inr prod.case detect_v4(2) [OF wf]
      Let_def tp ld(6) [unfolded m] ne net [unfolded m] clamp_v4 [OF wf] add_diff_cancel_left' pay ..
qed

lemma copy_data_nat:
  assumes "D + min H n < 32768" "n < 32768"
  shows "copy_data m (int D) (int n) (int H) =
    (if D + n \<le> length m
     then Inr (take (D + min H n) m, Some (take (n - min H n) (drop (D + min H n) m)))
     else Inl (UB OobRead))"
proof -
  define k where "k = min H n"
  have k: "(if int H > int n then int n else int H) = int k" "k \<le> n" "D + k < 32768"
    using assms(1) by (auto simp: k_def)
  have s: "s16 (int n - int k) = int (n - k)" "s16 ((int D + int k) mod 65536) = int (D + k)"
    "NewByteArray (int (D + k)) = Inr (D + k)" "at_ptr (int D + int k) = Inr (D + k)"
    "\<not> int (n - k) < 0"
    using assms(2) k(2,3) by (simp_all add: s16_id at_ptr_def nat_add_distrib of_nat_diff del: of_nat_add)
  show ?thesis
    unfolding copy_data_def Let_def k(1) s k_def [symmetric]
    using k(2) nat_int [of "n - k"] by (auto simp: ld_bytes_def of_nat_diff)
qed

text \<open>A delivered packet whose header ends \<open>k\<close> bytes into the IP payload.\<close>

definition delivered ::
  "eth_obj \<Rightarrow> v4_header \<Rightarrow> bytes \<Rightarrow> pcap_pkthdr \<Rightarrow> body \<Rightarrow> nat \<Rightarrow> packet" where
  "delivered e h rest hdr b k = \<lparr>pk_sec = ph_tv_sec hdr, pk_usec = ph_tv_usec hdr,
     pk_caplen = ph_caplen hdr, pk_len = ph_len hdr, pk_datalink = Some e,
     pk_header = Some (eth_bytes e @ v4_bytes h @ take k rest),
     pk_data = Some (take (v4_payload h rest - k) (drop k rest)), pk_body = b\<rparr>"

lemma get_packet_deliver:
  assumes wf: "wf_frame e h rest hdr"
    and b: "v4_received h (create_packet (v4_tproto h rest) ETHERTYPE_IP) = b"
    and t: "analyze_transport stray (v4_frame e h rest) (v4_tproto h rest)
       (int (14 + length (v4_bytes h))) (int (v4_payload h rest)) b = Inr (b', int k)"
    and k: "k \<le> v4_payload h rest" "k \<le> 60"
  shows "get_packet t0 stray DLT_EN10MB hdr (v4_frame e h rest) =
    (if v4_payload h rest \<le> length rest then Inr (delivered e h rest hdr b' k)
     else Inl (UB OobRead))"
proof -
  let ?D = "14 + length (v4_bytes h)" and ?n = "v4_payload h rest" and ?m = "v4_frame e h rest"
  have w: "wf_eth e" "unat (h4_len h) < 32768" "length (v4_bytes h) \<le> unat (h4_len h)"
    "length ?m < 32768" "length ?m = ?D + length rest"
    using wf length_v4_frame [of e h rest] by (auto simp: wf_frame_def)
  have "length (eth_bytes e) = 14" using w(1) by simp
  then have dt: "take (?D + j) ?m = eth_bytes e @ v4_bytes h @ take j rest"
    "drop (?D + j) ?m = drop j rest" for j
    by (simp_all add: v4_frame_def)
  have D: "14 + int (length (v4_bytes h)) = int ?D" by simp
  have le: "?n \<le> unat (h4_len h) - length (v4_bytes h)"
    by (auto simp: v4_payload_def Let_def)
  have hl: "length (v4_bytes h) \<le> 60"
    using wf by (auto simp: wf_frame_def wf_v4_def)
  have k': "?D + min k ?n < 32768" "?n < 32768" "min k ?n = k" using k hl le w(2) by linarith+
  have cd: "copy_data ?m (int ?D) (int ?n) (int k) =
    (if ?n \<le> length rest
     then Inr (eth_bytes e @ v4_bytes h @ take k rest, Some (take (?n - k) (drop k rest)))
     else Inl (UB OobRead))"
    using copy_data_nat [OF k'(1,2), of ?m] dt [of k] k'(3) w(5) by simp
  show ?thesis
    unfolding get_packet_v4 [OF wf refl b] D t bindR_Inr prod.case cd
    by (simp add: delivered_def alloc_packet_def)
qed

definition sample_eth :: eth_obj where
  "sample_eth = \<lparr>eth_dst_mac = Some [1, 2, 3, 4, 5, 6], eth_src_mac = Some [7, 8, 9, 10, 11, 12],
     eth_frametype = 0x0800\<rparr>"

definition sample_hdr :: "nat \<Rightarrow> pcap_pkthdr" where
  "sample_hdr n = \<lparr>ph_tv_sec = 1, ph_tv_usec = 2, ph_caplen = word_of_nat n, ph_len = 1500\<rparr>"

lemma sample_frame:
  assumes "length rest \<le> 1000" "rest \<noteq> []" "wf_v4 h" "h4_opts h = []" "unat (h4_len h) = 48"
  shows "wf_frame sample_eth h rest (sample_hdr (34 + length rest))"
  using assms unat_word_of_nat_small [of "34 + length rest", where 'a = 32]
  by (simp add: wf_frame_def wf_eth_def sample_eth_def sample_hdr_def v4_frame_def eth_bytes_def)

definition sample_v4_plain :: "u8 \<Rightarrow> u16 \<Rightarrow> v4_header" where
  "sample_v4_plain proto off = sample_v4\<lparr>h4_opts := [], h4_proto := proto, h4_off := off\<rparr>"

lemma wf_sample_v4_plain [simp]: "unat off < 8192 \<Longrightarrow> wf_v4 (sample_v4_plain proto off)"
  by (simp add: sample_v4_plain_def sample_v4_def wf_v4_def)

lemma sample_v4_plain_fields [simp]:
  "h4_opts (sample_v4_plain proto off) = []" "h4_proto (sample_v4_plain proto off) = proto"
  "h4_off (sample_v4_plain proto off) = off" "h4_len (sample_v4_plain proto off) = 48"
  by (simp_all add: sample_v4_plain_def sample_v4_def)

section \<open>Properties\<close>

lemma deliver_udp:
  assumes "wf_frame e h rest hdr" "h4_off h = 0" "h4_proto h = IPPROTO_UDP" "8 \<le> length rest"
    and "length (v4_bytes h) + 8 \<le> unat (h4_len h)"
  shows "\<exists>u. analyze_udp rest 0 = Inr u
    \<and> get_packet t0 stray DLT_EN10MB hdr (v4_frame e h rest)
        = Inr (delivered e h rest hdr (UDPBody (v4_object h) u) 8)
    \<and> v4_payload h rest = min (unat (h4_len h) - length (v4_bytes h)) (length rest)"
proof -
  obtain u where u: "analyze_udp rest 0 = Inr u" using analyze_udp_returns [OF assms(4)] by blast
  have tp: "v4_tproto h rest = 17"
    using assms(2-4) by (simp add: v4_tproto_def check_truncated_def)
  then have n: "v4_payload h rest = min (unat (h4_len h) - length (v4_bytes h)) (length rest)"
    by (simp add: v4_payload_def)
  have "length (eth_bytes e @ v4_bytes h) = 14 + length (v4_bytes h)"
    using assms(1) by (simp add: wf_frame_def)
  then have "analyze_udp (v4_frame e h rest) (14 + length (v4_bytes h)) = Inr u"
    using u analyze_udp_append [of "eth_bytes e @ v4_bytes h" rest] by (simp add: v4_frame_def)
  then have t: "analyze_transport stray (v4_frame e h rest) (v4_tproto h rest)
      (int (14 + length (v4_bytes h))) (int (v4_payload h rest)) (UDPBody (v4_object h) alloc_udp)
    = Inr (UDPBody (v4_object h) u, int 8)"
    by (simp add: analyze_transport_def tp at_ptr_def nat_add_distrib)
  have b: "v4_received h (create_packet (v4_tproto h rest) ETHERTYPE_IP) = UDPBody (v4_object h) alloc_udp"
    by (simp add: tp create_packet_def)
  have k: "8 \<le> v4_payload h rest" using n assms(4,5) by simp
  show ?thesis
    using get_packet_deliver [OF assms(1) b t k] u n by simp
qed

text \<open>
  C4: a captured Ethernet frame of less than 32768 bytes that carries an unfragmented UDP datagram over
  IPv4, the IP header's total length being less than 32768 and covering both headers, and the whole UDP
  header captured, is delivered as a \<^verbatim>\<open>UDPPacket\<close>: the Ethernet and IP objects of its
  headers, the ports and length read from the datagram, all headers in \<^verbatim>\<open>header\<close>, and as
  data exactly the captured bytes of the payload, without the Ethernet trailer. For these frames the
  indeterminate values play no part; for frames of 32782 bytes and more they do.
\<close>

theorem get_packet_udp:
  assumes "wf_frame e h rest hdr" "h4_off h = 0" "h4_proto h = IPPROTO_UDP" "8 \<le> length rest"
    and "length (v4_bytes h) + 8 \<le> unat (h4_len h)"
  shows "\<exists>u. analyze_udp rest 0 = Inr u
    \<and> get_packet t0 stray DLT_EN10MB hdr (v4_frame e h rest)
        = Inr (delivered e h rest hdr (UDPBody (v4_object h) u) 8)
    \<and> v4_payload h rest = min (unat (h4_len h) - length (v4_bytes h)) (length rest)"
  using assms by (rule deliver_udp)

theorem get_packet_udp_witness:
  "\<exists>u. analyze_udp (replicate 40 5) 0 = Inr u
    \<and> get_packet 6 (1, 2) DLT_EN10MB (sample_hdr (34 + length (replicate 40 (5 :: u8))))
          (v4_frame sample_eth (sample_v4_plain IPPROTO_UDP 0) (replicate 40 5))
        = Inr (delivered sample_eth (sample_v4_plain IPPROTO_UDP 0) (replicate 40 5)
            (sample_hdr (34 + length (replicate 40 (5 :: u8))))
            (UDPBody (v4_object (sample_v4_plain IPPROTO_UDP 0)) u) 8)
    \<and> v4_payload (sample_v4_plain IPPROTO_UDP 0) (replicate 40 5)
        = min (unat (h4_len (sample_v4_plain IPPROTO_UDP 0))
               - length (v4_bytes (sample_v4_plain IPPROTO_UDP 0))) (length (replicate 40 (5 :: u8)))"
  by (rule get_packet_udp [OF sample_frame]) simp_all

lemma deliver_tcp:
  assumes "wf_frame e h rest hdr" "h4_off h = 0" "h4_proto h = IPPROTO_TCP" "20 \<le> length rest"
    and "analyze_tcp rest 0 (tcp_receiver h alloc_tcp) = Inr (t, k)" "length (v4_bytes h) + k \<le> unat (h4_len h)"
  shows "get_packet t0 stray DLT_EN10MB hdr (v4_frame e h rest)
        = Inr (delivered e h rest hdr (TCPBody (no_option h) t) k)
    \<and> v4_payload h rest = min (unat (h4_len h) - length (v4_bytes h)) (length rest)"
proof -
  have tp: "v4_tproto h rest = 6"
    using assms(2-4) by (simp add: v4_tproto_def check_truncated_def)
  then have n: "v4_payload h rest = min (unat (h4_len h) - length (v4_bytes h)) (length rest)"
    by (simp add: v4_payload_def)
  note k = analyze_tcp_hdrlen [OF assms(5)]
  have "length (eth_bytes e @ v4_bytes h) = 14 + length (v4_bytes h)"
    using assms(1) by (simp add: wf_frame_def)
  then have "analyze_tcp (v4_frame e h rest) (14 + length (v4_bytes h)) (tcp_receiver h alloc_tcp) = Inr (t, k)"
    using assms(5) analyze_tcp_append [of "eth_bytes e @ v4_bytes h" rest]
    by (simp add: v4_frame_def)
  then have t: "analyze_transport stray (v4_frame e h rest) (v4_tproto h rest)
      (int (14 + length (v4_bytes h))) (int (v4_payload h rest))
      (TCPBody (no_option h) (tcp_receiver h alloc_tcp))
    = Inr (TCPBody (no_option h) t, int k)"
    using k by (simp add: analyze_transport_def tp at_ptr_def nat_add_distrib s16_id)
  have b: "v4_received h (create_packet (v4_tproto h rest) ETHERTYPE_IP)
      = TCPBody (no_option h) (tcp_receiver h alloc_tcp)"
    by (simp add: tp create_packet_def)
  have "k \<le> v4_payload h rest" "k \<le> 60" using n k assms(6) by simp_all
  then show ?thesis
    using get_packet_deliver [OF assms(1) b t] n by simp
qed

text \<open>
  C5: a captured Ethernet frame of less than 32768 bytes that carries an unfragmented TCP segment over
  IPv4, the IP header's total length being less than 32768 and covering both headers, and at least 20
  bytes of the segment and its whole header captured, is delivered as a \<^verbatim>\<open>TCPPacket\<close>: the
  Ethernet object; the IP object with every field of the header but the options; the TCP object read from
  the segment; the header length taken from the segment's data offset; and as data exactly the captured
  bytes of the payload. IP options never reach the IP part: they are in the TCP object's field
  \<^verbatim>\<open>option\<close>, unless the segment has options of its own, which replace them.
\<close>

theorem get_packet_tcp:
  assumes "wf_frame e h rest hdr" "h4_off h = 0" "h4_proto h = IPPROTO_TCP" "20 \<le> length rest"
    and "analyze_tcp rest 0 (tcp_receiver h alloc_tcp) = Inr (t, k)" "length (v4_bytes h) + k \<le> unat (h4_len h)"
  shows "get_packet t0 stray DLT_EN10MB hdr (v4_frame e h rest)
        = Inr (delivered e h rest hdr (TCPBody (no_option h) t) k)
    \<and> v4_payload h rest = min (unat (h4_len h) - length (v4_bytes h)) (length rest)
    \<and> ip_option (no_option h) = None
    \<and> tcp_option t = (if k > 20 then Some (take (k - 20) (drop 20 rest))
                      else if h4_opts h = [] then None else Some (h4_opts h))"
  using deliver_tcp [OF assms] analyze_tcp_option [OF assms(5)]
  by (simp add: no_option_def tcp_receiver_def alloc_tcp_def)

definition options_v4 :: v4_header where
  "options_v4 = sample_v4\<lparr>h4_proto := IPPROTO_TCP, h4_off := 0\<rparr>"

theorem get_packet_tcp_witness:
  "get_packet 6 (1, 2) DLT_EN10MB (sample_hdr (38 + length (tcp_segment 0 sample_tcp 0 [1, 2, 3])))
          (v4_frame sample_eth options_v4 (tcp_segment 0 sample_tcp 0 [1, 2, 3]))
        = Inr (delivered sample_eth options_v4 (tcp_segment 0 sample_tcp 0 [1, 2, 3])
            (sample_hdr (38 + length (tcp_segment 0 sample_tcp 0 [1, 2, 3])))
            (TCPBody (no_option options_v4) (sample_tcp\<lparr>tcp_option := Some [1, 1, 1, 0]\<rparr>)) 20)
    \<and> v4_payload options_v4 (tcp_segment 0 sample_tcp 0 [1, 2, 3])
        = min (unat (h4_len options_v4) - length (v4_bytes options_v4))
              (length (tcp_segment 0 sample_tcp 0 [1, 2, 3]))
    \<and> ip_option (no_option options_v4) = None"
proof -
  let ?s = "tcp_segment 0 sample_tcp 0 [1, 2, 3]"
  have "splice ?s 0 ?s = ?s" by (simp add: splice_def)
  moreover have "tcp_option (tcp_receiver options_v4 alloc_tcp) = Some [1, 1, 1, 0]"
    by (simp add: tcp_receiver_def options_v4_def sample_v4_def)
  ultimately have t: "analyze_tcp ?s 0 (tcp_receiver options_v4 alloc_tcp)
      = Inr (sample_tcp\<lparr>tcp_option := Some [1, 1, 1, 0]\<rparr>, 20)"
    using analyze_tcp_segment [of 0 "[1, 2, 3]" ?s sample_tcp 0 0 "tcp_receiver options_v4 alloc_tcp"]
    by (simp add: wf_tcp_def sample_tcp_def)
  have wf: "wf_v4 options_v4" "h4_opts options_v4 = [1, 1, 1, 0]" "unat (h4_len options_v4) = 48"
      "h4_off options_v4 = 0" "h4_proto options_v4 = 6"
    by (simp_all add: options_v4_def sample_v4_def wf_v4_def)
  have f: "wf_frame sample_eth options_v4 ?s (sample_hdr (38 + length ?s))"
    using wf by (simp add: wf_frame_def wf_eth_def sample_eth_def sample_hdr_def v4_frame_def eth_bytes_def)
       (simp add: tcp_segment_def)
  show ?thesis
    using get_packet_tcp [OF f _ _ _ t, of 6 "(1, 2)"] wf by simp
qed

text \<open>
  C19: in captured Ethernet frames of less than 32768 bytes whose IPv4 header announces a total length
  of less than 32768, covering the header, and that have at least one captured byte behind it, a fragment
  other than the first is never parsed as a transport packet: whatever its protocol and content, it is delivered as an \<^verbatim>\<open>IPPacket\<close> whose data is
  the captured part of the fragment. In frames of 32782 bytes and more the transport protocol of a
  fragment is an indeterminate value instead.
\<close>

theorem get_packet_fragment:
  assumes "wf_frame e h rest hdr" "h4_off h \<noteq> 0"
  shows "get_packet t0 stray DLT_EN10MB hdr (v4_frame e h rest)
        = Inr (delivered e h rest hdr (IPBody (v4_object h)) 0)
    \<and> v4_payload h rest = min (unat (h4_len h) - length (v4_bytes h)) (length rest)"
proof -
  have tp: "v4_tproto h rest = 0x0800"
    using assms(2) by (simp add: v4_tproto_def check_truncated_def)
  then have n: "v4_payload h rest = min (unat (h4_len h) - length (v4_bytes h)) (length rest)"
    by (simp add: v4_payload_def)
  have t: "analyze_transport stray (v4_frame e h rest) (v4_tproto h rest)
      (int (14 + length (v4_bytes h))) (int (v4_payload h rest)) (IPBody (v4_object h))
    = Inr (IPBody (v4_object h), int 0)"
    by (simp add: analyze_transport_def tp)
  have b: "v4_received h (create_packet (v4_tproto h rest) ETHERTYPE_IP) = IPBody (v4_object h)"
    by (simp add: tp create_packet_def)
  show ?thesis
    using get_packet_deliver [OF assms(1) b t] n by simp
qed

theorem get_packet_fragment_witness:
  "get_packet 6 (1, 2) DLT_EN10MB (sample_hdr (34 + length (replicate 40 (5 :: u8))))
          (v4_frame sample_eth (sample_v4_plain IPPROTO_TCP 185) (replicate 40 5))
        = Inr (delivered sample_eth (sample_v4_plain IPPROTO_TCP 185) (replicate 40 5)
            (sample_hdr (34 + length (replicate 40 (5 :: u8))))
            (IPBody (v4_object (sample_v4_plain IPPROTO_TCP 185))) 0)
    \<and> v4_payload (sample_v4_plain IPPROTO_TCP 185) (replicate 40 5)
        = min (unat (h4_len (sample_v4_plain IPPROTO_TCP 185))
               - length (v4_bytes (sample_v4_plain IPPROTO_TCP 185))) (length (replicate 40 (5 :: u8)))"
  by (rule get_packet_fragment [OF sample_frame]) simp_all



lemma network_hlen:
  "analyze_network m lt caplen nproto data packet = Inr (b, clen, hlen) \<Longrightarrow> hlen < 32768"
  by (auto simp: analyze_network_def res_simps s16_bounds split: if_splits)

lemma transport_hlen:
  "analyze_transport stray m tproto data clen packet = Inr (b, hlen) \<Longrightarrow> hlen \<le> 60"
  by (auto simp: analyze_transport_def res_simps s16_id split: if_splits
      dest!: analyze_tcp_hdrlen_60)

lemma analyze_datalink_type: "analyze_datalink m a lt = Inr e \<Longrightarrow> lt = DLT_EN10MB"
  by (simp add: analyze_datalink_def split: if_splits)

text \<open>
  C20: what \<^verbatim>\<open>get_packet\<close> delivers, for any bytes and any link type: only Ethernet
  frames are delivered at all (\<^verbatim>\<open>DatalinkPacket\<close> is abstract, so for every other link type
  the allocation throws); time stamp and lengths are the capture header's; and header and data, when
  there are data, are two adjacent pieces from the start of the captured bytes.
\<close>

theorem get_packet_slices:
  assumes "get_packet t0 stray linktype hdr m = Inr p"
  shows "linktype = DLT_EN10MB \<and> pk_sec p = ph_tv_sec hdr \<and> pk_usec p = ph_tv_usec hdr
    \<and> pk_caplen p = ph_caplen hdr \<and> pk_len p = ph_len hdr
    \<and> (case pk_data p of None \<Rightarrow> True
       | Some d \<Rightarrow> \<exists>k. pk_header p = Some (take k m) \<and> d = take (length d) (drop k m)
                     \<and> k + length d \<le> length m)"
proof -
  have slices: "\<exists>k. h = take k m \<and> d = take (length d) (drop k m) \<and> k + length d \<le> length m"
    if c: "copy_data m data clen hlen = Inr (h, Some d)" and r: "data + hlen < 65536" for data clen hlen h d
  proof -
    let ?h = "if hlen > clen then clen else hlen"
    define D where "D = data + ?h"
    have D: "D < 65536" using r by (simp add: D_def)
    from c have "0 \<le> s16 (D mod 65536)" "0 \<le> D" "h = take (nat (s16 (D mod 65536))) m"
      "d = take (nat (s16 (clen - ?h))) (drop (nat D) m)" "nat D + nat (s16 (clen - ?h)) \<le> length m"
      by (auto simp: copy_data_def Let_def res_simps at_ptr_def NewByteArray_def D_def [symmetric]
          split: if_splits)
    moreover have "s16 (D mod 65536) = D"
      using \<open>0 \<le> s16 (D mod 65536)\<close> \<open>0 \<le> D\<close> D
      by (cases "D < 32768") (simp_all add: s16_def mod_pos_geq)
    ultimately show ?thesis by (intro exI [of _ "nat D"]) auto
  qed
  show ?thesis
    using assms
    by (auto simp: get_packet_def Let_def res_simps alloc_packet_def split: option.splits if_splits
        dest!: analyze_datalink_type network_hlen transport_hlen intro!: slices)
qed

definition sample_plain :: packet where
  "sample_plain = \<lparr>pk_sec = 1, pk_usec = 2, pk_caplen = 16, pk_len = 1500,
     pk_datalink = Some \<lparr>eth_dst_mac = Some [1, 2, 3, 4, 5, 6],
        eth_src_mac = Some [7, 8, 9, 10, 11, 12], eth_frametype = 0x1234\<rparr>,
     pk_header = Some [1, 2, 3, 4, 5, 6, 7, 8, 9, 10, 11, 12, 0x12, 0x34],
     pk_data = Some [13, 14], pk_body = PlainBody\<rparr>"

theorem get_packet_slices_witness:
  "DLT_EN10MB = DLT_EN10MB \<and> pk_sec sample_plain = ph_tv_sec (sample_hdr 16)
    \<and> pk_usec sample_plain = ph_tv_usec (sample_hdr 16)
    \<and> pk_caplen sample_plain = ph_caplen (sample_hdr 16) \<and> pk_len sample_plain = ph_len (sample_hdr 16)
    \<and> (case pk_data sample_plain of None \<Rightarrow> True
       | Some d \<Rightarrow> \<exists>k. pk_header sample_plain
              = Some (take k [1, 2, 3, 4, 5, 6, 7, 8, 9, 10, 11, 12, 0x12, 0x34, 13, 14])
           \<and> d = take (length d) (drop k [1, 2, 3, 4, 5, 6, 7, 8, 9, 10, 11, 12, 0x12, 0x34, 13, 14])
           \<and> k + length d \<le> length [1, 2, 3, 4, 5, 6, 7, 8, 9, 10, 11, 12, 0x12, 0x34, 13, 14 :: u8])"
proof (rule get_packet_slices)
  show "get_packet 0 (0, 0) DLT_EN10MB (sample_hdr 16)
      [1, 2, 3, 4, 5, 6, 7, 8, 9, 10, 11, 12, 0x12, 0x34, 13, 14] = Inr sample_plain"
    by code_simp
qed

text \<open>
  The 16 bits behind the Ethernet addresses of an unknown frame are used as the transport
  protocol: an IEEE 802.3 frame whose length field is 6 is delivered as a \<^verbatim>\<open>TCPPacket\<close>
  with an empty IP part and the frame's body parsed as a TCP header.
\<close>

theorem get_packet_length_field:
  assumes "wf_eth e" "eth_frametype e = 6" "20 \<le> length rest" "length rest < 32000"
    and "unat (ph_caplen hdr) = 14 + length rest" "analyze_tcp rest 0 alloc_tcp = Inr (t, k)"
  shows "\<exists>p. get_packet t0 stray DLT_EN10MB hdr (eth_bytes e @ rest) = Inr p
    \<and> pk_body p = TCPBody alloc_ip t \<and> pk_header p = Some (eth_bytes e @ take k rest)
    \<and> pk_data p = Some (drop k rest)"
proof -
  let ?m = "eth_bytes e @ rest"
  have E: "length (eth_bytes e) = 14" using assms(1) by simp
  have S: "?m = splice ?m 0 (eth_bytes e)" by (simp add: splice_def)
  have "eth_bytes e ! 12 = 0 \<and> eth_bytes e ! 13 = 6"
    using assms(1,2) by (auto simp: wf_eth_def eth_bytes_def nth_append lo8_def hi8_def)
  then have ty: "ld16 ?m 12 = Inr (le16 0 6)"
    using E by (simp add: ld16_def nth_append)
  have net: "get_network_type ?m (Suc 0) = Inr 6"
  proof -
    have "be16 0 6 = 6" by code_simp
    then show ?thesis using ty by simp
  qed
  have u: "uint (ph_caplen hdr) = 14 + int (length rest)"
    using assms(5) by (simp add: uint_nat del: of_nat_unat)
  have dl: "analyze_datalink ?m 0 (Suc 0) = Inr e"
    using analyze_datalink_bytes [OF assms(1), of 0 ?m] S E by simp
  have k: "k \<le> length rest" "k \<le> 60" using analyze_tcp_hdrlen [OF assms(6)] by simp_all
  have "word_of_int 14 \<le> ph_caplen hdr" using assms(5) by (simp add: word_le_nat_alt)
  then have sub: "unat (ph_caplen hdr - 14) = length rest"
    using assms(5) by (simp add: unat_sub)
  have tr: "analyze_transport stray ?m 6 14 (int (length rest)) (TCPBody alloc_ip alloc_tcp)
      = Inr (TCPBody alloc_ip t, int k)"
    using assms(6) analyze_tcp_append [of "eth_bytes e" rest] E k(2)
    by (simp add: analyze_transport_def at_ptr_def s16_id)
  have cd: "copy_data ?m 14 (int (length rest)) (int k)
      = Inr (eth_bytes e @ take k rest, Some (drop k rest))"
    using copy_data_nat [of 14 k "length rest" ?m] k assms(4) E by (simp add: min_def)
  have cl: "clamp_length (Suc 0) (ph_caplen hdr) 6 6 (int (length rest)) = Inr (int (length rest))"
    using clamp_length_small [OF assms(5), of "length rest" 6 6] assms(4) by simp
  have pos: "0 < int (length rest)" "rest \<noteq> []" "\<not> int (length rest) < 20" using assms(3) by auto
  have len: "s16 (uint (ph_caplen hdr - 14)) = int (length rest)"
    unfolding uint_nat sub using assms(4) by (simp add: s16_id)
  have dt: "detect_transport t0 ?m (Suc 0) 6 (int (length rest)) = Inr (6, int (length rest))"
    using net pos by (simp add: detect_transport_def)
  have dn: "detect_network ?m (Suc 0) (ph_caplen hdr) = Inr (6, int (length rest))"
    using net u assms(4) by (simp add: detect_network_def Let_def s16_id)
  have an: "analyze_network ?m (Suc 0) (ph_caplen hdr) 6 14 (TCPBody alloc_ip alloc_tcp)
      = Inr (TCPBody alloc_ip alloc_tcp, int (length rest), 0)"
    using len by (simp add: analyze_network_def)
  have ck: "check_truncated 6 (int (length rest)) = 6" "create_packet 6 6 = TCPBody alloc_ip alloc_tcp"
    using pos(3) by (simp_all add: check_truncated_def create_packet_def)
  show ?thesis
    using assms(4)
    by (simp add: get_packet_def dn dt Let_def ck dl an cl s16_id tr cd alloc_packet_def)
qed

theorem get_packet_length_field_witness:
  "\<exists>p. get_packet 0 (0, 0) DLT_EN10MB (sample_hdr 60)
        (eth_bytes (sample_eth\<lparr>eth_frametype := 6\<rparr>) @ tcp_segment 0 sample_tcp 0 (replicate 26 7)) = Inr p
    \<and> pk_body p = TCPBody alloc_ip (sample_tcp\<lparr>tcp_option := None\<rparr>)
    \<and> pk_header p = Some (eth_bytes (sample_eth\<lparr>eth_frametype := 6\<rparr>)
         @ take 20 (tcp_segment 0 sample_tcp 0 (replicate 26 7)))
    \<and> pk_data p = Some (drop 20 (tcp_segment 0 sample_tcp 0 (replicate 26 7)))"
proof (rule get_packet_length_field)
  let ?s = "tcp_segment 0 sample_tcp 0 (replicate 26 7)"
  have "splice ?s 0 ?s = ?s" by (simp add: splice_def)
  then show "analyze_tcp ?s 0 alloc_tcp = Inr (sample_tcp\<lparr>tcp_option := None\<rparr>, 20)"
    using analyze_tcp_segment [of 0 "replicate 26 7" ?s sample_tcp 0 0 alloc_tcp]
    by (simp add: wf_tcp_def sample_tcp_def alloc_tcp_def)
qed (simp_all add: wf_eth_def sample_eth_def sample_hdr_def)

text \<open>
  The captured length is kept in a \<^verbatim>\<open>short\<close>: for a frame of 32782 bytes or more,
  which the default snapshot length of 65535 admits, the remaining length is negative, the
  transport protocol is never determined, and the class of the packet object is decided by whatever
  the uninitialised variable holds.
\<close>

theorem large_frame_undecided:
  assumes "32782 \<le> unat caplen" "unat caplen < 65536"
    and "detect_network m DLT_EN10MB caplen = Inr (nproto, clen)"
  shows "clen < 0 \<and> detect_transport t0 m DLT_EN10MB nproto clen = Inr (t0, clen)"
proof -
  have u: "uint caplen = int (unat caplen)" by (rule uint_nat)
  have "s16 (int (unat caplen)) = int (unat caplen) - 65536"
    using assms(1,2) by (simp add: s16_def mod_pos_geq del: of_nat_unat)
  then have "clen = int (unat caplen) - 65550"
    using assms by (auto simp: detect_network_def Let_def res_simps u s16_id
        simp del: of_nat_unat)
  then have "clen < 0" using assms(2) by linarith
  then show ?thesis by (simp add: detect_transport_def)
qed

theorem large_frame_undecided_witness:
  "(-25550 :: int) < 0
     \<and> detect_transport 99 (replicate 12 0 @ [8, 0]) DLT_EN10MB 0x0800 (-25550) = Inr (99, -25550)"
  by (rule large_frame_undecided [where caplen = 40000]) (simp, simp, code_simp)

end
