(* ===== verification/Send_Capture.thy ===== *)
theory Send_Capture
  imports Sender Captor_Packet
begin

text \<open>
  The two halves of the library together: a packet object written by the sending side
  (\<^verbatim>\<open>JpcapSender.c\<close>) and the frame it makes read by the capturing side
  (\<^verbatim>\<open>get_packet\<close> in \<^verbatim>\<open>JpcapCaptor.c\<close>).
\<close>

lemma v4_sent_addrs:
  "ip_src_ip (v4_object (v4_sent i proto n)) = Some (take 4 (the (ip_src_ip i)))"
  "ip_dst_ip (v4_object (v4_sent i proto n)) = Some (take 4 (the (ip_dst_ip i)))"
  by (simp_all add: v4_object_def v4_sent_def sent_v4_def Let_def)

lemma sent_frame_captured:
  assumes "wf_eth e" "eth_frametype e = ETHERTYPE_IP" "has_addrs 4 i" "seg \<noteq> []"
    and "k = 20 + length seg" "k \<le> 1586" "fr = eth_bytes e @ v4_bytes (v4_sent i proto k) @ seg"
    and "unat (ph_caplen hdr) = max 60 (length fr)"
  shows "wf_frame e (v4_sent i proto k) (seg @ replicate (60 - length fr) 0) hdr"
    "fr @ replicate (60 - length fr) 0
       = v4_frame e (v4_sent i proto k) (seg @ replicate (60 - length fr) 0)"
  using assms unat_word_of_nat_small [of k, where 'a = 16]
  by (simp_all add: wf_frame_def v4_frame_def max_def)

text \<open>What the receiver's packet object has to agree with the sender's on.\<close>

definition carries :: "packet \<Rightarrow> packet \<Rightarrow> bool" where
  "carries p q \<longleftrightarrow> pk_datalink q = pk_datalink p \<and> pk_data q = pk_data p
     \<and> (case (pk_body p, pk_body q) of
          (UDPBody i u, UDPBody i' u') \<Rightarrow>
            u' = u\<lparr>udp_length := word_of_nat (8 + length (the (pk_data p)))\<rparr>
            \<and> ip_src_ip i' = Some (take 4 (the (ip_src_ip i))) \<and> ip_dst_ip i' = Some (take 4 (the (ip_dst_ip i)))
        | (TCPBody i t, TCPBody i' t') \<Rightarrow> t' = t\<lparr>tcp_option := None\<rparr>
            \<and> ip_src_ip i' = Some (take 4 (the (ip_src_ip i))) \<and> ip_dst_ip i' = Some (take 4 (the (ip_dst_ip i)))
        | _ \<Rightarrow> False)"

lemma carries_udp:
  assumes "carries p q" "pk_body p = UDPBody i u"
  obtains i' where "pk_datalink q = pk_datalink p" "pk_data q = pk_data p"
    "pk_body q = UDPBody i' (u\<lparr>udp_length := word_of_nat (8 + length (the (pk_data p)))\<rparr>)"
    "ip_src_ip i' = Some (take 4 (the (ip_src_ip i)))" "ip_dst_ip i' = Some (take 4 (the (ip_dst_ip i)))"
  using assms by (cases "pk_body q") (auto simp: carries_def)

lemma carries_tcp:
  assumes "carries p q" "pk_body p = TCPBody i t"
  obtains i' where "pk_datalink q = pk_datalink p" "pk_data q = pk_data p"
    "pk_body q = TCPBody i' (t\<lparr>tcp_option := None\<rparr>)"
    "ip_src_ip i' = Some (take 4 (the (ip_src_ip i)))" "ip_dst_ip i' = Some (take 4 (the (ip_dst_ip i)))"
  using assms by (cases "pk_body q") (auto simp: carries_def)

lemma udp_crossing:
  assumes p: "pk_datalink p = Some e" "wf_eth e" "pk_body p = UDPBody i u" "ip_version i = 4"
      "has_addrs 4 i" "pk_data p = Some d"
    and w: "eth_frametype e = ETHERTYPE_IP" "ip_offset i = 0" "wf_udp u"
    and l: "length d \<le> 1558" "length buf = MAX_PACKET_SIZE"
  obtains frame where "frame_to_send p buf = Inr frame" "length frame = max 60 (42 + length d)"
    "\<And>t0 stray hdr. unat (ph_caplen hdr) = length frame
       \<Longrightarrow> \<exists>q. get_packet t0 stray DLT_EN10MB hdr frame = Inr q \<and> carries p q"
proof -
  define k where "k = 28 + length d"
  define h where "h = v4_sent i IPPROTO_UDP k"
  define ps where "ps = ip_pseudo i IPPROTO_UDP (word_of_nat (length d + 8))"
  define seg where "seg = udp_segment u (udp_checksum ps u d) d"
  define fr where "fr = eth_bytes e @ v4_bytes h @ seg"
  have fr: "frame_to_send p buf = Inr (fr @ replicate (60 - length fr) 0)" "length fr = 42 + length d"
    by (rule udp_frame [OF p l seg_def [unfolded ps_def] fr_def [unfolded h_def k_def]])+
  let ?rest = "seg @ replicate (60 - length fr) 0"
  have sl: "length seg = 8 + length d" "seg \<noteq> []"
    by (simp_all add: seg_def) (simp add: udp_segment_def)
  have kl: "k = 20 + length seg" "k \<le> 1586" using sl l by (simp_all add: k_def)
  have lf: "length (fr @ replicate (60 - length fr) 0) = max 60 (42 + length d)" using fr(2) by simp
  have got: "\<exists>q. get_packet t0 stray DLT_EN10MB hdr (fr @ replicate (60 - length fr) 0) = Inr q \<and> carries p q"
    if c: "unat (ph_caplen hdr) = length (fr @ replicate (60 - length fr) 0)" for t0 stray hdr
  proof -
    have cap: "unat (ph_caplen hdr) = max 60 (length fr)" using c lf fr(2) by simp
    have wf: "wf_frame e h ?rest hdr"
      and eq: "fr @ replicate (60 - length fr) 0 = v4_frame e h ?rest"
      unfolding h_def
      by (rule sent_frame_captured [OF p(2) w(1) p(5) sl(2) kl fr_def [unfolded h_def] cap])+
    have hl: "length (v4_bytes h) = 20" "unat (h4_len h) = k"
      using p(5) l unat_word_of_nat_small [of k, where 'a = 16] by (simp_all add: h_def k_def)
    obtain x where x: "analyze_udp ?rest 0 = Inr x"
        "get_packet t0 stray DLT_EN10MB hdr (v4_frame e h ?rest)
           = Inr (delivered e h ?rest hdr (UDPBody (v4_object h) x) 8)"
        "v4_payload h ?rest = min (k - 20) (length ?rest)"
      using deliver_udp [OF wf, of t0 stray] sent_unfragmented(1) [OF w(2)] hl sl
      by (auto simp: h_def k_def)
    have "analyze_udp (splice ?rest 0 seg) 0 = Inr \<lparr>udp_src_port = ucast (ucast (udp_src_port u) :: u16),
        udp_dst_port = ucast (ucast (udp_dst_port u) :: u16), udp_length = word_of_nat (length d + 8)\<rparr>"
      unfolding seg_def using l by (intro analyze_udp_segment) (auto simp: seg_def)
    moreover have "splice ?rest 0 seg = ?rest" by (simp add: splice_def)
    ultimately have "x = u\<lparr>udp_length := word_of_nat (8 + length d)\<rparr>"
      using x(1) w(3) by (cases u) (simp add: wf_udp_def ucast_ucast_small add.commute)
    moreover have "take (v4_payload h ?rest - 8) (drop 8 ?rest) = d"
      using x(3) sl by (simp add: k_def) (simp add: seg_def udp_segment_def)
    ultimately show ?thesis
      using eq x(2) v4_sent_addrs [of i IPPROTO_UDP k] p by (simp add: delivered_def h_def carries_def)
  qed
  show thesis by (rule that [OF fr(1) lf got])
qed

text \<open>
  C2: a UDP packet object over IPv4 with an Ethernet header, both MAC addresses of six bytes, frame type
  IP, fragment offset 0, addresses of at least four bytes, ports that fit 16 bits and a payload of at
  most 1558 bytes, is sent and captured again: the packet delivered on the other side is a
  \<^verbatim>\<open>UDPPacket\<close> with the same Ethernet header, the first four bytes of the same source and
  destination addresses, the same ports and payload; the padding of short frames is not delivered as
  data, and what the send buffer held before does not matter.
\<close>

theorem udp_send_capture:
  assumes p: "pk_datalink p = Some e" "wf_eth e" "pk_body p = UDPBody i u" "ip_version i = 4"
      "has_addrs 4 i" "pk_data p = Some d"
    and w: "eth_frametype e = ETHERTYPE_IP" "ip_offset i = 0" "wf_udp u"
    and l: "length d \<le> 1558" "length buf = MAX_PACKET_SIZE"
    and c: "unat (ph_caplen hdr) = max 60 (42 + length d)"
  shows "\<exists>frame q i'. frame_to_send p buf = Inr frame
    \<and> get_packet t0 stray DLT_EN10MB hdr frame = Inr q
    \<and> pk_datalink q = Some e \<and> pk_data q = Some d
    \<and> pk_body q = UDPBody i' (u\<lparr>udp_length := word_of_nat (8 + length d)\<rparr>)
    \<and> ip_src_ip i' = Some (take 4 (the (ip_src_ip i)))
    \<and> ip_dst_ip i' = Some (take 4 (the (ip_dst_ip i)))"
proof -
  obtain frame where f: "frame_to_send p buf = Inr frame" "length frame = max 60 (42 + length d)"
    "\<And>t0 stray hdr. unat (ph_caplen hdr) = length frame
       \<Longrightarrow> \<exists>q. get_packet t0 stray DLT_EN10MB hdr frame = Inr q \<and> carries p q"
    using udp_crossing [OF p w l] by metis
  obtain q where q: "get_packet t0 stray DLT_EN10MB hdr frame = Inr q" "carries p q"
    using f(3) [of hdr t0 stray] c f(2) by auto
  show ?thesis by (rule carries_udp [OF q(2) p(3)]) (use f(1) q(1) p(1,6) in auto)
qed

theorem udp_send_capture_witness:
  "\<exists>frame q i'. frame_to_send (sample_packet (UDPBody sample_ip sample_udp) [65, 66]) (replicate 1600 0xcc)
        = Inr frame
    \<and> get_packet 6 (1, 2) DLT_EN10MB (sample_hdr 60) frame = Inr q
    \<and> pk_datalink q = Some sample_link \<and> pk_data q = Some [65, 66]
    \<and> pk_body q = UDPBody i' (sample_udp\<lparr>udp_length := word_of_nat (8 + length [65 :: u8, 66])\<rparr>)
    \<and> ip_src_ip i' = Some (take 4 (the (ip_src_ip sample_ip)))
    \<and> ip_dst_ip i' = Some (take 4 (the (ip_dst_ip sample_ip)))"
  by (rule udp_send_capture) (simp_all add: sample_udp_def wf_udp_def sample_hdr_def)

lemma tcp_crossing:
  assumes p: "pk_datalink p = Some e" "wf_eth e" "pk_body p = TCPBody i t" "ip_version i = 4"
      "has_addrs 4 i" "pk_data p = Some d"
    and w: "eth_frametype e = ETHERTYPE_IP" "ip_offset i = 0" "wf_tcp t"
    and l: "length d \<le> 1546" "length buf = MAX_PACKET_SIZE"
  obtains frame where "frame_to_send p buf = Inr frame" "length frame = max 60 (54 + length d)"
    "\<And>t0 stray hdr. unat (ph_caplen hdr) = length frame
       \<Longrightarrow> \<exists>q. get_packet t0 stray DLT_EN10MB hdr frame = Inr q \<and> carries p q"
proof -
  define k where "k = 40 + length d"
  define h where "h = v4_sent i IPPROTO_TCP k"
  define ps where "ps = ip_pseudo i IPPROTO_TCP (word_of_nat (length d + 20))"
  define seg where "seg = tcp_segment (buf ! 46) t (seg_sum (ps @ tcp_segment (buf ! 46) t 0 d)) d"
  define fr where "fr = eth_bytes e @ v4_bytes h @ seg"
  have fr: "frame_to_send p buf = Inr (fr @ replicate (60 - length fr) 0)" "length fr = 54 + length d"
    by (rule tcp_frame [OF p l seg_def [unfolded ps_def] fr_def [unfolded h_def k_def]])+
  let ?rest = "seg @ replicate (60 - length fr) 0"
  have sl: "length seg = 20 + length d" "seg \<noteq> []"
    by (simp_all add: seg_def) (simp add: tcp_segment_def)
  have kl: "k = 20 + length seg" "k \<le> 1586" using sl l by (simp_all add: k_def)
  have lf: "length (fr @ replicate (60 - length fr) 0) = max 60 (54 + length d)" using fr(2) by simp
  have got: "\<exists>q. get_packet t0 stray DLT_EN10MB hdr (fr @ replicate (60 - length fr) 0) = Inr q \<and> carries p q"
    if c: "unat (ph_caplen hdr) = length (fr @ replicate (60 - length fr) 0)" for t0 stray hdr
  proof -
    have cap: "unat (ph_caplen hdr) = max 60 (length fr)" using c lf fr(2) by simp
    have wf: "wf_frame e h ?rest hdr"
      and eq: "fr @ replicate (60 - length fr) 0 = v4_frame e h ?rest"
      unfolding h_def
      by (rule sent_frame_captured [OF p(2) w(1) p(5) sl(2) kl fr_def [unfolded h_def] cap])+
    have hl: "length (v4_bytes h) = 20" "unat (h4_len h) = k"
      using p(5) l unat_word_of_nat_small [of k, where 'a = 16] by (simp_all add: h_def k_def)
    have "analyze_tcp (splice ?rest 0 seg) 0 alloc_tcp = Inr (t\<lparr>tcp_option := tcp_option alloc_tcp\<rparr>, 20)"
      unfolding seg_def by (rule analyze_tcp_segment) (auto simp: w(3))
    moreover have "splice ?rest 0 seg = ?rest" by (simp add: splice_def)
    moreover have opts: "h4_opts h = []" by (simp add: h_def v4_sent_def)
    ultimately have rd: "analyze_tcp ?rest 0 (tcp_receiver h alloc_tcp) = Inr (t\<lparr>tcp_option := None\<rparr>, 20)"
      by (simp add: alloc_tcp_def)
    have x: "get_packet t0 stray DLT_EN10MB hdr (v4_frame e h ?rest)
           = Inr (delivered e h ?rest hdr (TCPBody (v4_object h) (t\<lparr>tcp_option := None\<rparr>)) 20)"
        "v4_payload h ?rest = min (k - 20) (length ?rest)"
      using deliver_tcp [OF wf _ _ _ rd, of t0 stray] opts sent_unfragmented(1) [OF w(2)] hl sl
      by (auto simp: h_def k_def)
    have "take (v4_payload h ?rest - 20) (drop 20 ?rest) = d"
      using x(2) sl by (simp add: k_def) (simp add: seg_def tcp_segment_def tcp_hdr_def Let_def)
    then show ?thesis
      using eq x(1) v4_sent_addrs [of i IPPROTO_TCP k] p by (simp add: delivered_def h_def carries_def)
  qed
  show thesis by (rule that [OF fr(1) lf got])
qed

text \<open>
  C3: a TCP packet object over IPv4 with an Ethernet header, both MAC addresses of six bytes, frame type
  IP, fragment offset 0, addresses of at least four bytes, ports and window that fit 16 bits, sequence
  numbers that fit 32 bits and a payload of at most 1546 bytes, is sent and captured again: the packet
  delivered on the other side is a \<^verbatim>\<open>TCPPacket\<close> with the same Ethernet header, the first
  four bytes of the same addresses, the same ports, sequence numbers, flags, window, urgent pointer and
  payload; TCP options are not sent.
\<close>

theorem tcp_send_capture:
  assumes p: "pk_datalink p = Some e" "wf_eth e" "pk_body p = TCPBody i t" "ip_version i = 4"
      "has_addrs 4 i" "pk_data p = Some d"
    and w: "eth_frametype e = ETHERTYPE_IP" "ip_offset i = 0" "wf_tcp t"
    and l: "length d \<le> 1546" "length buf = MAX_PACKET_SIZE"
    and c: "unat (ph_caplen hdr) = max 60 (54 + length d)"
  shows "\<exists>frame q i'. frame_to_send p buf = Inr frame
    \<and> get_packet t0 stray DLT_EN10MB hdr frame = Inr q
    \<and> pk_datalink q = Some e \<and> pk_data q = Some d
    \<and> pk_body q = TCPBody i' (t\<lparr>tcp_option := None\<rparr>)
    \<and> ip_src_ip i' = Some (take 4 (the (ip_src_ip i)))
    \<and> ip_dst_ip i' = Some (take 4 (the (ip_dst_ip i)))"
proof -
  obtain frame where f: "frame_to_send p buf = Inr frame" "length frame = max 60 (54 + length d)"
    "\<And>t0 stray hdr. unat (ph_caplen hdr) = length frame
       \<Longrightarrow> \<exists>q. get_packet t0 stray DLT_EN10MB hdr frame = Inr q \<and> carries p q"
    using tcp_crossing [OF p w l] by metis
  obtain q where q: "get_packet t0 stray DLT_EN10MB hdr frame = Inr q" "carries p q"
    using f(3) [of hdr t0 stray] c f(2) by auto
  show ?thesis by (rule carries_tcp [OF q(2) p(3)]) (use f(1) q(1) p(1,6) in auto)
qed

theorem tcp_send_capture_witness:
  "\<exists>frame q i'. frame_to_send (sample_packet (TCPBody sample_ip sample_tcp) [71, 69, 84]) (replicate 1600 0xcc)
        = Inr frame
    \<and> get_packet 17 (1, 2) DLT_EN10MB (sample_hdr 60) frame = Inr q
    \<and> pk_datalink q = Some sample_link \<and> pk_data q = Some [71, 69, 84]
    \<and> pk_body q = TCPBody i' (sample_tcp\<lparr>tcp_option := None\<rparr>)
    \<and> ip_src_ip i' = Some (take 4 (the (ip_src_ip sample_ip)))
    \<and> ip_dst_ip i' = Some (take 4 (the (ip_dst_ip sample_ip)))"
  by (rule tcp_send_capture) (simp_all add: sample_tcp_def wf_tcp_def sample_hdr_def)

end
