(* ===== verification/Native_State.thy ===== *)
theory Native_State
  imports Captor_Packet "HOL-Library.Signed_Division"
begin

text \<open>
  The global variables of the native library (\<^verbatim>\<open>JpcapCaptor.c\<close> lines 92 to 115,
  \<^verbatim>\<open>JpcapSender.c\<close> line 42, \<^verbatim>\<open>JpcapWriter.c\<close> lines 16 and 17) as one record,
  and the error buffers. libpcap and the JVM are outside the repository: a \<^verbatim>\<open>pcap_t\<close>, a
  dump file, a \<^verbatim>\<open>JNIEnv\<close> and a Java reference are numbers, and what a library call answers
  is an argument of the operation that makes the call. Three ghost components record what the
  operating system, libpcap and the JVM have allocated: \<open>open_socks\<close>, the open sockets,
  \<open>live\<close>, the \<^verbatim>\<open>pcap_t\<close> objects not yet released, and
  \<open>global_refs\<close>, the global references not yet deleted; they are used only to tell a valid use of
  a pointer from a use after release.
\<close>

section \<open>State\<close>

type_synonym handle = nat
type_synonym env = nat
type_synonym jref = nat

record native =
  pcds :: "nat \<Rightarrow> handle option"
  jni_envs :: "nat \<Rightarrow> env option"
  linktypes :: "nat \<Rightarrow> nat"
  netnums :: "nat \<Rightarrow> u32"
  netmasks :: "nat \<Rightarrow> u32"
  jpcap_handlers :: "nat \<Rightarrow> jref option"
  pcap_errbuf :: string
  pcdd :: "handle option"
  pdt :: "nat option"
  soc_num :: int
  open_socks :: "int list"
  live :: "handle list"
  global_refs :: "jref list"

definition PCAP_ERRBUF_SIZE :: nat where "PCAP_ERRBUF_SIZE = 256"

definition native_init :: native where
  "native_init = \<lparr>pcds = \<lambda>_. None, jni_envs = \<lambda>_. None, linktypes = \<lambda>_. 0, netnums = \<lambda>_. 0,
     netmasks = \<lambda>_. 0, jpcap_handlers = \<lambda>_. None,
     pcap_errbuf = replicate (PCAP_ERRBUF_SIZE * MAX_NUMBER_OF_INSTANCE) CHR 0x00,
     pcdd = None, pdt = None, soc_num = - 1, open_socks = [], live = [], global_refs = []\<rparr>"

text \<open>Every array has \<^verbatim>\<open>MAX_NUMBER_OF_INSTANCE\<close> elements and is indexed by the Java object's ID.\<close>

definition slot :: "int \<Rightarrow> nat res" where
  "slot ID = (if 0 \<le> ID \<and> ID < int MAX_NUMBER_OF_INSTANCE then Inr (nat ID) else Inl (UB OobRead))"

text \<open>A libpcap function dereferences the handle it is given.\<close>

definition deref :: "native \<Rightarrow> handle option \<Rightarrow> handle res" where
  "deref s p = (case p of None \<Rightarrow> Inl (UB NullPtr)
                | Some h \<Rightarrow> if h \<in> set (live s) then Inr h else Inl (UB DeadHandle))"

definition pcap_close :: "handle option \<Rightarrow> native \<Rightarrow> native res" where
  "pcap_close p s = bindR (deref s p) (\<lambda>h. Inr (s\<lparr>live := remove1 h (live s)\<rparr>))"

lemma slot_Inr [res_simps]: "slot ID = Inr k \<longleftrightarrow> 0 \<le> ID \<and> ID < 255 \<and> k = nat ID"
  by (auto simp: slot_def)

lemma slot_nat [simp]: "k < 255 \<Longrightarrow> slot (int k) = Inr k"
  by (simp add: slot_def)

lemma deref_Inr [res_simps]: "deref s p = Inr h \<longleftrightarrow> p = Some h \<and> h \<in> set (live s)"
  by (auto simp: deref_def split: option.splits)

section \<open>Error buffers\<close>

text \<open>
  \<^verbatim>\<open>char pcap_errbuf[PCAP_ERRBUF_SIZE][MAX_NUMBER_OF_INSTANCE]\<close>: the dimensions are the wrong
  way round, so the buffer of instance \<open>id\<close> starts at byte \<open>255 * id\<close>, one byte earlier than
  256-byte buffers would. libpcap writes at most 255 characters and a null byte.
\<close>

definition err_row :: "nat \<Rightarrow> nat" where "err_row k = k * MAX_NUMBER_OF_INSTANCE"

definition errbuf_put :: "nat \<Rightarrow> string \<Rightarrow> string \<Rightarrow> string" where
  "errbuf_put k msg buf =
     (let txt = take (PCAP_ERRBUF_SIZE - 1) msg @ [CHR 0x00]
      in take (err_row k) buf @ txt @ drop (err_row k + length txt) buf)"

definition errbuf_get :: "nat \<Rightarrow> string \<Rightarrow> string" where
  "errbuf_get k buf = takeWhile (\<lambda>c. c \<noteq> CHR 0x00) (drop (err_row k) buf)"

definition wf_errbuf :: "string \<Rightarrow> bool" where
  "wf_errbuf buf \<longleftrightarrow> length buf = PCAP_ERRBUF_SIZE * MAX_NUMBER_OF_INSTANCE"

definition set_err :: "nat \<Rightarrow> string option \<Rightarrow> native \<Rightarrow> native" where
  "set_err k msg s = (case msg of None \<Rightarrow> s
     | Some m \<Rightarrow> s\<lparr>pcap_errbuf := errbuf_put k m (pcap_errbuf s)\<rparr>)"

section \<open>Opening and closing\<close>

text \<open>
  What \<^verbatim>\<open>pcap_open_live\<close> and \<^verbatim>\<open>pcap_open_offline\<close> answer: a handle with its link
  type (and, for a live capture, perhaps a warning in the error buffer), or an error message there.
\<close>

datatype open_result =
    OpenOk handle nat "string option"
  | OpenErr string

text \<open>\<^verbatim>\<open>pcap_lookupnet\<close>: network and mask, or an error message in the same buffer.\<close>

datatype lookup_result = LookupOk u32 u32 | LookupErr string

definition store_open :: "nat \<Rightarrow> open_result \<Rightarrow> native \<Rightarrow> native" where
  "store_open k r s = (case r of
     OpenOk h lt w \<Rightarrow> set_err k w (s\<lparr>pcds := (pcds s)(k := Some h), live := h # live s\<rparr>)
   | OpenErr msg \<Rightarrow> set_err k (Some msg) (s\<lparr>pcds := (pcds s)(k := None)\<rparr>))"

definition busy_message :: string where "busy_message = ''Another Jpcap instance is being used.''"

definition nativeOpenLive ::
  "env \<Rightarrow> int \<Rightarrow> string option \<Rightarrow> open_result \<Rightarrow> lookup_result \<Rightarrow> native \<Rightarrow> (string option \<times> native) res" where
  "nativeOpenLive env ID device opened looked s =
     bindR (slot ID) (\<lambda>k.
     if pcds s k \<noteq> None then Inr (Some busy_message, s)
     else let s = s\<lparr>jni_envs := (jni_envs s)(k := Some env)\<rparr>
          in case device of
               None \<Rightarrow> Inr (Some ''Please specify device name.'', s)
             | Some dev \<Rightarrow>
                 let s = store_open k opened s;
                     s = (case looked of
                            LookupOk net nmask \<Rightarrow> s\<lparr>netnums := (netnums s)(k := net),
                                                  netmasks := (netmasks s)(k := nmask)\<rparr>
                          | LookupErr msg \<Rightarrow>
                              set_err k (Some msg) s\<lparr>netmasks := (netmasks s)(k := 0)\<rparr>)
                 in case opened of
                      OpenErr msg \<Rightarrow> Inr (Some (errbuf_get k (pcap_errbuf s)), s)
                    | OpenOk h lt w \<Rightarrow> Inr (None, s\<lparr>linktypes := (linktypes s)(k := lt)\<rparr>))"

definition nativeOpenOffline ::
  "env \<Rightarrow> int \<Rightarrow> string option \<Rightarrow> open_result \<Rightarrow> native \<Rightarrow> (string option \<times> native) res" where
  "nativeOpenOffline env ID filename opened s =
     bindR (slot ID) (\<lambda>k.
     if pcds s k \<noteq> None then Inr (Some busy_message, s)
     else let s = s\<lparr>jni_envs := (jni_envs s)(k := Some env)\<rparr>
          in case filename of
               None \<Rightarrow> Inl (UB NullPtr)
             | Some file \<Rightarrow>
                 let s = store_open k opened s
                 in case opened of
                      OpenErr msg \<Rightarrow> Inr (Some (errbuf_get k (pcap_errbuf s)), s)
                    | OpenOk h lt w \<Rightarrow> Inr (None, s\<lparr>linktypes := (linktypes s)(k := lt)\<rparr>))"

definition nativeClose :: "int \<Rightarrow> native \<Rightarrow> native res" where
  "nativeClose ID s =
     bindR (slot ID) (\<lambda>k.
     bindR (if pcds s k \<noteq> None then pcap_close (pcds s k) s else Inr s) (\<lambda>s.
     Inr (s\<lparr>pcds := (pcds s)(k := None)\<rparr>)))"

text \<open>\<^verbatim>\<open>JpcapSender.nativeOpenDevice\<close> and \<^verbatim>\<open>nativeCloseDevice\<close>; the link type is not stored.\<close>

definition nativeOpenDevice ::
  "env \<Rightarrow> int \<Rightarrow> string option \<Rightarrow> open_result \<Rightarrow> native \<Rightarrow> (string option \<times> native) res" where
  "nativeOpenDevice env ID device opened s =
     bindR (slot ID) (\<lambda>k.
     let s = s\<lparr>jni_envs := (jni_envs s)(k := Some env)\<rparr>
     in if pcds s k \<noteq> None then Inr (Some busy_message, s)
        else case device of
               None \<Rightarrow> Inr (Some ''Please specify device name.'', s)
             | Some dev \<Rightarrow>
                 let s = store_open k opened s
                 in case opened of
                      OpenErr msg \<Rightarrow> Inr (Some (errbuf_get k (pcap_errbuf s)), s)
                    | OpenOk h lt w \<Rightarrow> Inr (None, s))"

definition nativeCloseDevice :: "int \<Rightarrow> native \<Rightarrow> native res" where
  "nativeCloseDevice ID s =
     bindR (slot ID) (\<lambda>k.
     bindR (if pcds s k \<noteq> None then pcap_close (pcds s k) s else Inr s) (\<lambda>s.
     Inr (s\<lparr>pcds := (pcds s)(k := None)\<rparr>)))"

section \<open>Error buffer lemmas\<close>

lemma length_errbuf_put:
  assumes "wf_errbuf buf" "k < 255"
  shows "wf_errbuf (errbuf_put k msg buf)"
  using assms by (auto simp: wf_errbuf_def errbuf_put_def err_row_def PCAP_ERRBUF_SIZE_def Let_def)

lemma errbuf_get_put:
  assumes "wf_errbuf buf" "k < 255" "length msg \<le> 255" "CHR 0x00 \<notin> set msg"
  shows "errbuf_get k (errbuf_put k msg buf) = msg"
proof -
  have d: "drop (err_row k) (errbuf_put k msg buf)
      = msg @ CHR 0x00 # drop (err_row k + length msg + 1) buf"
    using assms by (simp add: errbuf_put_def err_row_def PCAP_ERRBUF_SIZE_def Let_def wf_errbuf_def min_def)
  have "takeWhile (\<lambda>c. c \<noteq> CHR 0x00) (msg @ CHR 0x00 # ys) = msg" for ys
    using assms(4) by (subst takeWhile_append2) auto
  then show ?thesis unfolding errbuf_get_def d by simp
qed

lemma drop_errbuf_put:
  assumes "wf_errbuf buf" "k < 255" "length msg \<le> 255" "k < j"
  shows "drop (err_row j) (errbuf_put k msg buf) =
    (if length msg = 255 \<and> j = k + 1 then CHR 0x00 # drop (err_row j + 1) buf else drop (err_row j) buf)"
proof -
  have l: "k * 255 \<le> length buf" "(k + 1) * 255 \<le> j * 255" using assms by (auto simp: wf_errbuf_def PCAP_ERRBUF_SIZE_def)
  let ?b = "errbuf_put k msg buf"
  have b: "?b = take (k * 255) buf @ msg @ [CHR 0x00] @ drop (k * 255 + (length msg + 1)) buf"
    using assms(3) by (simp add: errbuf_put_def PCAP_ERRBUF_SIZE_def err_row_def Let_def)
  show ?thesis
  proof (cases "length msg = 255 \<and> j = k + 1")
    case True
    then show ?thesis using l by (simp add: b err_row_def min_def add.commute)
  next
    case False
    let ?A = "take (k * 255) buf @ msg @ [CHR 0x00]"
    have A: "?b = ?A @ drop (length ?A) buf" using l by (simp add: b min_def)
    have "k * 255 + (length msg + 1) \<le> j * 255"
    proof (cases "j = k + 1")
      case True then show ?thesis using False assms(3) by simp
    next
      case False
      then have "k + 2 \<le> j" using assms(4) by simp
      then have "(k + 2) * 255 \<le> j * 255" by (rule mult_le_mono1)
      then show ?thesis using assms(3) by simp
    qed
    then have "length ?A \<le> j * 255" using l by (simp add: min_def)
    then have "drop (j * 255) ?b = drop (j * 255) buf"
      unfolding A drop_append drop_drop by simp
    then show ?thesis using False by (auto simp: err_row_def)
  qed
qed

definition sample_native :: native where
  "sample_native = native_init\<lparr>pcds := (\<lambda>_. None)(3 := Some 7), live := [7],
     linktypes := \<lambda>_. DLT_EN10MB\<rparr>"

lemma sample_native_facts [simp]:
  "pcds sample_native k = (if k = 3 then Some 7 else None)" "live sample_native = [7]"
  "wf_errbuf (pcap_errbuf native_init)"
  by (simp_all add: sample_native_def native_init_def wf_errbuf_def PCAP_ERRBUF_SIZE_def)

section \<open>Properties\<close>

text \<open>
  C32: an error message of libpcap, of any length it can have, is read back whole from the instance's
  error buffer, and no other instance with a higher ID is disturbed, except that a message of full
  length erases the message of the next instance: the two dimensions of the buffer are exchanged.
\<close>

theorem errbuf_overlap:
  assumes "wf_errbuf buf" "k < 255" "length msg \<le> 255" "CHR 0x00 \<notin> set msg"
  shows "errbuf_get k (errbuf_put k msg buf) = msg
    \<and> (\<forall>j > k. errbuf_get j (errbuf_put k msg buf) =
         (if length msg = 255 \<and> j = k + 1 then [] else errbuf_get j buf))"
  using errbuf_get_put [OF assms] drop_errbuf_put [OF assms(1-3)]
  by (simp add: errbuf_get_def)
theorem errbuf_overlap_witness:
  "errbuf_get 3 (errbuf_put 3 ''no such device'' (pcap_errbuf native_init)) = ''no such device''
    \<and> errbuf_get 4 (errbuf_put 3 ''no such device'' (pcap_errbuf native_init))
        = errbuf_get 4 (pcap_errbuf native_init)"
  using errbuf_overlap [of "pcap_errbuf native_init" 3 "''no such device''"] by simp

text \<open>
  C31: opening a device for capture on a free instance. When libpcap opens it, the handle and its link
  type are stored and the call reports no error. When libpcap fails, nothing is stored, but the
  message reported is that of the network lookup, which is made even then, if the lookup failed too.
\<close>

theorem nativeOpenLive_reports:
  assumes "k < 255" "pcds s k = None" "wf_errbuf (pcap_errbuf s)"
    and "length msg \<le> 255" "CHR 0x00 \<notin> set msg" "length lmsg \<le> 255" "CHR 0x00 \<notin> set lmsg"
  shows "(\<exists>s'. nativeOpenLive env (int k) (Some dev) (OpenOk h lt None) looked s = Inr (None, s')
      \<and> pcds s' k = Some h \<and> linktypes s' k = lt \<and> live s' = h # live s)
    \<and> (\<exists>s'. nativeOpenLive env (int k) (Some dev) (OpenErr msg) (LookupOk net nmask) s
        = Inr (Some msg, s') \<and> pcds s' k = None \<and> live s' = live s)
    \<and> (\<exists>s'. nativeOpenLive env (int k) (Some dev) (OpenErr msg) (LookupErr lmsg) s
        = Inr (Some lmsg, s') \<and> pcds s' k = None \<and> live s' = live s)"
  using assms length_errbuf_put [OF assms(3,1), of msg]
  by (auto simp: nativeOpenLive_def store_open_def set_err_def Let_def errbuf_get_put
      split: lookup_result.splits)

theorem nativeOpenLive_reports_witness:
  "(\<exists>s'. nativeOpenLive 1 (int 0) (Some ''eth0'') (OpenOk 5 1 None) (LookupErr ''no address'') native_init
        = Inr (None, s') \<and> pcds s' 0 = Some 5 \<and> linktypes s' 0 = 1 \<and> live s' = 5 # live native_init)
   \<and> (\<exists>s'. nativeOpenLive 1 (int 0) (Some ''eth0'') (OpenErr ''permission denied'') (LookupOk 0 0)
        native_init = Inr (Some ''permission denied'', s') \<and> pcds s' 0 = None \<and> live s' = live native_init)
   \<and> (\<exists>s'. nativeOpenLive 1 (int 0) (Some ''eth0'') (OpenErr ''permission denied'')
        (LookupErr ''no address'') native_init = Inr (Some ''no address'', s')
        \<and> pcds s' 0 = None \<and> live s' = live native_init)"
  by (rule nativeOpenLive_reports) (simp_all add: native_init_def wf_errbuf_def PCAP_ERRBUF_SIZE_def)

end
