(* ===== verification/Captor.thy ===== *)
theory Captor
  imports Native_State
begin

text \<open>
  The capture entry points of \<^verbatim>\<open>src/c/JpcapCaptor.c\<close> (lines 436 to 694) over the native
  state. A captured packet is what libpcap hands to the callback, a capture header and the captured
  bytes, together with the indeterminate values that \<^verbatim>\<open>get_packet\<close> may read. Callbacks into
  Java are recorded as the list of deliveries; what the Java handler does is not modelled.
\<close>

section \<open>Delivery\<close>

record captured =
  cap_undef :: u16
  cap_stray :: "u16 \<times> u16"
  cap_hdr :: pcap_pkthdr
  cap_bytes :: bytes

definition read_captured :: "nat \<Rightarrow> captured \<Rightarrow> packet res" where
  "read_captured linktype c = get_packet (cap_undef c) (cap_stray c) linktype (cap_hdr c) (cap_bytes c)"

definition NewGlobalRef :: "jref option \<Rightarrow> native \<Rightarrow> native" where
  "NewGlobalRef r s = (case r of None \<Rightarrow> s | Some x \<Rightarrow> s\<lparr>global_refs := x # global_refs s\<rparr>)"

definition DeleteGlobalRef :: "jref option \<Rightarrow> native \<Rightarrow> native" where
  "DeleteGlobalRef r s = (case r of None \<Rightarrow> s | Some x \<Rightarrow> s\<lparr>global_refs := remove1 x (global_refs s)\<rparr>)"

text \<open>
  \<^verbatim>\<open>dispatcher_handler\<close>: the packet object is built and \<^verbatim>\<open>receivePacket\<close> called on the
  handler stored for the instance, through the environment stored for it.
\<close>

definition dispatcher_handler :: "native \<Rightarrow> nat \<Rightarrow> captured \<Rightarrow> (jref \<times> packet) res" where
  "dispatcher_handler s k c =
     (case jni_envs s k of
        None \<Rightarrow> Inl (UB NullPtr)
      | Some env \<Rightarrow>
          bindR (read_captured (linktypes s k) c) (\<lambda>packet.
          case jpcap_handlers s k of
            None \<Rightarrow> Inl (UB NullPtr)
          | Some h \<Rightarrow> if h \<in> set (global_refs s) then Inr (h, packet) else Inl (UB DeadHandle)))"

fun dispatch :: "native \<Rightarrow> nat \<Rightarrow> captured list \<Rightarrow> (jref \<times> packet) list res" where
  "dispatch s k [] = Inr []"
| "dispatch s k (c # cs) =
     bindR (dispatcher_handler s k c) (\<lambda>d. bindR (dispatch s k cs) (\<lambda>ds. Inr (d # ds)))"

text \<open>
  \<^verbatim>\<open>processPacket\<close> and \<^verbatim>\<open>loopPacket\<close> differ only in the libpcap function they call,
  \<^verbatim>\<open>pcap_dispatch\<close> or \<^verbatim>\<open>pcap_loop\<close>; what either does is the list \<open>cs\<close> of packets it
  passes to the callback, in order, and its return value \<open>r\<close>.
\<close>

definition run_callbacks ::
  "env \<Rightarrow> int \<Rightarrow> jref option \<Rightarrow> captured list \<Rightarrow> int \<Rightarrow> native \<Rightarrow> (int \<times> (jref \<times> packet) list \<times> native) res" where
  "run_callbacks env ID handler cs r s =
     bindR (slot ID) (\<lambda>k.
     let s = NewGlobalRef handler
               (s\<lparr>jni_envs := (jni_envs s)(k := Some env), jpcap_handlers := (jpcap_handlers s)(k := handler)\<rparr>)
     in bindR (deref s (pcds s k)) (\<lambda>h.
        bindR (dispatch s k cs) (\<lambda>ds.
        Inr (r, ds, DeleteGlobalRef (jpcap_handlers s k) s))))"

definition processPacket ::
  "env \<Rightarrow> int \<Rightarrow> jref option \<Rightarrow> captured list \<Rightarrow> int \<Rightarrow> native \<Rightarrow> (int \<times> (jref \<times> packet) list \<times> native) res" where
  "processPacket env ID handler cs r s = run_callbacks env ID handler cs r s"

definition loopPacket ::
  "env \<Rightarrow> int \<Rightarrow> jref option \<Rightarrow> captured list \<Rightarrow> int \<Rightarrow> native \<Rightarrow> (int \<times> (jref \<times> packet) list \<times> native) res" where
  "loopPacket env ID handler cs r s = run_callbacks env ID handler cs r s"

text \<open>The answers of \<^verbatim>\<open>pcap_next_ex\<close>: 1 with a packet, 0, -1 and -2.\<close>

datatype next_result = NextPacket "captured option" | NextTimeout | NextError | NextEOF

datatype java_packet = JNull | JEof | JPacket packet

definition getPacket :: "env \<Rightarrow> int \<Rightarrow> next_result \<Rightarrow> native \<Rightarrow> (java_packet \<times> native) res" where
  "getPacket env ID answer s =
     bindR (slot ID) (\<lambda>k.
     bindR (deref s (pcds s k)) (\<lambda>h.
     case answer of
       NextTimeout \<Rightarrow> Inr (JNull, s)
     | NextError \<Rightarrow> Inr (JNull, s)
     | NextEOF \<Rightarrow> Inr (JEof, s)
     | NextPacket data \<Rightarrow>
         let s = s\<lparr>jni_envs := (jni_envs s)(k := Some env)\<rparr>
         in case data of
              None \<Rightarrow> Inr (JNull, s)
            | Some c \<Rightarrow> bindR (read_captured (linktypes s k) c) (\<lambda>p. Inr (JPacket p, s))))"

section \<open>Modes, filter, statistics\<close>

text \<open>Every other entry point looks the handle up and calls libpcap on it.\<close>

definition with_handle :: "int \<Rightarrow> native \<Rightarrow> (nat \<Rightarrow> handle \<Rightarrow> 'a res) \<Rightarrow> 'a res" where
  "with_handle ID s f = bindR (slot ID) (\<lambda>k. bindR (deref s (pcds s k)) (f k))"

text \<open>\<open>err\<close> is the message \<^verbatim>\<open>pcap_setnonblock\<close> leaves in the buffer when it fails.\<close>

definition setNonBlockingMode :: "int \<Rightarrow> string option \<Rightarrow> native \<Rightarrow> native res" where
  "setNonBlockingMode ID err s = with_handle ID s (\<lambda>k h. Inr (set_err k err s))"

definition isNonBlockinMode :: "int \<Rightarrow> int \<Rightarrow> string option \<Rightarrow> native \<Rightarrow> (bool \<times> native) res" where
  "isNonBlockinMode ID nonblocking err s =
     with_handle ID s (\<lambda>k h. Inr (nonblocking \<noteq> 0, set_err k err s))"

text \<open>
  What the two filter calls answer: both succeed, or one fails and \<^verbatim>\<open>pcap_geterr\<close> gives a
  message or null.
\<close>

datatype filter_result = FilterOk | CompileFailed "string option" | SetfilterFailed "string option"

definition filter_error :: "filter_result \<Rightarrow> string option" where
  "filter_error r = (case r of
     FilterOk \<Rightarrow> None
   | CompileFailed m \<Rightarrow> Some (case m of None \<Rightarrow> ''pcap_compile failed'' | Some e \<Rightarrow> e)
   | SetfilterFailed m \<Rightarrow> Some (case m of None \<Rightarrow> ''pcap_setfilter failed'' | Some e \<Rightarrow> e))"

definition filter_prefix :: string where
  "filter_prefix = ''Error occurred while compiling or setting filter: ''"

text \<open>
  The message buffer of \<^verbatim>\<open>setFilter\<close>: \<^verbatim>\<open>strcpy\<close> of the prefix, \<^verbatim>\<open>strncat\<close> of at
  most \<^verbatim>\<open>2047-strlen(buf)\<close> characters and a null byte, \<^verbatim>\<open>buf[2047]=0\<close>; the string that is
  thrown ends at the first null byte.
\<close>

definition filter_buffer :: "string \<Rightarrow> string \<Rightarrow> string res" where
  "filter_buffer err buf =
     (let n = length filter_prefix; txt = take (2047 - n) err
      in if n + length txt + 1 > length buf \<or> 2047 \<ge> length buf then Inl (UB OobWrite)
         else Inr ((filter_prefix @ txt @ [CHR 0x00] @ drop (n + length txt + 1) buf)[2047 := CHR 0x00]))"

definition c_string :: "string \<Rightarrow> string" where
  "c_string buf = takeWhile (\<lambda>c. c \<noteq> CHR 0x00) buf"

definition setFilter :: "int \<Rightarrow> string option \<Rightarrow> filter_result \<Rightarrow> string \<Rightarrow> native \<Rightarrow> native res" where
  "setFilter ID condition r junk s =
     (case condition of
        None \<Rightarrow> Inl (UB NullPtr)
      | Some cdt \<Rightarrow>
          with_handle ID s (\<lambda>k h.
          case filter_error r of
            None \<Rightarrow> Inr s
          | Some err \<Rightarrow>
              bindR (filter_buffer err junk) (\<lambda>buf. Inl (Exn (IOException (c_string buf))))))"

definition breakLoop :: "int \<Rightarrow> native \<Rightarrow> native res" where
  "breakLoop ID s = with_handle ID s (\<lambda>k h. Inr s)"

text \<open>
  \<^verbatim>\<open>updateStat\<close> returns the new values of \<^verbatim>\<open>received_packets\<close> and
  \<^verbatim>\<open>dropped_packets\<close>; \<^verbatim>\<open>pcap_stats\<close> fills the structure only when it succeeds.
\<close>

definition updateStat :: "int \<Rightarrow> (u32 \<times> u32) option \<Rightarrow> u32 \<times> u32 \<Rightarrow> native \<Rightarrow> (int \<times> int) res" where
  "updateStat ID stats junk s =
     with_handle ID s (\<lambda>k h.
     let (recv, drp) = (case stats of None \<Rightarrow> junk | Some st \<Rightarrow> st) in Inr (sint recv, sint drp))"

definition getErrorMessage :: "int \<Rightarrow> native \<Rightarrow> string res" where
  "getErrorMessage ID s = bindR (slot ID) (\<lambda>k. Inr (errbuf_get k (pcap_errbuf s)))"

text \<open>
  The read timeout as a \<^verbatim>\<open>struct timeval\<close>: C division truncates towards zero, and the result
  is cut to a \<^verbatim>\<open>jint\<close>. \<open>ok\<close> is the success of the socket call.
\<close>

definition jint :: "int \<Rightarrow> int" where "jint n = sint (word_of_int n :: u32)"

definition timeval_of :: "int \<Rightarrow> int \<times> int" where
  "timeval_of millis = (millis sdiv 1000, (millis smod 1000) * 1000)"

definition millis_of :: "int \<times> int \<Rightarrow> int" where
  "millis_of tv = (case tv of (sec, usec) \<Rightarrow> jint ((usec sdiv 1000) + sec * 1000))"

definition setPacketReadTimeout :: "int \<Rightarrow> int \<Rightarrow> bool \<Rightarrow> native \<Rightarrow> ((int \<times> int) \<times> bool) res" where
  "setPacketReadTimeout ID millis ok s = with_handle ID s (\<lambda>k h. Inr (timeval_of millis, ok))"

definition getPacketReadTimeout :: "int \<Rightarrow> (int \<times> int) option \<Rightarrow> native \<Rightarrow> int res" where
  "getPacketReadTimeout ID tv s =
     with_handle ID s (\<lambda>k h. Inr (case tv of None \<Rightarrow> - 1 | Some t \<Rightarrow> millis_of t))"

section \<open>Lemmas\<close>

lemma dispatch_Inr:
  assumes "jni_envs s k = Some env" "jpcap_handlers s k = Some h" "h \<in> set (global_refs s)"
  shows "dispatch s k cs = Inr ds \<longleftrightarrow>
    list_all2 (\<lambda>c d. fst d = h \<and> read_captured (linktypes s k) c = Inr (snd d)) cs ds"
  using assms
  by (induction cs arbitrary: ds)
     (auto simp: dispatcher_handler_def res_simps list_all2_Cons1)

lemma jint_id: "- (2 ^ 31) \<le> n \<Longrightarrow> n < 2 ^ 31 \<Longrightarrow> jint n = n"
  unfolding jint_def by (simp add: sint_sbintrunc' signed_take_bit_int_eq_self)

lemma timeval_values:
  fixes m :: int
  shows "millis_of (timeval_of m) = jint m" "\<bar>snd (timeval_of m)\<bar> < 1000000"
proof -
  have "\<bar>m smod 1000\<bar> < 1000"
    using smod_int_range [of 1000 m] by (auto simp: abs_le_iff)
  moreover have "(m smod 1000) * 1000 sdiv 1000 = m smod 1000" for m :: int
    by (cases "m smod 1000" "0 :: int" rule: linorder_cases) (simp_all add: signed_divide_int_def sgn_mult abs_mult)
  ultimately show "millis_of (timeval_of m) = jint m" "\<bar>snd (timeval_of m)\<bar> < 1000000"
    using smod_sdiv_mult_eq [of m 1000] by (simp_all add: millis_of_def timeval_of_def)
qed

lemma length_filter_prefix [simp]: "length filter_prefix = 50"
  by (simp add: filter_prefix_def)

lemma no_nul_prefix [simp]: "CHR 0x00 \<notin> set filter_prefix"
  by (simp add: filter_prefix_def)

lemma takeWhile_nul: "x \<notin> set xs \<Longrightarrow> takeWhile (\<lambda>c. c \<noteq> x) (xs @ x # ys) = xs"
  by (induction xs) auto

lemma update_after: "length xs \<le> i \<Longrightarrow> \<exists>zs. (xs @ x # ys)[i := x] = xs @ x # zs"
  by (cases "i - length xs") (simp_all add: list_update_append)

section \<open>Properties\<close>

text \<open>
  C30: \<^verbatim>\<open>processPacket\<close> on an open instance delivers to the given handler exactly the packets
  libpcap captured, each as \<^verbatim>\<open>get_packet\<close> reads it with the instance's link type, in capture
  order, returns libpcap's count, and leaves no global reference behind; of the state only the
  instance's environment and handler entries change.
\<close>

theorem processPacket_delivers:
  assumes "k < 255" "pcds s k = Some h" "h \<in> set (live s)"
  shows "processPacket env (int k) (Some r) cs n s = Inr (n', ds, s') \<longleftrightarrow>
    n' = n \<and> s' = s\<lparr>jni_envs := (jni_envs s)(k := Some env),
                  jpcap_handlers := (jpcap_handlers s)(k := Some r)\<rparr>
    \<and> list_all2 (\<lambda>c d. fst d = r \<and> read_captured (linktypes s k) c = Inr (snd d)) cs ds"
  using assms
  by (auto simp: processPacket_def run_callbacks_def Let_def NewGlobalRef_def DeleteGlobalRef_def
      deref_def bindR_eq_Inr dispatch_Inr)

theorem processPacket_delivers_witness:
  "\<forall>s'. processPacket 1 (int 3) (Some 9)
        [\<lparr>cap_undef = 0, cap_stray = (0, 0), cap_hdr = sample_hdr 16,
          cap_bytes = [1, 2, 3, 4, 5, 6, 7, 8, 9, 10, 11, 12, 18, 52, 13, 14]\<rparr>] 1 sample_native
      = Inr (1, [(9, sample_plain)], s') \<longleftrightarrow>
    (1 :: int) = 1 \<and> s' = sample_native\<lparr>jni_envs := (jni_envs sample_native)(3 := Some 1),
                  jpcap_handlers := (jpcap_handlers sample_native)(3 := Some 9)\<rparr>
    \<and> list_all2 (\<lambda>c d. fst d = (9 :: jref) \<and> read_captured (linktypes sample_native 3) c = Inr (snd d))
        [\<lparr>cap_undef = 0, cap_stray = (0, 0), cap_hdr = sample_hdr 16,
          cap_bytes = [1, 2, 3, 4, 5, 6, 7, 8, 9, 10, 11, 12, 18, 52, 13, 14]\<rparr>] [(9 :: jref, sample_plain)]"
  by (rule allI, rule processPacket_delivers) simp_all

text \<open>
  A packet read timeout set in milliseconds is read back unchanged, negative values included, and
  the microseconds handed to the socket stay below a second.
\<close>

theorem timeout_roundtrip:
  assumes "k < 255" "pcds s k = Some h" "h \<in> set (live s)" "- (2 ^ 31) \<le> millis" "millis < 2 ^ 31"
  shows "\<exists>tv. setPacketReadTimeout (int k) millis True s = Inr (tv, True)
          \<and> getPacketReadTimeout (int k) (Some tv) s = Inr millis \<and> \<bar>snd tv\<bar> < 1000000"
  using assms(1-3) timeval_values [of millis] jint_id [OF assms(4,5)]
  by (simp add: setPacketReadTimeout_def getPacketReadTimeout_def with_handle_def deref_def)

theorem timeout_roundtrip_witness:
  "\<exists>tv. setPacketReadTimeout (int 3) (- 1500) True sample_native = Inr (tv, True)
          \<and> getPacketReadTimeout (int 3) (Some tv) sample_native = Inr (- 1500) \<and> \<bar>snd tv\<bar> < 1000000"
  by (rule timeout_roundtrip) simp_all

text \<open>
  When a filter is rejected, \<^verbatim>\<open>setFilter\<close> throws an \<^verbatim>\<open>IOException\<close> with the
  fixed prefix and at most 1997 characters of libpcap's message, whatever its length: the 2048-byte
  message buffer is never overrun and the string is always terminated.
\<close>

theorem setFilter_message:
  assumes "k < 255" "pcds s k = Some h" "h \<in> set (live s)" "length junk = 2048"
    and "filter_error r = Some err" "CHR 0x00 \<notin> set err"
  shows "setFilter (int k) (Some cdt) r junk s
    = Inl (Exn (IOException (filter_prefix @ take 1997 err)))"
proof -
  let ?t = "take 1997 err"
  let ?ys = "drop (50 + length ?t + 1) junk"
  obtain buf where buf: "filter_buffer err junk = Inr buf"
      "buf = (filter_prefix @ ?t @ CHR 0x00 # ?ys)[2047 := CHR 0x00]"
    using assms(4) by (simp add: filter_buffer_def Let_def)
  have "\<exists>zs. buf = (filter_prefix @ ?t) @ CHR 0x00 # zs"
    using update_after [of "filter_prefix @ ?t" 2047 "CHR 0x00" ?ys] by (simp add: buf(2))
  moreover have "CHR 0x00 \<notin> set (filter_prefix @ ?t)" using assms(6) in_set_takeD by fastforce
  ultimately have "c_string buf = filter_prefix @ ?t"
    unfolding c_string_def using takeWhile_nul by metis
  then show ?thesis
    using assms buf(1) by (simp add: setFilter_def with_handle_def deref_def)
qed

theorem setFilter_message_witness:
  "setFilter (int 3) (Some ''tpc'') (CompileFailed (Some ''syntax error'')) (replicate 2048 CHR ''x'') sample_native
    = Inl (Exn (IOException (filter_prefix @ take 1997 ''syntax error'')))"
  by (rule setFilter_message) (simp_all add: filter_error_def)

end
