(* ===== verification/Sender_Device.thy ===== *)
theory Sender_Device
  imports Sender Native_State
begin

text \<open>
  The sending entry points of \<^verbatim>\<open>src/c/JpcapSender.c\<close> over the native state: sending a packet
  object through the capture device or through the raw socket, and opening and closing the raw
  socket. The stack buffer's initial contents are the argument \<open>junk\<close>; the answers of
  \<^verbatim>\<open>pcap_sendpacket\<close>, \<^verbatim>\<open>socket\<close> and \<^verbatim>\<open>sendto\<close> are arguments. The
  result is what was handed to the system.
\<close>

definition throwIO :: "string \<Rightarrow> 'a res" where
  "throwIO msg = Inl (Exn (IOException msg))"

definition nativeSendPacket :: "int \<Rightarrow> packet \<Rightarrow> bytes \<Rightarrow> int \<Rightarrow> native \<Rightarrow> bytes res" where
  "nativeSendPacket ID p junk sent s =
     bindR (slot ID) (\<lambda>k.
     if pcds s k = None then throwIO ''Another JpcapSender instance is being used.''
     else bindR (frame_to_send p junk) (\<lambda>frame.
          bindR (deref s (pcds s k)) (\<lambda>h.
          if sent < 0 then throwIO (errbuf_get k (pcap_errbuf s)) else Inr frame)))"

text \<open>The second component is the message of the exception that is thrown, if one is.\<close>

definition nativeOpenRawSocket :: "int \<Rightarrow> native \<Rightarrow> native \<times> string option" where
  "nativeOpenRawSocket fd s =
     (if soc_num s \<ge> 0 then (s, Some ''Raw Socket is already opened.'')
      else if fd < 0 then (s\<lparr>soc_num := fd\<rparr>, Some (''can'' @ [CHR 0x27] @ ''t initialize socket''))
      else (s\<lparr>soc_num := fd, open_socks := fd # open_socks s\<rparr>, None))"

text \<open>
  Destination address and datagram of the \<^verbatim>\<open>sendto\<close> call, which fails on a descriptor that
  has been closed.
\<close>

definition nativeSendPacketViaRawSocket ::
  "packet \<Rightarrow> bytes \<Rightarrow> int \<Rightarrow> native \<Rightarrow> (bytes \<times> bytes) res" where
  "nativeSendPacketViaRawSocket p junk sent s =
     (if body_ip (pk_body p) = None then throwIO ''seinding non-IP packet is not supported''
      else if soc_num s < 0 then throwIO ''socket not initialized yet''
      else bindR (set_packet p junk False) (\<lambda>(m, n).
           bindR (ld_bytes m (field struct_ip [''ip_dst'']) 4) (\<lambda>dst.
           bindR (ld_bytes m 0 (nat n)) (\<lambda>dgram.
           if sent < 0 \<or> soc_num s \<notin> set (open_socks s) then throwIO ''sendto error''
           else Inr (dst, dgram)))))"

text \<open>\<^verbatim>\<open>close(soc_num)\<close>: the variable keeps its value.\<close>

definition nativeCloseRawSocket :: "native \<Rightarrow> native" where
  "nativeCloseRawSocket s = s\<lparr>open_socks := removeAll (soc_num s) (open_socks s)\<rparr>"

section \<open>Properties\<close>

lemma udp_datagram:
  assumes "pk_body p = UDPBody i u" "ip_version i = 4" "has_addrs 4 i" "pk_data p = Some d"
    and "length d \<le> 1572" "length junk = MAX_PACKET_SIZE"
  obtains m where "set_packet p junk False = Inr (m, int (28 + length d))" "length m = 1600"
    "ld_bytes m 16 4 = Inr (take 4 (the (ip_dst_ip i)))"
proof -
  define seg where "seg = udp_segment u (udp_checksum (ip_pseudo i IPPROTO_UDP
      (word_of_nat (length d + 8))) u (take (length d) d)) (take (length d) d)"
  let ?fr = "v4_bytes (v4_sent i IPPROTO_UDP (28 + length d)) @ seg"
  have cl: "length d = clip_length 8 (length d)" using assms(5) by (simp add: clip_length_def)
  have fr: "length ?fr = 28 + length d" using assms by (simp add: seg_def)
  have "set_packet p junk False = Inr (splice junk 0 ?fr, int (0 + (28 + length d)))"
    using assms(5,6) by (intro set_packet_udp_bytes [OF _ assms(1-4) cl]) (simp_all add: seg_def)
  moreover have "ld_bytes (splice junk 0 ?fr) (0 + 16) 4 = Inr (take 4 (drop 16 ?fr))"
    using assms(5,6) fr by (intro ld_bytes_splice) auto
  moreover have "take 4 (drop 16 ?fr) = take 4 (the (ip_dst_ip i))"
    using assms(3) by (auto simp: v4_bytes_def v4_sent_def sent_v4_def Let_def has_addrs_def)
  ultimately show ?thesis
    using assms(5,6) fr by (intro that [of "splice junk 0 ?fr"]) auto
qed

text \<open>
  A raw socket that has been closed is never usable again in the process: the descriptor variable
  is not reset, so opening reports that the socket is open, and sending ends in an
  \<^verbatim>\<open>IOException\<close> whatever \<^verbatim>\<open>sendto\<close> answers.
\<close>

theorem raw_socket_not_reopened:
  assumes "soc_num s < 0" "0 \<le> fd" "nativeOpenRawSocket fd s = (s1, None)"
    and "pk_body p = UDPBody i u" "ip_version i = 4" "has_addrs 4 i" "pk_data p = Some d"
    and "length d \<le> 1572" "length junk = MAX_PACKET_SIZE"
  shows "(\<exists>dgram. nativeSendPacketViaRawSocket p junk 0 s1 = Inr (take 4 (the (ip_dst_ip i)), dgram))
    \<and> (\<forall>fd'. nativeOpenRawSocket fd' (nativeCloseRawSocket s1)
          = (nativeCloseRawSocket s1, Some ''Raw Socket is already opened.''))
    \<and> (\<forall>sent. nativeSendPacketViaRawSocket p junk sent (nativeCloseRawSocket s1)
          = throwIO ''sendto error'')"
proof -
  have s1: "s1 = s\<lparr>soc_num := fd, open_socks := fd # open_socks s\<rparr>"
    using assms(1-3) by (simp add: nativeOpenRawSocket_def)
  obtain m where m: "set_packet p junk False = Inr (m, int (28 + length d))" "length m = 1600"
      "ld_bytes m 16 4 = Inr (take 4 (the (ip_dst_ip i)))"
    using udp_datagram [OF assms(4-9)] .
  have dg: "ld_bytes m 0 (28 + length d) = Inr (take (28 + length d) m)"
    using m(2) assms(8) by (simp add: ld_bytes_def)
  have ip: "body_ip (pk_body p) \<noteq> None" using assms(4) by simp
  note send = nativeSendPacketViaRawSocket_def m(1,3) dg ip
  show ?thesis
    using assms(2) by (simp add: s1 send nativeOpenRawSocket_def nativeCloseRawSocket_def nat_add_distrib)
qed

theorem raw_socket_not_reopened_witness:
  "\<exists>s1. nativeOpenRawSocket 5 native_init = (s1, None)
    \<and> (\<exists>dgram. nativeSendPacketViaRawSocket (sample_packet (UDPBody sample_ip sample_udp) [1])
          (replicate 1600 0) 0 s1 = Inr (take 4 (the (ip_dst_ip sample_ip)), dgram))
    \<and> (\<forall>fd'. nativeOpenRawSocket fd' (nativeCloseRawSocket s1)
          = (nativeCloseRawSocket s1, Some ''Raw Socket is already opened.''))
    \<and> (\<forall>sent. nativeSendPacketViaRawSocket (sample_packet (UDPBody sample_ip sample_udp) [1])
          (replicate 1600 0) sent (nativeCloseRawSocket s1) = throwIO ''sendto error'')"
proof -
  obtain s1 where s1: "nativeOpenRawSocket 5 native_init = (s1, None)"
    by (simp add: nativeOpenRawSocket_def native_init_def)
  show ?thesis
    using s1 raw_socket_not_reopened [OF _ _ s1, of "sample_packet (UDPBody sample_ip sample_udp) [1]"
        sample_ip sample_udp "[1]" "replicate 1600 0"]
    by (simp add: native_init_def)
qed

end
