(* ===== verification/Writer.thy ===== *)
theory Writer
  imports Native_State
begin

text \<open>
  \<^verbatim>\<open>src/c/JpcapWriter.c\<close>: one dump file for the whole process, in the globals
  \<^verbatim>\<open>pcdd\<close> and \<^verbatim>\<open>pdt\<close>. A record of the dump file is what \<^verbatim>\<open>pcap_dump\<close> is
  given: time stamp, lengths, and as many bytes of the stack buffer as \<^verbatim>\<open>caplen\<close> says.
\<close>

record dump_record =
  dr_sec :: u64
  dr_usec :: u64
  dr_caplen :: u32
  dr_len :: u32
  dr_bytes :: bytes

text \<open>\<open>opened\<close>: the dump file \<^verbatim>\<open>pcap_dump_open\<close> returns, or the message of its failure.\<close>

definition nativeOpenDumpFile ::
  "string option \<Rightarrow> int \<Rightarrow> nat + string \<Rightarrow> native \<Rightarrow> (string option \<times> native) res" where
  "nativeOpenDumpFile filename ID opened s =
     bindR (slot ID) (\<lambda>k.
     if pcds s k = None then Inr (Some ''The jpcap is not instantiated.'', s)
     else case filename of
            None \<Rightarrow> Inl (UB NullPtr)
          | Some file \<Rightarrow>
              bindR (deref s (pcds s k)) (\<lambda>h.
              case opened of
                Inl d \<Rightarrow> Inr (None, s\<lparr>pcdd := pcds s k, pdt := Some d\<rparr>)
              | Inr msg \<Rightarrow> Inr (Some msg, s\<lparr>pcdd := pcds s k, pdt := None\<rparr>)))"

text \<open>\<^verbatim>\<open>free(pcdd)\<close> releases the captor's own handle.\<close>

definition close_dump :: "native \<Rightarrow> native res" where
  "close_dump s =
     bindR (if pdt s \<noteq> None
            then bindR (if pcdd s = None then Inr s else pcap_close (pcdd s) s) (\<lambda>s. Inr (s\<lparr>pcdd := None\<rparr>))
            else Inr s) (\<lambda>s.
     Inr (s\<lparr>pdt := None\<rparr>))"

text \<open>
  The result is the dump file and the record written to it. \<^verbatim>\<open>GetArrayLength\<close> and
  \<^verbatim>\<open>GetByteArrayRegion\<close> are not guarded: neither against a null array nor against more bytes
  than the buffer holds.
\<close>

definition writePacket :: "packet \<Rightarrow> bytes \<Rightarrow> native \<Rightarrow> (nat \<times> dump_record) res" where
  "writePacket p junk s =
     bindR (GetArrayLength (pk_header p)) (\<lambda>hlen.
     bindR (GetArrayLength (pk_data p)) (\<lambda>blen.
     bindR (GetByteArrayRegion (pk_header p) hlen) (\<lambda>hd.
     bindR (st_bytes junk 0 hd) (\<lambda>buf.
     bindR (GetByteArrayRegion (pk_data p) blen) (\<lambda>bd.
     bindR (st_bytes buf hlen bd) (\<lambda>buf.
     case pdt s of
       None \<Rightarrow> Inl (UB NullPtr)
     | Some d \<Rightarrow>
         bindR (ld_bytes buf 0 (unat (pk_caplen p))) (\<lambda>bs.
         Inr (d, \<lparr>dr_sec = pk_sec p, dr_usec = pk_usec p, dr_caplen = pk_caplen p,
                 dr_len = pk_len p, dr_bytes = bs\<rparr>))))))))"

section \<open>Properties\<close>



text \<open>
  C34: a captor and the dump file opened on it cannot both be closed. Closing the dump file releases the
  captor's own capture handle, so closing the captor afterwards uses a released handle; with the
  captor closed first, closing the dump file releases the handle a second time.
\<close>

theorem close_dump_releases_captor:
  assumes "k < 255" "pcds s k = Some h" "h \<in> set (live s)" "distinct (live s)"
    and "nativeOpenDumpFile (Some f) (int k) (Inl d) s = Inr (None, s1)"
  shows "(\<exists>s2. close_dump s1 = Inr s2 \<and> pcds s2 k = Some h \<and> h \<notin> set (live s2)
            \<and> nativeClose (int k) s2 = Inl (UB DeadHandle))
        \<and> (\<exists>s2. nativeClose (int k) s1 = Inr s2 \<and> close_dump s2 = Inl (UB DeadHandle))"
proof -
  have s1: "s1 = s\<lparr>pcdd := Some h, pdt := Some d\<rparr>"
    using assms by (simp add: nativeOpenDumpFile_def deref_def slot_def)
  show ?thesis
    using assms(1-4) by (simp add: s1 close_dump_def pcap_close_def deref_def nativeClose_def slot_def)
qed

theorem close_dump_releases_captor_witness:
  "\<exists>s1. nativeOpenDumpFile (Some ''out'') (int 3) (Inl 1) sample_native = Inr (None, s1)
    \<and> (\<exists>s2. close_dump s1 = Inr s2 \<and> pcds s2 3 = Some 7 \<and> 7 \<notin> set (live s2)
         \<and> nativeClose (int 3) s2 = Inl (UB DeadHandle))
    \<and> (\<exists>s2. nativeClose (int 3) s1 = Inr s2 \<and> close_dump s2 = Inl (UB DeadHandle))"
proof -
  obtain s1 where s1: "nativeOpenDumpFile (Some ''out'') (int 3) (Inl 1) sample_native = Inr (None, s1)"
    by (simp add: nativeOpenDumpFile_def deref_def slot_def)
  have "(\<exists>s2. close_dump s1 = Inr s2 \<and> pcds s2 3 = Some 7 \<and> 7 \<notin> set (live s2)
        \<and> nativeClose (int 3) s2 = Inl (UB DeadHandle))
      \<and> (\<exists>s2. nativeClose (int 3) s1 = Inr s2 \<and> close_dump s2 = Inl (UB DeadHandle))"
    by (rule close_dump_releases_captor [OF _ _ _ _ s1]) simp_all
  then show ?thesis using s1 by blast
qed

end
