(* ===== verification/Instances.thy ===== *)
theory Instances
  imports Captor Sender_Device Writer
begin

text \<open>
  The Java side of the library, \<^verbatim>\<open>src/java/jpcap/JpcapInstance.java\<close>,
  \<^verbatim>\<open>JpcapCaptor.java\<close>, \<^verbatim>\<open>JpcapSender.java\<close> and \<^verbatim>\<open>JpcapWriter.java\<close>, over
  the native state: how instance IDs are handed out and given back, and in which order the native
  entry points are called. A captor or a sender is its ID. A Java method returns a value or throws;
  both leave a state behind, so the result is a sum inside the pair with the state.
\<close>

section \<open>Instance IDs\<close>

type_synonym id_flags = "bool list"

definition flags_init :: id_flags where
  "flags_init = replicate MAX_NUMBER_OF_INSTANCE False"

text \<open>The loop of \<^verbatim>\<open>reserveID\<close>, from element \<open>i\<close> on.\<close>

function reserve_from :: "nat \<Rightarrow> id_flags \<Rightarrow> int \<times> id_flags" where
  "reserve_from i fl =
     (if i < MAX_NUMBER_OF_INSTANCE
      then if \<not> fl ! i then (int i, fl[i := True]) else reserve_from (i + 1) fl
      else (- 1, fl))"
  by pat_completeness auto
termination by (relation "measure (\<lambda>(i, _). MAX_NUMBER_OF_INSTANCE - i)") auto

declare reserve_from.simps [simp del]

definition reserveID :: "id_flags \<Rightarrow> int \<times> id_flags" where
  "reserveID fl = reserve_from 0 fl"

definition unreserveID :: "int \<Rightarrow> id_flags \<Rightarrow> jexn + id_flags" where
  "unreserveID ID fl =
     (if 0 \<le> ID \<and> ID < int (length fl) then Inr (fl[nat ID := False]) else Inl ArrayIndexOutOfBounds)"

section \<open>Operations\<close>

record library =
  instanciatedFlag :: id_flags
  ntv :: native

definition library_init :: library where
  "library_init = \<lparr>instanciatedFlag = flags_init, ntv = native_init\<rparr>"

type_synonym 'a java = "((jexn + 'a) \<times> library) res"

definition limit_message :: string where
  "limit_message = ''Unable to open a device: 255 devices are already opened.''"

text \<open>
  The shape the opening methods share: the constructor reserves an ID, the native method is called with
  it, and a message it returns is thrown. The flag set by the constructor stays set when that happens.
\<close>

definition open_instance :: "(int \<Rightarrow> native \<Rightarrow> (string option \<times> native) res) \<Rightarrow> library \<Rightarrow> int java" where
  "open_instance native_open st =
     (let (ID, fl) = reserveID (instanciatedFlag st); st = st\<lparr>instanciatedFlag := fl\<rparr>
      in if ID < 0 then Inr (Inl (IOException limit_message), st)
         else bindR (native_open ID (ntv st)) (\<lambda>(ret, s).
              Inr (case ret of None \<Rightarrow> Inr ID | Some msg \<Rightarrow> Inl (IOException msg), st\<lparr>ntv := s\<rparr>)))"

definition openDevice :: "env \<Rightarrow> string option \<Rightarrow> open_result \<Rightarrow> lookup_result \<Rightarrow> library \<Rightarrow> int java" where
  "openDevice env name opened looked =
     open_instance (\<lambda>ID. nativeOpenLive env ID name opened looked)"

definition openFile :: "env \<Rightarrow> string option \<Rightarrow> open_result \<Rightarrow> library \<Rightarrow> int java" where
  "openFile env filename opened = open_instance (\<lambda>ID. nativeOpenOffline env ID filename opened)"

definition sender_openDevice :: "env \<Rightarrow> string option \<Rightarrow> open_result \<Rightarrow> library \<Rightarrow> int java" where
  "sender_openDevice env name opened = open_instance (\<lambda>ID. nativeOpenDevice env ID name opened)"

text \<open>The end of both \<^verbatim>\<open>close\<close> methods.\<close>

definition release :: "int \<Rightarrow> library \<Rightarrow> unit java" where
  "release ID st =
     (case unreserveID ID (instanciatedFlag st) of
        Inl e \<Rightarrow> Inr (Inl e, st)
      | Inr fl \<Rightarrow> Inr (Inr (), st\<lparr>instanciatedFlag := fl\<rparr>))"

definition captor_close :: "int \<Rightarrow> library \<Rightarrow> unit java" where
  "captor_close ID st = bindR (nativeClose ID (ntv st)) (\<lambda>s. release ID (st\<lparr>ntv := s\<rparr>))"

definition getJpcapSenderInstance :: "int \<Rightarrow> int" where
  "getJpcapSenderInstance ID = ID"

definition RAW_SOCKET_ID :: int where "RAW_SOCKET_ID = 99999"

text \<open>
  \<^verbatim>\<open>openRawSocket\<close>: the ID the constructor reserved is overwritten. The native method
  throws, rather than returning a message, so the assignment is not reached when it fails.
\<close>

definition openRawSocket :: "int \<Rightarrow> library \<Rightarrow> int java" where
  "openRawSocket fd st =
     (let (ID, fl) = reserveID (instanciatedFlag st); st = st\<lparr>instanciatedFlag := fl\<rparr>
      in if ID < 0 then Inr (Inl (IOException limit_message), st)
         else case nativeOpenRawSocket fd (ntv st) of
                (s, Some msg) \<Rightarrow> Inr (Inl (IOException msg), st\<lparr>ntv := s\<rparr>)
              | (s, None) \<Rightarrow> Inr (Inr RAW_SOCKET_ID, st\<lparr>ntv := s\<rparr>))"

definition sender_close :: "int \<Rightarrow> library \<Rightarrow> unit java" where
  "sender_close ID st =
     bindR (if ID = RAW_SOCKET_ID then Inr (nativeCloseRawSocket (ntv st))
            else nativeCloseDevice ID (ntv st)) (\<lambda>s. release ID (st\<lparr>ntv := s\<rparr>))"

text \<open>What is handed to the system: the destination, for the raw socket, and the bytes.\<close>

definition sendPacket :: "int \<Rightarrow> packet \<Rightarrow> bytes \<Rightarrow> int \<Rightarrow> library \<Rightarrow> (bytes option \<times> bytes) res" where
  "sendPacket ID p junk sent st =
     (if ID = RAW_SOCKET_ID
      then bindR (nativeSendPacketViaRawSocket p junk sent (ntv st)) (\<lambda>(dst, dgram). Inr (Some dst, dgram))
      else bindR (nativeSendPacket ID p junk sent (ntv st)) (\<lambda>frame. Inr (None, frame)))"

definition openDumpFile :: "int \<Rightarrow> string option \<Rightarrow> nat + string \<Rightarrow> library \<Rightarrow> unit java" where
  "openDumpFile ID filename opened st =
     bindR (nativeOpenDumpFile filename ID opened (ntv st)) (\<lambda>(ret, s).
     Inr (case ret of None \<Rightarrow> Inr () | Some msg \<Rightarrow> Inl (IOException msg), st\<lparr>ntv := s\<rparr>))"

definition writer_close :: "library \<Rightarrow> unit java" where
  "writer_close st = bindR (close_dump (ntv st)) (\<lambda>s. Inr (Inr (), st\<lparr>ntv := s\<rparr>))"

section \<open>The pool of IDs\<close>

text \<open>
  What the opening methods rely on: \<open>taken\<close> is the set of IDs handed out, the least free ID is
  given, and giving one back changes nothing else.
\<close>

locale id_pool =
  fixes reserve :: "'p \<Rightarrow> int \<times> 'p"
    and unreserve :: "int \<Rightarrow> 'p \<Rightarrow> jexn + 'p"
    and taken :: "'p \<Rightarrow> nat set"
    and wf :: "'p \<Rightarrow> bool"
    and cap :: nat
  assumes taken_bound: "wf p \<Longrightarrow> taken p \<subseteq> {..<cap}"
    and reserve_full: "wf p \<Longrightarrow> taken p = {..<cap} \<Longrightarrow> reserve p = (- 1, p)"
    and reserve_least: "wf p \<Longrightarrow> taken p \<noteq> {..<cap} \<Longrightarrow>
      \<exists>k p'. reserve p = (int k, p') \<and> k < cap \<and> k \<notin> taken p \<and> {..<k} \<subseteq> taken p
        \<and> taken p' = insert k (taken p) \<and> wf p'"
    and unreserve_ok: "wf p \<Longrightarrow> k < cap \<Longrightarrow>
      \<exists>p'. unreserve (int k) p = Inr p' \<and> taken p' = taken p - {k} \<and> wf p'"
    and unreserve_out: "wf p \<Longrightarrow> ID < 0 \<or> int cap \<le> ID \<Longrightarrow> unreserve ID p = Inl ArrayIndexOutOfBounds"
begin

lemma reserve_cases:
  assumes "wf p"
  obtains (full) "taken p = {..<cap}" "reserve p = (- 1, p)"
    | (free) k p' where "reserve p = (int k, p')" "k < cap" "k \<notin> taken p" "{..<k} \<subseteq> taken p"
        "taken p' = insert k (taken p)" "wf p'"
  using assms reserve_full reserve_least by metis

lemma finite_taken: "wf p \<Longrightarrow> finite (taken p)"
  using taken_bound finite_subset by blast

lemma reserve_card:
  assumes "wf p"
  shows "wf (snd (reserve p)) \<and> card (taken (snd (reserve p))) = min cap (card (taken p) + 1)"
proof (cases rule: reserve_cases [OF assms])
  case 1
  then show ?thesis using assms by simp
next
  case (2 k p')
  have "insert k (taken p) \<subseteq> {..<cap}" using taken_bound [OF assms] 2(2) by auto
  then have "card (insert k (taken p)) \<le> card {..<cap}" by (intro card_mono) simp
  then show ?thesis using 2 finite_taken [OF assms] by simp
qed

lemma reserve_twice_distinct:
  assumes "wf p" "reserve p = (int i, p')" "reserve p' = (int j, p'')"
  shows "i \<noteq> j"
proof -
  have p': "wf p'" "i \<in> taken p'"
    using assms(2) by (cases rule: reserve_cases [OF assms(1)]; simp)+
  then show ?thesis
    using assms(3) by (cases rule: reserve_cases [OF p'(1)]; auto)
qed

lemma reserve_after_unreserve:
  assumes "wf p" "k < cap" "unreserve (int k) p = Inr p'"
  obtains j p'' where "reserve p' = (int j, p'')" "j \<le> k"
proof -
  have p': "wf p'" "k \<notin> taken p'" using assms unreserve_ok by force+
  show ?thesis
  proof (cases rule: reserve_cases [OF p'(1)])
    case 1
    then show ?thesis using p'(2) assms(2) by auto
  next
    case (2 j p'')
    then have "j \<le> k" using p'(2) by (meson lessThan_iff not_le subsetD)
    then show ?thesis using 2 that by blast
  qed
qed

end

definition taken_ids :: "id_flags \<Rightarrow> nat set" where
  "taken_ids fl = {k. k < length fl \<and> fl ! k}"

definition wf_flags :: "id_flags \<Rightarrow> bool" where
  "wf_flags fl \<longleftrightarrow> length fl = 255"

lemma reserve_from_least:
  assumes "wf_flags fl" "{..<i} \<subseteq> taken_ids fl"
  shows "if taken_ids fl = {..<255} then reserve_from i fl = (- 1, fl)
    else \<exists>k. reserve_from i fl = (int k, fl[k := True]) \<and> k < 255 \<and> k \<notin> taken_ids fl \<and> {..<k} \<subseteq> taken_ids fl"
  using assms
proof (induction i fl rule: reserve_from.induct)
  case (1 i fl)
  have l: "length fl = 255" using 1(2) by (simp add: wf_flags_def)
  show ?case
  proof (cases "i < 255 \<and> fl ! i")
    case True
    then have "{..<i + 1} \<subseteq> taken_ids fl" using 1(3) l by (auto simp: taken_ids_def less_Suc_eq)
    then have "if taken_ids fl = {..<255} then reserve_from (i + 1) fl = (- 1, fl)
      else \<exists>k. reserve_from (i + 1) fl = (int k, fl[k := True]) \<and> k < 255 \<and> k \<notin> taken_ids fl
        \<and> {..<k} \<subseteq> taken_ids fl"
      using True 1(2) by (intro 1(1)) simp_all
    moreover have "reserve_from i fl = reserve_from (i + 1) fl"
      using True by (subst reserve_from.simps) simp
    ultimately show ?thesis by (simp only:)
  next
    case False
    show ?thesis
    proof (cases "i < 255")
      case True
      then show ?thesis using False 1(3) l by (subst (1 2) reserve_from.simps) (auto simp: taken_ids_def)
    next
      case False
      then have "{..<255} \<subseteq> taken_ids fl" using 1(3) by (meson lessThan_subset_iff not_le less_imp_le order_trans linorder_le_less_linear)
      then have "taken_ids fl = {..<255}" using l by (auto simp: taken_ids_def)
      then show ?thesis using False by (subst reserve_from.simps) simp
    qed
  qed
qed

lemma taken_ids_update:
  "k < length fl \<Longrightarrow> taken_ids (fl[k := True]) = insert k (taken_ids fl)"
  "k < length fl \<Longrightarrow> taken_ids (fl[k := False]) = taken_ids fl - {k}"
  by (auto simp: taken_ids_def nth_list_update)

interpretation ids: id_pool reserveID unreserveID taken_ids wf_flags MAX_NUMBER_OF_INSTANCE
proof unfold_locales
  fix fl ID and k :: nat
  show "wf_flags fl \<Longrightarrow> taken_ids fl \<subseteq> {..<MAX_NUMBER_OF_INSTANCE}"
    by (auto simp: wf_flags_def taken_ids_def)
  assume wf: "wf_flags fl"
  note least = reserve_from_least [OF wf, of 0]
  show "taken_ids fl = {..<MAX_NUMBER_OF_INSTANCE} \<Longrightarrow> reserveID fl = (- 1, fl)"
    using least by (simp add: reserveID_def)
  show "taken_ids fl \<noteq> {..<MAX_NUMBER_OF_INSTANCE} \<Longrightarrow> \<exists>k p'. reserveID fl = (int k, p')
      \<and> k < MAX_NUMBER_OF_INSTANCE \<and> k \<notin> taken_ids fl \<and> {..<k} \<subseteq> taken_ids fl
      \<and> taken_ids p' = insert k (taken_ids fl) \<and> wf_flags p'"
    using least wf by (auto simp: reserveID_def wf_flags_def taken_ids_update)
  show "k < MAX_NUMBER_OF_INSTANCE \<Longrightarrow> \<exists>p'. unreserveID (int k) fl = Inr p'
      \<and> taken_ids p' = taken_ids fl - {k} \<and> wf_flags p'"
    using wf by (auto simp: unreserveID_def wf_flags_def taken_ids_update)
  show "ID < 0 \<or> int MAX_NUMBER_OF_INSTANCE \<le> ID \<Longrightarrow> unreserveID ID fl = Inl ArrayIndexOutOfBounds"
    using wf by (auto simp: unreserveID_def wf_flags_def)
qed

end
