(* ===== verification/Lifecycle.thy ===== *)
theory Lifecycle
  imports Instances
begin

text \<open>
  The life cycle of captors, senders and the dump file as a transition system over the library state:
  every public method that opens, closes or captures is a step, on any ID a program can hold, also
  one it has closed before. The contract the three native opening functions share is a locale; the
  invariants say which IDs are busy and which libpcap handles are alive.
\<close>

section \<open>The contract of the opening functions\<close>

text \<open>\<open>out\<close> is the handle libpcap gives, if the call gets that far and succeeds.\<close>

locale native_opening =
  fixes opn :: "int \<Rightarrow> native \<Rightarrow> (string option \<times> native) res"
    and out :: "handle option"
  assumes opens: "k < 255 \<Longrightarrow> pcds s k = None \<Longrightarrow>
      \<exists>ret s'. opn (int k) s = Inr (ret, s') \<and> (ret = None \<longleftrightarrow> out \<noteq> None)
        \<and> pcds s' = (pcds s)(k := out)
        \<and> live s' = (case out of None \<Rightarrow> live s | Some h \<Rightarrow> h # live s)
        \<and> pcdd s' = pcdd s \<and> pdt s' = pdt s \<and> soc_num s' = soc_num s \<and> open_socks s' = open_socks s"
begin

lemma open_free:
  assumes "wf_flags (instanciatedFlag st)" "\<forall>k. k \<notin> taken_ids (instanciatedFlag st) \<longrightarrow> pcds (ntv st) k = None"
  obtains (full) "taken_ids (instanciatedFlag st) = {..<255}"
      "open_instance opn st = Inr (Inl (IOException limit_message), st)"
    | (given) k ret s' fl where "open_instance opn st = Inr
            (case ret of None \<Rightarrow> Inr (int k) | Some msg \<Rightarrow> Inl (IOException msg),
              \<lparr>instanciatedFlag = fl, ntv = s'\<rparr>)"
        "k < 255" "k \<notin> taken_ids (instanciatedFlag st)" "{..<k} \<subseteq> taken_ids (instanciatedFlag st)"
        "wf_flags fl" "taken_ids fl = insert k (taken_ids (instanciatedFlag st))"
        "ret = None \<longleftrightarrow> out \<noteq> None" "pcds s' = (pcds (ntv st))(k := out)"
        "live s' = (case out of None \<Rightarrow> live (ntv st) | Some h \<Rightarrow> h # live (ntv st))"
        "pcdd s' = pcdd (ntv st)" "opn (int k) (ntv st) = Inr (ret, s')"
  using assms(1)
proof (cases rule: ids.reserve_cases)
  case full
  then show ?thesis using that(1) by (simp add: open_instance_def)
next
  case (free k fl)
  obtain ret s' where "opn (int k) (ntv st) = Inr (ret, s')" "ret = None \<longleftrightarrow> out \<noteq> None"
      "pcds s' = (pcds (ntv st))(k := out)" "pcdd s' = pcdd (ntv st)"
      "live s' = (case out of None \<Rightarrow> live (ntv st) | Some h \<Rightarrow> h # live (ntv st))"
    using opens [of k "ntv st"] free assms(2) by auto
  then show ?thesis using free that(2) [where k = k and fl = fl and ret = ret and s' = s'] by (simp add: open_instance_def)
qed

end

definition open_out :: "string option \<Rightarrow> open_result \<Rightarrow> handle option" where
  "open_out name opened = (case name of None \<Rightarrow> None
     | Some _ \<Rightarrow> (case opened of OpenOk h lt w \<Rightarrow> Some h | OpenErr msg \<Rightarrow> None))"

lemma set_err_fields [simp]:
  "pcds (set_err k m s) = pcds s" "live (set_err k m s) = live s" "pcdd (set_err k m s) = pcdd s"
  "pdt (set_err k m s) = pdt s" "soc_num (set_err k m s) = soc_num s"
  "open_socks (set_err k m s) = open_socks s"
  by (simp_all add: set_err_def split: option.splits)

interpretation live_capture: native_opening
  "\<lambda>ID. nativeOpenLive env ID name opened looked" "open_out name opened"
  for env name opened looked
  by unfold_locales
     (auto simp: nativeOpenLive_def store_open_def open_out_def Let_def fun_eq_iff
       split: option.splits open_result.splits lookup_result.splits)

interpretation offline: native_opening
  "\<lambda>ID. nativeOpenOffline env ID (Some path) opened" "open_out (Some path) opened"
  for env path opened
  by unfold_locales
     (auto simp: nativeOpenOffline_def store_open_def open_out_def Let_def split: open_result.splits)

interpretation sending: native_opening
  "\<lambda>ID. nativeOpenDevice env ID name opened" "open_out name opened"
  for env name opened
  by unfold_locales
     (auto simp: nativeOpenDevice_def store_open_def open_out_def Let_def
       split: option.splits open_result.splits)

section \<open>Steps\<close>

datatype call =
    CaptorOpen | FileOpen | SenderOpen | RawOpen | CaptorClose | SenderClose | DumpOpen | DumpClose | Capture

text \<open>An object libpcap creates is not at the address of one that is still alive.\<close>

definition fresh :: "open_result \<Rightarrow> library \<Rightarrow> bool" where
  "fresh opened st = (case opened of OpenOk h lt w \<Rightarrow> h \<notin> set (live (ntv st)) | OpenErr msg \<Rightarrow> True)"

inductive lib_step :: "library \<Rightarrow> call \<Rightarrow> library \<Rightarrow> bool" where
  captor_open_step: "openDevice env name opened looked st = Inr (r, st') \<Longrightarrow> fresh opened st
    \<Longrightarrow> lib_step st CaptorOpen st'"
| file_open_step: "openFile env (Some path) opened st = Inr (r, st') \<Longrightarrow> fresh opened st
    \<Longrightarrow> lib_step st FileOpen st'"
| sender_open_step: "sender_openDevice env name opened st = Inr (r, st') \<Longrightarrow> fresh opened st
    \<Longrightarrow> lib_step st SenderOpen st'"
| raw_open_step: "openRawSocket fd st = Inr (r, st') \<Longrightarrow> lib_step st RawOpen st'"
| captor_close_step: "captor_close ID st = Inr (r, st') \<Longrightarrow> lib_step st CaptorClose st'"
| sender_close_step: "sender_close ID st = Inr (r, st') \<Longrightarrow> lib_step st SenderClose st'"
| dump_open_step: "openDumpFile ID name opened st = Inr (r, st') \<Longrightarrow> lib_step st DumpOpen st'"
| dump_close_step: "writer_close st = Inr (r, st') \<Longrightarrow> lib_step st DumpClose st'"
| capture_step: "processPacket env ID handler cs n (ntv st) = Inr (n', ds, s')
    \<Longrightarrow> lib_step st Capture (st\<lparr>ntv := s'\<rparr>)"

inductive_cases lib_stepE: "lib_step st c st'"

text \<open>The states a program can reach that makes only the calls in \<open>C\<close>.\<close>

inductive reach :: "call set \<Rightarrow> library \<Rightarrow> bool" for C where
  reach_init: "reach C library_init"
| reach_step: "reach C st \<Longrightarrow> lib_step st c st' \<Longrightarrow> c \<in> C \<Longrightarrow> reach C st'"

section \<open>Invariants\<close>

definition lib_ok :: "library \<Rightarrow> bool" where
  "lib_ok st \<longleftrightarrow> wf_flags (instanciatedFlag st)
     \<and> (\<forall>k. k \<notin> taken_ids (instanciatedFlag st) \<longrightarrow> pcds (ntv st) k = None)"

definition handles_ok :: "native \<Rightarrow> bool" where
  "handles_ok s \<longleftrightarrow> distinct (live s) \<and> (\<forall>k h. pcds s k = Some h \<longrightarrow> h \<in> set (live s))
     \<and> (\<forall>i j h. pcds s i = Some h \<longrightarrow> pcds s j = Some h \<longrightarrow> i = j)"

lemma lib_ok_ntv: "lib_ok st \<Longrightarrow> pcds s = pcds (ntv st) \<Longrightarrow> lib_ok (st\<lparr>ntv := s\<rparr>)"
  by (simp add: lib_ok_def)

lemma handles_ok_cong: "handles_ok s \<Longrightarrow> pcds s' = pcds s \<Longrightarrow> live s' = live s \<Longrightarrow> handles_ok s'"
  by (simp add: handles_ok_def)

context native_opening
begin

lemma lib_ok_open: "lib_ok st \<Longrightarrow> open_instance opn st = Inr (r, st') \<Longrightarrow> lib_ok st'"
  by (rule open_free [of st]) (auto simp: lib_ok_def)

lemma handles_ok_open:
  assumes "lib_ok st" "handles_ok (ntv st)" "\<forall>h. out = Some h \<longrightarrow> h \<notin> set (live (ntv st))"
    and "open_instance opn st = Inr (r, st')"
  shows "handles_ok (ntv st')"
proof (rule open_free [of st])
  show "wf_flags (instanciatedFlag st)"
    "\<forall>k. k \<notin> taken_ids (instanciatedFlag st) \<longrightarrow> pcds (ntv st) k = None"
    using assms(1) by (auto simp: lib_ok_def)
qed (use assms in \<open>auto simp: handles_ok_def split: option.splits\<close>)

end

text \<open>Giving an ID back after its entry has been cleared.\<close>

lemma lib_ok_release:
  assumes "lib_ok st" "pcds s = (pcds (ntv st))(nat ID := None)" "release ID (st\<lparr>ntv := s\<rparr>) = Inr (r, st')"
  shows "lib_ok st'"
proof (cases "0 \<le> ID \<and> ID < 255")
  case True
  then obtain fl where "unreserveID ID (instanciatedFlag st) = Inr fl" "wf_flags fl"
      "taken_ids fl = taken_ids (instanciatedFlag st) - {nat ID}"
    using ids.unreserve_ok [of "instanciatedFlag st" "nat ID"] assms(1)
    by (auto simp: lib_ok_def nat_less_iff)
  then show ?thesis using assms by (auto simp: release_def lib_ok_def)
next
  case False
  then have "unreserveID ID (instanciatedFlag st) = Inl ArrayIndexOutOfBounds"
    using ids.unreserve_out [of "instanciatedFlag st" ID] assms(1) by (auto simp: lib_ok_def)
  then show ?thesis using assms by (auto simp: release_def lib_ok_def)
qed

lemma ntv_release: "release ID st = Inr (r, st') \<Longrightarrow> ntv st' = ntv st"
  by (auto simp: release_def split: sum.splits)

lemma nativeClose_effect:
  assumes "nativeClose ID s = Inr s'"
  shows "pcds s' = (pcds s)(nat ID := None)"
    "live s' = (case pcds s (nat ID) of None \<Rightarrow> live s | Some h \<Rightarrow> remove1 h (live s))"
  using assms by (auto simp: nativeClose_def pcap_close_def res_simps split: option.splits if_splits)

lemma nativeCloseDevice_same: "nativeCloseDevice = nativeClose"
  by (simp add: fun_eq_iff nativeCloseDevice_def nativeClose_def)

lemma handles_ok_close: "handles_ok s \<Longrightarrow> nativeClose ID s = Inr s' \<Longrightarrow> handles_ok s'"
  using nativeClose_effect [of ID s s']
  by (auto simp: handles_ok_def split: option.splits)

lemma nativeOpenDumpFile_fields:
  assumes "nativeOpenDumpFile name ID opened s = Inr (ret, s')"
  shows "pcds s' = pcds s \<and> live s' = live s"
proof -
  have "s' = s \<or> (\<exists>d p. s' = s\<lparr>pcdd := p, pdt := d\<rparr>)"
    using assms by (cases opened) (auto simp: nativeOpenDumpFile_def res_simps split: if_splits option.splits)
  then show ?thesis by auto
qed

lemma openDumpFile_fields:
  assumes "openDumpFile ID name opened st = Inr (r, st')"
  shows "instanciatedFlag st' = instanciatedFlag st" "pcds (ntv st') = pcds (ntv st)"
    "live (ntv st') = live (ntv st)"
  using assms by (auto simp: openDumpFile_def res_simps dest: nativeOpenDumpFile_fields)

lemma writer_close_fields:
  assumes "writer_close st = Inr (r, st')"
  shows "instanciatedFlag st' = instanciatedFlag st" "pcds (ntv st') = pcds (ntv st)"
  using assms by (auto simp: writer_close_def close_dump_def pcap_close_def res_simps split: if_splits)

lemma processPacket_fields:
  assumes "processPacket env ID handler cs n s = Inr (n', ds, s')"
  shows "pcds s' = pcds s" "live s' = live s"
  using assms
  by (auto simp: processPacket_def run_callbacks_def NewGlobalRef_def DeleteGlobalRef_def Let_def res_simps
      split: option.splits)

lemma openRawSocket_cases:
  assumes "wf_flags (instanciatedFlag st)" "openRawSocket fd st = Inr (r, st')"
  shows "pcds (ntv st') = pcds (ntv st) \<and> live (ntv st') = live (ntv st) \<and> wf_flags (instanciatedFlag st')
    \<and> taken_ids (instanciatedFlag st) \<subseteq> taken_ids (instanciatedFlag st')"
  using assms
  by (cases rule: ids.reserve_cases [OF assms(1)])
     (auto simp: openRawSocket_def nativeOpenRawSocket_def Let_def split: if_splits)

lemma sender_close_fields:
  assumes "sender_close ID st = Inr (r, st')"
  shows "(ID = RAW_SOCKET_ID \<and> release ID (st\<lparr>ntv := nativeCloseRawSocket (ntv st)\<rparr>) = Inr (r, st'))
    \<or> captor_close ID st = Inr (r, st')"
  using assms by (auto simp: sender_close_def captor_close_def nativeCloseDevice_same split: if_splits)

lemma lib_ok_captor_close: "lib_ok st \<Longrightarrow> captor_close ID st = Inr (r, st') \<Longrightarrow> lib_ok st'"
  using lib_ok_release nativeClose_effect(1) by (fastforce simp: captor_close_def res_simps)

lemma lib_ok_raw_close:
  assumes "lib_ok st" "release RAW_SOCKET_ID (st\<lparr>ntv := nativeCloseRawSocket (ntv st)\<rparr>) = Inr (r, st')"
  shows "lib_ok st' \<and> pcds (ntv st') = pcds (ntv st) \<and> live (ntv st') = live (ntv st)"
  using assms ids.unreserve_out [of "instanciatedFlag st" RAW_SOCKET_ID]
  by (auto simp: release_def lib_ok_def RAW_SOCKET_ID_def nativeCloseRawSocket_def)

lemma lib_ok_init: "lib_ok library_init \<and> handles_ok (ntv library_init)"
  by (simp add: lib_ok_def handles_ok_def library_init_def native_init_def wf_flags_def flags_init_def)

lemma lib_ok_step:
  assumes "lib_step st c st'" "lib_ok st"
  shows "lib_ok st'"
  using assms
proof cases
  case (captor_open_step env name opened looked r)
  then show ?thesis using assms(2) live_capture.lib_ok_open unfolding openDevice_def by blast
next
  case (file_open_step env path opened r)
  then show ?thesis using assms(2) offline.lib_ok_open unfolding openFile_def by blast
next
  case (sender_open_step env name opened r)
  then show ?thesis using assms(2) sending.lib_ok_open unfolding sender_openDevice_def by blast
next
  case (raw_open_step fd r)
  then show ?thesis using openRawSocket_cases [of st fd r st'] assms(2) by (auto simp: lib_ok_def)
next
  case (sender_close_step ID r)
  then show ?thesis
    using sender_close_fields [of ID st r st'] lib_ok_raw_close [of st r st'] lib_ok_captor_close assms(2) by auto
next
  case (dump_open_step ID name opened r)
  then show ?thesis using openDumpFile_fields [of ID name opened st r st'] assms(2) by (simp add: lib_ok_def)
next
  case (dump_close_step r)
  then show ?thesis using writer_close_fields [of st r st'] assms(2) by (simp add: lib_ok_def)
next
  case (capture_step env ID handler cs n n' ds s')
  then show ?thesis using processPacket_fields(1) lib_ok_ntv assms(2) by blast
qed (use lib_ok_captor_close in blast)

lemma reach_lib_ok: "reach C st \<Longrightarrow> lib_ok st"
  by (induction rule: reach.induct) (auto simp: lib_ok_init intro: lib_ok_step)

lemma fresh_out: "fresh opened st \<Longrightarrow> open_out name opened = Some h \<Longrightarrow> h \<notin> set (live (ntv st))"
  by (auto simp: fresh_def open_out_def split: option.splits open_result.splits)

lemma handles_ok_captor_close: "handles_ok (ntv st) \<Longrightarrow> captor_close ID st = Inr (r, st') \<Longrightarrow> handles_ok (ntv st')"
  using handles_ok_close by (auto simp: captor_close_def res_simps dest: ntv_release)

lemma handles_ok_step:
  assumes "lib_step st c st'" "lib_ok st" "handles_ok (ntv st)" "c \<noteq> DumpClose"
  shows "handles_ok (ntv st')"
  using assms(1)
proof cases
  case (captor_open_step env name opened looked r)
  show ?thesis
    using live_capture.handles_ok_open [OF assms(2,3) _ captor_open_step(2) [unfolded openDevice_def]] fresh_out captor_open_step(3) by blast
next
  case (file_open_step env path opened r)
  show ?thesis
    using offline.handles_ok_open [OF assms(2,3) _ file_open_step(2) [unfolded openFile_def]] fresh_out file_open_step(3) by blast
next
  case (sender_open_step env name opened r)
  show ?thesis
    using sending.handles_ok_open [OF assms(2,3) _ sender_open_step(2) [unfolded sender_openDevice_def]] fresh_out sender_open_step(3) by blast
next
  case (raw_open_step fd r)
  then show ?thesis
    using openRawSocket_cases [of st fd r st'] assms(2,3) handles_ok_cong by (auto simp: lib_ok_def)
next
  case (sender_close_step ID r)
  then show ?thesis
    using sender_close_fields [of ID st r st'] lib_ok_raw_close [of st r st'] handles_ok_captor_close
      handles_ok_cong assms(2,3) by blast
next
  case (dump_open_step ID name opened r)
  then show ?thesis using openDumpFile_fields [of ID name opened st r st'] assms(3) handles_ok_cong by blast
next
  case (capture_step env ID handler cs n n' ds s')
  then show ?thesis using processPacket_fields assms(3) handles_ok_cong by auto
qed (use assms handles_ok_captor_close in auto)

lemma reach_handles_ok: "reach C st \<Longrightarrow> DumpClose \<notin> C \<Longrightarrow> handles_ok (ntv st)"
proof (induction rule: reach.induct)
  case reach_init
  then show ?case using lib_ok_init by simp
next
  case (reach_step st c st')
  then show ?case using handles_ok_step reach_lib_ok by blast
qed

section \<open>Properties\<close>

lemma reach_captor_close:
  assumes "lib_ok st" "handles_ok (ntv st)" "k < 255"
  obtains st' where "captor_close (int k) st = Inr (Inr (), st')"
    "pcds (ntv st') = (pcds (ntv st))(k := None)"
    "live (ntv st') = (case pcds (ntv st) k of None \<Rightarrow> live (ntv st) | Some h \<Rightarrow> remove1 h (live (ntv st)))"
    "taken_ids (instanciatedFlag st') = taken_ids (instanciatedFlag st) - {k}"
    "wf_flags (instanciatedFlag st')"
proof -
  obtain fl where fl: "unreserveID (int k) (instanciatedFlag st) = Inr fl"
      "taken_ids fl = taken_ids (instanciatedFlag st) - {k}" "wf_flags fl"
    using ids.unreserve_ok [of "instanciatedFlag st" k] assms by (auto simp: lib_ok_def)
  obtain s' where s': "nativeClose (int k) (ntv st) = Inr s'"
    using assms by (cases "pcds (ntv st) k") (auto simp: nativeClose_def pcap_close_def deref_def handles_ok_def)
  show ?thesis
    using s' nativeClose_effect [OF s'] fl
    by (intro that [of "\<lparr>instanciatedFlag = fl, ntv = s'\<rparr>"]) (simp_all add: captor_close_def release_def)
qed

lemma openDevice_reach:
  assumes "lib_ok st" "openDevice env (Some name) (OpenOk h lt w) looked st = Inr (Inr ID, st')"
  obtains k where "ID = int k" "k < 255" "k \<notin> taken_ids (instanciatedFlag st)"
    "{..<k} \<subseteq> taken_ids (instanciatedFlag st)" "lib_ok st'"
    "taken_ids (instanciatedFlag st') = insert k (taken_ids (instanciatedFlag st))"
    "pcds (ntv st') = (pcds (ntv st))(k := Some h)" "live (ntv st') = h # live (ntv st)"
  using assms(2) unfolding openDevice_def
  by (rule_tac st = st in live_capture.open_free [of _ env "Some name" "OpenOk h lt w" looked])
     (use assms live_capture.lib_ok_open [OF assms(1) assms(2) [unfolded openDevice_def]] in
       \<open>auto simp: lib_ok_def open_out_def split: option.splits\<close>)

lemma taken_iff: "wf_flags fl \<Longrightarrow> k \<in> taken_ids fl \<longleftrightarrow> k < 255 \<and> fl ! k"
  by (simp add: wf_flags_def taken_ids_def)

lemma open_init:
  "openDevice env (Some name) (OpenOk h lt None) (LookupOk net nmask) library_init
    = Inr (Inr 0, \<lparr>instanciatedFlag = flags_init[0 := True], ntv = native_init\<lparr>
        jni_envs := (\<lambda>_. None)(0 := Some env), pcds := (\<lambda>_. None)(0 := Some h), live := [h],
        netnums := (\<lambda>_. 0)(0 := net), netmasks := (\<lambda>_. 0)(0 := nmask), linktypes := (\<lambda>_. 0)(0 := lt)\<rparr>\<rparr>)"
proof -
  have "reserveID flags_init = (0, flags_init[0 := True])"
    unfolding reserveID_def by (subst reserve_from.simps) (simp add: flags_init_def)
  then show ?thesis
    by (simp add: openDevice_def open_instance_def library_init_def nativeOpenLive_def native_init_def
        store_open_def set_err_def slot_def Let_def)
qed

text \<open>
  C7: in every state the library can reach, whatever IDs are closed again by objects that were closed
  before, only reserved IDs have a libpcap handle, so a new captor or sender never finds its entry
  busy; and as long as no dump file is closed, the handles of different IDs are different and alive.
\<close>

theorem instance_table_invariant:
  assumes "reach C st"
  shows "length (instanciatedFlag st) = 255
    \<and> (\<forall>k. pcds (ntv st) k \<noteq> None \<longrightarrow> k < 255 \<and> instanciatedFlag st ! k)
    \<and> (DumpClose \<notin> C \<longrightarrow> distinct (live (ntv st))
        \<and> (\<forall>k h. pcds (ntv st) k = Some h \<longrightarrow> h \<in> set (live (ntv st)))
        \<and> (\<forall>i j h. pcds (ntv st) i = Some h \<longrightarrow> pcds (ntv st) j = Some h \<longrightarrow> i = j))"
  using reach_lib_ok [OF assms] reach_handles_ok [OF assms]
  by (auto simp: lib_ok_def handles_ok_def wf_flags_def taken_ids_def)

lemma reach_after_open:
  "\<exists>st. openDevice 1 (Some ''eth0'') (OpenOk 7 1 None) (LookupOk 0 0) library_init = Inr (Inr 0, st)
     \<and> reach {CaptorOpen} st \<and> pcds (ntv st) 0 = Some 7"
  unfolding open_init
  using reach_step [OF reach_init captor_open_step [OF open_init]] by (simp add: fresh_def library_init_def native_init_def)

theorem instance_table_invariant_witness:
  "\<exists>st :: library. pcds (ntv st) 0 = Some 7 \<and> length (instanciatedFlag st) = 255
    \<and> instanciatedFlag st ! 0 \<and> distinct (live (ntv st)) \<and> 7 \<in> set (live (ntv st))"
proof -
  obtain st where st: "reach {CaptorOpen} st" "pcds (ntv st) 0 = Some 7" using reach_after_open by blast
  show ?thesis using instance_table_invariant [OF st(1)] st(2) by auto
qed

text \<open>
  C9: opening a device that libpcap can open, in any reachable state, succeeds unless all 255 IDs are
  reserved: the captor gets the least free ID, its entry holds the new handle and every other entry
  is as before. When all are reserved, the limit is reported and nothing changes.
\<close>

theorem open_succeeds_unless_full:
  assumes "reach C st"
  shows "if \<forall>k < 255. instanciatedFlag st ! k
    then openDevice env (Some name) (OpenOk h lt None) looked st = Inr (Inl (IOException limit_message), st)
    else \<exists>k st'. openDevice env (Some name) (OpenOk h lt None) looked st = Inr (Inr (int k), st')
      \<and> k < 255 \<and> \<not> instanciatedFlag st ! k \<and> (\<forall>j < k. instanciatedFlag st ! j)
      \<and> pcds (ntv st') = (pcds (ntv st))(k := Some h) \<and> live (ntv st') = h # live (ntv st)"
proof -
  have ok: "wf_flags (instanciatedFlag st)"
      "\<forall>k. k \<notin> taken_ids (instanciatedFlag st) \<longrightarrow> pcds (ntv st) k = None"
    using reach_lib_ok [OF assms] by (auto simp: lib_ok_def)
  show ?thesis
  proof (cases rule: live_capture.open_free [OF ok, of env "Some name" "OpenOk h lt None" looked])
    case 1
    then have "\<forall>k < 255. instanciatedFlag st ! k" using taken_iff [OF ok(1)] by blast
    then show ?thesis using 1(2) by (simp add: openDevice_def)
  next
    case (2 k ret s' fl)
    have k: "\<not> instanciatedFlag st ! k" "\<forall>j < k. instanciatedFlag st ! j"
      using 2(2-4) taken_iff [OF ok(1)] by blast+
    have "ret = None" using 2(7) by (simp add: open_out_def)
    then have "openDevice env (Some name) (OpenOk h lt None) looked st
        = Inr (Inr (int k), \<lparr>instanciatedFlag = fl, ntv = s'\<rparr>)"
      using 2(1) by (simp add: openDevice_def)
    then show ?thesis using 2(2,8,9) k by (auto simp: open_out_def)
  qed
qed

theorem open_succeeds_unless_full_witness:
  "\<exists>k st'. openDevice 1 (Some ''eth0'') (OpenOk 7 1 None) (LookupOk 0 0) library_init = Inr (Inr (int k), st')
      \<and> k < 255 \<and> \<not> instanciatedFlag library_init ! k
      \<and> pcds (ntv st') = (pcds (ntv library_init))(k := Some 7) \<and> live (ntv st') = 7 # live (ntv library_init)"
proof -
  have "\<not> instanciatedFlag library_init ! 0" by (simp add: library_init_def flags_init_def)
  then have "\<not> (\<forall>k < 255. instanciatedFlag library_init ! k)" by (meson zero_less_numeral)
  then show ?thesis
    using open_succeeds_unless_full [OF reach_init, of 1 "''eth0''" 7 1 "LookupOk 0 0"]
    by (simp only: if_False) blast
qed

text \<open>
  C8: as long as no dump file has been closed, closing any ID returns normally, with no use of a
  released handle: the ID's handle is released, its entry cleared and its ID free again; every other
  ID keeps its handle, which stays alive.
\<close>

theorem close_is_safe:
  assumes "reach C st" "DumpClose \<notin> C" "k < 255"
  shows "\<exists>st'. captor_close (int k) st = Inr (Inr (), st')
    \<and> pcds (ntv st') k = None \<and> \<not> instanciatedFlag st' ! k
    \<and> (\<forall>j. j \<noteq> k \<longrightarrow> pcds (ntv st') j = pcds (ntv st) j
          \<and> (j < 255 \<longrightarrow> instanciatedFlag st' ! j = instanciatedFlag st ! j)
          \<and> (\<forall>h. pcds (ntv st) j = Some h \<longrightarrow> h \<in> set (live (ntv st'))))
    \<and> (\<forall>h. pcds (ntv st) k = Some h \<longrightarrow> h \<notin> set (live (ntv st')))"
proof -
  note ok = reach_lib_ok [OF assms(1)] reach_handles_ok [OF assms(1,2)]
  obtain st' where st': "captor_close (int k) st = Inr (Inr (), st')"
      "pcds (ntv st') = (pcds (ntv st))(k := None)"
      "live (ntv st') = (case pcds (ntv st) k of None \<Rightarrow> live (ntv st) | Some h \<Rightarrow> remove1 h (live (ntv st)))"
      "taken_ids (instanciatedFlag st') = taken_ids (instanciatedFlag st) - {k}"
      "wf_flags (instanciatedFlag st')"
    using reach_captor_close [OF ok assms(3)] .
  have wf: "wf_flags (instanciatedFlag st)" using ok(1) by (simp add: lib_ok_def)
  have flags: "instanciatedFlag st' ! j \<longleftrightarrow> j \<noteq> k \<and> instanciatedFlag st ! j" if "j < 255" for j
    using taken_iff [OF wf, of j] taken_iff [OF st'(5), of j] st'(4) that by auto
  have "\<forall>j h. j \<noteq> k \<longrightarrow> pcds (ntv st) j = Some h \<longrightarrow> h \<in> set (live (ntv st'))"
    using ok(2) st'(3) by (fastforce simp: handles_ok_def split: option.splits)
  moreover have "\<forall>h. pcds (ntv st) k = Some h \<longrightarrow> h \<notin> set (live (ntv st'))"
    using ok(2) st'(3) by (auto simp: handles_ok_def)
  ultimately show ?thesis using st'(1,2) flags assms(3) by auto
qed

theorem close_is_safe_witness:
  "\<exists>st st'. pcds (ntv st) 0 = Some 7 \<and> captor_close (int 0) st = Inr (Inr (), st')
    \<and> pcds (ntv st') 0 = None \<and> 7 \<notin> set (live (ntv st'))"
proof -
  obtain st where st: "reach {CaptorOpen} st" "pcds (ntv st) 0 = Some 7" using reach_after_open by blast
  have "\<exists>st'. captor_close (int 0) st = Inr (Inr (), st') \<and> pcds (ntv st') 0 = None \<and> 7 \<notin> set (live (ntv st'))"
    using close_is_safe [OF st(1), of 0] st(2) by auto
  then show ?thesis using st(2) by blast
qed

text \<open>
  C28: a sender obtained from a captor shares its ID. Closing it closes the captor and frees the ID,
  the next captor is given the same ID, and closing the first captor then releases the handle of the
  second one and frees its ID.
\<close>

theorem shared_sender_close:
  assumes "reach C st" "DumpClose \<notin> C" "h \<notin> set (live (ntv st))" "h' \<notin> set (live (ntv st))"
    and "openDevice env (Some name) (OpenOk h lt w) looked st = Inr (Inr ID, st1)"
    and "sender_close (getJpcapSenderInstance ID) st1 = Inr (r, st2)"
    and "openDevice env' (Some name') (OpenOk h' lt' w') looked' st2 = Inr (Inr ID', st3)"
  shows "ID' = ID \<and> pcds (ntv st3) (nat ID') = Some h' \<and> h' \<in> set (live (ntv st3))
    \<and> (\<exists>st4. captor_close ID st3 = Inr (Inr (), st4) \<and> h' \<notin> set (live (ntv st4))
        \<and> pcds (ntv st4) (nat ID') = None \<and> \<not> instanciatedFlag st4 ! nat ID')"
proof -
  note ok = reach_lib_ok [OF assms(1)] reach_handles_ok [OF assms(1,2)]
  obtain k where k: "ID = int k" "k < 255" "k \<notin> taken_ids (instanciatedFlag st)"
      "{..<k} \<subseteq> taken_ids (instanciatedFlag st)" "lib_ok st1"
      "taken_ids (instanciatedFlag st1) = insert k (taken_ids (instanciatedFlag st))"
      "pcds (ntv st1) = (pcds (ntv st))(k := Some h)" "live (ntv st1) = h # live (ntv st)"
    using openDevice_reach [OF ok(1) assms(5)] .
  have h1: "handles_ok (ntv st1)" using k(7,8) ok(2) assms(3) by (auto simp: handles_ok_def)
  have "captor_close (int k) st1 = Inr (r, st2)"
    using assms(6) sender_close_fields [of ID st1 r st2] k(1,2)
    by (auto simp: getJpcapSenderInstance_def RAW_SOCKET_ID_def)
  then have s2: "pcds (ntv st2) = (pcds (ntv st1))(k := None)" "live (ntv st2) = live (ntv st)"
      "taken_ids (instanciatedFlag st2) = taken_ids (instanciatedFlag st)" "lib_ok st2"
    using reach_captor_close [OF k(5) h1 k(2)] k(3,6-8) lib_ok_captor_close [OF k(5), of "int k" r st2] by auto
  obtain j where j: "ID' = int j" "j < 255" "j \<notin> taken_ids (instanciatedFlag st2)"
      "{..<j} \<subseteq> taken_ids (instanciatedFlag st2)" "lib_ok st3"
      "taken_ids (instanciatedFlag st3) = insert j (taken_ids (instanciatedFlag st2))"
      "pcds (ntv st3) = (pcds (ntv st2))(j := Some h')" "live (ntv st3) = h' # live (ntv st2)"
    using openDevice_reach [OF s2(4) assms(7)] .
  have jk: "j = k" using j(3,4) k(3,4) s2(3) by (metis lessThan_iff linorder_neqE_nat subsetD)
  have h3: "handles_ok (ntv st3)"
    using j(7,8) s2(1,2) k(7) ok(2) assms(4) by (auto simp: handles_ok_def jk)
  obtain st4 where st4: "captor_close (int k) st3 = Inr (Inr (), st4)"
      "pcds (ntv st4) = (pcds (ntv st3))(k := None)"
      "live (ntv st4) = (case pcds (ntv st3) k of None \<Rightarrow> live (ntv st3) | Some h \<Rightarrow> remove1 h (live (ntv st3)))"
      "taken_ids (instanciatedFlag st4) = taken_ids (instanciatedFlag st3) - {k}" "wf_flags (instanciatedFlag st4)"
    using reach_captor_close [OF j(5) h3 k(2)] .
  have "distinct (live (ntv st3))" using h3 by (simp add: handles_ok_def)
  then have "h' \<notin> set (live (ntv st4))" using st4(3) j(7) jk by simp
  moreover have "\<not> instanciatedFlag st4 ! k" using st4(4) taken_iff [OF st4(5)] k(2) by auto
  ultimately show ?thesis using j(1,7,8) jk k(1) st4(1,2) by auto
qed

theorem shared_sender_close_witness:
  "\<exists>st1 r st2 st3.
     openDevice 1 (Some ''eth0'') (OpenOk 7 1 None) (LookupOk 0 0) library_init = Inr (Inr 0, st1)
   \<and> sender_close (getJpcapSenderInstance 0) st1 = Inr (r, st2)
   \<and> openDevice 1 (Some ''eth1'') (OpenOk 8 1 None) (LookupOk 0 0) st2 = Inr (Inr 0, st3)
   \<and> (0 :: int) = 0 \<and> pcds (ntv st3) (nat 0) = Some 8 \<and> 8 \<in> set (live (ntv st3))
   \<and> (\<exists>st4. captor_close 0 st3 = Inr (Inr (), st4) \<and> 8 \<notin> set (live (ntv st4))
        \<and> pcds (ntv st4) (nat 0) = None \<and> \<not> instanciatedFlag st4 ! nat 0)"
proof -
  have id: "flags_init[0 := False] = flags_init"
    using list_update_id [of flags_init 0] by (simp add: flags_init_def)
  have len: "length flags_init = 255" by (simp add: flags_init_def)
  obtain st1 where st1: "openDevice 1 (Some ''eth0'') (OpenOk 7 1 None) (LookupOk 0 0) library_init = Inr (Inr 0, st1)"
      "instanciatedFlag st1 = flags_init[0 := True]" "pcds (ntv st1) 0 = Some 7" "live (ntv st1) = [7]"
    unfolding open_init by simp
  obtain st2 where st2: "sender_close (getJpcapSenderInstance 0) st1 = Inr (Inr (), st2)"
      "instanciatedFlag st2 = flags_init" "pcds (ntv st2) 0 = None"
    using st1(2-4)
    by (simp add: sender_close_def getJpcapSenderInstance_def RAW_SOCKET_ID_def nativeCloseDevice_def slot_def
        pcap_close_def deref_def release_def unreserveID_def id len)
  have "reserveID flags_init = (0, flags_init[0 := True])"
    unfolding reserveID_def by (subst reserve_from.simps) (simp add: flags_init_def)
  then obtain st3 where st3: "openDevice 1 (Some ''eth1'') (OpenOk 8 1 None) (LookupOk 0 0) st2 = Inr (Inr 0, st3)"
    using st2(2,3) by (simp add: openDevice_def open_instance_def nativeOpenLive_def slot_def Let_def)
  have "0 = (0 :: int) \<and> pcds (ntv st3) (nat 0) = Some 8 \<and> 8 \<in> set (live (ntv st3))
      \<and> (\<exists>st4. captor_close 0 st3 = Inr (Inr (), st4) \<and> 8 \<notin> set (live (ntv st4))
        \<and> pcds (ntv st4) (nat 0) = None \<and> \<not> instanciatedFlag st4 ! nat 0)"
    by (rule shared_sender_close [OF reach_init [of "{}"] _ _ _ st1(1) st2(1) st3])
       (simp_all add: library_init_def native_init_def)
  then show ?thesis using st1(1) st2(1) st3 by blast
qed

text \<open>A run of attempts to open a device that libpcap refuses.\<close>

fun failing_opens :: "nat \<Rightarrow> string \<Rightarrow> library \<Rightarrow> library" where
  "failing_opens 0 msg st = st"
| "failing_opens (Suc n) msg st =
     (case openDevice 1 (Some ''eth0'') (OpenErr msg) (LookupOk 0 0) st of
        Inr (Inl e, st') \<Rightarrow> failing_opens n msg st'
      | _ \<Rightarrow> st)"

lemma failing_open:
  assumes "lib_ok st" "taken_ids (instanciatedFlag st) = {..<k}" "k < 255"
  shows "\<exists>m st'. openDevice 1 (Some ''eth0'') (OpenErr msg) (LookupOk 0 0) st = Inr (Inl (IOException m), st')
    \<and> lib_ok st' \<and> taken_ids (instanciatedFlag st') = {..<k + 1} \<and> live (ntv st') = live (ntv st)"
proof -
  have ok: "wf_flags (instanciatedFlag st)"
      "\<forall>k. k \<notin> taken_ids (instanciatedFlag st) \<longrightarrow> pcds (ntv st) k = None"
    using assms(1) by (auto simp: lib_ok_def)
  show ?thesis
  proof (cases rule: live_capture.open_free [OF ok, of 1 "Some ''eth0''" "OpenErr msg" "LookupOk 0 0"])
    case 1
    then show ?thesis using assms(2,3) by auto
  next
    case (2 j ret s' fl)
    have "j = k" using 2(3,4) assms(2) by (auto simp: lessThan_subset_iff not_less)
    obtain m where "ret = Some m" using 2(7) by (auto simp: open_out_def)
    then have o: "open_instance (\<lambda>ID. nativeOpenLive 1 ID (Some ''eth0'') (OpenErr msg) (LookupOk 0 0)) st
        = Inr (Inl (IOException m), \<lparr>instanciatedFlag = fl, ntv = s'\<rparr>)"
      using 2(1) by simp
    show ?thesis
      using o live_capture.lib_ok_open [OF assms(1) o] 2(6,9) assms(2) \<open>j = k\<close>
      by (auto simp: openDevice_def open_out_def lessThan_Suc)
  qed
qed

lemma failing_opens_state:
  assumes "lib_ok st" "taken_ids (instanciatedFlag st) = {..<k}" "k + n \<le> 255"
  shows "lib_ok (failing_opens n msg st) \<and> taken_ids (instanciatedFlag (failing_opens n msg st)) = {..<k + n}
    \<and> live (ntv (failing_opens n msg st)) = live (ntv st)"
  using assms
proof (induction n arbitrary: k st)
  case (Suc n)
  obtain m st' where "openDevice 1 (Some ''eth0'') (OpenErr msg) (LookupOk 0 0) st = Inr (Inl (IOException m), st')"
      "lib_ok st'" "taken_ids (instanciatedFlag st') = {..<k + 1}" "live (ntv st') = live (ntv st)"
    using failing_open [OF Suc.prems(1,2), of msg] Suc.prems(3) by auto
  then show ?case using Suc.IH [of st' "k + 1"] Suc.prems(3) by simp
qed simp

text \<open>
  C27: every open that fails keeps its ID: after 255 failed attempts no device is open, and every further
  attempt, whatever libpcap would answer, is refused as if 255 devices were open.
\<close>

theorem failed_opens_exhaust:
  "live (ntv (failing_opens 255 msg library_init)) = []
   \<and> openDevice env name opened looked (failing_opens 255 msg library_init)
      = Inr (Inl (IOException limit_message), failing_opens 255 msg library_init)"
proof -
  let ?st = "failing_opens 255 msg library_init"
  have "taken_ids (instanciatedFlag library_init) = {..<0}"
    by (auto simp: taken_ids_def library_init_def flags_init_def)
  then have st: "lib_ok ?st" "taken_ids (instanciatedFlag ?st) = {..<255}" "live (ntv ?st) = []"
    using failing_opens_state [of library_init 0 255 msg] lib_ok_init
    by (auto simp: library_init_def native_init_def)
  have "reserveID (instanciatedFlag ?st) = (- 1, instanciatedFlag ?st)"
    using ids.reserve_full st(1,2) by (simp add: lib_ok_def)
  then show ?thesis using st(3) by (simp add: openDevice_def open_instance_def)
qed

text \<open>
  C29: a raw socket that is opened and closed: closing it ends in an
  \<^verbatim>\<open>ArrayIndexOutOfBoundsException\<close>, because the sender's ID is no longer the one that was
  reserved; that one stays reserved, and opening a raw socket in the state after that ends in an
  \<^verbatim>\<open>IOException\<close>, whatever the system answers.
\<close>

theorem raw_sender_close_throws:
  assumes "reach C st" "soc_num (ntv st) < 0" "0 \<le> fd" "openRawSocket fd st = Inr (Inr ID, st1)"
  shows "\<exists>k st2. sender_close ID st1 = Inr (Inl ArrayIndexOutOfBounds, st2)
    \<and> k < 255 \<and> \<not> instanciatedFlag st ! k \<and> instanciatedFlag st2 ! k
    \<and> fd \<notin> set (open_socks (ntv st2))
    \<and> (\<forall>fd'. \<exists>m st3. openRawSocket fd' st2 = Inr (Inl (IOException m), st3))"
proof -
  have wf: "wf_flags (instanciatedFlag st)" using reach_lib_ok [OF assms(1)] by (simp add: lib_ok_def)
  show ?thesis
  proof (cases rule: ids.reserve_cases [OF wf])
    case 1
    then show ?thesis using assms(4) by (simp add: openRawSocket_def)
  next
    case (2 k fl)
    let ?st1 = "\<lparr>instanciatedFlag = fl, ntv = (ntv st)\<lparr>soc_num := fd, open_socks := fd # open_socks (ntv st)\<rparr>\<rparr>"
    let ?st2 = "\<lparr>instanciatedFlag = fl, ntv = nativeCloseRawSocket (ntv ?st1)\<rparr>"
    have st1: "ID = RAW_SOCKET_ID" "st1 = ?st1"
      using assms(2-4) 2(1) by (auto simp: openRawSocket_def nativeOpenRawSocket_def)
    have "sender_close ID st1 = Inr (Inl ArrayIndexOutOfBounds, ?st2)"
      using 2(6) by (simp add: st1 sender_close_def release_def unreserveID_def RAW_SOCKET_ID_def wf_flags_def)
    moreover have "\<exists>m st3. openRawSocket fd' ?st2 = Inr (Inl (IOException m), st3)" for fd'
      using assms(3) by (cases "reserveID fl")
        (simp add: openRawSocket_def nativeCloseRawSocket_def nativeOpenRawSocket_def Let_def)
    moreover have "\<not> instanciatedFlag st ! k" "fl ! k"
      using 2(2,3,5) taken_iff [OF wf, of k] taken_iff [OF 2(6), of k] by auto
    ultimately show ?thesis
      using 2(2) by (intro exI [of _ k] exI [of _ ?st2]) (simp add: nativeCloseRawSocket_def)
  qed
qed

theorem raw_sender_close_throws_witness:
  "\<exists>st1 k st2. openRawSocket 5 library_init = Inr (Inr RAW_SOCKET_ID, st1)
    \<and> sender_close RAW_SOCKET_ID st1 = Inr (Inl ArrayIndexOutOfBounds, st2)
    \<and> k < 255 \<and> \<not> instanciatedFlag library_init ! k \<and> instanciatedFlag st2 ! k
    \<and> 5 \<notin> set (open_socks (ntv st2))
    \<and> (\<forall>fd'. \<exists>m st3. openRawSocket fd' st2 = Inr (Inl (IOException m), st3))"
proof -
  have "reserveID flags_init = (0, flags_init[0 := True])"
    unfolding reserveID_def by (subst reserve_from.simps) (simp add: flags_init_def)
  then obtain st1 where st1: "openRawSocket 5 library_init = Inr (Inr RAW_SOCKET_ID, st1)"
    by (simp add: openRawSocket_def library_init_def nativeOpenRawSocket_def native_init_def)
  show ?thesis
    using st1 raw_sender_close_throws [OF reach_init [of "{}"] _ _ st1]
    by (simp add: library_init_def native_init_def)
qed

section \<open>Refinement of the ID flags\<close>

text \<open>The pool of IDs as a set: the least number not handed out, if it is below 255.\<close>

definition spec_reserve :: "nat set \<Rightarrow> int \<times> nat set" where
  "spec_reserve S = (if {..<255} \<subseteq> S then (- 1, S)
     else let k = (LEAST k. k \<notin> S) in (int k, insert k S))"

definition spec_unreserve :: "int \<Rightarrow> nat set \<Rightarrow> jexn + nat set" where
  "spec_unreserve ID S = (if 0 \<le> ID \<and> ID < 255 then Inr (S - {nat ID}) else Inl ArrayIndexOutOfBounds)"

text \<open>
  C26: the flag array of \<^verbatim>\<open>JpcapInstance\<close> implements the set of reserved IDs: reserving gives the
  least free number or -1, giving an ID back removes it, and an index outside the array is the
  exception.
\<close>

theorem id_flags_refine_set:
  assumes "length fl = 255"
  shows "map_prod id taken_ids (reserveID fl) = spec_reserve (taken_ids fl)
    \<and> map_sum id taken_ids (unreserveID ID fl) = spec_unreserve ID (taken_ids fl)"
proof
  have wf: "wf_flags fl" using assms by (simp add: wf_flags_def)
  show "map_prod id taken_ids (reserveID fl) = spec_reserve (taken_ids fl)"
  proof (cases rule: ids.reserve_cases [OF wf])
    case 1
    then show ?thesis by (simp add: spec_reserve_def)
  next
    case (2 k fl')
    then have "(LEAST k. k \<notin> taken_ids fl) = k"
      by (intro Least_equality) (auto simp: not_less [symmetric])
    moreover have "\<not> {..<255} \<subseteq> taken_ids fl" using 2(2,3) by auto
    ultimately show ?thesis using 2(1,5) by (simp add: spec_reserve_def Let_def)
  qed
  show "map_sum id taken_ids (unreserveID ID fl) = spec_unreserve ID (taken_ids fl)"
    using assms by (auto simp: unreserveID_def spec_unreserve_def taken_ids_update nat_less_iff)
qed

theorem id_flags_refine_set_witness:
  "map_prod id taken_ids (reserveID flags_init) = spec_reserve (taken_ids flags_init)
    \<and> map_sum id taken_ids (unreserveID 99999 flags_init) = spec_unreserve 99999 (taken_ids flags_init)"
  by (rule id_flags_refine_set) (simp add: flags_init_def)

end
