(* ===== verification/Session.thy ===== *)
theory Session
  imports Send_Capture Lifecycle
begin

text \<open>
  The library as its clients use it: a captor and a sender opened through
  \<^verbatim>\<open>JpcapCaptor.openDevice\<close> and \<^verbatim>\<open>JpcapSender.openDevice\<close>, packet objects sent
  with \<^verbatim>\<open>sendPacket\<close>, the frames captured on the wire and delivered by
  \<^verbatim>\<open>processPacket\<close>. All theories of the library meet here: IDs, native state, the writing and
  the reading of packets, and the callbacks.
\<close>

section \<open>Packets that cross\<close>

text \<open>TCP and UDP packet objects over IPv4 and Ethernet that fit the send buffer.\<close>

definition sendable :: "packet \<Rightarrow> bool" where
  "sendable p \<longleftrightarrow> (case (pk_datalink p, pk_data p) of
       (Some e, Some d) \<Rightarrow> wf_eth e \<and> eth_frametype e = ETHERTYPE_IP
         \<and> (case pk_body p of
              UDPBody i u \<Rightarrow> ip_version i = 4 \<and> has_addrs 4 i \<and> ip_offset i = 0 \<and> wf_udp u \<and> length d \<le> 1558
            | TCPBody i t \<Rightarrow> ip_version i = 4 \<and> has_addrs 4 i \<and> ip_offset i = 0 \<and> wf_tcp t \<and> length d \<le> 1546
            | _ \<Rightarrow> False)
     | _ \<Rightarrow> False)"

lemma sendable_cases:
  assumes "sendable p"
  obtains (udp) e d i u where "pk_datalink p = Some e" "wf_eth e" "pk_body p = UDPBody i u" "ip_version i = 4"
      "has_addrs 4 i" "pk_data p = Some d" "eth_frametype e = ETHERTYPE_IP" "ip_offset i = 0" "wf_udp u"
      "length d \<le> 1558"
    | (tcp) e d i t where "pk_datalink p = Some e" "wf_eth e" "pk_body p = TCPBody i t" "ip_version i = 4"
      "has_addrs 4 i" "pk_data p = Some d" "eth_frametype e = ETHERTYPE_IP" "ip_offset i = 0" "wf_tcp t"
      "length d \<le> 1546"
  using assms unfolding sendable_def by (cases "pk_body p") (auto split: option.splits)

lemma sendable_crosses:
  assumes "sendable p" "length buf = MAX_PACKET_SIZE"
  obtains frame where "frame_to_send p buf = Inr frame"
    "\<And>t0 stray hdr. unat (ph_caplen hdr) = length frame
       \<Longrightarrow> \<exists>q. get_packet t0 stray DLT_EN10MB hdr frame = Inr q \<and> carries p q"
  using assms(1)
proof (cases rule: sendable_cases)
  case udp
  show ?thesis
    by (rule udp_crossing [OF udp(1-10) assms(2)]) (rule that)
next
  case tcp
  show ?thesis
    by (rule tcp_crossing [OF tcp(1-10) assms(2)]) (rule that)
qed

section \<open>A sender and a captor\<close>

text \<open>
  What the captor's libpcap hands over for one call of \<^verbatim>\<open>sendPacket\<close>, given the packet and the
  initial content of the send buffer: the whole frame, with its length.
\<close>

definition wired :: "int \<Rightarrow> library \<Rightarrow> packet \<times> bytes \<Rightarrow> captured \<Rightarrow> bool" where
  "wired ID st send c \<longleftrightarrow> length (snd send) = MAX_PACKET_SIZE
     \<and> sendPacket ID (fst send) (snd send) 0 st = Inr (None, cap_bytes c)
     \<and> unat (ph_caplen (cap_hdr c)) = length (cap_bytes c)"

lemma sender_openDevice_reach:
  assumes "lib_ok st" "sender_openDevice env (Some name) (OpenOk h lt w) st = Inr (Inr ID, st')"
  obtains k where "ID = int k" "k < 255" "k \<notin> taken_ids (instanciatedFlag st)"
    "pcds (ntv st') = (pcds (ntv st))(k := Some h)" "live (ntv st') = h # live (ntv st)"
    "linktypes (ntv st') = linktypes (ntv st)"
proof -
  have ok: "wf_flags (instanciatedFlag st)" "\<forall>k. k \<notin> taken_ids (instanciatedFlag st) \<longrightarrow> pcds (ntv st) k = None"
    using assms(1) by (auto simp: lib_ok_def)
  show thesis
  proof (cases rule: sending.open_free [OF ok, of env "Some name" "OpenOk h lt w"])
    case 1
    then show ?thesis using assms(2) by (simp add: sender_openDevice_def)
  next
    case (2 k ret s' fl)
    have "linktypes s' = linktypes (ntv st)"
      using 2(2,11) by (auto simp: nativeOpenDevice_def slot_def Let_def store_open_def set_err_def
          split: if_splits option.splits)
    then show ?thesis
      using that [of k] 2 assms(2) by (auto simp: sender_openDevice_def open_out_def split: option.splits)
  qed
qed

lemma openDevice_linktype:
  assumes "lib_ok st" "openDevice env (Some name) (OpenOk h lt w) looked st = Inr (Inr (int k), st')"
  shows "linktypes (ntv st') k = lt"
  using assms(2)
  by (auto simp: openDevice_def open_instance_def nativeOpenLive_def slot_def Let_def res_simps
      split: if_splits option.splits prod.splits lookup_result.splits)

lemma processPacket_open:
  assumes "k < 255" "pcds s k = Some h" "h \<in> set (live s)"
    and "list_all2 (\<lambda>c d. fst d = r \<and> read_captured (linktypes s k) c = Inr (snd d)) cs ds"
  shows "\<exists>s'. processPacket env (int k) (Some r) cs n s = Inr (n, ds, s')"
  using assms
  by (auto simp: processPacket_def run_callbacks_def Let_def NewGlobalRef_def DeleteGlobalRef_def
      deref_def bindR_eq_Inr dispatch_Inr)

section \<open>Properties\<close>

text \<open>
  C1: a captor on an Ethernet device and a sender are opened in any reachable state of the library, and a
  sequence of packet objects is sent through the sender, each a TCP or UDP packet over IPv4 with an
  Ethernet header of frame type IP and six-byte MAC addresses, fragment offset 0, addresses of at least
  four bytes, ports and window that fit 16 bits, sequence numbers that fit 32 bits, and a payload of at
  most 1558 bytes for UDP and 1546 for TCP; each frame is captured whole by the captor's libpcap. Then
  the two have different IDs, every packet object that meets these conditions can be sent, and
  \<^verbatim>\<open>processPacket\<close> delivers to the handler one packet object per packet object sent, in the
  order of sending, each of the same class, with the same Ethernet header, the first four bytes of the
  addresses, the same ports, TCP fields and payload; TCP options are not sent.
\<close>

theorem session_delivers:
  assumes "reach C st"
    and "openDevice env (Some name) (OpenOk h DLT_EN10MB w) looked st = Inr (Inr ID, st1)"
    and "sender_openDevice env' (Some name') (OpenOk h' lt' w') st1 = Inr (Inr ID', st2)"
    and "list_all (\<lambda>(p, buf). sendable p) sends" "list_all2 (wired ID' st2) sends cs"
  shows "ID \<noteq> ID'
    \<and> (\<forall>p buf. sendable p \<longrightarrow> length buf = MAX_PACKET_SIZE \<longrightarrow>
        (\<exists>frame. sendPacket ID' p buf 0 st2 = Inr (None, frame)))
    \<and> (\<exists>ds s'. processPacket env'' ID (Some r) cs n (ntv st2) = Inr (n, ds, s')
        \<and> list_all2 (\<lambda>(p, buf) (r', q). r' = r \<and> carries p q) sends ds)"
proof -
  obtain k where k: "ID = int k" "k < 255" "lib_ok st1"
      "taken_ids (instanciatedFlag st1) = insert k (taken_ids (instanciatedFlag st))"
      "pcds (ntv st1) = (pcds (ntv st))(k := Some h)" "live (ntv st1) = h # live (ntv st)"
    using openDevice_reach [OF reach_lib_ok [OF assms(1)] assms(2)] .
  have lt: "linktypes (ntv st1) k = DLT_EN10MB"
    using openDevice_linktype [OF reach_lib_ok [OF assms(1)]] assms(2) unfolding k(1) .
  obtain j where j: "ID' = int j" "j < 255" "j \<notin> taken_ids (instanciatedFlag st1)"
      "pcds (ntv st2) = (pcds (ntv st1))(j := Some h')" "live (ntv st2) = h' # live (ntv st1)"
      "linktypes (ntv st2) = linktypes (ntv st1)"
    using sender_openDevice_reach [OF k(3) assms(3)] .
  have jk: "j \<noteq> k" using j(3) k(4) by auto
  have snd: "sendPacket ID' p buf 0 st2 = bindR (frame_to_send p buf) (\<lambda>frame. Inr (None, frame))" for p buf
    using j by (auto simp: sendPacket_def RAW_SOCKET_ID_def nativeSendPacket_def slot_def deref_def bindR_def
        split: sum.splits)
  have each: "\<exists>d. (\<lambda>(p, buf) (r', q). r' = r \<and> carries p q) s d \<and> fst d = r \<and> read_captured (linktypes (ntv st2) k) c = Inr (snd d)"
    if sc: "s \<in> set sends" "wired ID' st2 s c" for s c
  proof -
    obtain p buf where s: "s = (p, buf)" "sendable p" "length buf = MAX_PACKET_SIZE"
      using sc bspec [OF assms(4) [unfolded list_all_iff] sc(1)] by (cases s) (auto simp: wired_def)
    obtain frame where f: "frame_to_send p buf = Inr frame"
      "\<And>t0 stray hdr. unat (ph_caplen hdr) = length frame
       \<Longrightarrow> \<exists>q. get_packet t0 stray DLT_EN10MB hdr frame = Inr q \<and> carries p q"
      using sendable_crosses [OF s(2,3)] by metis
    have "cap_bytes c = frame" "unat (ph_caplen (cap_hdr c)) = length frame"
      using sc(2) f(1) s(1) by (auto simp: wired_def snd)
    then show ?thesis
      using f(2) [of "cap_hdr c" "cap_undef c" "cap_stray c"] s(1) j(6) lt by (auto simp: read_captured_def)
  qed
  have "\<exists>ds. list_all2 (\<lambda>(p, buf) (r', q). r' = r \<and> carries p q) sends ds
      \<and> list_all2 (\<lambda>c d. fst d = r \<and> read_captured (linktypes (ntv st2) k) c = Inr (snd d)) cs ds"
    by (rule list_all2_factor [OF assms(5)]) (use each in auto)
  then obtain ds where ds: "list_all2 (\<lambda>(p, buf) (r', q). r' = r \<and> carries p q) sends ds"
      "list_all2 (\<lambda>c d. fst d = r \<and> read_captured (linktypes (ntv st2) k) c = Inr (snd d)) cs ds"
    by blast
  have open2: "pcds (ntv st2) k = Some h" "h \<in> set (live (ntv st2))" using j(4,5) k(5,6) jk by simp_all
  have del: "\<exists>s'. processPacket env'' ID (Some r) cs n (ntv st2) = Inr (n, ds, s')"
    unfolding k(1) by (rule processPacket_open [OF k(2) open2 ds(2)])
  have sent: "\<exists>frame. sendPacket ID' p buf 0 st2 = Inr (None, frame)"
    if "sendable p" "length buf = MAX_PACKET_SIZE" for p buf
    by (rule sendable_crosses [OF that]) (simp add: snd)
  have "ID \<noteq> ID'" using jk j(1) k(1) by simp
  then show ?thesis using ds(1) del sent by blast
qed

definition sample_sends :: "(packet \<times> bytes) list" where
  "sample_sends = [(sample_packet (UDPBody sample_ip sample_udp) [65, 66], replicate 1600 0xcc),
     (sample_packet (TCPBody sample_ip sample_tcp) [71, 69, 84], replicate 1600 0)]"

lemma sample_sendable: "list_all (\<lambda>(p, buf). sendable p) sample_sends"
  by (simp add: sample_sends_def sendable_def sample_udp_def sample_tcp_def wf_udp_def wf_tcp_def)

lemma sample_opened:
  "\<exists>st1 st2. openDevice 1 (Some ''eth0'') (OpenOk 7 1 None) (LookupOk 0 0) library_init = Inr (Inr 0, st1)
     \<and> sender_openDevice 1 (Some ''eth1'') (OpenOk 8 1 None) st1 = Inr (Inr 1, st2)
     \<and> pcds (ntv st2) 1 = Some 8 \<and> 8 \<in> set (live (ntv st2))"
proof -
  have "reserveID (flags_init[0 := True]) = (1, flags_init[0 := True, 1 := True])"
    unfolding reserveID_def
    by (subst reserve_from.simps, subst reserve_from.simps) (simp add: flags_init_def)
  then show ?thesis
    unfolding open_init
    by (simp add: sender_openDevice_def open_instance_def nativeOpenDevice_def store_open_def set_err_def
        slot_def Let_def)
qed

lemma sample_captured:
  assumes "pcds (ntv st) 1 = Some 8" "8 \<in> set (live (ntv st))"
  shows "\<exists>cs. list_all2 (wired 1 st) sample_sends cs"
proof -
  have w: "\<exists>c. wired 1 st (p, buf) c"
    if "frame_to_send p buf = Inr frame" "length frame = 60" "length buf = MAX_PACKET_SIZE" for p buf frame
    using that assms
    by (intro exI [of _ "\<lparr>cap_undef = 0, cap_stray = (0, 0), cap_hdr = sample_hdr 60, cap_bytes = frame\<rparr>"])
       (simp add: wired_def sendPacket_def RAW_SOCKET_ID_def nativeSendPacket_def slot_def deref_def sample_hdr_def)
  obtain f where f: "frame_to_send (sample_packet (UDPBody sample_ip sample_udp) [65, 66]) (replicate 1600 0xcc) = Inr f"
      "length f = 60"
    by (rule udp_crossing [of "sample_packet (UDPBody sample_ip sample_udp) [65, 66]" sample_link sample_ip
          sample_udp "[65, 66]" "replicate 1600 0xcc"]) (simp_all add: sample_udp_def wf_udp_def)
  obtain g where g: "frame_to_send (sample_packet (TCPBody sample_ip sample_tcp) [71, 69, 84]) (replicate 1600 0) = Inr g"
      "length g = 60"
    by (rule tcp_crossing [of "sample_packet (TCPBody sample_ip sample_tcp) [71, 69, 84]" sample_link sample_ip
          sample_tcp "[71, 69, 84]" "replicate 1600 0"]) (simp_all add: sample_tcp_def wf_tcp_def)
  obtain c d where "wired 1 st (sample_sends ! 0) c" "wired 1 st (sample_sends ! 1) d"
    using w [OF f] w [OF g] by (auto simp: sample_sends_def)
  then show ?thesis by (intro exI [of _ "[c, d]"]) (simp add: sample_sends_def)
qed

theorem session_delivers_witness:
  "\<exists>st1 st2 cs ds s'. openDevice 1 (Some ''eth0'') (OpenOk 7 DLT_EN10MB None) (LookupOk 0 0) library_init = Inr (Inr 0, st1)
     \<and> sender_openDevice 1 (Some ''eth1'') (OpenOk 8 1 None) st1 = Inr (Inr 1, st2)
     \<and> list_all2 (wired 1 st2) sample_sends cs
     \<and> processPacket 1 0 (Some 9) cs 2 (ntv st2) = Inr (2, ds, s')
     \<and> list_all2 (\<lambda>(p, buf) (r', q). r' = 9 \<and> carries p q) sample_sends ds"
proof -
  obtain st1 st2 where o: "openDevice 1 (Some ''eth0'') (OpenOk 7 DLT_EN10MB None) (LookupOk 0 0) library_init = Inr (Inr 0, st1)"
      "sender_openDevice 1 (Some ''eth1'') (OpenOk 8 1 None) st1 = Inr (Inr 1, st2)"
      "pcds (ntv st2) 1 = Some 8" "8 \<in> set (live (ntv st2))"
    using sample_opened by auto
  obtain cs where cs: "list_all2 (wired 1 st2) sample_sends cs" using sample_captured [OF o(3,4)] by blast
  show ?thesis
    using session_delivers [OF reach_init [of "{}"] o(1,2) sample_sendable cs, of 1 9 2] o(1,2) cs by blast
qed

end
