(* ===== verification/Jni_Interface.thy ===== *)
theory Jni_Interface
  imports Prelude
begin

text \<open>
  The two name spaces the library joins. Downwards, the native methods the Java classes declare and
  the C prototypes of the generated headers \<^verbatim>\<open>src/c/jpcap_JpcapCaptor.h\<close>,
  \<^verbatim>\<open>jpcap_JpcapSender.h\<close> and \<^verbatim>\<open>jpcap_JpcapWriter.h\<close>. Upwards, the classes
  and method IDs \<^verbatim>\<open>set_Java_env\<close> (\<^verbatim>\<open>JpcapCaptor.c\<close> lines 906 to 987) looks up by
  name and descriptor, the methods the packet classes declare, and the arguments with which the C code
  calls them.
\<close>

section \<open>Descriptors and symbol names\<close>

datatype jtype = JVoid | JBoolean | JByte | JShort | JInt | JLong | JClass string | JArray jtype

abbreviation jbytes :: jtype where "jbytes \<equiv> JArray JByte"
abbreviation jString :: jtype where "jString \<equiv> JClass ''java/lang/String''"

record jmethod =
  jm_name :: string
  jm_static :: bool
  jm_params :: "jtype list"
  jm_ret :: jtype

abbreviation meth :: "string \<Rightarrow> jtype list \<Rightarrow> jtype \<Rightarrow> jmethod" where
  "meth n ps r \<equiv> \<lparr>jm_name = n, jm_static = False, jm_params = ps, jm_ret = r\<rparr>"

fun type_desc :: "jtype \<Rightarrow> string" where
  "type_desc JVoid = ''V''"
| "type_desc JBoolean = ''Z''"
| "type_desc JByte = ''B''"
| "type_desc JShort = ''S''"
| "type_desc JInt = ''I''"
| "type_desc JLong = ''J''"
| "type_desc (JClass c) = ''L'' @ c @ '';''"
| "type_desc (JArray t) = CHR ''['' # type_desc t"

definition method_desc :: "jtype list \<Rightarrow> jtype \<Rightarrow> string" where
  "method_desc ps r = ''('' @ concat (map type_desc ps) @ '')'' @ type_desc r"

text \<open>How the virtual machine reads a descriptor: one type, and the parameters up to the bracket.\<close>

fun parse_type :: "string \<Rightarrow> (jtype \<times> string) option" where
  "parse_type [] = None"
| "parse_type (c # cs) =
     (if c = CHR ''V'' then Some (JVoid, cs)
      else if c = CHR ''Z'' then Some (JBoolean, cs)
      else if c = CHR ''B'' then Some (JByte, cs)
      else if c = CHR ''S'' then Some (JShort, cs)
      else if c = CHR ''I'' then Some (JInt, cs)
      else if c = CHR ''J'' then Some (JLong, cs)
      else if c = CHR ''['' then map_option (\<lambda>(t, r). (JArray t, r)) (parse_type cs)
      else if c = CHR ''L''
        then (case dropWhile (\<lambda>x. x \<noteq> CHR '';'') cs of
                [] \<Rightarrow> None
              | _ # r \<Rightarrow> Some (JClass (takeWhile (\<lambda>x. x \<noteq> CHR '';'') cs), r))
      else None)"

lemma parse_type_shorter: "parse_type s = Some (t, r) \<Longrightarrow> length r < length s"
proof (induction s arbitrary: t r)
  case (Cons c cs)
  then show ?case
    using length_dropWhile_le [of "\<lambda>x. x \<noteq> CHR '';''" cs]
    by (auto split: if_splits list.splits intro: less_SucI)
qed simp

function parse_params :: "string \<Rightarrow> (jtype list \<times> string) option" where
  "parse_params s =
     (case s of
        [] \<Rightarrow> None
      | c # cs \<Rightarrow>
          if c = CHR '')'' then Some ([], cs)
          else (case parse_type s of
                  None \<Rightarrow> None
                | Some (t, r) \<Rightarrow> map_option (\<lambda>(ts, r'). (t # ts, r')) (parse_params r)))"
  by pat_completeness auto
termination by (relation "measure length") (auto simp del: parse_type.simps dest!: parse_type_shorter)

declare parse_params.simps [simp del]

definition parse_method :: "string \<Rightarrow> (jtype list \<times> jtype) option" where
  "parse_method s =
     (case s of
        [] \<Rightarrow> None
      | c # cs \<Rightarrow> if c \<noteq> CHR ''('' then None
          else (case parse_params cs of
                  None \<Rightarrow> None
                | Some (ps, r) \<Rightarrow> (case parse_type r of
                      Some (t, []) \<Rightarrow> Some (ps, t)
                    | _ \<Rightarrow> None)))"

fun class_names_ok :: "jtype \<Rightarrow> bool" where
  "class_names_ok (JClass c) = (CHR '';'' \<notin> set c)"
| "class_names_ok (JArray t) = class_names_ok t"
| "class_names_ok _ = True"

lemma takeWhile_not: "x \<notin> set xs \<Longrightarrow> takeWhile (\<lambda>c. c \<noteq> x) (xs @ x # ys) = xs"
  by (induction xs) auto

lemma dropWhile_not: "x \<notin> set xs \<Longrightarrow> dropWhile (\<lambda>c. c \<noteq> x) (xs @ x # ys) = x # ys"
  by (induction xs) auto

lemma parse_type_desc: "class_names_ok t \<Longrightarrow> parse_type (type_desc t @ r) = Some (t, r)"
  by (induction t arbitrary: r) (simp_all add: takeWhile_not dropWhile_not)

lemma parse_params_desc:
  "\<forall>t \<in> set ps. class_names_ok t \<Longrightarrow>
    parse_params (concat (map type_desc ps) @ CHR '')'' # r) = Some (ps, r)"
proof (induction ps)
  case Nil
  then show ?case by (subst parse_params.simps) simp
next
  case (Cons t ps)
  obtain c cs where c: "type_desc t = c # cs" "c \<noteq> CHR '')''" by (cases t) auto
  have "parse_type (type_desc t @ concat (map type_desc ps) @ CHR '')'' # r)
      = Some (t, concat (map type_desc ps) @ CHR '')'' # r)"
    using Cons.prems by (intro parse_type_desc) simp
  then show ?case
    using Cons c by (subst parse_params.simps) simp
qed

lemma parse_method_desc:
  assumes "\<forall>t \<in> set (r # ps). class_names_ok t"
  shows "parse_method (method_desc ps r) = Some (ps, r)"
  using assms parse_params_desc [of ps "type_desc r"] parse_type_desc [of r "[]"]
  by (simp add: parse_method_def method_desc_def)

section \<open>Native methods and their prototypes\<close>

text \<open>A prototype of a generated header with the descriptor its comment gives.\<close>

datatype jni_ctype =
    C_void | C_jint | C_jboolean | C_jlong | C_jshort | C_jbyte | C_jstring | C_jobject | C_jclass
  | C_jobjectArray | C_jbyteArray | C_JNIEnv

record proto =
  pr_signature :: string
  pr_ret :: jni_ctype
  pr_symbol :: string
  pr_args :: "jni_ctype list"

abbreviation proto_of :: "string \<Rightarrow> jni_ctype \<Rightarrow> string \<Rightarrow> jni_ctype list \<Rightarrow> proto" where
  "proto_of sg r s args \<equiv> \<lparr>pr_signature = sg, pr_ret = r, pr_symbol = s, pr_args = args\<rparr>"

text \<open>The names and types the Java Native Interface prescribes for a native method.\<close>

fun jni_ctype_of :: "jtype \<Rightarrow> jni_ctype" where
  "jni_ctype_of JVoid = C_void"
| "jni_ctype_of JBoolean = C_jboolean"
| "jni_ctype_of JByte = C_jbyte"
| "jni_ctype_of JShort = C_jshort"
| "jni_ctype_of JInt = C_jint"
| "jni_ctype_of JLong = C_jlong"
| "jni_ctype_of (JClass c) = (if c = ''java/lang/String'' then C_jstring else C_jobject)"
| "jni_ctype_of (JArray t) = (if t = JByte then C_jbyteArray else C_jobjectArray)"

definition mangle :: "string \<Rightarrow> string" where
  "mangle s = concat (map (\<lambda>c. if c = CHR ''/'' then ''_'' else if c = CHR ''_'' then ''_1''
     else if c = CHR '';'' then ''_2'' else if c = CHR ''['' then ''_3'' else [c]) s)"

definition jni_proto :: "string \<Rightarrow> jmethod \<Rightarrow> proto" where
  "jni_proto cls m = proto_of (method_desc (jm_params m) (jm_ret m)) (jni_ctype_of (jm_ret m))
     (''Java_'' @ mangle cls @ ''_'' @ mangle (jm_name m))
     (C_JNIEnv # (if jm_static m then C_jclass else C_jobject) # map jni_ctype_of (jm_params m))"

definition JpcapCaptor_natives :: "jmethod list" where
  "JpcapCaptor_natives =
    [meth ''nativeOpenLive'' [jString, JInt, JInt, JInt] jString,
     meth ''nativeOpenOffline'' [jString] jString,
     meth ''nativeClose'' [] JVoid,
     (meth ''getDeviceList'' [] (JArray (JClass ''jpcap/NetworkInterface'')))\<lparr>jm_static := True\<rparr>,
     meth ''getPacket'' [] (JClass ''jpcap/packet/Packet''),
     meth ''processPacket'' [JInt, JClass ''jpcap/PacketReceiver''] JInt,
     meth ''loopPacket'' [JInt, JClass ''jpcap/PacketReceiver''] JInt,
     meth ''setNonBlockingMode'' [JBoolean] JVoid,
     meth ''isNonBlockinMode'' [] JBoolean,
     meth ''breakLoop'' [] JVoid,
     meth ''setPacketReadTimeout'' [JInt] JBoolean,
     meth ''getPacketReadTimeout'' [] JInt,
     meth ''setFilter'' [jString, JBoolean] JVoid,
     meth ''updateStat'' [] JVoid,
     meth ''getErrorMessage'' [] jString]"

definition JpcapSender_natives :: "jmethod list" where
  "JpcapSender_natives =
    [meth ''nativeOpenDevice'' [jString] jString,
     meth ''nativeSendPacket'' [JClass ''jpcap/packet/Packet''] JVoid,
     meth ''nativeCloseDevice'' [] JVoid,
     meth ''nativeOpenRawSocket'' [] JVoid,
     meth ''nativeSendPacketViaRawSocket'' [JClass ''jpcap/packet/Packet''] JVoid,
     meth ''nativeCloseRawSocket'' [] JVoid]"

definition JpcapWriter_natives :: "jmethod list" where
  "JpcapWriter_natives =
    [meth ''nativeOpenDumpFile'' [jString, JInt] jString,
     meth ''close'' [] JVoid,
     meth ''writePacket'' [JClass ''jpcap/packet/Packet''] JVoid]"

definition JpcapCaptor_h :: "proto list" where
  "JpcapCaptor_h =
    [proto_of ''(Ljava/lang/String;III)Ljava/lang/String;'' C_jstring
       ''Java_jpcap_JpcapCaptor_nativeOpenLive'' [C_JNIEnv, C_jobject, C_jstring, C_jint, C_jint, C_jint],
     proto_of ''(Ljava/lang/String;)Ljava/lang/String;'' C_jstring
       ''Java_jpcap_JpcapCaptor_nativeOpenOffline'' [C_JNIEnv, C_jobject, C_jstring],
     proto_of ''()V'' C_void ''Java_jpcap_JpcapCaptor_nativeClose'' [C_JNIEnv, C_jobject],
     proto_of ''()[Ljpcap/NetworkInterface;'' C_jobjectArray
       ''Java_jpcap_JpcapCaptor_getDeviceList'' [C_JNIEnv, C_jclass],
     proto_of ''()Ljpcap/packet/Packet;'' C_jobject
       ''Java_jpcap_JpcapCaptor_getPacket'' [C_JNIEnv, C_jobject],
     proto_of ''(ILjpcap/PacketReceiver;)I'' C_jint
       ''Java_jpcap_JpcapCaptor_processPacket'' [C_JNIEnv, C_jobject, C_jint, C_jobject],
     proto_of ''(ILjpcap/PacketReceiver;)I'' C_jint
       ''Java_jpcap_JpcapCaptor_loopPacket'' [C_JNIEnv, C_jobject, C_jint, C_jobject],
     proto_of ''(Z)V'' C_void
       ''Java_jpcap_JpcapCaptor_setNonBlockingMode'' [C_JNIEnv, C_jobject, C_jboolean],
     proto_of ''()Z'' C_jboolean ''Java_jpcap_JpcapCaptor_isNonBlockinMode'' [C_JNIEnv, C_jobject],
     proto_of ''()V'' C_void ''Java_jpcap_JpcapCaptor_breakLoop'' [C_JNIEnv, C_jobject],
     proto_of ''(I)Z'' C_jboolean
       ''Java_jpcap_JpcapCaptor_setPacketReadTimeout'' [C_JNIEnv, C_jobject, C_jint],
     proto_of ''()I'' C_jint ''Java_jpcap_JpcapCaptor_getPacketReadTimeout'' [C_JNIEnv, C_jobject],
     proto_of ''(Ljava/lang/String;Z)V'' C_void
       ''Java_jpcap_JpcapCaptor_setFilter'' [C_JNIEnv, C_jobject, C_jstring, C_jboolean],
     proto_of ''()V'' C_void ''Java_jpcap_JpcapCaptor_updateStat'' [C_JNIEnv, C_jobject],
     proto_of ''()Ljava/lang/String;'' C_jstring
       ''Java_jpcap_JpcapCaptor_getErrorMessage'' [C_JNIEnv, C_jobject]]"

definition JpcapSender_h :: "proto list" where
  "JpcapSender_h =
    [proto_of ''(Ljava/lang/String;)Ljava/lang/String;'' C_jstring
       ''Java_jpcap_JpcapSender_nativeOpenDevice'' [C_JNIEnv, C_jobject, C_jstring],
     proto_of ''(Ljpcap/packet/Packet;)V'' C_void
       ''Java_jpcap_JpcapSender_nativeSendPacket'' [C_JNIEnv, C_jobject, C_jobject],
     proto_of ''()V'' C_void ''Java_jpcap_JpcapSender_nativeCloseDevice'' [C_JNIEnv, C_jobject],
     proto_of ''()V'' C_void ''Java_jpcap_JpcapSender_nativeOpenRawSocket'' [C_JNIEnv, C_jobject],
     proto_of ''(Ljpcap/packet/Packet;)V'' C_void
       ''Java_jpcap_JpcapSender_nativeSendPacketViaRawSocket'' [C_JNIEnv, C_jobject, C_jobject],
     proto_of ''()V'' C_void ''Java_jpcap_JpcapSender_nativeCloseRawSocket'' [C_JNIEnv, C_jobject]]"

definition JpcapWriter_h :: "proto list" where
  "JpcapWriter_h =
    [proto_of ''(Ljava/lang/String;I)Ljava/lang/String;'' C_jstring
       ''Java_jpcap_JpcapWriter_nativeOpenDumpFile'' [C_JNIEnv, C_jobject, C_jstring, C_jint],
     proto_of ''()V'' C_void ''Java_jpcap_JpcapWriter_close'' [C_JNIEnv, C_jobject],
     proto_of ''(Ljpcap/packet/Packet;)V'' C_void
       ''Java_jpcap_JpcapWriter_writePacket'' [C_JNIEnv, C_jobject, C_jobject]]"

text \<open>The constants the headers repeat from the Java classes.\<close>

definition JpcapCaptor_MAX_NUMBER_OF_INSTANCE :: int where "JpcapCaptor_MAX_NUMBER_OF_INSTANCE = 255"
definition JpcapSender_MAX_NUMBER_OF_INSTANCE :: int where "JpcapSender_MAX_NUMBER_OF_INSTANCE = 255"
definition JpcapSender_RAW_SOCKET_ID :: int where "JpcapSender_RAW_SOCKET_ID = 99999"

text \<open>
  C36: the prototypes of the three headers are, one by one and in order, what the interface prescribes
  for the native methods the Java classes declare: symbol, result, argument types, and the descriptor
  in the comment, which reads back as exactly the declared parameters and result.
\<close>

theorem headers_match_natives:
  "JpcapCaptor_h = map (jni_proto ''jpcap/JpcapCaptor'') JpcapCaptor_natives
   \<and> JpcapSender_h = map (jni_proto ''jpcap/JpcapSender'') JpcapSender_natives
   \<and> JpcapWriter_h = map (jni_proto ''jpcap/JpcapWriter'') JpcapWriter_natives
   \<and> map (parse_method \<circ> pr_signature) (JpcapCaptor_h @ JpcapSender_h @ JpcapWriter_h)
      = map (\<lambda>m. Some (jm_params m, jm_ret m)) (JpcapCaptor_natives @ JpcapSender_natives @ JpcapWriter_natives)"
proof -
  have h: "JpcapCaptor_h = map (jni_proto ''jpcap/JpcapCaptor'') JpcapCaptor_natives"
    "JpcapSender_h = map (jni_proto ''jpcap/JpcapSender'') JpcapSender_natives"
    "JpcapWriter_h = map (jni_proto ''jpcap/JpcapWriter'') JpcapWriter_natives"
    by (simp_all add: JpcapCaptor_h_def JpcapSender_h_def JpcapWriter_h_def JpcapCaptor_natives_def
        JpcapSender_natives_def JpcapWriter_natives_def jni_proto_def method_desc_def mangle_def)
  have "\<forall>m \<in> set (JpcapCaptor_natives @ JpcapSender_natives @ JpcapWriter_natives).
      \<forall>t \<in> set (jm_ret m # jm_params m). class_names_ok t"
    by (simp add: JpcapCaptor_natives_def JpcapSender_natives_def JpcapWriter_natives_def)
  then have "\<forall>m \<in> set (JpcapCaptor_natives @ JpcapSender_natives @ JpcapWriter_natives).
      parse_method (method_desc (jm_params m) (jm_ret m)) = Some (jm_params m, jm_ret m)"
    using parse_method_desc by blast
  then show ?thesis using h by (simp add: h jni_proto_def)
qed

section \<open>The Java methods the library calls\<close>

record jclass_decl =
  jc_name :: string
  jc_super :: "string option"
  jc_methods :: "jmethod list"

abbreviation jcls :: "string \<Rightarrow> string option \<Rightarrow> jmethod list \<Rightarrow> jclass_decl" where
  "jcls n s ms \<equiv> \<lparr>jc_name = n, jc_super = s, jc_methods = ms\<rparr>"

definition PacketReceiver_class :: jclass_decl where
  "PacketReceiver_class = jcls ''jpcap/PacketReceiver'' None
    [meth ''receivePacket'' [JClass ''jpcap/packet/Packet''] JVoid]"

definition Packet_class :: jclass_decl where
  "Packet_class = jcls ''jpcap/packet/Packet'' None
    [meth ''setPacketValue'' [JLong, JLong, JInt, JInt] JVoid,
     meth ''setDatalinkPacket'' [JClass ''jpcap/packet/DatalinkPacket''] JVoid,
     meth ''setPacketData'' [jbytes] JVoid,
     meth ''setPacketHeader'' [jbytes] JVoid]"

definition DatalinkPacket_class :: jclass_decl where
  "DatalinkPacket_class = jcls ''jpcap/packet/DatalinkPacket'' None []"

definition EthernetPacket_class :: jclass_decl where
  "EthernetPacket_class = jcls ''jpcap/packet/EthernetPacket'' (Some ''jpcap/packet/DatalinkPacket'')
    [meth ''setValue'' [jbytes, jbytes, JShort] JVoid]"

definition IPPacket_class :: jclass_decl where
  "IPPacket_class = jcls ''jpcap/packet/IPPacket'' (Some ''jpcap/packet/Packet'')
    [meth ''setIPv4Value'' [JByte, JByte, JBoolean, JBoolean, JBoolean, JByte, JBoolean, JBoolean, JBoolean,
       JShort, JShort, JShort, JShort, JShort, jbytes, jbytes] JVoid,
     meth ''setOption'' [jbytes] JVoid,
     meth ''setIPv6Value'' [JByte, JByte, JInt, JShort, JByte, JShort, jbytes, jbytes] JVoid,
     meth ''addOptionHeader'' [JClass ''jpcap/packet/IPv6Option''] JVoid,
     meth ''getSourceAddress'' [] jbytes,
     meth ''getDestinationAddress'' [] jbytes]"

definition TCPPacket_class :: jclass_decl where
  "TCPPacket_class = jcls ''jpcap/packet/TCPPacket'' (Some ''jpcap/packet/IPPacket'')
    [meth ''setValue'' [JInt, JInt, JLong, JLong, JBoolean, JBoolean, JBoolean, JBoolean, JBoolean, JBoolean,
       JBoolean, JBoolean, JInt, JShort] JVoid,
     meth ''setOption'' [jbytes] JVoid]"

definition UDPPacket_class :: jclass_decl where
  "UDPPacket_class = jcls ''jpcap/packet/UDPPacket'' (Some ''jpcap/packet/IPPacket'')
    [meth ''setValue'' [JInt, JInt, JInt] JVoid]"

definition ICMPPacket_class :: jclass_decl where
  "ICMPPacket_class = jcls ''jpcap/packet/ICMPPacket'' (Some ''jpcap/packet/IPPacket'')
    [meth ''setValue'' [JByte, JByte, JShort, JShort, JShort] JVoid,
     meth ''setID'' [JShort, JShort] JVoid,
     meth ''setTimestampValue'' [JInt, JInt, JInt] JVoid,
     meth ''setRedirectIP'' [jbytes] JVoid,
     meth ''getRedirectIP'' [] jbytes,
     meth ''setRouterAdValue'' [JByte, JByte, JShort, JArray jString, JArray JInt] JVoid]"

definition IPv6Option_class :: jclass_decl where
  "IPv6Option_class = jcls ''jpcap/packet/IPv6Option'' None
    [meth ''setValue'' [JByte, JByte, JByte] JVoid,
     meth ''setOptionData'' [jbytes] JVoid,
     meth ''setRoutingOption'' [JByte, JByte, JArray jbytes] JVoid,
     meth ''setFragmentOption'' [JShort, JBoolean, JInt] JVoid,
     meth ''setAHOption'' [JInt, JInt] JVoid]"

definition ARPPacket_class :: jclass_decl where
  "ARPPacket_class = jcls ''jpcap/packet/ARPPacket'' (Some ''jpcap/packet/Packet'')
    [meth ''setValue'' [JShort, JShort, JShort, JShort, JShort, jbytes, jbytes, jbytes, jbytes] JVoid]"

definition NetworkInterface_class :: jclass_decl where
  "NetworkInterface_class = jcls ''jpcap/NetworkInterface'' None
    [meth ''<init>'' [jString, jString, JBoolean, jString, jString, jbytes,
       JArray (JClass ''jpcap/NetworkInterfaceAddress'')] JVoid]"

definition NetworkInterfaceAddress_class :: jclass_decl where
  "NetworkInterfaceAddress_class = jcls ''jpcap/NetworkInterfaceAddress'' None
    [meth ''<init>'' [jbytes, jbytes, jbytes, jbytes] JVoid]"

definition declared :: "jclass_decl list" where
  "declared = [PacketReceiver_class, Packet_class, DatalinkPacket_class, EthernetPacket_class, IPPacket_class,
     TCPPacket_class, UDPPacket_class, ICMPPacket_class, IPv6Option_class, ARPPacket_class,
     NetworkInterface_class, NetworkInterfaceAddress_class, jcls ''jpcap/JpcapCaptor'' None JpcapCaptor_natives]"

definition declares :: "string \<Rightarrow> string \<Rightarrow> jtype list \<times> jtype \<Rightarrow> bool" where
  "declares cls n t = (\<exists>c \<in> set declared. jc_name c = cls
     \<and> (\<exists>m \<in> set (jc_methods c). jm_name m = n \<and> (jm_params m, jm_ret m) = t))"

section \<open>\<^verbatim>\<open>set_Java_env\<close>\<close>

text \<open>The global variables it fills, by the name of the variable.\<close>

definition class_table :: "(string \<times> string) list" where
  "class_table =
    [(''Jpcap'', ''jpcap/JpcapCaptor''), (''JpcapHandler'', ''jpcap/PacketReceiver''),
     (''Packet'', ''jpcap/packet/Packet''), (''DatalinkPacket'', ''jpcap/packet/DatalinkPacket''),
     (''EthernetPacket'', ''jpcap/packet/EthernetPacket''), (''IPPacket'', ''jpcap/packet/IPPacket''),
     (''TCPPacket'', ''jpcap/packet/TCPPacket''), (''UDPPacket'', ''jpcap/packet/UDPPacket''),
     (''ICMPPacket'', ''jpcap/packet/ICMPPacket''), (''IPv6Option'', ''jpcap/packet/IPv6Option''),
     (''ARPPacket'', ''jpcap/packet/ARPPacket''), (''String'', ''java/lang/String''),
     (''Thread'', ''java/lang/Thread''), (''UnknownHostException'', ''java/net/UnknownHostException''),
     (''IOException'', ''java/io/IOException'')]"

text \<open>Variable, class variable, method name and descriptor of each \<^verbatim>\<open>GetMethodID\<close> call.\<close>

definition method_table :: "(string \<times> string \<times> string \<times> string) list" where
  "method_table =
    [(''handleMID'', ''JpcapHandler'', ''receivePacket'', ''(Ljpcap/packet/Packet;)V''),
     (''setPacketValueMID'', ''Packet'', ''setPacketValue'', ''(JJII)V''),
     (''setDatalinkPacketMID'', ''Packet'', ''setDatalinkPacket'', ''(Ljpcap/packet/DatalinkPacket;)V''),
     (''setPacketHeaderMID'', ''Packet'', ''setPacketHeader'', ''([B)V''),
     (''setPacketDataMID'', ''Packet'', ''setPacketData'', ''([B)V''),
     (''setEthernetValueMID'', ''EthernetPacket'', ''setValue'', ''([B[BS)V''),
     (''setIPValueMID'', ''IPPacket'', ''setIPv4Value'', ''(BBZZZBZZZSSSSS[B[B)V''),
     (''setIPv4OptionMID'', ''IPPacket'', ''setOption'', ''([B)V''),
     (''setIPv6ValueMID'', ''IPPacket'', ''setIPv6Value'', ''(BBISBS[B[B)V''),
     (''addIPv6OptHdrMID'', ''IPPacket'', ''addOptionHeader'', ''(Ljpcap/packet/IPv6Option;)V''),
     (''setTCPValueMID'', ''TCPPacket'', ''setValue'', ''(IIJJZZZZZZZZIS)V''),
     (''setTCPOptionMID'', ''TCPPacket'', ''setOption'', ''([B)V''),
     (''setUDPValueMID'', ''UDPPacket'', ''setValue'', ''(III)V''),
     (''setICMPValueMID'', ''ICMPPacket'', ''setValue'', ''(BBSSS)V''),
     (''setICMPIDMID'', ''ICMPPacket'', ''setID'', ''(SS)V''),
     (''setICMPTimestampMID'', ''ICMPPacket'', ''setTimestampValue'', ''(III)V''),
     (''setICMPRedirectIPMID'', ''ICMPPacket'', ''setRedirectIP'', ''([B)V''),
     (''getICMPRedirectIPMID'', ''ICMPPacket'', ''getRedirectIP'', ''()[B''),
     (''setICMPRouterAdMID'', ''ICMPPacket'', ''setRouterAdValue'', ''(BBS[Ljava/lang/String;[I)V''),
     (''setV6OptValueMID'', ''IPv6Option'', ''setValue'', ''(BBB)V''),
     (''setV6OptOptionMID'', ''IPv6Option'', ''setOptionData'', ''([B)V''),
     (''setV6OptRoutingMID'', ''IPv6Option'', ''setRoutingOption'', ''(BB[[B)V''),
     (''setV6OptFragmentMID'', ''IPv6Option'', ''setFragmentOption'', ''(SZI)V''),
     (''setV6OptAHMID'', ''IPv6Option'', ''setAHOption'', ''(II)V''),
     (''getSourceAddressMID'', ''IPPacket'', ''getSourceAddress'', ''()[B''),
     (''getDestinationAddressMID'', ''IPPacket'', ''getDestinationAddress'', ''()[B''),
     (''setARPValueMID'', ''ARPPacket'', ''setValue'', ''(SSSSS[B[B[B[B)V'')]"

record jni_globals =
  class_refs :: "(string \<times> string option) list"
  method_ids :: "(string \<times> (string \<times> string \<times> string) option) list"
  jpcapID :: "(string \<times> string) option"

definition jni_init :: jni_globals where
  "jni_init = \<lparr>class_refs = [], method_ids = [], jpcapID = None\<rparr>"

text \<open>An entry of a null pointer is one that was never stored or stored as null.\<close>

definition global_ref :: "string \<Rightarrow> (string \<times> 'a option) list \<Rightarrow> 'a option" where
  "global_ref v gs = (case map_of gs v of None \<Rightarrow> None | Some r \<Rightarrow> r)"

text \<open>The virtual machine: which classes can be found, and which methods and fields a class has.\<close>

record jvm =
  find_class :: "string \<Rightarrow> bool"
  has_method :: "string \<Rightarrow> string \<Rightarrow> string \<Rightarrow> bool"
  has_field :: "string \<Rightarrow> string \<Rightarrow> string \<Rightarrow> bool"

definition set_class_refs :: "jvm \<Rightarrow> jni_globals \<Rightarrow> jni_globals" where
  "set_class_refs vm g = g\<lparr>class_refs :=
     map (\<lambda>(v, c). (v, if find_class vm c then Some c else None)) class_table @ class_refs g\<rparr>"

definition get_method_id :: "jvm \<Rightarrow> jni_globals \<Rightarrow> string \<times> string \<times> string \<Rightarrow> (string \<times> string \<times> string) option" where
  "get_method_id vm g q = (case q of (cv, n, d) \<Rightarrow>
     (case global_ref cv (class_refs g) of
        None \<Rightarrow> None
      | Some c \<Rightarrow> if has_method vm c n d then Some (c, n, d) else None))"

definition set_method_ids :: "jvm \<Rightarrow> jni_globals \<Rightarrow> jni_globals" where
  "set_method_ids vm g = g\<lparr>
     method_ids := map (\<lambda>(v, q). (v, get_method_id vm g q)) method_table @ method_ids g,
     jpcapID := (if has_field vm ''jpcap/JpcapCaptor'' ''ID'' ''I'' then Some (''ID'', ''I'') else None)\<rparr>"

definition set_Java_env :: "jvm \<Rightarrow> jni_globals \<Rightarrow> jni_globals" where
  "set_Java_env vm g =
     (if global_ref ''Jpcap'' (class_refs g) \<noteq> None then g
      else let g = set_class_refs vm g
           in if \<exists>(v, c) \<in> set class_table. \<not> find_class vm c then g
              else set_method_ids vm g)"

text \<open>The virtual machine that has loaded the repository's classes and the ones of the Java library.\<close>

definition repo_vm :: jvm where
  "repo_vm = \<lparr>find_class = (\<lambda>c. c \<in> set (map jc_name declared) \<or> c \<in> {''java/lang/String'', ''java/lang/Thread'',
       ''java/net/UnknownHostException'', ''java/io/IOException''}),
     has_method = (\<lambda>c n d. case parse_method d of None \<Rightarrow> False | Some t \<Rightarrow> declares c n t),
     has_field = (\<lambda>c n d. c = ''jpcap/JpcapCaptor'' \<and> n = ''ID'' \<and> d = ''I'')\<rparr>"

section \<open>Call sites\<close>

text \<open>
  How an argument travels through the variable argument list of \<^verbatim>\<open>CallVoidMethod\<close>: promoted
  to \<^verbatim>\<open>int\<close>, as a 64-bit integer, or as a reference.
\<close>

datatype vararg = VInt | VLong | VRef

fun vararg_of :: "jtype \<Rightarrow> vararg" where
  "vararg_of JLong = VLong"
| "vararg_of (JClass c) = VRef"
| "vararg_of (JArray t) = VRef"
| "vararg_of _ = VInt"

type_synonym call_site = "string \<times> vararg list"

definition captor_calls :: "call_site list" where
  "captor_calls = [(''handleMID'', [VRef]), (''setPacketValueMID'', [VLong, VLong, VInt, VInt]),
     (''setDatalinkPacketMID'', [VRef]), (''setPacketHeaderMID'', [VRef]), (''setPacketDataMID'', [VRef])]"

definition datalink_calls :: "call_site list" where
  "datalink_calls = [(''setEthernetValueMID'', [VRef, VRef, VInt])]"

definition ip_calls :: "call_site list" where
  "ip_calls = [(''setIPValueMID'', replicate 14 VInt @ [VRef, VRef]), (''setIPv4OptionMID'', [VRef]),
     (''getSourceAddressMID'', []), (''getDestinationAddressMID'', [])]"

definition ipv6_calls :: "call_site list" where
  "ipv6_calls = [(''setIPv6ValueMID'', replicate 6 VInt @ [VRef, VRef]), (''setV6OptValueMID'', [VInt, VInt, VInt]),
     (''setV6OptOptionMID'', [VRef]), (''setV6OptRoutingMID'', [VInt, VInt, VRef]),
     (''setV6OptFragmentMID'', [VInt, VInt, VInt]), (''setV6OptAHMID'', [VInt, VInt]),
     (''setV6OptOptionMID'', [VRef]), (''addIPv6OptHdrMID'', [VRef]),
     (''getSourceAddressMID'', []), (''getDestinationAddressMID'', [])]"

definition tcp_calls :: "call_site list" where
  "tcp_calls = [(''setTCPValueMID'', [VInt, VInt, VLong, VLong] @ replicate 10 VInt), (''setTCPOptionMID'', [VRef])]"

definition udp_calls :: "call_site list" where
  "udp_calls = [(''setUDPValueMID'', [VInt, VInt, VInt])]"

definition icmp_calls :: "call_site list" where
  "icmp_calls = [(''setICMPValueMID'', [VInt, VInt, VInt]), (''setICMPIDMID'', [VInt, VInt]),
     (''setICMPRedirectIPMID'', [VRef]), (''setICMPRouterAdMID'', [VInt, VInt, VInt, VRef, VRef]),
     (''setICMPTimestampMID'', [VInt, VInt, VInt]), (''getICMPRedirectIPMID'', [])]"

definition arp_calls :: "call_site list" where
  "arp_calls = [(''setARPValueMID'', replicate 5 VInt @ replicate 4 VRef)]"

text \<open>
  Methods whose IDs are not kept in a global variable: the two constructors \<^verbatim>\<open>getDeviceList\<close>
  looks up, and the static method of the macro \<^verbatim>\<open>YIELD\<close>.
\<close>

definition device_constructors :: "(string \<times> string \<times> string \<times> string) list" where
  "device_constructors =
    [(''deviceConstMID'', ''jpcap/NetworkInterface'', ''<init>'',
      ''(Ljava/lang/String;Ljava/lang/String;ZLjava/lang/String;Ljava/lang/String;[B[Ljpcap/NetworkInterfaceAddress;)V''),
     (''addressConstMID'', ''jpcap/NetworkInterfaceAddress'', ''<init>'', ''([B[B[B[B)V'')]"

definition YIELD_method :: "string \<times> string \<times> string \<times> string" where
  "YIELD_method = (''YIELD'', ''java/lang/Thread'', ''yield'', ''()V'')"

definition address_calls :: "call_site list" where
  "address_calls = [(''addressConstMID'', [VRef, VRef, VRef, VRef])]"

definition device_calls :: "call_site list" where
  "device_calls = [(''deviceConstMID'', [VRef, VRef, VInt, VRef, VRef, VRef, VRef])]"

definition YIELD_calls :: "call_site list" where "YIELD_calls = [(''YIELD'', [])]"

definition call_sites :: "call_site list" where
  "call_sites = captor_calls @ YIELD_calls @ address_calls @ device_calls @ datalink_calls @ ip_calls @ ipv6_calls @ tcp_calls
     @ udp_calls @ icmp_calls @ arp_calls"

text \<open>What the descriptor of the method ID makes the callee read from the argument list.\<close>

definition reads_args :: "string \<Rightarrow> vararg list option" where
  "reads_args v = (case map_of (method_table @ device_constructors @ [YIELD_method]) v of
     None \<Rightarrow> None
   | Some (cv, n, d) \<Rightarrow> map_option (map vararg_of \<circ> fst) (parse_method d))"

text \<open>
  Of the calls of Java methods and constructors in the C code one passes arguments that differ in number
  or kind from what the descriptor makes the callee read: \<^verbatim>\<open>setICMPValueMID\<close> is declared with
  five parameters and called with three.
\<close>

lemma one_call_mismatch:
  "filter (\<lambda>(v, args). reads_args v \<noteq> Some args) call_sites = [(''setICMPValueMID'', [VInt, VInt, VInt])]
   \<and> reads_args ''setICMPValueMID'' = Some [VInt, VInt, VInt, VInt, VInt]"
  by code_simp

section \<open>Properties\<close>

text \<open>
  C37: with the classes of the repository, \<^verbatim>\<open>set_Java_env\<close> binds every method ID to a method
  that the named class itself declares with exactly the parameters and result of the descriptor, and
  the field ID of the instance number; calling it again, on any virtual machine, changes nothing.
\<close>

theorem method_ids_resolve:
  "list_all (\<lambda>(v, cv, n, d). case (global_ref v (method_ids (set_Java_env repo_vm jni_init)), parse_method d) of
       (Some (c, n', d'), Some t) \<Rightarrow> n' = n \<and> d' = d \<and> map_of class_table cv = Some c \<and> declares c n t
     | _ \<Rightarrow> False) method_table
   \<and> jpcapID (set_Java_env repo_vm jni_init) = Some (''ID'', ''I'')
   \<and> set_Java_env vm (set_Java_env repo_vm jni_init) = set_Java_env repo_vm jni_init"
proof -
  have "list_all (\<lambda>(v, cv, n, d). case (global_ref v (method_ids (set_Java_env repo_vm jni_init)), parse_method d) of
       (Some (c, n', d'), Some t) \<Rightarrow> n' = n \<and> d' = d \<and> map_of class_table cv = Some c \<and> declares c n t
     | _ \<Rightarrow> False) method_table"
    by code_simp
  moreover have "jpcapID (set_Java_env repo_vm jni_init) = Some (''ID'', ''I'')
      \<and> global_ref ''Jpcap'' (class_refs (set_Java_env repo_vm jni_init)) \<noteq> None"
    by code_simp
  ultimately show ?thesis by (simp add: set_Java_env_def [of vm])
qed

text \<open>
  If one class other than \<^verbatim>\<open>JpcapCaptor\<close> cannot be found the first time, no method ID is
  ever bound: the guard of \<^verbatim>\<open>set_Java_env\<close> looks at the first class only, so every later call,
  also when the class could be found by then, returns at once.
\<close>

theorem partial_init_sticks:
  assumes "find_class vm ''jpcap/JpcapCaptor''" "(v, c) \<in> set class_table" "\<not> find_class vm c"
  shows "global_ref w (method_ids (set_Java_env vm jni_init)) = None
    \<and> set_Java_env vm' (set_Java_env vm jni_init) = set_Java_env vm jni_init"
proof -
  have "set_Java_env vm jni_init = set_class_refs vm jni_init"
    using assms(2,3) by (auto simp: set_Java_env_def jni_init_def global_ref_def Let_def)
  moreover have "global_ref ''Jpcap'' (class_refs (set_class_refs vm jni_init)) \<noteq> None"
    using assms(1) by (simp add: global_ref_def set_class_refs_def class_table_def)
  ultimately show ?thesis
    by (simp add: set_Java_env_def [of vm'] global_ref_def set_class_refs_def jni_init_def)
qed

theorem partial_init_sticks_witness:
  "global_ref ''handleMID'' (method_ids (set_Java_env (repo_vm\<lparr>find_class := (\<lambda>c. c = ''jpcap/JpcapCaptor'')\<rparr>) jni_init)) = None
    \<and> set_Java_env repo_vm (set_Java_env (repo_vm\<lparr>find_class := (\<lambda>c. c = ''jpcap/JpcapCaptor'')\<rparr>) jni_init)
      = set_Java_env (repo_vm\<lparr>find_class := (\<lambda>c. c = ''jpcap/JpcapCaptor'')\<rparr>) jni_init"
  by (rule partial_init_sticks [of _ "''Thread''" "''java/lang/Thread''"]) (simp_all add: class_table_def)

end
