(* ===== verification/Device_List.thy ===== *)
theory Device_List
  imports Jni_Interface Java_Packets
begin

text \<open>
  \<^verbatim>\<open>getAddressByteArray\<close> and \<^verbatim>\<open>getDeviceList\<close> (\<^verbatim>\<open>JpcapCaptor.c\<close>
  lines 140 to 351, the Linux branch): libpcap's list of interfaces becomes an array of
  \<^verbatim>\<open>NetworkInterface\<close> objects. The list libpcap returns is an argument, with the structures
  of \<^verbatim>\<open>pcap.h\<close>; a \<^verbatim>\<open>struct sockaddr\<close> is its bytes.
\<close>

section \<open>Interfaces\<close>

record pcap_addr =
  a_addr :: "bytes option"
  a_netmask :: "bytes option"
  a_broadaddr :: "bytes option"
  a_dstaddr :: "bytes option"

record pcap_if =
  d_name :: string
  d_description :: "string option"
  d_addresses :: "pcap_addr list"
  d_flags :: u32

definition PCAP_IF_LOOPBACK :: u32 where "PCAP_IF_LOOPBACK = 0x00000001"

text \<open>The address families of the Linux socket library.\<close>

definition AF_INET :: u16 where "AF_INET = 2"
definition AF_INET6 :: u16 where "AF_INET6 = 10"

text \<open>
  What the system answers for one interface: whether a socket can be opened for it, the hardware
  address the \<^verbatim>\<open>ioctl\<close> fills in (the structure was cleared before, so zeros when it fails), and
  the name and description of the link type, when the interface can be opened.
\<close>

record if_answers =
  ans_socket :: bool
  ans_hwaddr :: "bytes option"
  ans_link :: "(string option \<times> string option) option"

text \<open>The Java objects.\<close>

record net_addr =
  na_address :: "bytes option"
  na_subnet :: "bytes option"
  na_broadcast :: "bytes option"
  na_destination :: "bytes option"

record net_if =
  ni_name :: "string option"
  ni_description :: "string option"
  ni_loopback :: bool
  ni_datalink_name :: "string option"
  ni_datalink_description :: "string option"
  ni_mac :: bytes
  ni_addresses :: "net_addr list"

section \<open>Operations\<close>

text \<open>\<^verbatim>\<open>sin_addr\<close> is at offset 4 of its structure, \<^verbatim>\<open>sin6_addr\<close> at offset 8.\<close>

definition getAddressByteArray :: "bytes option \<Rightarrow> bytes option res" where
  "getAddressByteArray sa =
     (case sa of
        None \<Rightarrow> Inr None
      | Some m \<Rightarrow>
          bindR (ld16 m 0) (\<lambda>sa_family.
          if sa_family = AF_INET then bindR (ld_bytes m 4 4) (\<lambda>b. Inr (Some b))
          else if sa_family = AF_INET6 then bindR (ld_bytes m 8 16) (\<lambda>b. Inr (Some b))
          else Inr None))"

text \<open>
  The constructor of \<^verbatim>\<open>NetworkInterfaceAddress\<close>: \<^verbatim>\<open>getByAddress\<close> throws on any other
  length than 4 and 16, and the fields after the first failure stay null. It turns an IPv4-mapped IPv6
  address into the IPv4 address.
\<close>

definition by_address :: "bytes option \<Rightarrow> bytes option" where
  "by_address b = (case b of None \<Rightarrow> None | Some x \<Rightarrow> getByAddress x)"

definition by_address_ok :: "bytes option \<Rightarrow> bool" where
  "by_address_ok b = (case b of None \<Rightarrow> True | Some x \<Rightarrow> getByAddress x \<noteq> None)"

definition NetworkInterfaceAddress :: "bytes option \<Rightarrow> bytes option \<Rightarrow> bytes option \<Rightarrow> bytes option \<Rightarrow> net_addr" where
  "NetworkInterfaceAddress address subnet broadcast destination =
     (let a = by_address_ok address; s = a \<and> by_address_ok subnet; b = s \<and> by_address_ok broadcast;
          d = b \<and> by_address_ok destination
      in \<lparr>na_address = (if a then by_address address else None), na_subnet = (if s then by_address subnet else None),
          na_broadcast = (if b then by_address broadcast else None),
          na_destination = (if d then by_address destination else None)\<rparr>)"

fun if_addresses :: "pcap_addr list \<Rightarrow> net_addr list res" where
  "if_addresses [] = Inr []"
| "if_addresses (a # as) =
     bindR (getAddressByteArray (a_addr a)) (\<lambda>addr.
     case addr of
       None \<Rightarrow> if_addresses as
     | Some b \<Rightarrow>
         bindR (getAddressByteArray (a_netmask a)) (\<lambda>mask.
         bindR (getAddressByteArray (a_broadaddr a)) (\<lambda>brd.
         bindR (getAddressByteArray (a_dstaddr a)) (\<lambda>dst.
         bindR (if_addresses as) (\<lambda>rest.
         Inr (NetworkInterfaceAddress (Some b) mask brd dst # rest))))))"

text \<open>\<^verbatim>\<open>NewString\<close> of a null pointer is a null reference.\<close>

definition java_interface :: "pcap_if \<Rightarrow> if_answers \<Rightarrow> net_if res" where
  "java_interface d ans =
     (if \<not> ans_socket ans then Inl (Exn (IOException ''cannot open socket.''))
      else let mac = (case ans_hwaddr ans of None \<Rightarrow> replicate 6 0 | Some b \<Rightarrow> take 6 b);
               (lname, ldesc) = (case ans_link ans of
                  None \<Rightarrow> (Some ''Unknown'', Some ''Unknown'') | Some nd \<Rightarrow> nd)
           in bindR (if_addresses (d_addresses d)) (\<lambda>addresses.
              Inr \<lparr>ni_name = Some (d_name d), ni_description = d_description d,
                   ni_loopback = (d_flags d AND PCAP_IF_LOOPBACK \<noteq> 0),
                   ni_datalink_name = lname, ni_datalink_description = ldesc,
                   ni_mac = mac, ni_addresses = addresses\<rparr>))"

fun java_interfaces :: "(pcap_if \<times> if_answers) list \<Rightarrow> net_if list res" where
  "java_interfaces [] = Inr []"
| "java_interfaces ((d, ans) # ds) =
     bindR (java_interface d ans) (\<lambda>x. bindR (java_interfaces ds) (\<lambda>xs. Inr (x # xs)))"

text \<open>\<open>None\<close> is the failure of \<^verbatim>\<open>pcap_findalldevs\<close>, answered with null.\<close>

definition getDeviceList :: "(pcap_if \<times> if_answers) list option \<Rightarrow> net_if list option res" where
  "getDeviceList alldevs =
     (case alldevs of
        None \<Rightarrow> Inr None
      | Some devs \<Rightarrow> bindR (java_interfaces devs) (\<lambda>xs. Inr (Some xs)))"

text \<open>Both constructors it looks up are declared with these descriptors.\<close>

lemma device_constructors_declared:
  "list_all (\<lambda>(v, c, n, d). has_method repo_vm c n d) device_constructors"
  by code_simp

section \<open>Specification\<close>

text \<open>
  Addresses by their meaning, with the bytes the socket library represents them by: an IPv4 address
  (port, address, padding), an IPv6 address (port, flow, address, scope), or one of another family.
\<close>

datatype inet =
    Inet4 bytes bytes bytes
  | Inet6 bytes bytes bytes bytes
  | InetOther u16 bytes

fun wf_inet :: "inet \<Rightarrow> bool" where
  "wf_inet (Inet4 port a pad) = (length port = 2 \<and> length a = 4 \<and> length pad = 8)"
| "wf_inet (Inet6 port flow a scope) = (length port = 2 \<and> length flow = 4 \<and> length a = 16 \<and> length scope = 4)"
| "wf_inet (InetOther f rest) = (f \<noteq> AF_INET \<and> f \<noteq> AF_INET6)"

fun sockaddr_bytes :: "inet \<Rightarrow> bytes" where
  "sockaddr_bytes (Inet4 port a pad) = [lo8 AF_INET, hi8 AF_INET] @ port @ a @ pad"
| "sockaddr_bytes (Inet6 port flow a scope) = [lo8 AF_INET6, hi8 AF_INET6] @ port @ flow @ a @ scope"
| "sockaddr_bytes (InetOther f rest) = [lo8 f, hi8 f] @ rest"

fun ip_of :: "inet option \<Rightarrow> bytes option" where
  "ip_of (Some (Inet4 port a pad)) = Some a"
| "ip_of (Some (Inet6 port flow a scope)) = Some a"
| "ip_of _ = None"

record if_addr =
  ia_addr :: "inet option"
  ia_netmask :: "inet option"
  ia_broadaddr :: "inet option"
  ia_dstaddr :: "inet option"

definition wf_if_addr :: "if_addr \<Rightarrow> bool" where
  "wf_if_addr a \<longleftrightarrow> pred_option wf_inet (ia_addr a) \<and> pred_option wf_inet (ia_netmask a)
     \<and> pred_option wf_inet (ia_broadaddr a) \<and> pred_option wf_inet (ia_dstaddr a)"

definition raw_addr :: "if_addr \<Rightarrow> pcap_addr" where
  "raw_addr a = \<lparr>a_addr = map_option sockaddr_bytes (ia_addr a), a_netmask = map_option sockaddr_bytes (ia_netmask a),
     a_broadaddr = map_option sockaddr_bytes (ia_broadaddr a), a_dstaddr = map_option sockaddr_bytes (ia_dstaddr a)\<rparr>"

text \<open>In Java an IPv4-mapped IPv6 address is the IPv4 address it maps.\<close>

definition java_address :: "inet option \<Rightarrow> bytes option" where
  "java_address x = map_option (\<lambda>a. if v4_mapped a then drop 12 a else a) (ip_of x)"

definition spec_addr :: "if_addr \<Rightarrow> net_addr" where
  "spec_addr a = \<lparr>na_address = java_address (ia_addr a), na_subnet = java_address (ia_netmask a),
     na_broadcast = java_address (ia_broadaddr a), na_destination = java_address (ia_dstaddr a)\<rparr>"

definition spec_interface :: "pcap_if \<Rightarrow> if_answers \<Rightarrow> if_addr list \<Rightarrow> net_if" where
  "spec_interface d ans as = \<lparr>ni_name = Some (d_name d), ni_description = d_description d,
     ni_loopback = bit (d_flags d) 0,
     ni_datalink_name = (case ans_link ans of None \<Rightarrow> Some ''Unknown'' | Some nd \<Rightarrow> fst nd),
     ni_datalink_description = (case ans_link ans of None \<Rightarrow> Some ''Unknown'' | Some nd \<Rightarrow> snd nd),
     ni_mac = (case ans_hwaddr ans of None \<Rightarrow> replicate 6 0 | Some b \<Rightarrow> take 6 b),
     ni_addresses = map spec_addr (filter (\<lambda>a. ip_of (ia_addr a) \<noteq> None) as)\<rparr>"

definition raw_device :: "pcap_if \<times> if_answers \<times> if_addr list \<Rightarrow> pcap_if \<times> if_answers" where
  "raw_device x = (case x of (d, ans, as) \<Rightarrow> (d\<lparr>d_addresses := map raw_addr as\<rparr>, ans))"

lemma ld16_lo_hi: "ld16 (lo8 w # hi8 w # r) 0 = Inr w"
  by (simp add: ld16_def)

lemma getAddressByteArray_inet:
  assumes "pred_option wf_inet x"
  shows "getAddressByteArray (map_option sockaddr_bytes x) = Inr (ip_of x)"
proof (cases x)
  case (Some a)
  then show ?thesis
    using assms
    by (cases a) (auto simp: getAddressByteArray_def ld16_lo_hi ld_bytes_def AF_INET_def AF_INET6_def)
qed (simp add: getAddressByteArray_def)

lemma by_address_inet:
  "pred_option wf_inet x \<Longrightarrow> by_address_ok (ip_of x) \<and> by_address (ip_of x) = java_address x"
  by (cases x rule: ip_of.cases)
     (auto simp: by_address_ok_def by_address_def java_address_def getByAddress_def v4_mapped_def)

lemma if_addresses_spec:
  "list_all wf_if_addr as \<Longrightarrow>
    if_addresses (map raw_addr as) = Inr (map spec_addr (filter (\<lambda>a. ip_of (ia_addr a) \<noteq> None) as))"
proof (induction as)
  case (Cons a as)
  then have wf: "wf_if_addr a" by simp
  note wf' = wf [unfolded wf_if_addr_def]
  show ?case
    using Cons wf' by_address_inet [of "ia_addr a"] by_address_inet [of "ia_netmask a"]
      by_address_inet [of "ia_broadaddr a"] by_address_inet [of "ia_dstaddr a"]
    by (auto simp: raw_addr_def spec_addr_def getAddressByteArray_inet NetworkInterfaceAddress_def)
qed simp

lemma loopback_bit: "w AND PCAP_IF_LOOPBACK \<noteq> 0 \<longleftrightarrow> bit w 0"
  by (simp add: PCAP_IF_LOOPBACK_def and_one_eq odd_iff_mod_2_eq_one [symmetric] bit_0 one_neq_zero)

lemma java_interface_spec:
  assumes "list_all wf_if_addr as"
  shows "java_interface (d\<lparr>d_addresses := map raw_addr as\<rparr>) ans =
    (if ans_socket ans then Inr (spec_interface d ans as) else Inl (Exn (IOException ''cannot open socket.'')))"
  using assms
  by (simp add: java_interface_def spec_interface_def if_addresses_spec loopback_bit Let_def
      split: option.splits prod.splits)

text \<open>
  C35: the array \<^verbatim>\<open>getDeviceList\<close> returns has one object per interface of libpcap, in order,
  with its name, description and loopback flag, its hardware address, and, in order, exactly those of
  its addresses that are IPv4 or IPv6, each with netmask, broadcast and destination address (an
  IPv4-mapped IPv6 address as the IPv4 address, as the class library has it); but if
  for any interface no socket can be opened, the whole call ends in an
  \<^verbatim>\<open>IOException\<close>.
\<close>

theorem getDeviceList_interfaces:
  assumes "list_all (\<lambda>(d, ans, as). list_all wf_if_addr as) devs"
  shows "getDeviceList (Some (map raw_device devs)) =
    (if list_all (\<lambda>(d, ans, as). ans_socket ans) devs
     then Inr (Some (map (\<lambda>(d, ans, as). spec_interface d ans as) devs))
     else Inl (Exn (IOException ''cannot open socket.'')))"
proof -
  have "java_interfaces (map raw_device devs) =
    (if list_all (\<lambda>(d, ans, as). ans_socket ans) devs
     then Inr (map (\<lambda>(d, ans, as). spec_interface d ans as) devs)
     else Inl (Exn (IOException ''cannot open socket.'')))"
    using assms by (induction devs) (auto simp: raw_device_def java_interface_spec)
  then show ?thesis by (simp add: getDeviceList_def)
qed

definition sample_devices :: "(pcap_if \<times> if_answers \<times> if_addr list) list" where
  "sample_devices = [(\<lparr>d_name = ''lo'', d_description = None, d_addresses = [], d_flags = 1\<rparr>,
     \<lparr>ans_socket = True, ans_hwaddr = None, ans_link = Some (Some ''EN10MB'', Some ''Ethernet'')\<rparr>,
     [\<lparr>ia_addr = Some (Inet4 [0, 0] [127, 0, 0, 1] [0, 0, 0, 0, 0, 0, 0, 0]), ia_netmask = None,
        ia_broadaddr = None, ia_dstaddr = None\<rparr>,
      \<lparr>ia_addr = Some (InetOther 17 []), ia_netmask = None, ia_broadaddr = None, ia_dstaddr = None\<rparr>])]"

theorem getDeviceList_interfaces_witness:
  "getDeviceList (Some (map raw_device sample_devices)) =
    (if list_all (\<lambda>(d, ans, as). ans_socket ans) sample_devices
     then Inr (Some (map (\<lambda>(d, ans, as). spec_interface d ans as) sample_devices))
     else Inl (Exn (IOException ''cannot open socket.'')))"
  by (rule getDeviceList_interfaces)
     (simp add: sample_devices_def wf_if_addr_def AF_INET_def AF_INET6_def)

end
