(* ===== verification/Stack_Headers.thy ===== *)
theory Stack_Headers
  imports Net_Headers
begin

text \<open>
  The headers of the BSD network stack that the library's own copy of \<^verbatim>\<open>netinet\<close> carries
  along (\<^verbatim>\<open>IP_VAR.H\<close>, \<^verbatim>\<open>TCPIP.H\<close>, \<^verbatim>\<open>UDP_VAR.H\<close>,
  \<^verbatim>\<open>TCP_VAR.H\<close>): overlays, reassembly queues, the TCP control block, the statistics. The
  structures that hold pointers are functions of the pointer type, \<open>CInt\<close> on a 32-bit and
  \<open>CLong\<close> on a 64-bit machine, because two of them are meant to lie over an IP header.
\<close>

section \<open>Overlays\<close>

definition ipovly :: "ctype \<Rightarrow> ctype" where
  "ipovly ptr = CStruct
     [(''ih_next'', ptr), (''ih_prev'', ptr), (''ih_x1'', CChar), (''ih_pr'', CChar), (''ih_len'', CShort),
      (''ih_src'', in_addr), (''ih_dst'', in_addr)]"

definition ipq :: "ctype \<Rightarrow> ctype" where
  "ipq ptr = CStruct
     [(''next'', ptr), (''prev'', ptr), (''ipq_ttl'', CChar), (''ipq_p'', CChar), (''ipq_id'', CShort),
      (''ipq_next'', ptr), (''ipq_prev'', ptr), (''ipq_src'', in_addr), (''ipq_dst'', in_addr)]"

definition ipasfrag :: "ctype \<Rightarrow> ctype" where
  "ipasfrag ptr = CStruct
     [(''ip_hl_v'', CChar), (''ipf_mff'', CChar), (''ip_len'', CShort), (''ip_id'', CShort), (''ip_off'', CShort),
      (''ip_ttl'', CChar), (''ip_p'', CChar), (''ip_sum'', CShort), (''ipf_next'', ptr), (''ipf_prev'', ptr)]"

definition MAX_IPOPTLEN :: nat where "MAX_IPOPTLEN = 40"

definition ipoption :: ctype where
  "ipoption = CStruct [(''ipopt_dst'', in_addr), (''ipopt_list'', CArr MAX_IPOPTLEN CChar)]"

definition tcpiphdr :: "ctype \<Rightarrow> ctype" where
  "tcpiphdr ptr = CStruct [(''ti_i'', ipovly ptr), (''ti_t'', tcphdr)]"

text \<open>The names the header gives the fields of the overlay.\<close>

definition tcpiphdr_names :: "(string \<times> string list) list" where
  "tcpiphdr_names =
    [(''ti_next'', [''ti_i'', ''ih_next'']), (''ti_prev'', [''ti_i'', ''ih_prev'']), (''ti_x1'', [''ti_i'', ''ih_x1'']),
     (''ti_pr'', [''ti_i'', ''ih_pr'']), (''ti_len'', [''ti_i'', ''ih_len'']), (''ti_src'', [''ti_i'', ''ih_src'']),
     (''ti_dst'', [''ti_i'', ''ih_dst'']), (''ti_sport'', [''ti_t'', ''th_sport'']),
     (''ti_dport'', [''ti_t'', ''th_dport'']), (''ti_seq'', [''ti_t'', ''th_seq'']), (''ti_ack'', [''ti_t'', ''th_ack'']),
     (''ti_x2'', [''ti_t'', ''th_x2_off'']), (''ti_off'', [''ti_t'', ''th_x2_off'']),
     (''ti_flags'', [''ti_t'', ''th_flags'']), (''ti_win'', [''ti_t'', ''th_win'']), (''ti_sum'', [''ti_t'', ''th_sum'']),
     (''ti_urp'', [''ti_t'', ''th_urp''])]"

definition udpiphdr :: "ctype \<Rightarrow> ctype" where
  "udpiphdr ptr = CStruct [(''ui_i'', ipovly ptr), (''ui_u'', udphdr)]"

definition udpiphdr_names :: "(string \<times> string list) list" where
  "udpiphdr_names =
    [(''ui_next'', [''ui_i'', ''ih_next'']), (''ui_prev'', [''ui_i'', ''ih_prev'']), (''ui_x1'', [''ui_i'', ''ih_x1'']),
     (''ui_pr'', [''ui_i'', ''ih_pr'']), (''ui_len'', [''ui_i'', ''ih_len'']), (''ui_src'', [''ui_i'', ''ih_src'']),
     (''ui_dst'', [''ui_i'', ''ih_dst'']), (''ui_sport'', [''ui_u'', ''uh_sport'']),
     (''ui_dport'', [''ui_u'', ''uh_dport'']), (''ui_ulen'', [''ui_u'', ''uh_ulen'']), (''ui_sum'', [''ui_u'', ''uh_sum''])]"

lemma overlay_names_exist:
  "list_all (\<lambda>(n, p). coffset (tcpiphdr CLong) p \<noteq> None) tcpiphdr_names"
  "list_all (\<lambda>(n, p). coffset (udpiphdr CLong) p \<noteq> None) udpiphdr_names"
  by code_simp+

text \<open>
  On a 32-bit machine the overlay has the size of an IP header with the addresses in the same place,
  and a fragment's link is at the offset of the queue's, as the header's comment asks. On a 64-bit
  machine neither holds.
\<close>

lemma overlays_fit:
  "sizeof (ipovly CInt) = sizeof struct_ip"
  "field (ipovly CInt) [''ih_src''] = field struct_ip [''ip_src'']"
  "field (ipovly CInt) [''ih_dst''] = field struct_ip [''ip_dst'']"
  "field (ipasfrag CInt) [''ipf_next''] = field (ipq CInt) [''ipq_next'']"
  "sizeof (ipasfrag CInt) = sizeof struct_ip"
  "sizeof (tcpiphdr CInt) = sizeof struct_ip + sizeof tcphdr"
  "sizeof (udpiphdr CInt) = sizeof struct_ip + sizeof udphdr"
  by code_simp+

lemma overlays_64:
  "sizeof (ipovly CLong) = 32" "field (ipovly CLong) [''ih_src''] = 20"
  "field (ipasfrag CLong) [''ipf_next''] = 16" "field (ipq CLong) [''ipq_next''] = 24"
  by code_simp+

lemma ipoption_size: "sizeof ipoption = 44"
  by code_simp

section \<open>Statistics\<close>

definition counters :: "string list \<Rightarrow> ctype" where
  "counters ns = CStruct (map (\<lambda>n. (n, CInt)) ns)"

definition ipstat :: ctype where
  "ipstat = counters
     [''ips_total'', ''ips_badsum'', ''ips_tooshort'', ''ips_toosmall'', ''ips_badhlen'',
      ''ips_badlen'', ''ips_fragments'', ''ips_fragdropped'', ''ips_fragtimeout'', ''ips_forward'',
      ''ips_cantforward'', ''ips_redirectsent'', ''ips_noproto'', ''ips_delivered'', ''ips_localout'',
      ''ips_odropped'', ''ips_reassembled'', ''ips_fragmented'', ''ips_ofragments'', ''ips_cantfrag'',
      ''ips_badoptions'', ''ips_noroute'', ''ips_badvers'', ''ips_rawout'']"

definition udpstat :: ctype where
  "udpstat = counters
     [''udps_ipackets'', ''udps_hdrops'', ''udps_badsum'', ''udps_badlen'', ''udps_noport'',
      ''udps_noportbcast'', ''udps_fullsock'', ''udpps_pcbcachemiss'', ''udps_opackets'']"

definition tcpstat :: ctype where
  "tcpstat = counters
     [''tcps_connattempt'', ''tcps_accepts'', ''tcps_connects'', ''tcps_drops'', ''tcps_conndrops'',
      ''tcps_closed'', ''tcps_segstimed'', ''tcps_rttupdated'', ''tcps_delack'', ''tcps_timeoutdrop'',
      ''tcps_rexmttimeo'', ''tcps_persisttimeo'', ''tcps_keeptimeo'', ''tcps_keepprobe'',
      ''tcps_keepdrops'', ''tcps_sndtotal'', ''tcps_sndpack'', ''tcps_sndbyte'', ''tcps_sndrexmitpack'',
      ''tcps_sndrexmitbyte'', ''tcps_sndacks'', ''tcps_sndprobe'', ''tcps_sndurg'', ''tcps_sndwinup'',
      ''tcps_sndctrl'', ''tcps_rcvtotal'', ''tcps_rcvpack'', ''tcps_rcvbyte'', ''tcps_rcvbadsum'',
      ''tcps_rcvbadoff'', ''tcps_rcvshort'', ''tcps_rcvduppack'', ''tcps_rcvdupbyte'',
      ''tcps_rcvpartduppack'', ''tcps_rcvpartdupbyte'', ''tcps_rcvoopack'', ''tcps_rcvoobyte'',
      ''tcps_rcvpackafterwin'', ''tcps_rcvbyteafterwin'', ''tcps_rcvafterclose'', ''tcps_rcvwinprobe'',
      ''tcps_rcvdupack'', ''tcps_rcvacktoomuch'', ''tcps_rcvackpack'', ''tcps_rcvackbyte'',
      ''tcps_rcvwinupd'', ''tcps_pawsdrop'', ''tcps_predack'', ''tcps_preddat'', ''tcps_pcbcachemiss'',
      ''tcps_persistdrop'', ''tcps_badsyn'']"

definition udp_sysctl :: "(string \<times> nat) list" where
  "udp_sysctl = [(''UDPCTL_CHECKSUM'', 1), (''UDPCTL_MAXID'', 2)]"

text \<open>Counters lie one behind the other.\<close>

lemma align_up_4: "align_up (4 * k) 4 = 4 * k"
  unfolding align_up_def by presburger

lemma struct_end_counters: "struct_end (map (\<lambda>f. (f, CInt)) ns) (4 * k) = 4 * (k + length ns)"
proof (induction ns arbitrary: k)
  case (Cons f ns)
  show ?case using Cons.IH [of "k + 1"] by (simp add: align_up_4 add_ac)
qed simp

lemma calign_counters: "calign_fields (map (\<lambda>f. (f, CInt)) ns) = (if ns = [] then 1 else 4)"
  by (induction ns) auto

lemma sizeof_counters: "sizeof (counters (n # ns)) = 4 * (1 + length ns)"
  using struct_end_counters [of "n # ns" 0]
  by (simp add: sizeof_def counters_def calign_counters [of "n # ns", simplified] align_up_4 del: mult_Suc_right)

lemma stat_sizes: "sizeof ipstat = 96" "sizeof udpstat = 36" "sizeof tcpstat = 208"
  by (simp_all add: ipstat_def udpstat_def tcpstat_def sizeof_counters)

section \<open>The TCP control block\<close>

text \<open>\<open>timers\<close> is \<^verbatim>\<open>TCPT_NTIMERS\<close>, which no header of the library defines.\<close>

definition tcpcb :: "ctype \<Rightarrow> nat \<Rightarrow> ctype" where
  "tcpcb ptr timers = CStruct
     [(''seg_next'', ptr), (''seg_prev'', ptr), (''t_state'', CShort), (''t_timer'', CArr timers CShort),
      (''t_rxtshift'', CShort), (''t_rxtcur'', CShort), (''t_dupacks'', CShort), (''t_maxseg'', CShort),
      (''t_force'', CChar), (''t_flags'', CShort), (''t_template'', ptr), (''t_inpcb'', ptr),
      (''snd_una'', CInt), (''snd_nxt'', CInt), (''snd_up'', CInt), (''snd_wl1'', CInt), (''snd_wl2'', CInt),
      (''iss'', CInt), (''snd_wnd'', CInt), (''rcv_wnd'', CInt), (''rcv_nxt'', CInt), (''rcv_up'', CInt),
      (''irs'', CInt), (''rcv_adv'', CInt), (''snd_max'', CInt), (''snd_cwnd'', CInt), (''snd_ssthresh'', CInt),
      (''t_idle'', CShort), (''t_rtt'', CShort), (''t_rtseq'', CInt), (''t_srtt'', CShort), (''t_rttvar'', CShort),
      (''t_rttmin'', CShort), (''max_sndwnd'', CInt), (''t_oobflags'', CChar), (''t_iobc'', CChar),
      (''t_softerror'', CShort), (''snd_scale'', CChar), (''rcv_scale'', CChar), (''request_r_scale'', CChar),
      (''requested_s_scale'', CChar), (''ts_recent'', CInt), (''ts_recent_age'', CInt), (''last_ack_sent'', CInt),
      (''t_tuba_pcb'', ptr)]"

definition tcp_flags :: "(string \<times> u16) list" where
  "tcp_flags =
    [(''TF_ACKNOW'', 0x0001), (''TF_DELACK'', 0x0002), (''TF_NODELAY'', 0x0004), (''TF_NOOPT'', 0x0008),
     (''TF_SENTFIN'', 0x0010), (''TF_REQ_SCALE'', 0x0020), (''TF_RCVD_SCALE'', 0x0040), (''TF_REQ_TSTMP'', 0x0080),
     (''TF_RCVD_TSTMP'', 0x0100), (''TF_SACK_PERMIT'', 0x0200)]"

definition tcp_oob_flags :: "(string \<times> u8) list" where
  "tcp_oob_flags = [(''TCPOOB_HAVEDATA'', 0x01), (''TCPOOB_HADDATA'', 0x02)]"

definition TCP_RTT_SCALE :: int where "TCP_RTT_SCALE = 8"
definition TCP_RTT_SHIFT :: nat where "TCP_RTT_SHIFT = 3"
definition TCP_RTTVAR_SCALE :: int where "TCP_RTTVAR_SCALE = 4"
definition TCP_RTTVAR_SHIFT :: nat where "TCP_RTTVAR_SHIFT = 2"

text \<open>\<^verbatim>\<open>TCP_REXMTVAL\<close>: a right shift of a \<^verbatim>\<open>short\<close> and a sum in \<^verbatim>\<open>int\<close>.\<close>

definition TCP_REXMTVAL :: "int \<Rightarrow> int \<Rightarrow> int" where
  "TCP_REXMTVAL t_srtt t_rttvar = drop_bit TCP_RTT_SHIFT t_srtt + t_rttvar"

text \<open>
  The flags are single bits, and with the scaled averages the retransmission comes at the round-trip
  time and four times the variance, as the comment says.
\<close>

lemma tf_flag_bits: "map snd tcp_flags = map (\<lambda>k. push_bit k 1) [0..<10]"
  by (simp add: tcp_flags_def upt_rec)

lemma rexmtval_scales:
  "TCP_RTT_SCALE = 2 ^ TCP_RTT_SHIFT" "TCP_RTTVAR_SCALE = 2 ^ TCP_RTTVAR_SHIFT"
  "TCP_REXMTVAL (TCP_RTT_SCALE * rtt) (TCP_RTTVAR_SCALE * var) = rtt + 4 * var"
  by (simp_all add: TCP_RTT_SCALE_def TCP_RTT_SHIFT_def TCP_RTTVAR_SCALE_def TCP_RTTVAR_SHIFT_def
      TCP_REXMTVAL_def drop_bit_eq_div)

end
