(* ===== verification/Link_Types.thy ===== *)
theory Link_Types
  imports Captor
begin

text \<open>
  The capture library's constants the native code depends on, from \<^verbatim>\<open>pcap.h\<close> and
  \<^verbatim>\<open>pcap-bpf.h\<close>: the link types, of which \<^verbatim>\<open>get_packet\<close> knows three, the
  encoding of filter instructions, which \<^verbatim>\<open>setFilter\<close> passes from
  \<^verbatim>\<open>pcap_compile\<close> to \<^verbatim>\<open>pcap_setfilter\<close>, and the layout of the structures
  libpcap fills in.
\<close>

section \<open>Link types\<close>

type_synonym dlt_table = "(string \<times> nat) list"

text \<open>Some numbers depend on the system the header is compiled on.\<close>

datatype platform = OpenBSD | NetBSD | FreeBSD | Linux

definition dlt_common :: dlt_table where
  "dlt_common =
    [(''DLT_NULL'', 0), (''DLT_EN10MB'', 1), (''DLT_EN3MB'', 2), (''DLT_AX25'', 3), (''DLT_PRONET'', 4),
     (''DLT_CHAOS'', 5), (''DLT_IEEE802'', 6), (''DLT_ARCNET'', 7), (''DLT_SLIP'', 8), (''DLT_PPP'', 9),
     (''DLT_FDDI'', 10)]"

definition dlt_differing :: "platform \<Rightarrow> dlt_table" where
  "dlt_differing os =
    [(''DLT_ATM_RFC1483'', 11), (''DLT_RAW'', if os = OpenBSD then 14 else 12),
     (''DLT_SLIP_BSDOS'', if os = NetBSD \<or> os = FreeBSD then 13 else 15),
     (''DLT_PPP_BSDOS'', if os = NetBSD \<or> os = FreeBSD then 14 else 16)]"

definition dlt_reserved :: dlt_table where
  "dlt_reserved =
    [(''DLT_ATM_CLIP'', 19), (''DLT_REDBACK_SMARTEDGE'', 32), (''DLT_PPP_SERIAL'', 50),
     (''DLT_PPP_ETHER'', 51), (''DLT_SYMANTEC_FIREWALL'', 99)]"

definition dlt_savefile :: dlt_table where
  "dlt_savefile =
    [(''DLT_C_HDLC'', 104), (''DLT_CHDLC'', 104), (''DLT_IEEE802_11'', 105), (''DLT_FRELAY'', 107),
     (''DLT_LOOP'', 108)]"

definition dlt_enc :: "platform \<Rightarrow> dlt_table" where
  "dlt_enc os = [(''DLT_ENC'', if os = OpenBSD then 13 else 109)]"

definition dlt_linux :: dlt_table where
  "dlt_linux =
    [(''DLT_LINUX_SLL'', 113), (''DLT_LTALK'', 114), (''DLT_ECONET'', 115), (''DLT_IPFILTER'', 116)]"

definition dlt_pflog :: "platform \<Rightarrow> dlt_table" where
  "dlt_pflog os = (if os = OpenBSD then [(''DLT_OLD_PFLOG'', 17), (''DLT_PFSYNC'', 18)] else [])"

definition dlt_registered :: dlt_table where
  "dlt_registered =
    [(''DLT_PFLOG'', 117), (''DLT_CISCO_IOS'', 118), (''DLT_PRISM_HEADER'', 119),
     (''DLT_AIRONET_HEADER'', 120), (''DLT_HHDLC'', 121), (''DLT_IP_OVER_FC'', 122),
     (''DLT_SUNATM'', 123), (''DLT_RIO'', 124), (''DLT_PCI_EXP'', 125), (''DLT_AURORA'', 126),
     (''DLT_IEEE802_11_RADIO'', 127), (''DLT_TZSP'', 128), (''DLT_ARCNET_LINUX'', 129),
     (''DLT_JUNIPER_MLPPP'', 130), (''DLT_JUNIPER_MLFR'', 131), (''DLT_JUNIPER_ES'', 132),
     (''DLT_JUNIPER_GGSN'', 133), (''DLT_JUNIPER_MFR'', 134), (''DLT_JUNIPER_ATM2'', 135),
     (''DLT_JUNIPER_SERVICES'', 136), (''DLT_JUNIPER_ATM1'', 137)]"

definition dlt_assigned :: dlt_table where
  "dlt_assigned =
    [(''DLT_APPLE_IP_OVER_IEEE1394'', 138), (''DLT_MTP2_WITH_PHDR'', 139), (''DLT_MTP2'', 140),
     (''DLT_MTP3'', 141), (''DLT_SCCP'', 142), (''DLT_DOCSIS'', 143), (''DLT_LINUX_IRDA'', 144),
     (''DLT_IBM_SP'', 145), (''DLT_IBM_SN'', 146), (''DLT_USER0'', 147), (''DLT_USER1'', 148),
     (''DLT_USER2'', 149), (''DLT_USER3'', 150), (''DLT_USER4'', 151), (''DLT_USER5'', 152),
     (''DLT_USER6'', 153), (''DLT_USER7'', 154), (''DLT_USER8'', 155), (''DLT_USER9'', 156),
     (''DLT_USER10'', 157), (''DLT_USER11'', 158), (''DLT_USER12'', 159), (''DLT_USER13'', 160),
     (''DLT_USER14'', 161), (''DLT_USER15'', 162)]"

definition dlt_requested :: dlt_table where
  "dlt_requested =
    [(''DLT_IEEE802_11_RADIO_AVS'', 163), (''DLT_JUNIPER_MONITOR'', 164), (''DLT_BACNET_MS_TP'', 165),
     (''DLT_PPP_PPPD'', 166), (''DLT_PPP_WITH_DIRECTION'', 166), (''DLT_LINUX_PPP_WITHDIRECTION'', 166),
     (''DLT_JUNIPER_PPPOE'', 167), (''DLT_JUNIPER_PPPOE_ATM'', 168), (''DLT_GPRS_LLC'', 169),
     (''DLT_GPF_T'', 170), (''DLT_GPF_F'', 171), (''DLT_GCOM_T1E1'', 172), (''DLT_GCOM_SERIAL'', 173),
     (''DLT_JUNIPER_PIC_PEER'', 174), (''DLT_ERF_ETH'', 175), (''DLT_ERF_POS'', 176),
     (''DLT_LINUX_LAPD'', 177), (''DLT_JUNIPER_ETHER'', 178), (''DLT_JUNIPER_PPP'', 179),
     (''DLT_JUNIPER_FRELAY'', 180), (''DLT_JUNIPER_CHDLC'', 181), (''DLT_MFR'', 182),
     (''DLT_JUNIPER_VP'', 183), (''DLT_A429'', 184), (''DLT_A653_ICM'', 185), (''DLT_CAN20B'', 190)]"

definition dlt_all :: "platform \<Rightarrow> dlt_table" where
  "dlt_all os = dlt_common @ dlt_differing os @ dlt_reserved @ dlt_savefile @ dlt_enc os @ dlt_linux
     @ dlt_pflog os @ dlt_registered @ dlt_assigned @ dlt_requested"

lemmas dlt_defs = dlt_all_def dlt_common_def dlt_differing_def dlt_reserved_def dlt_savefile_def dlt_enc_def
  dlt_linux_def dlt_pflog_def dlt_registered_def dlt_assigned_def dlt_requested_def

text \<open>On Linux every number stands for one link type, but for three names kept for older programs.\<close>

lemma dlt_distinct:
  "distinct (map snd (filter (\<lambda>(n, v). n \<notin> {''DLT_CHDLC'', ''DLT_PPP_WITH_DIRECTION'',
     ''DLT_LINUX_PPP_WITHDIRECTION''}) (dlt_all Linux)))"
  by code_simp

section \<open>Filter instructions\<close>

definition BPF_CLASS :: "u16 \<Rightarrow> u16" where "BPF_CLASS code = code AND 0x07"

definition bpf_classes :: "(string \<times> u16) list" where
  "bpf_classes = [(''BPF_LD'', 0x00), (''BPF_LDX'', 0x01), (''BPF_ST'', 0x02), (''BPF_STX'', 0x03),
     (''BPF_ALU'', 0x04), (''BPF_JMP'', 0x05), (''BPF_RET'', 0x06), (''BPF_MISC'', 0x07)]"

definition BPF_SIZE :: "u16 \<Rightarrow> u16" where "BPF_SIZE code = code AND 0x18"
definition BPF_MODE :: "u16 \<Rightarrow> u16" where "BPF_MODE code = code AND 0xe0"

definition bpf_sizes :: "(string \<times> u16) list" where
  "bpf_sizes = [(''BPF_W'', 0x00), (''BPF_H'', 0x08), (''BPF_B'', 0x10)]"

definition bpf_modes :: "(string \<times> u16) list" where
  "bpf_modes = [(''BPF_IMM'', 0x00), (''BPF_ABS'', 0x20), (''BPF_IND'', 0x40), (''BPF_MEM'', 0x60),
     (''BPF_LEN'', 0x80), (''BPF_MSH'', 0xa0)]"

definition BPF_OP :: "u16 \<Rightarrow> u16" where "BPF_OP code = code AND 0xf0"
definition BPF_SRC :: "u16 \<Rightarrow> u16" where "BPF_SRC code = code AND 0x08"

definition bpf_alu_ops :: "(string \<times> u16) list" where
  "bpf_alu_ops = [(''BPF_ADD'', 0x00), (''BPF_SUB'', 0x10), (''BPF_MUL'', 0x20), (''BPF_DIV'', 0x30),
     (''BPF_OR'', 0x40), (''BPF_AND'', 0x50), (''BPF_LSH'', 0x60), (''BPF_RSH'', 0x70), (''BPF_NEG'', 0x80)]"

definition bpf_jmp_ops :: "(string \<times> u16) list" where
  "bpf_jmp_ops = [(''BPF_JA'', 0x00), (''BPF_JEQ'', 0x10), (''BPF_JGT'', 0x20), (''BPF_JGE'', 0x30),
     (''BPF_JSET'', 0x40)]"

definition bpf_sources :: "(string \<times> u16) list" where
  "bpf_sources = [(''BPF_K'', 0x00), (''BPF_X'', 0x08)]"

definition BPF_RVAL :: "u16 \<Rightarrow> u16" where "BPF_RVAL code = code AND 0x18"
definition bpf_rvals :: "(string \<times> u16) list" where
  "bpf_rvals = [(''BPF_K'', 0x00), (''BPF_X'', 0x08), (''BPF_A'', 0x10)]"

definition BPF_MISCOP :: "u16 \<Rightarrow> u16" where "BPF_MISCOP code = code AND 0xf8"
definition bpf_miscops :: "(string \<times> u16) list" where
  "bpf_miscops = [(''BPF_TAX'', 0x00), (''BPF_TXA'', 0x80)]"

record bpf_insn =
  bi_code :: u16
  bi_jt :: u8
  bi_jf :: u8
  bi_k :: u32

definition BPF_STMT :: "u16 \<Rightarrow> u32 \<Rightarrow> bpf_insn" where
  "BPF_STMT code k = \<lparr>bi_code = code, bi_jt = 0, bi_jf = 0, bi_k = k\<rparr>"

definition BPF_JUMP :: "u16 \<Rightarrow> u32 \<Rightarrow> u8 \<Rightarrow> u8 \<Rightarrow> bpf_insn" where
  "BPF_JUMP code k jt jf = \<lparr>bi_code = code, bi_jt = jt, bi_jf = jf, bi_k = k\<rparr>"

definition BPF_MEMWORDS :: nat where "BPF_MEMWORDS = 16"

text \<open>An instruction's meaning, and the code the header's constants compose for it.\<close>

datatype bpf_op =
    Load bool u16 u16           \<comment> \<open>into the index register or not, size, mode\<close>
  | Store bool
  | Alu u16 u16                 \<comment> \<open>operation, source\<close>
  | Jump u16 u16
  | Return u16
  | Misc u16

fun bpf_encode :: "bpf_op \<Rightarrow> u16" where
  "bpf_encode (Load x sz mode) = (if x then 0x01 else 0x00) OR sz OR mode"
| "bpf_encode (Store x) = (if x then 0x03 else 0x02)"
| "bpf_encode (Alu op1 src) = 0x04 OR op1 OR src"
| "bpf_encode (Jump op1 src) = 0x05 OR op1 OR src"
| "bpf_encode (Return v) = 0x06 OR v"
| "bpf_encode (Misc op1) = 0x07 OR op1"

text \<open>The macros take it apart again.\<close>

definition bpf_decode :: "u16 \<Rightarrow> bpf_op" where
  "bpf_decode code =
     (let c = BPF_CLASS code
      in if c = 0x00 \<or> c = 0x01 then Load (c = 0x01) (BPF_SIZE code) (BPF_MODE code)
         else if c = 0x02 \<or> c = 0x03 then Store (c = 0x03)
         else if c = 0x04 then Alu (BPF_OP code) (BPF_SRC code)
         else if c = 0x05 then Jump (BPF_OP code) (BPF_SRC code)
         else if c = 0x06 then Return (BPF_RVAL code)
         else Misc (BPF_MISCOP code))"

fun bpf_op_ok :: "bpf_op \<Rightarrow> bool" where
  "bpf_op_ok (Load x sz mode) \<longleftrightarrow> sz \<in> set (map snd bpf_sizes) \<and> mode \<in> set (map snd bpf_modes)"
| "bpf_op_ok (Store x) \<longleftrightarrow> True"
| "bpf_op_ok (Alu op1 src) \<longleftrightarrow> op1 \<in> set (map snd bpf_alu_ops) \<and> src \<in> set (map snd bpf_sources)"
| "bpf_op_ok (Jump op1 src) \<longleftrightarrow> op1 \<in> set (map snd bpf_jmp_ops) \<and> src \<in> set (map snd bpf_sources)"
| "bpf_op_ok (Return v) \<longleftrightarrow> v \<in> set (map snd bpf_rvals)"
| "bpf_op_ok (Misc op1) \<longleftrightarrow> op1 \<in> set (map snd bpf_miscops)"

lemmas bpf_simps = bpf_decode_def BPF_CLASS_def BPF_SIZE_def BPF_MODE_def BPF_OP_def BPF_SRC_def BPF_RVAL_def
  BPF_MISCOP_def bpf_sizes_def bpf_modes_def bpf_alu_ops_def bpf_jmp_ops_def bpf_sources_def bpf_rvals_def
  bpf_miscops_def

section \<open>Structures of the capture library\<close>

definition bpf_program :: "ctype \<Rightarrow> ctype" where
  "bpf_program ptr = CStruct [(''bf_len'', CInt), (''bf_insns'', ptr)]"

definition bpf_version :: ctype where
  "bpf_version = CStruct [(''bv_major'', CShort), (''bv_minor'', CShort)]"

definition bpf_insn_layout :: ctype where
  "bpf_insn_layout = CStruct [(''code'', CShort), (''jt'', CChar), (''jf'', CChar), (''k'', CInt)]"

definition BPF_MAJOR_VERSION :: u16 where "BPF_MAJOR_VERSION = 1"
definition BPF_MINOR_VERSION :: u16 where "BPF_MINOR_VERSION = 1"

text \<open>When a kernel understands a filter, as the comment before \<^verbatim>\<open>struct bpf_version\<close> says.\<close>

definition bpf_understands :: "u16 \<times> u16 \<Rightarrow> u16 \<times> u16 \<Rightarrow> bool" where
  "bpf_understands running prog \<longleftrightarrow> fst running = fst prog \<and> snd running \<ge> snd prog"

definition BPF_ALIGNMENT :: u32 where "BPF_ALIGNMENT = 4"

definition BPF_WORDALIGN :: "u32 \<Rightarrow> u32" where
  "BPF_WORDALIGN x = (x + (BPF_ALIGNMENT - 1)) AND NOT (BPF_ALIGNMENT - 1)"

definition bpf_limits :: "(string \<times> nat) list" where
  "bpf_limits = [(''BPF_MAXINSNS'', 512), (''BPF_MAXBUFSIZE'', 0x8000), (''BPF_MINBUFSIZE'', 32)]"

definition pcap_file_header :: ctype where
  "pcap_file_header = CStruct
     [(''magic'', CInt), (''version_major'', CShort), (''version_minor'', CShort), (''thiszone'', CInt),
      (''sigfigs'', CInt), (''snaplen'', CInt), (''linktype'', CInt)]"

definition pcap_version :: "u16 \<times> u16" where "pcap_version = (2, 4)"

datatype pcap_direction = PCAP_D_INOUT | PCAP_D_IN | PCAP_D_OUT

text \<open>\<open>time\<close> is the type of the members of \<^verbatim>\<open>struct timeval\<close>.\<close>

definition pcap_pkthdr_layout :: "ctype \<Rightarrow> ctype" where
  "pcap_pkthdr_layout time = CStruct
     [(''ts'', CStruct [(''tv_sec'', time), (''tv_usec'', time)]), (''caplen'', CInt), (''len'', CInt)]"

definition pcap_stat :: ctype where
  "pcap_stat = CStruct [(''ps_recv'', CInt), (''ps_drop'', CInt), (''ps_ifdrop'', CInt)]"

lemma pcap_layouts:
  "sizeof pcap_file_header = 24" "field pcap_file_header [''snaplen''] = 16"
  "sizeof bpf_insn_layout = 8" "field bpf_insn_layout [''k''] = 4" "sizeof bpf_version = 4"
  "sizeof (bpf_program CInt) = 8" "sizeof (bpf_program CLong) = 16"
  "sizeof (pcap_pkthdr_layout CInt) = 16" "sizeof (pcap_pkthdr_layout CLong) = 24"
  "field (pcap_pkthdr_layout CLong) [''caplen''] = 16" "field pcap_stat [''ps_drop''] = 4"
  by code_simp+

lemma bpf_understands_order:
  "bpf_understands v v"
  "bpf_understands v w \<Longrightarrow> bpf_understands w u \<Longrightarrow> bpf_understands v u"
  "bpf_understands v w \<Longrightarrow> bpf_understands w v \<Longrightarrow> v = w"
  by (auto simp: bpf_understands_def prod_eq_iff)

section \<open>Properties\<close>

text \<open>The largest multiple of four not above a number.\<close>

lemma and_not_3: "unat ((w :: u32) AND NOT 3) = unat w div 4 * 4"
proof -
  have two: "Suc (Suc (n - 2)) = n" if "2 \<le> n" for n :: nat using that by simp
  have three: "(3 :: u32) = mask 2" by (simp add: mask_eq_exp_minus_1)
  have "w AND NOT (mask 2) = push_bit 2 (drop_bit 2 w)"
    by (rule bit_word_eqI) (auto simp: bit_simps not_less two)
  then have "w AND NOT 3 = drop_bit 2 w * 4" by (simp add: three push_bit_eq_mult)
  moreover have "unat (drop_bit 2 w) = unat w div 4" by (simp add: drop_bit_eq_div unat_div)
  moreover have "unat w div 4 * 4 < 2 ^ 32"
    using unsigned_less [of w, where ?'a = nat] div_times_less_eq_dividend [of "unat w" 4] by simp
  ultimately show ?thesis by (simp add: unat_word_ariths)
qed

text \<open>
  \<^verbatim>\<open>BPF_WORDALIGN\<close> rounds a length up to the next multiple of four, by at most three, for
  every length the rounding does not overflow.
\<close>

theorem wordalign_rounds_up:
  assumes "unat x + 3 < 2 ^ 32"
  shows "4 dvd unat (BPF_WORDALIGN x) \<and> x \<le> BPF_WORDALIGN x \<and> unat (BPF_WORDALIGN x) \<le> unat x + 3"
proof -
  have "unat (x + 3) = unat x + 3" using assms by (simp add: unat_word_ariths)
  then have "unat (BPF_WORDALIGN x) = (unat x + 3) div 4 * 4"
    using and_not_3 [of "x + 3"] by (simp add: BPF_WORDALIGN_def BPF_ALIGNMENT_def)
  then show ?thesis unfolding word_le_nat_alt by presburger
qed

theorem wordalign_rounds_up_witness:
  "4 dvd unat (BPF_WORDALIGN 65533) \<and> 65533 \<le> BPF_WORDALIGN 65533 \<and> unat (BPF_WORDALIGN 65533) \<le> unat (65533 :: u32) + 3"
  by (rule wordalign_rounds_up) simp

text \<open>
  Every instruction composed from the header's constants is taken apart by the header's macros into
  the same class, size, mode, operation, source and result it was composed from.
\<close>

theorem bpf_code_roundtrip:
  assumes "bpf_op_ok i"
  shows "bpf_decode (bpf_encode i) = i"
  using assms by (cases i) (auto simp: bpf_simps)

theorem bpf_code_roundtrip_witness:
  "bpf_decode (bpf_encode (Load False 0x08 0x20)) = Load False 0x08 0x20"
  by (rule bpf_code_roundtrip) (simp add: bpf_sizes_def bpf_modes_def)

text \<open>
  C38: of all link types of the header only Ethernet, IEEE 802 and raw IP are looked into by
  \<^verbatim>\<open>get_packet\<close>, and for these three both offset tables have an entry. For the first two the
  network protocol is the big-endian word two bytes before the data offset, in frames that reach so far;
  for raw IP the data offset is 0 and the entry of the type table, -1, is not used, the protocol being IP.
  For every other link type the protocol is unknown, no phase of \<^verbatim>\<open>get_packet\<close> indexes a table
  out of range, though most link types are greater than their length, and the call ends in the exception of the abstract class
  \<^verbatim>\<open>DatalinkPacket\<close>. A length that is not positive leaves the transport protocol
  indeterminate.
\<close>

theorem link_types_decided:
  assumes "(n, v) \<in> set (dlt_all Linux)" "caplen = ph_caplen hdr"
  shows "if n \<in> {''DLT_EN10MB'', ''DLT_IEEE802''}
    then \<exists>t d. table_at offset_type v = Inr t \<and> datalink_hlen v = Inr d \<and> 0 \<le> t \<and> d = t + 2
      \<and> (nat d \<le> length m \<longrightarrow> detect_network m v caplen
            = Inr (be16 (m ! nat t) (m ! (nat t + 1)), s16 (s16 (uint caplen) - d)))
    else if n = ''DLT_RAW'' then table_at offset_type v = Inr (- 1) \<and> datalink_hlen v = Inr 0
      \<and> detect_network m v caplen = Inr (ETHERTYPE_IP, s16 (s16 (uint caplen)))
    else detect_network m v caplen = Inr (UNKNOWN_PROTO, s16 (uint caplen))
      \<and> detect_transport t0 m v UNKNOWN_PROTO (s16 (uint caplen))
          = Inr (if s16 (uint caplen) > 0 then UNKNOWN_PROTO else t0, s16 (uint caplen))
      \<and> analyze_network m v caplen UNKNOWN_PROTO data packet = Inr (packet, s16 (uint caplen), 0)
      \<and> clamp_length v caplen UNKNOWN_PROTO tproto clen = Inr clen
      \<and> get_packet t0 stray v hdr m = Inl (Exn InstantiationException)"
proof -
  have l: "list_all (\<lambda>(n, v). (if n = ''DLT_EN10MB'' then v = 1 else if n = ''DLT_IEEE802'' then v = 6
      else if n = ''DLT_RAW'' then v = 12 else v \<notin> {1, 6, 12})) (dlt_all Linux)"
    by code_simp
  have u: "if n = ''DLT_EN10MB'' then v = 1 else if n = ''DLT_IEEE802'' then v = 6
      else if n = ''DLT_RAW'' then v = 12 else v \<notin> {1, 6, 12}"
    using l assms(1) by (auto simp: list_all_iff)
  have two: "detect_network m k caplen = Inr (be16 (m ! nat t) (m ! (nat t + 1)), s16 (s16 (uint caplen) - (t + 2)))"
    if "k = 1 \<and> t = 12 \<or> k = 6 \<and> t = 20" "nat t + 2 \<le> length m" for k t
    using that by (auto simp: detect_network_def get_network_type_def table_at_def at_ptr_def offset_type_def
        datalink_hlen_def offset_data_def ld16_def)
  have other: "detect_network m v caplen = Inr (UNKNOWN_PROTO, s16 (uint caplen))"
      "get_packet t0 stray v hdr m = Inl (Exn InstantiationException)"
    if "v \<notin> {1, 6, 12}"
    using that assms(2)
    by (auto simp: detect_network_def get_packet_def detect_transport_def analyze_datalink_def Let_def)
  show ?thesis
    using u two [of 1 12] two [of 6 20] other
    by (auto simp: detect_network_def detect_transport_def analyze_network_def clamp_length_def table_at_def
        offset_type_def offset_data_def datalink_hlen_def split: if_splits)
qed

theorem link_types_decided_witness:
  "detect_network [0] 113 16 = Inr (UNKNOWN_PROTO, s16 (uint (16 :: u32)))
    \<and> get_packet 0 (0, 0) 113 (sample_hdr 16) [0] = Inl (Exn InstantiationException)"
  using link_types_decided [of "''DLT_LINUX_SLL''" 113 16 "sample_hdr 16" "[0]" 0 0 PlainBody 0 0 "(0, 0)"]
  by (simp add: dlt_all_def dlt_linux_def sample_hdr_def)

end
