(* ===== verification/Driver_Clock.thy ===== *)
theory Driver_Clock
  imports Prelude "HOL-Library.Signed_Division"
begin

text \<open>
  The time stamps of the capture driver, \<^verbatim>\<open>src/c/win32/WpdPack/Include/time_calls.h\<close>: how
  the driver relates the performance counter or the processor's cycle counter to the system time, and
  how each captured packet is given its time from it. On Windows a \<^verbatim>\<open>long\<close> has 32 bits and a
  \<^verbatim>\<open>LONGLONG\<close> 64; signed values are integers that are wrapped where the code converts them. What
  the kernel answers, counters and system time, are arguments.
\<close>

section \<open>Time values\<close>

definition l32 :: "int \<Rightarrow> int" where "l32 x = (x + 2 ^ 31) mod 2 ^ 32 - 2 ^ 31"
definition q64 :: "int \<Rightarrow> int" where "q64 x = (x + 2 ^ 63) mod 2 ^ 64 - 2 ^ 63"

definition quot :: "int \<Rightarrow> int \<Rightarrow> int res" where
  "quot a b = (if b = 0 then Inl (UB DivZero) else Inr (q64 (a sdiv b)))"

record timeval =
  tv_sec :: int
  tv_usec :: int

text \<open>\<^verbatim>\<open>reference\<close> is 0 as long as the clock has not been synchronised.\<close>

record time_conv =
  reference :: u64
  start :: "timeval list"

definition time_conv_init :: time_conv where
  "time_conv_init = \<lparr>reference = 0, start = replicate 32 \<lparr>tv_sec = 0, tv_usec = 0\<rparr>\<rparr>"

definition DEFAULT_TIMESTAMPMODE :: u32 where "DEFAULT_TIMESTAMPMODE = 0"
definition TIMESTAMPMODE_SINGLE_SYNCHRONIZATION :: u32 where "TIMESTAMPMODE_SINGLE_SYNCHRONIZATION = 0"
definition TIMESTAMPMODE_SYNCHRONIZATION_ON_CPU_WITH_FIXUP :: u32 where
  "TIMESTAMPMODE_SYNCHRONIZATION_ON_CPU_WITH_FIXUP = 1"
definition TIMESTAMPMODE_QUERYSYSTEMTIME :: u32 where "TIMESTAMPMODE_QUERYSYSTEMTIME = 2"
definition TIMESTAMPMODE_RDTSC :: u32 where "TIMESTAMPMODE_RDTSC = 3"
definition TIMESTAMPMODE_SYNCHRONIZATION_ON_CPU_NO_FIXUP :: u32 where
  "TIMESTAMPMODE_SYNCHRONIZATION_ON_CPU_NO_FIXUP = 99"

lemmas mode_defs = TIMESTAMPMODE_SYNCHRONIZATION_ON_CPU_WITH_FIXUP_def TIMESTAMPMODE_QUERYSYSTEMTIME_def
  TIMESTAMPMODE_RDTSC_def TIMESTAMPMODE_SYNCHRONIZATION_ON_CPU_NO_FIXUP_def TIMESTAMPMODE_SINGLE_SYNCHRONIZATION_def

definition per_cpu :: "u32 \<Rightarrow> bool" where
  "per_cpu mode \<longleftrightarrow> mode = TIMESTAMPMODE_SYNCHRONIZATION_ON_CPU_WITH_FIXUP
     \<or> mode = TIMESTAMPMODE_SYNCHRONIZATION_ON_CPU_NO_FIXUP"

section \<open>Synchronising\<close>

definition TIME_DESYNCHRONIZE :: "time_conv \<Rightarrow> time_conv" where
  "TIME_DESYNCHRONIZE data = data\<lparr>reference := 0\<rparr>"

text \<open>
  \<open>alloc\<close>: whether memory for the path can be had; \<open>answer\<close>: the registry value, the default
  if there is none, or a failure. The result is the mode and what is written to the registry.
\<close>

definition ReadTimeStampModeFromRegistry :: "bool \<Rightarrow> u32 option \<Rightarrow> u32 \<times> u32 option" where
  "ReadTimeStampModeFromRegistry alloc answer =
     (if alloc
      then let mode = (case answer of None \<Rightarrow> DEFAULT_TIMESTAMPMODE | Some v \<Rightarrow> v) in (mode, Some mode)
      else (DEFAULT_TIMESTAMPMODE, None))"

text \<open>Performance counter and its frequency, and the system time in units of 100 ns since 1601.\<close>

record kernel_time =
  PTime :: int
  TimeFreq :: int
  SystemTime :: int

definition SynchronizeOnCpu :: "kernel_time \<Rightarrow> timeval res" where
  "SynchronizeOnCpu kt =
     (let sec = l32 (q64 (SystemTime kt sdiv 10000000 - 11644473600));
          usec = l32 ((SystemTime kt smod 10000000) sdiv 10)
      in bindR (quot (PTime kt) (TimeFreq kt)) (\<lambda>up.
         let sec = l32 (sec - up)
         in bindR (quot (q64 ((PTime kt smod TimeFreq kt) * 1000000)) (TimeFreq kt)) (\<lambda>part.
            let usec = l32 (usec - l32 part)
            in Inr (if usec < 0 then \<lparr>tv_sec = l32 (sec - 1), tv_usec = l32 (usec + 1000000)\<rparr>
                    else \<lparr>tv_sec = sec, tv_usec = usec\<rparr>))))"

text \<open>The cycle counter at the start and the end of the 350 ms wait, and at the end of the function.\<close>

record tsc_run =
  start_ticks :: u64
  stop_ticks :: u64
  curr_ticks :: u64
  start_kqpc :: u64
  stop_kqpc :: u64
  start_freq :: u64
  system_time :: int

definition divu :: "u64 \<Rightarrow> u64 \<Rightarrow> u64 res" where
  "divu a b = (if b = 0 then Inl (UB DivZero) else Inr (a div b))"

definition TimeSynchronizeRDTSC :: "tsc_run \<Rightarrow> time_conv \<Rightarrow> time_conv res" where
  "TimeSynchronizeRDTSC run data =
     (if reference data \<noteq> 0 then Inr data
      else let delta = stop_ticks run - start_ticks run; delta2 = stop_kqpc run - start_kqpc run;
               (delta, delta2) = (if delta > 10000000000 then (delta div 16, delta2 div 16) else (delta, delta2))
           in bindR (divu (delta * start_freq run) delta2) (\<lambda>ref.
              let rounded = (ref div 1000 + (if ref mod 1000 > 500 then 1 else 0)) * 1000
              in bindR (divu (curr_ticks run) rounded) (\<lambda>up.
                 bindR (divu ((curr_ticks run mod rounded) * 1000000) rounded) (\<lambda>part.
                 let st = q64 (system_time run - 116444736000000000);
                     sec = l32 (l32 (- l32 (uint up)) + l32 (st sdiv 10000000));
                     usec = l32 (l32 (- l32 (uint part)) + l32 ((st smod 10000000) sdiv 10));
                     tmp = (if usec < 0 then \<lparr>tv_sec = l32 (sec - 1), tv_usec = l32 (usec + 1000000)\<rparr>
                            else \<lparr>tv_sec = sec, tv_usec = usec\<rparr>)
                 in Inr (data\<lparr>reference := rounded, start := (start data)[0 := tmp]\<rparr>)))))"

text \<open>The loop over the processors; \<^verbatim>\<open>start\<close> has 32 elements.\<close>

fun sync_cpus :: "nat \<Rightarrow> kernel_time list \<Rightarrow> timeval list \<Rightarrow> timeval list res" where
  "sync_cpus i [] tvs = Inr tvs"
| "sync_cpus i (kt # kts) tvs =
     (if i < length tvs
      then bindR (SynchronizeOnCpu kt) (\<lambda>tv. sync_cpus (i + 1) kts (tvs[i := tv]))
      else Inl (UB OobWrite))"

text \<open>
  \<open>kts\<close> has an answer for each processor, the first being the one of the running thread; \<open>run\<close>
  is absent where the driver is not built for x86.
\<close>

definition TIME_SYNCHRONIZE :: "u32 \<Rightarrow> kernel_time list \<Rightarrow> tsc_run option \<Rightarrow> time_conv \<Rightarrow> time_conv res" where
  "TIME_SYNCHRONIZE mode kts run data =
     (if reference data \<noteq> 0 then Inr data
      else if per_cpu mode
      then bindR (sync_cpus 0 kts (start data)) (\<lambda>tvs. Inr (data\<lparr>start := tvs, reference := 1\<rparr>))
      else if mode = TIMESTAMPMODE_QUERYSYSTEMTIME then Inr (data\<lparr>reference := 1\<rparr>)
      else if mode = TIMESTAMPMODE_RDTSC \<and> run \<noteq> None then TimeSynchronizeRDTSC (the run) data
      else bindR (SynchronizeOnCpu (hd kts)) (\<lambda>tv.
           Inr (data\<lparr>start := (start data)[0 := tv], reference := 1\<rparr>)))"

section \<open>Reading the time\<close>

definition tv_after :: "timeval \<Rightarrow> timeval \<Rightarrow> bool" where
  "tv_after a b \<longleftrightarrow> tv_sec a > tv_sec b \<or> tv_sec a = tv_sec b \<and> tv_usec a > tv_usec b"

definition kqpc_time :: "timeval \<Rightarrow> kernel_time \<Rightarrow> timeval res" where
  "kqpc_time base kt =
     bindR (quot (PTime kt) (TimeFreq kt)) (\<lambda>q.
     bindR (quot (q64 ((PTime kt smod TimeFreq kt) * 1000000)) (TimeFreq kt)) (\<lambda>part.
     let sec = l32 (tv_sec base + l32 q); usec = l32 (tv_usec base + l32 part)
     in Inr (if usec \<ge> 1000000 then \<lparr>tv_sec = l32 (sec + 1), tv_usec = l32 (usec - 1000000)\<rparr>
             else \<lparr>tv_sec = sec, tv_usec = usec\<rparr>)))"

text \<open>\<^verbatim>\<open>old_ts\<close> is a static variable: it comes in and goes out.\<close>

definition GetTimeKQPC :: "u32 \<Rightarrow> nat \<Rightarrow> kernel_time \<Rightarrow> time_conv \<Rightarrow> timeval \<Rightarrow> (timeval \<times> timeval) res" where
  "GetTimeKQPC mode CurrentCpu kt data old_ts =
     (if per_cpu mode
      then if CurrentCpu < length (start data)
           then bindR (kqpc_time (start data ! CurrentCpu) kt) (\<lambda>dst.
                Inr (if mode = TIMESTAMPMODE_SYNCHRONIZATION_ON_CPU_WITH_FIXUP
                     then if tv_after old_ts dst then (old_ts, old_ts) else (dst, dst)
                     else (dst, old_ts)))
           else Inl (UB OobRead)
      else bindR (kqpc_time (start data ! 0) kt) (\<lambda>dst. Inr (dst, old_ts)))"

text \<open>Before the clock is synchronised the destination is left as it is.\<close>

definition GetTimeRDTSC :: "u64 \<Rightarrow> time_conv \<Rightarrow> timeval \<Rightarrow> timeval" where
  "GetTimeRDTSC tmp data dst =
     (if reference data = 0 then dst
      else let sec = l32 (uint (tmp div reference data));
               usec = l32 (uint ((tmp - word_of_int sec * reference data) * 1000000 div reference data));
               sec = l32 (sec + tv_sec (start data ! 0));
               usec = l32 (usec + tv_usec (start data ! 0))
           in if usec \<ge> 1000000 then \<lparr>tv_sec = l32 (sec + 1), tv_usec = l32 (usec - 1000000)\<rparr>
              else \<lparr>tv_sec = sec, tv_usec = usec\<rparr>)"

definition GetTimeQST :: "kernel_time \<Rightarrow> timeval" where
  "GetTimeQST kt = \<lparr>tv_sec = l32 (q64 (SystemTime kt sdiv 10000000 - 11644473600)),
     tv_usec = l32 ((SystemTime kt smod 10000000) sdiv 10)\<rparr>"

definition GET_TIME ::
  "u32 \<Rightarrow> u64 option \<Rightarrow> nat \<Rightarrow> kernel_time \<Rightarrow> time_conv \<Rightarrow> timeval \<times> timeval \<Rightarrow> (timeval \<times> timeval) res" where
  "GET_TIME mode tsc CurrentCpu kt data st =
     (case st of (dst, old_ts) \<Rightarrow>
        if mode = TIMESTAMPMODE_RDTSC \<and> tsc \<noteq> None then Inr (GetTimeRDTSC (the tsc) data dst, old_ts)
        else if mode = TIMESTAMPMODE_QUERYSYSTEMTIME then Inr (GetTimeQST kt, old_ts)
        else GetTimeKQPC mode CurrentCpu kt data old_ts)"

text \<open>Outside the driver, in the packet filter's user-level build, the time is set from outside.\<close>

definition FORCE_TIME :: "timeval \<Rightarrow> time_conv \<Rightarrow> time_conv" where
  "FORCE_TIME src dest = dest\<lparr>start := (start dest)[0 := src]\<rparr>"

definition user_GET_TIME :: "time_conv \<Rightarrow> timeval" where
  "user_GET_TIME data = start data ! 0"

section \<open>Arithmetic without wrap-around\<close>

lemma l32_id: "- (2 ^ 31) \<le> x \<Longrightarrow> x < 2 ^ 31 \<Longrightarrow> l32 x = x"
  by (simp add: l32_def)

lemma q64_id: "- (2 ^ 63) \<le> x \<Longrightarrow> x < 2 ^ 63 \<Longrightarrow> q64 x = x"
  by (simp add: q64_def)

lemma sdiv_nonneg: "0 \<le> a \<Longrightarrow> 0 < b \<Longrightarrow> (a :: int) sdiv b = a div b"
  by (cases "a = 0") (simp_all add: signed_divide_int_def sgn_if)

lemma smod_nonneg: "0 \<le> a \<Longrightarrow> 0 < b \<Longrightarrow> (a :: int) smod b = a mod b"
  by (cases "a = 0") (simp_all add: signed_modulo_int_def sgn_if)

lemma div_lt: "x < c * f \<Longrightarrow> 0 < f \<Longrightarrow> x div f < (c :: int)"
proof (rule ccontr)
  assume x: "x < c * f" and f: "0 < f" and "\<not> x div f < c"
  then have "c * f \<le> x div f * f" by (intro mult_right_mono) simp_all
  moreover have "x div f * f \<le> x" using f pos_mod_sign [of f x] div_mult_mod_eq [of x f] by linarith
  ultimately show False using x by simp
qed

text \<open>Time values and counters in microseconds.\<close>

definition micros :: "timeval \<Rightarrow> int" where "micros tv = tv_sec tv * 1000000 + tv_usec tv"
definition up_micros :: "kernel_time \<Rightarrow> int" where "up_micros kt = PTime kt * 1000000 div TimeFreq kt"
definition unix_micros :: "kernel_time \<Rightarrow> int" where
  "unix_micros kt = SystemTime kt div 10 - 11644473600 * 1000000"

definition tv_ok :: "timeval \<Rightarrow> bool" where "tv_ok tv \<longleftrightarrow> 0 \<le> tv_usec tv \<and> tv_usec tv < 1000000"

text \<open>
  The counter's frequency is positive and below 9.2 THz, the machine has been up for less than 68
  years, and the system time is between 1970 and 2038.
\<close>

definition kernel_ok :: "kernel_time \<Rightarrow> bool" where
  "kernel_ok kt \<longleftrightarrow> 0 < TimeFreq kt \<and> TimeFreq kt \<le> 9200000000000 \<and> 0 \<le> PTime kt
     \<and> PTime kt div TimeFreq kt < 2 ^ 31 - 1 \<and> PTime kt < 2 ^ 63
     \<and> 116444736000000000 \<le> SystemTime kt \<and> SystemTime kt div 10000000 < 11644473600 + 2 ^ 31"

lemma up_split:
  assumes "kernel_ok kt"
  obtains q part where "quot (PTime kt) (TimeFreq kt) = Inr q"
    "quot (q64 ((PTime kt smod TimeFreq kt) * 1000000)) (TimeFreq kt) = Inr part"
    "0 \<le> q" "q < 2 ^ 31 - 1" "0 \<le> part" "part < 1000000" "q * 1000000 + part = up_micros kt"
proof -
  define p f where "p = PTime kt" and "f = TimeFreq kt"
  have k: "0 < f" "f \<le> 9200000000000" "0 \<le> p" "p div f < 2 ^ 31 - 1" "p < 2 ^ 63"
    using assms by (auto simp: kernel_ok_def p_def f_def)
  have m: "0 \<le> p mod f" "p mod f < f" using k(1) by simp_all
  have part: "0 \<le> p mod f * 1000000 div f" "p mod f * 1000000 div f < 1000000"
    using m k(1) div_lt [of "p mod f * 1000000" 1000000 f] by (simp_all add: pos_imp_zdiv_nonneg_iff)
  have "p * 1000000 = (p div f * f + p mod f) * 1000000" by (simp only: div_mult_mod_eq)
  then have "p * 1000000 = p mod f * 1000000 + (p div f * 1000000) * f" by (simp only: algebra_simps)
  then have sum: "p div f * 1000000 + p mod f * 1000000 div f = p * 1000000 div f"
    using k(1) div_mult_self1 [of f "p mod f * 1000000" "p div f * 1000000"] by simp
  have "quot p f = Inr (p div f)"
    using k sdiv_nonneg [of p f] pos_imp_zdiv_nonneg_iff [of f p] by (simp add: quot_def q64_id)
  moreover have "quot (q64 ((p smod f) * 1000000)) f = Inr (p mod f * 1000000 div f)"
  proof -
    have x: "0 \<le> p mod f * 1000000" "p mod f * 1000000 < 2 ^ 63" using m k(2) by simp_all
    then have "q64 (p mod f * 1000000) = p mod f * 1000000" by (intro q64_id) simp_all
    moreover have "q64 (p mod f * 1000000 div f) = p mod f * 1000000 div f" using part by (intro q64_id) simp_all
    ultimately show ?thesis
      using x k(1,3) by (simp add: quot_def smod_nonneg sdiv_nonneg)
  qed
  ultimately show ?thesis
    using that [of "p div f" "p mod f * 1000000 div f"] part sum k pos_imp_zdiv_nonneg_iff [of f p]
    by (simp add: p_def f_def up_micros_def)
qed

section \<open>What the clock shows\<close>

text \<open>The seconds and microseconds of a system time.\<close>

lemma system_time_parts:
  assumes "kernel_ok kt"
  obtains s u where "l32 (q64 (SystemTime kt sdiv 10000000 - 11644473600)) = s"
    "l32 ((SystemTime kt smod 10000000) sdiv 10) = u"
    "0 \<le> s" "s < 2 ^ 31" "0 \<le> u" "u < 1000000" "s * 1000000 + u = unix_micros kt"
proof -
  define t where "t = SystemTime kt"
  have t: "116444736000000000 \<le> t" "t div 10000000 < 11644473600 + 2 ^ 31"
    using assms by (auto simp: kernel_ok_def t_def)
  have "l32 (q64 (t sdiv 10000000 - 11644473600)) = t div 10000000 - 11644473600"
    using t by (simp add: sdiv_nonneg q64_id l32_id)
  moreover have "l32 ((t smod 10000000) sdiv 10) = t mod 10000000 div 10"
    using t by (simp add: sdiv_nonneg smod_nonneg l32_id)
  moreover have "(t div 10000000 - 11644473600) * 1000000 + t mod 10000000 div 10 = t div 10 - 11644473600 * 1000000"
  proof -
    have "t = t mod 10000000 + (t div 10000000 * 1000000) * 10" by simp
    then have "t div 10 = t div 10000000 * 1000000 + t mod 10000000 div 10"
      using div_mult_self1 [of 10 "t mod 10000000" "t div 10000000 * 1000000"] by simp
    then show ?thesis by simp
  qed
  moreover have "11644473600 \<le> t div 10000000" "t mod 10000000 div 10 < 1000000" "0 \<le> t mod 10000000 div 10"
    using t(1) zdiv_mono1 [of 116444736000000000 t 10000000] div_lt [of "t mod 10000000" 1000000 10]
    by (simp_all add: pos_imp_zdiv_nonneg_iff)
  ultimately show ?thesis
    using that [of "t div 10000000 - 11644473600" "t mod 10000000 div 10"] t
    by (simp add: t_def unix_micros_def)
qed

lemma GetTimeQST_value:
  assumes "kernel_ok kt"
  shows "tv_ok (GetTimeQST kt) \<and> micros (GetTimeQST kt) = unix_micros kt"
  by (rule system_time_parts [OF assms]) (simp add: GetTimeQST_def tv_ok_def micros_def)

lemma SynchronizeOnCpu_value:
  assumes "kernel_ok kt"
  obtains tv where "SynchronizeOnCpu kt = Inr tv" "tv_ok tv" "micros tv = unix_micros kt - up_micros kt"
    "- (2 ^ 31) < tv_sec tv" "tv_sec tv < 2 ^ 31"
proof -
  obtain s u where su: "l32 (q64 (SystemTime kt sdiv 10000000 - 11644473600)) = s"
    "l32 ((SystemTime kt smod 10000000) sdiv 10) = u"
    "0 \<le> s" "s < 2 ^ 31" "0 \<le> u" "u < 1000000" "s * 1000000 + u = unix_micros kt"
    using system_time_parts [OF assms] .
  obtain q part where qp: "quot (PTime kt) (TimeFreq kt) = Inr q"
    "quot (q64 ((PTime kt smod TimeFreq kt) * 1000000)) (TimeFreq kt) = Inr part"
    "0 \<le> q" "q < 2 ^ 31 - 1" "0 \<le> part" "part < 1000000" "q * 1000000 + part = up_micros kt"
    using up_split [OF assms] .
  have ids: "l32 (s - q) = s - q" "l32 part = part" "l32 (u - part) = u - part" "l32 (s - q - 1) = s - q - 1"
    "u < part \<Longrightarrow> l32 (u - part + 1000000) = u - part + 1000000"
    using su qp by (simp_all add: l32_id)
  show ?thesis
    using that su qp(3-7) by (cases "u < part") (simp_all add: SynchronizeOnCpu_def su(1,2) qp(1,2) ids
        tv_ok_def micros_def Let_def)
qed

lemma kqpc_time_value:
  assumes "kernel_ok kt" "tv_ok base" "- (2 ^ 31) \<le> tv_sec base"
    and "micros base + up_micros kt < (2 ^ 31 - 1) * 1000000"
  obtains dst where "kqpc_time base kt = Inr dst" "tv_ok dst" "micros dst = micros base + up_micros kt"
proof -
  obtain q part where qp: "quot (PTime kt) (TimeFreq kt) = Inr q"
    "quot (q64 ((PTime kt smod TimeFreq kt) * 1000000)) (TimeFreq kt) = Inr part"
    "0 \<le> q" "q < 2 ^ 31 - 1" "0 \<le> part" "part < 1000000" "q * 1000000 + part = up_micros kt"
    using up_split [OF assms(1)] .
  have b: "0 \<le> tv_usec base" "tv_usec base < 1000000" using assms(2) by (auto simp: tv_ok_def)
  have "tv_sec base + q < 2 ^ 31 - 1"
    using assms(4) qp(5,7) b(1) unfolding micros_def by simp
  then have ids: "l32 q = q" "l32 part = part" "l32 (tv_sec base + q) = tv_sec base + q"
    "l32 (tv_usec base + part) = tv_usec base + part" "l32 (tv_sec base + q + 1) = tv_sec base + q + 1"
    "l32 (tv_usec base + part - 1000000) = tv_usec base + part - 1000000"
    using assms(3) qp(3-6) b by (simp_all add: l32_id)
  show ?thesis
    using that qp(3-7) b by (cases "1000000 \<le> tv_usec base + part")
      (simp_all add: kqpc_time_def qp(1,2) ids tv_ok_def micros_def Let_def)
qed

section \<open>Sequences of readings\<close>

fun readings :: "u32 \<Rightarrow> time_conv \<Rightarrow> (nat \<times> kernel_time) list \<Rightarrow> timeval \<Rightarrow> timeval list res" where
  "readings mode data [] old_ts = Inr []"
| "readings mode data ((cpu, kt) # rs) old_ts =
     bindR (GetTimeKQPC mode cpu kt data old_ts) (\<lambda>(dst, old_ts).
     bindR (readings mode data rs old_ts) (\<lambda>ts. Inr (dst # ts)))"

lemma tv_after_trans: "\<not> tv_after a b \<Longrightarrow> \<not> tv_after b c \<Longrightarrow> \<not> tv_after a c"
  by (auto simp: tv_after_def)

lemma GetTimeKQPC_fixup:
  assumes "GetTimeKQPC TIMESTAMPMODE_SYNCHRONIZATION_ON_CPU_WITH_FIXUP cpu kt data old_ts = Inr (dst, old_ts')"
  shows "old_ts' = dst \<and> \<not> tv_after old_ts dst"
  using assms by (auto simp: GetTimeKQPC_def per_cpu_def res_simps tv_after_def split: if_splits)

section \<open>Properties\<close>

text \<open>
  C40: in the default mode, with one synchronisation of a clock not synchronised before, a later time
  stamp is the system time at which the clock was synchronised plus the time the performance counter has
  advanced since, exact to the microsecond, with the microseconds normalised. This is so as long as, at
  both times, the counter's frequency is positive and at most 9.2 THz, the counter is not negative and
  has counted less than 68 years, the system time is between 1970 and 2038, and the time stamp too is
  before 2038.
\<close>

theorem clock_tracks_counter:
  assumes "kernel_ok kt0" "kernel_ok kt" "length (start data) = 32" "reference data = 0"
    and "unix_micros kt0 - up_micros kt0 + up_micros kt < (2 ^ 31 - 1) * 1000000"
  shows "\<exists>data' dst. TIME_SYNCHRONIZE DEFAULT_TIMESTAMPMODE [kt0] None data = Inr data'
    \<and> GET_TIME DEFAULT_TIMESTAMPMODE None cpu kt data' (dst0, old_ts) = Inr (dst, old_ts)
    \<and> tv_ok dst \<and> micros dst = unix_micros kt0 + (up_micros kt - up_micros kt0)"
proof -
  obtain tv where tv: "SynchronizeOnCpu kt0 = Inr tv" "tv_ok tv" "micros tv = unix_micros kt0 - up_micros kt0"
      "- (2 ^ 31) < tv_sec tv"
    using SynchronizeOnCpu_value [OF assms(1)] .
  obtain dst where "kqpc_time tv kt = Inr dst" "tv_ok dst" "micros dst = micros tv + up_micros kt"
    by (rule kqpc_time_value [OF assms(2) tv(2)]) (use tv(3,4) assms(5) in auto)
  then show ?thesis
    using tv assms(3,4)
    by (simp add: TIME_SYNCHRONIZE_def GET_TIME_def GetTimeKQPC_def per_cpu_def DEFAULT_TIMESTAMPMODE_def mode_defs)
qed

theorem clock_tracks_counter_witness:
  "\<exists>data' dst. TIME_SYNCHRONIZE DEFAULT_TIMESTAMPMODE [\<lparr>PTime = 5, TimeFreq = 2, SystemTime = 130000000000000007\<rparr>]
      None time_conv_init = Inr data'
    \<and> GET_TIME DEFAULT_TIMESTAMPMODE None 0 \<lparr>PTime = 9, TimeFreq = 2, SystemTime = 130000000020000007\<rparr> data'
        (\<lparr>tv_sec = 0, tv_usec = 0\<rparr>, \<lparr>tv_sec = 0, tv_usec = 0\<rparr>) = Inr (dst, \<lparr>tv_sec = 0, tv_usec = 0\<rparr>)
    \<and> tv_ok dst \<and> micros dst = unix_micros \<lparr>PTime = 5, TimeFreq = 2, SystemTime = 130000000000000007\<rparr> + 2000000"
  using clock_tracks_counter [of "\<lparr>PTime = 5, TimeFreq = 2, SystemTime = 130000000000000007\<rparr>"
      "\<lparr>PTime = 9, TimeFreq = 2, SystemTime = 130000000020000007\<rparr>" time_conv_init 0]
  by (simp add: kernel_ok_def time_conv_init_def unix_micros_def up_micros_def)

text \<open>
  C39: with the per-processor clocks and the fix-up enabled, the time stamps of packets that are stamped
  one after the other never decrease, on whichever processor each packet is stamped, however far the
  clocks of the processors are apart, and also when a counter jumps back. Two processors that stamp at the
  same time, which the code does not exclude, are not covered.
\<close>

theorem stamps_never_decrease:
  assumes "readings TIMESTAMPMODE_SYNCHRONIZATION_ON_CPU_WITH_FIXUP data rs old_ts = Inr ts"
  shows "length ts = length rs \<and> sorted_wrt (\<lambda>a b. \<not> tv_after a b) (old_ts # ts)"
  using assms
proof (induction rs arbitrary: old_ts ts)
  case (Cons r rs)
  obtain cpu kt where r: "r = (cpu, kt)" by fastforce
  obtain dst ts' where d: "GetTimeKQPC TIMESTAMPMODE_SYNCHRONIZATION_ON_CPU_WITH_FIXUP cpu kt data old_ts = Inr (dst, dst)"
      "readings TIMESTAMPMODE_SYNCHRONIZATION_ON_CPU_WITH_FIXUP data rs dst = Inr ts'" "ts = dst # ts'"
    using Cons.prems GetTimeKQPC_fixup [of cpu kt data old_ts] by (auto simp: r res_simps)
  have "\<not> tv_after old_ts dst" using GetTimeKQPC_fixup [OF d(1)] by simp
  then show ?case using Cons.IH [OF d(2)] tv_after_trans by (auto simp: d(3))
qed simp

theorem stamps_never_decrease_witness:
  "\<exists>ts. readings TIMESTAMPMODE_SYNCHRONIZATION_ON_CPU_WITH_FIXUP
        (time_conv_init\<lparr>start := replicate 31 \<lparr>tv_sec = 7, tv_usec = 0\<rparr> @ [\<lparr>tv_sec = 3, tv_usec = 5\<rparr>]\<rparr>)
        [(0, \<lparr>PTime = 9, TimeFreq = 2, SystemTime = 0\<rparr>), (31, \<lparr>PTime = 10, TimeFreq = 2, SystemTime = 0\<rparr>)]
        \<lparr>tv_sec = 0, tv_usec = 0\<rparr> = Inr ts
     \<and> ts = [\<lparr>tv_sec = 11, tv_usec = 500000\<rparr>, \<lparr>tv_sec = 11, tv_usec = 500000\<rparr>]
     \<and> length ts = 2 \<and> sorted_wrt (\<lambda>a b. \<not> tv_after a b) (\<lparr>tv_sec = 0, tv_usec = 0\<rparr> # ts)"
proof -
  let ?data = "time_conv_init\<lparr>start := replicate 31 \<lparr>tv_sec = 7, tv_usec = 0\<rparr> @ [\<lparr>tv_sec = 3, tv_usec = 5\<rparr>]\<rparr>"
  have r: "readings TIMESTAMPMODE_SYNCHRONIZATION_ON_CPU_WITH_FIXUP ?data
        [(0, \<lparr>PTime = 9, TimeFreq = 2, SystemTime = 0\<rparr>), (31, \<lparr>PTime = 10, TimeFreq = 2, SystemTime = 0\<rparr>)]
        \<lparr>tv_sec = 0, tv_usec = 0\<rparr> = Inr [\<lparr>tv_sec = 11, tv_usec = 500000\<rparr>, \<lparr>tv_sec = 11, tv_usec = 500000\<rparr>]"
    by code_simp
  show ?thesis using stamps_never_decrease [OF r] r by simp
qed

end
