(* ===== verification/Net_Tables.thy ===== *)
theory Net_Tables
  imports Icmp Ipv4 Ipv6
begin

text \<open>
  The rest of the protocol headers under \<^verbatim>\<open>src/c/include/\<close>: the constants and macros of
  \<^verbatim>\<open>IP.H\<close>, \<^verbatim>\<open>IP_ICMP.H\<close>, \<^verbatim>\<open>TCP.H\<close>,
  \<^verbatim>\<open>IF_ETHER.H\<close>, \<^verbatim>\<open>if_arp.h\<close> and \<^verbatim>\<open>ip6.h\<close> as tables and
  functions, and the remaining structures as C types. The lemmas say what the tables mean for the
  fields the library reads and writes: which types of service and which ICMP messages it tells apart,
  and that the masks of a field do not overlap.
\<close>

type_synonym table8 = "(string \<times> u8) list"

section \<open>IPv4\<close>

definition iptos_precedence :: table8 where
  "iptos_precedence =
    [(''IPTOS_PREC_NETCONTROL'', 0xe0), (''IPTOS_PREC_INTERNETCONTROL'', 0xc0),
     (''IPTOS_PREC_CRITIC_ECP'', 0xa0), (''IPTOS_PREC_FLASHOVERRIDE'', 0x80), (''IPTOS_PREC_FLASH'', 0x60),
     (''IPTOS_PREC_IMMEDIATE'', 0x40), (''IPTOS_PREC_PRIORITY'', 0x20), (''IPTOS_PREC_ROUTINE'', 0x00)]"

definition IPVERSION :: nat where "IPVERSION = 4"
definition IP_MAXPACKET :: nat where "IP_MAXPACKET = 65535"

definition IPOPT_COPIED :: "u8 \<Rightarrow> u8" where "IPOPT_COPIED o1 = o1 AND 0x80"
definition IPOPT_CLASS :: "u8 \<Rightarrow> u8" where "IPOPT_CLASS o1 = o1 AND 0x60"
definition IPOPT_NUMBER :: "u8 \<Rightarrow> u8" where "IPOPT_NUMBER o1 = o1 AND 0x1f"

definition ipopt_classes :: table8 where
  "ipopt_classes = [(''IPOPT_CONTROL'', 0x00), (''IPOPT_RESERVED1'', 0x20), (''IPOPT_DEBMEAS'', 0x40),
     (''IPOPT_RESERVED2'', 0x60)]"

definition ipopt_values :: table8 where
  "ipopt_values = [(''IPOPT_EOL'', 0), (''IPOPT_NOP'', 1), (''IPOPT_RR'', 7), (''IPOPT_TS'', 68),
     (''IPOPT_SECURITY'', 130), (''IPOPT_LSRR'', 131), (''IPOPT_SATID'', 136), (''IPOPT_SSRR'', 137)]"

definition ipopt_offsets :: "(string \<times> nat) list" where
  "ipopt_offsets = [(''IPOPT_OPTVAL'', 0), (''IPOPT_OLEN'', 1), (''IPOPT_OFFSET'', 2), (''IPOPT_MINOFF'', 4)]"

definition ip_timestamp :: ctype where
  "ip_timestamp = CStruct
     [(''ipt_code'', CChar), (''ipt_len'', CChar), (''ipt_ptr'', CChar), (''ipt_flg_oflw'', CChar),
      (''ipt_timestamp'', CUnion
         [(''ipt_time'', CArr 1 CInt),
          (''ipt_ta'', CArr 1 (CStruct [(''ipt_addr'', in_addr), (''ipt_time'', CInt)]))])]"

definition ipopt_ts_flags :: table8 where
  "ipopt_ts_flags = [(''IPOPT_TS_TSONLY'', 0), (''IPOPT_TS_TSANDADDR'', 1), (''IPOPT_TS_PRESPEC'', 3)]"

definition ipopt_security :: "(string \<times> u16) list" where
  "ipopt_security = [(''IPOPT_SECUR_UNCLASS'', 0x0000), (''IPOPT_SECUR_CONFID'', 0xf135),
     (''IPOPT_SECUR_EFTO'', 0x789a), (''IPOPT_SECUR_MMMM'', 0xbc4d), (''IPOPT_SECUR_RESTR'', 0xaf13),
     (''IPOPT_SECUR_SECRET'', 0xd788), (''IPOPT_SECUR_TOPSECRET'', 0x6bc5)]"

definition ip_parameters :: "(string \<times> nat) list" where
  "ip_parameters = [(''MAXTTL'', 255), (''IPDEFTTL'', 64), (''IPFRAGTTL'', 60), (''IPTTLDEC'', 1), (''IP_MSS'', 576)]"

text \<open>
  Precedence is what \<^verbatim>\<open>analyze_ip\<close> reports as priority, seven for network control down to
  zero for routine traffic; the three type-of-service flags and the precedence do not overlap.
\<close>

lemma precedence_is_priority:
  "map (\<lambda>(n, v). drop_bit 5 v) iptos_precedence = [7, 6, 5, 4, 3, 2, 1, 0]"
  "\<forall>(n, v) \<in> set iptos_precedence. v AND (IPTOS_LOWDELAY OR IPTOS_THROUGHPUT OR IPTOS_RELIABILITY) = 0"
  by (simp_all add: iptos_precedence_def)

text \<open>An option byte is its copied flag, its class and its number.\<close>

lemma ipopt_parts:
  "o1 = IPOPT_COPIED o1 OR IPOPT_CLASS o1 OR IPOPT_NUMBER o1"
  "IPOPT_COPIED o1 AND IPOPT_CLASS o1 = 0" "IPOPT_NUMBER o1 AND (IPOPT_COPIED o1 OR IPOPT_CLASS o1) = 0"
proof -
  have masks: "(0x80 :: u8) OR 0x60 OR 0x1f = - 1" by simp
  show "o1 = IPOPT_COPIED o1 OR IPOPT_CLASS o1 OR IPOPT_NUMBER o1"
    unfolding IPOPT_COPIED_def IPOPT_CLASS_def IPOPT_NUMBER_def
    by (simp only: bit.conj_disj_distrib [symmetric] masks) simp
  have "(o1 AND a) AND (o1 AND b) = o1 AND (a AND b)" for a b :: u8 by (simp add: and.assoc and.left_commute)
  then show "IPOPT_COPIED o1 AND IPOPT_CLASS o1 = 0" "IPOPT_NUMBER o1 AND (IPOPT_COPIED o1 OR IPOPT_CLASS o1) = 0"
    unfolding IPOPT_COPIED_def IPOPT_CLASS_def IPOPT_NUMBER_def
    by (simp_all add: bit.conj_disj_distrib)
qed

text \<open>
  Of the options, those from security on must be copied into every fragment and only the timestamp
  belongs to debugging and measurement.
\<close>

lemma ipopt_classification:
  "map fst (filter (\<lambda>(n, v). IPOPT_COPIED v \<noteq> 0) ipopt_values)
     = [''IPOPT_SECURITY'', ''IPOPT_LSRR'', ''IPOPT_SATID'', ''IPOPT_SSRR'']"
  "map (\<lambda>(n, v). map_of (map (\<lambda>(c, w). (w, c)) ipopt_classes) (IPOPT_CLASS v)) ipopt_values
     = map (\<lambda>(n, v). Some (if n = ''IPOPT_TS'' then ''IPOPT_DEBMEAS'' else ''IPOPT_CONTROL'')) ipopt_values"
  by (simp_all add: ipopt_values_def ipopt_classes_def IPOPT_COPIED_def IPOPT_CLASS_def)

lemma ip_timestamp_layout:
  "sizeof ip_timestamp = 12" "field ip_timestamp [''ipt_timestamp''] = 4"
  by code_simp+

section \<open>ICMP\<close>

definition ICMP_MINLEN :: nat where "ICMP_MINLEN = 8"
definition ICMP_TSLEN :: nat where "ICMP_TSLEN = 8 + 3 * sizeof CInt"
definition ICMP_MASKLEN :: nat where "ICMP_MASKLEN = 12"
definition ICMP_ADVLENMIN :: nat where "ICMP_ADVLENMIN = 8 + sizeof struct_ip + 8"
definition ICMP_ADVLEN :: "u8 \<Rightarrow> nat" where "ICMP_ADVLEN ip_hl = 8 + unat ip_hl * 4 + 8"

definition icmp_unreach_codes :: table8 where
  "icmp_unreach_codes =
    [(''ICMP_UNREACH_NET'', 0), (''ICMP_UNREACH_HOST'', 1), (''ICMP_UNREACH_PROTOCOL'', 2),
     (''ICMP_UNREACH_PORT'', 3), (''ICMP_UNREACH_NEEDFRAG'', 4), (''ICMP_UNREACH_SRCFAIL'', 5),
     (''ICMP_UNREACH_NET_UNKNOWN'', 6), (''ICMP_UNREACH_HOST_UNKNOWN'', 7), (''ICMP_UNREACH_ISOLATED'', 8),
     (''ICMP_UNREACH_NET_PROHIB'', 9), (''ICMP_UNREACH_HOST_PROHIB'', 10), (''ICMP_UNREACH_TOSNET'', 11),
     (''ICMP_UNREACH_TOSHOST'', 12)]"

definition icmp_redirect_codes :: table8 where
  "icmp_redirect_codes = [(''ICMP_REDIRECT_NET'', 0), (''ICMP_REDIRECT_HOST'', 1),
     (''ICMP_REDIRECT_TOSNET'', 2), (''ICMP_REDIRECT_TOSHOST'', 3)]"

definition icmp_types :: table8 where
  "icmp_types =
    [(''ICMP_ECHOREPLY'', ICMP_ECHOREPLY), (''ICMP_UNREACH'', ICMP_UNREACH),
     (''ICMP_SOURCEQUENCH'', ICMP_SOURCEQUENCH), (''ICMP_REDIRECT'', ICMP_REDIRECT), (''ICMP_ECHO'', ICMP_ECHO),
     (''ICMP_ROUTERADVERT'', ICMP_ROUTERADVERT), (''ICMP_ROUTERSOLICIT'', 10), (''ICMP_TIMXCEED'', ICMP_TIMXCEED),
     (''ICMP_PARAMPROB'', ICMP_PARAMPROB), (''ICMP_TSTAMP'', ICMP_TSTAMP), (''ICMP_TSTAMPREPLY'', ICMP_TSTAMPREPLY),
     (''ICMP_IREQ'', 15), (''ICMP_IREQREPLY'', 16), (''ICMP_MASKREQ'', ICMP_MASKREQ),
     (''ICMP_MASKREPLY'', ICMP_MASKREPLY)]"

definition ICMP_MAXTYPE :: u8 where "ICMP_MAXTYPE = 18"

definition ICMP_INFOTYPE :: "u8 \<Rightarrow> bool" where
  "ICMP_INFOTYPE type \<longleftrightarrow> type = ICMP_ECHOREPLY \<or> type = ICMP_ECHO \<or> type = ICMP_ROUTERADVERT \<or> type = 10
     \<or> type = ICMP_TSTAMP \<or> type = ICMP_TSTAMPREPLY \<or> type = 15 \<or> type = 16
     \<or> type = ICMP_MASKREQ \<or> type = ICMP_MASKREPLY"

text \<open>
  The messages for which the library reads an identifier and a sequence number are the informational
  ones of the header, but for router advertisement and solicitation, which have none.
\<close>

lemma icmp_id_messages:
  "filter (\<lambda>(n, t). icmp_has_id t) icmp_types =
     filter (\<lambda>(n, t). ICMP_INFOTYPE t \<and> n \<notin> {''ICMP_ROUTERADVERT'', ''ICMP_ROUTERSOLICIT''}) icmp_types"
  by (simp add: icmp_types_def icmp_has_id_def ICMP_INFOTYPE_def)

text \<open>The lengths are the ends of the fields the library reads.\<close>

lemma icmp_lengths:
  "ICMP_MINLEN = field struct_icmp [''icmp_dun'']"
  "ICMP_TSLEN = field struct_icmp [''icmp_dun'', ''id_ts'', ''its_ttime''] + 4"
  "ICMP_MASKLEN = field struct_icmp [''icmp_dun'', ''id_mask''] + 4"
  "ICMP_ADVLENMIN = ICMP_ADVLEN 5"
  by code_simp+

section \<open>TCP\<close>

definition tcp_options :: table8 where
  "tcp_options = [(''TCPOPT_EOL'', 0), (''TCPOPT_NOP'', 1), (''TCPOPT_MAXSEG'', 2), (''TCPOPT_WINDOW'', 3),
     (''TCPOPT_SACK_PERMITTED'', 4), (''TCPOPT_SACK'', 5), (''TCPOPT_TIMESTAMP'', 8)]"

definition tcp_option_lengths :: "(string \<times> nat) list" where
  "tcp_option_lengths = [(''TCPOLEN_MAXSEG'', 4), (''TCPOLEN_WINDOW'', 3), (''TCPOLEN_SACK_PERMITTED'', 2),
     (''TCPOLEN_TIMESTAMP'', 10), (''TCPOLEN_TSTAMP_APPA'', 10 + 2)]"

definition TCPOPT_TSTAMP_HDR :: u32 where
  "TCPOPT_TSTAMP_HDR = push_bit 24 1 OR push_bit 16 1 OR push_bit 8 8 OR 10"

definition TCP_MSS :: nat where "TCP_MSS = 512"
definition TCP_MAXWIN :: nat where "TCP_MAXWIN = 65535"
definition TCP_MAX_WINSHIFT :: nat where "TCP_MAX_WINSHIFT = 14"

definition tcp_user_options :: "(string \<times> nat) list" where
  "tcp_user_options = [(''TCP_NODELAY'', 1), (''TCP_MAXSEG'', 2)]"

text \<open>The timestamp header in network order: two no-operations, the kind and the length.\<close>

lemma tstamp_hdr_bytes:
  "map (\<lambda>k. byte32 k TCPOPT_TSTAMP_HDR) [3, 2, 1, 0] = [1, 1, 8, 10]"
  by (simp add: TCPOPT_TSTAMP_HDR_def byte32_def)

section \<open>Ethernet and ARP\<close>

definition ether_addr :: ctype where "ether_addr = CStruct [(''ether_addr_octet'', CArr 6 CChar)]"

definition if_ether_header :: ctype where
  "if_ether_header = CStruct
     [(''ether_dhost'', CArr 6 CChar), (''ether_shost'', CArr 6 CChar), (''ether_type'', CShort)]"

definition ether_types :: "(string \<times> u16) list" where
  "ether_types = [(''ETHERTYPE_PUP'', 0x0200), (''ETHERTYPE_IP'', 0x0800), (''ETHERTYPE_ARP'', 0x0806),
     (''ETHERTYPE_REVARP'', 0x8035), (''ETHERTYPE_TRAIL'', 0x1000)]"

definition ETHERTYPE_NTRAILER :: nat where "ETHERTYPE_NTRAILER = 16"
definition ETHERMTU :: nat where "ETHERMTU = 1500"
definition ETHERMIN :: nat where "ETHERMIN = 60 - 14"

definition arp_hardware :: "(string \<times> u16) list" where
  "arp_hardware = [(''ARPHRD_ETHER'', 1), (''ARPHRD_IEEE802'', 6), (''ARPHRD_FRELAY'', 15)]"

definition arp_operations :: "(string \<times> u16) list" where
  "arp_operations = [(''ARPOP_REQUEST'', 1), (''ARPOP_REPLY'', 2), (''ARPOP_REVREQUEST'', 3),
     (''ARPOP_REVREPLY'', 4), (''ARPOP_INVREQUEST'', 8), (''ARPOP_INVREPLY'', 9)]"

definition arp_flags :: table8 where
  "arp_flags = [(''ATF_INUSE'', 0x01), (''ATF_COM'', 0x02), (''ATF_PERM'', 0x04), (''ATF_PUBL'', 0x08),
     (''ATF_USETRAILERS'', 0x10)]"

text \<open>
  The library's Ethernet header is the system's under other names, a packet of the largest Ethernet
  payload fits the send buffer with its header, and the ARP packet ends within the shortest payload.
\<close>

lemma ethernet_sizes:
  "sizeof if_ether_header = sizeof ether_header"
  "map (\<lambda>f. field if_ether_header [f]) [''ether_dhost'', ''ether_shost'', ''ether_type'']
     = map (\<lambda>f. field ether_header [f]) [''ether_dest'', ''ether_src'', ''ether_type'']"
  "ETHERMTU + sizeof ether_header \<le> MAX_PACKET_SIZE" "sizeof ether_arp \<le> ETHERMIN"
  by code_simp+

section \<open>IPv6\<close>

definition IPV6_VERSION :: u8 where "IPV6_VERSION = 0x60"
definition IPV6_VERSION_MASK :: u8 where "IPV6_VERSION_MASK = 0xf0"
definition IPV6_FLOWINFO_MASK :: u32 where "IPV6_FLOWINFO_MASK = htonl 0x0fffffff"
definition IPV6_FLOWLABEL_MASK :: u32 where "IPV6_FLOWLABEL_MASK = htonl 0x000fffff"
definition ip6tos_ecn :: table8 where "ip6tos_ecn = [(''IP6TOS_CE'', 0x01), (''IP6TOS_ECT'', 0x02)]"

definition ip6_hbh :: ctype where "ip6_hbh = CStruct [(''ip6h_nxt'', CChar), (''ip6h_len'', CChar)]"
definition ip6_dest :: ctype where "ip6_dest = CStruct [(''ip6d_nxt'', CChar), (''ip6d_len'', CChar)]"

definition ip6_options :: table8 where
  "ip6_options = [(''IP6OPT_PAD1'', 0x00), (''IP6OPT_PADN'', 0x01), (''IP6OPT_JUMBO'', 0xC2),
     (''IP6OPT_ROUTER_ALERT'', 0x05), (''IP6OPT_BINDING_UPDATE'', 0xc6), (''IP6OPT_BINDING_ACK'', 0x07),
     (''IP6OPT_BINDING_REQ'', 0x08), (''IP6OPT_HOME_ADDRESS'', 0xc9), (''IP6OPT_EID'', 0x8a)]"

definition ip6_option_lengths :: "(string \<times> nat) list" where
  "ip6_option_lengths = [(''IP6OPT_JUMBO_LEN'', 6), (''IP6OPT_RTALERT_LEN'', 4), (''IP6OPT_RTALERT_MLD'', 0),
     (''IP6OPT_RTALERT_RSVP'', 1), (''IP6OPT_RTALERT_ACTNET'', 2), (''IP6OPT_MINLEN'', 2)]"

definition IP6OPT_TYPE :: "u8 \<Rightarrow> u8" where "IP6OPT_TYPE o1 = o1 AND 0xC0"

definition ip6_option_types :: table8 where
  "ip6_option_types = [(''IP6OPT_TYPE_SKIP'', 0x00), (''IP6OPT_TYPE_DISCARD'', 0x40),
     (''IP6OPT_TYPE_FORCEICMP'', 0x80), (''IP6OPT_TYPE_ICMP'', 0xC0)]"

definition IP6OPT_MUTABLE :: u8 where "IP6OPT_MUTABLE = 0x20"

definition ip6_rthdr0 :: ctype where
  "ip6_rthdr0 = CStruct
     [(''ip6r0_nxt'', CChar), (''ip6r0_len'', CChar), (''ip6r0_type'', CChar), (''ip6r0_segleft'', CChar),
      (''ip6r0_reserved'', CChar), (''ip6r0_slmap'', CArr 3 CChar), (''ip6r0_addr'', CArr 1 in6_addr)]"

definition IP6F_RESERVED_MASK :: u16 where "IP6F_RESERVED_MASK = htons 0x0006"

text \<open>
  The three masks of the fragment field split its 16 bits, as the masks of the flow word split theirs
  into version, class and label.
\<close>

lemma ip6_masks:
  "IP6F_OFF_MASK OR IP6F_RESERVED_MASK OR IP6F_MORE_FRAG = 0xffff"
  "IP6F_OFF_MASK AND IP6F_MORE_FRAG = 0" "IP6F_OFF_MASK AND IP6F_RESERVED_MASK = 0"
  "IP6F_RESERVED_MASK AND IP6F_MORE_FRAG = 0"
  "IPV6_FLOWLABEL_MASK AND IPV6_FLOWINFO_MASK = IPV6_FLOWLABEL_MASK"
  "ntohl IPV6_FLOWINFO_MASK = 0x0fffffff"
  by code_simp+

lemma ip6_layouts:
  "sizeof ip6_rthdr0 = 24" "field ip6_rthdr0 [''ip6r0_addr''] = 8" "sizeof ip6_hbh = 2" "sizeof ip6_dest = 2"
  "map (\<lambda>f. field ip6_rthdr0 [f]) [''ip6r0_nxt'', ''ip6r0_len'', ''ip6r0_type'', ''ip6r0_segleft'']
     = map (\<lambda>f. field ip6_rthdr [f]) [''ip6r_nxt'', ''ip6r_len'', ''ip6r_type'', ''ip6r_segleft'']"
  by code_simp+

lemma ip6_option_actions:
  "\<forall>(n, v) \<in> set ip6_options. IP6OPT_TYPE v \<in> set (map snd ip6_option_types)"
  "map fst (filter (\<lambda>(n, v). IP6OPT_TYPE v = 0) ip6_options)
     = [''IP6OPT_PAD1'', ''IP6OPT_PADN'', ''IP6OPT_ROUTER_ALERT'', ''IP6OPT_BINDING_ACK'', ''IP6OPT_BINDING_REQ'']"
  by (simp_all add: ip6_options_def ip6_option_types_def IP6OPT_TYPE_def)

end
