(* ===== verification/Driver_Memory.thy ===== *)
theory Driver_Memory
  imports Driver_Clock Net_Tables
begin

text \<open>
  The memory of the capture driver's monitoring engine, from the headers of
  \<^verbatim>\<open>src/c/win32/WpdPack/Include/\<close>: loads and stores in either byte order
  (\<^verbatim>\<open>memory_t.h\<close>), the engine's registers, blocks and deletion rule (\<^verbatim>\<open>tme.h\<close>),
  the records its two packet functions keep (\<^verbatim>\<open>count_packets.h\<close>,
  \<^verbatim>\<open>tcp_session.h\<close>) and the numbers of its look-up functions (\<^verbatim>\<open>normal_lookup.h\<close>,
  \<^verbatim>\<open>bucket_lookup.h\<close>).
\<close>

section \<open>Loads and stores\<close>

record MEM_TYPE =
  mem_buffer :: bytes
  mem_size :: u32

text \<open>Direct loads take the machine's byte order.\<close>

definition ULONG_AT :: "bytes \<Rightarrow> u32 \<Rightarrow> u32 res" where "ULONG_AT base off = ld32 base (unat off)"
definition LONG_AT :: "bytes \<Rightarrow> u32 \<Rightarrow> int res" where
  "LONG_AT base off = bindR (ld32 base (unat off)) (\<lambda>w. Inr (sint w))"
definition USHORT_AT :: "bytes \<Rightarrow> u32 \<Rightarrow> u16 res" where "USHORT_AT base off = ld16 base (unat off)"
definition SHORT_AT :: "bytes \<Rightarrow> u32 \<Rightarrow> int res" where
  "SHORT_AT base off = bindR (ld16 base (unat off)) (\<lambda>w. Inr (sint w))"

text \<open>The others take the bytes one by one, the most significant first.\<close>

definition SW_ULONG_AT :: "bytes \<Rightarrow> u32 \<Rightarrow> u32 res" where
  "SW_ULONG_AT b c =
     bindR (ld8 b (unat c)) (\<lambda>b0. bindR (ld8 b (unat c + 1)) (\<lambda>b1.
     bindR (ld8 b (unat c + 2)) (\<lambda>b2. bindR (ld8 b (unat c + 3)) (\<lambda>b3.
     Inr (push_bit 24 (ucast b0) OR push_bit 16 (ucast b1) OR push_bit 8 (ucast b2) OR ucast b3)))))"

definition SW_LONG_AT :: "bytes \<Rightarrow> u32 \<Rightarrow> int res" where
  "SW_LONG_AT b c = bindR (SW_ULONG_AT b c) (\<lambda>w. Inr (sint w))"

definition SW_USHORT_AT :: "bytes \<Rightarrow> u32 \<Rightarrow> u16 res" where
  "SW_USHORT_AT b os =
     bindR (ld8 b (unat os)) (\<lambda>b0. bindR (ld8 b (unat os + 1)) (\<lambda>b1.
     Inr (push_bit 8 (ucast b0) OR ucast b1)))"

definition SW_SHORT_AT :: "bytes \<Rightarrow> u32 \<Rightarrow> int res" where
  "SW_SHORT_AT b os = bindR (SW_USHORT_AT b os) (\<lambda>w. Inr (sint w))"

definition SW_ULONG_ASSIGN :: "bytes \<Rightarrow> nat \<Rightarrow> u32 \<Rightarrow> bytes res" where
  "SW_ULONG_ASSIGN m dst src =
     bindR (st8 m dst (byte32 3 src)) (\<lambda>m.
     bindR (st8 m (dst + 1) (byte32 2 src)) (\<lambda>m.
     bindR (st8 m (dst + 2) (byte32 1 src)) (\<lambda>m.
     st8 m (dst + 3) (byte32 0 src))))"

lemma be_or:
  "push_bit 24 (ucast b0) OR push_bit 16 (ucast b1) OR push_bit 8 (ucast b2) OR ucast b3 = be32 b0 b1 b2 b3"
  "push_bit 8 (ucast b0) OR ucast b1 = be16 b0 b1"
  by (simp_all add: be32_def le32_def be16_def le16_def or.commute or.left_commute)

lemma SW_ULONG_AT_ntohl: "SW_ULONG_AT b c = bindR (ULONG_AT b c) (\<lambda>w. Inr (ntohl w))"
  by (cases "unat c + 4 \<le> length b") (auto simp: SW_ULONG_AT_def ULONG_AT_def be_or ld8_def ld32_def)

lemma SW_USHORT_AT_ntohs: "SW_USHORT_AT b c = bindR (USHORT_AT b c) (\<lambda>w. Inr (ntohs w))"
  by (cases "unat c + 2 \<le> length b") (auto simp: SW_USHORT_AT_def USHORT_AT_def be_or ld8_def ld16_def)

lemma SW_ULONG_ASSIGN_splice:
  "dst + 4 \<le> length m \<Longrightarrow> SW_ULONG_ASSIGN m dst src
     = Inr (splice m dst [byte32 3 src, byte32 2 src, byte32 1 src, byte32 0 src])"
  by (simp add: SW_ULONG_ASSIGN_def st8_def st_bytes_def splice_join)

text \<open>What is stored most significant byte first is loaded as it was stored.\<close>

theorem sw_ulong_roundtrip:
  assumes "unat c + 4 \<le> length m"
  shows "\<exists>m'. SW_ULONG_ASSIGN m (unat c) w = Inr m' \<and> SW_ULONG_AT m' c = Inr w
    \<and> ULONG_AT m' c = Inr (htonl w)"
proof -
  define bs where "bs = [byte32 3 w, byte32 2 w, byte32 1 w, byte32 0 w]"
  have len: "length bs = 4" "unat c + length bs \<le> length m" using assms by (simp_all add: bs_def)
  have "ld32 (splice m (unat c) bs) (unat c + 0)
      = Inr (le32 (bs ! 0) (bs ! (0 + 1)) (bs ! (0 + 2)) (bs ! (0 + 3)))"
    by (rule ld32_splice) (use len in simp_all)
  also have "le32 (bs ! 0) (bs ! (0 + 1)) (bs ! (0 + 2)) (bs ! (0 + 3)) = htonl w"
    by (simp add: bs_def)
  finally have ld: "ULONG_AT (splice m (unat c) bs) c = Inr (htonl w)"
    by (simp only: ULONG_AT_def add_0_right)
  have st: "SW_ULONG_ASSIGN m (unat c) w = Inr (splice m (unat c) bs)"
    unfolding bs_def using assms by (rule SW_ULONG_ASSIGN_splice)
  show ?thesis
    by (rule exI [of _ "splice m (unat c) bs"]) (simp only: st ld SW_ULONG_AT_ntohl bindR_Inr ntohl_htonl simp_thms)
qed

theorem sw_ulong_roundtrip_witness:
  "\<exists>m'. SW_ULONG_ASSIGN [0, 0, 0, 0, 0, 9] (unat (1 :: u32)) 0x01020304 = Inr m'
    \<and> SW_ULONG_AT m' 1 = Inr 0x01020304 \<and> ULONG_AT m' 1 = Inr (htonl 0x01020304)"
  by (rule sw_ulong_roundtrip) simp

section \<open>The monitoring engine\<close>

definition tme_results :: "(string \<times> u32) list" where
  "tme_results = [(''TME_ERROR'', 0), (''TME_SUCCESS'', 1), (''TME_TRUE'', 2), (''TME_FALSE'', 3)]"

definition tme_constants :: "(string \<times> u32) list" where
  "tme_constants = [(''DEFAULT_MEM_EX_SIZE'', 65536), (''MAX_TME_DATA_BLOCKS'', 4), (''TME_NONE_ACTIVE'', 0xffffffff),
     (''DELTA_READ'', 2)]"

definition tme_registers :: "(string \<times> u32) list" where
  "tme_registers =
    [(''TME_LUT_ENTRIES'', 0x00), (''TME_MAX_FILL_STATE'', 0x01), (''TME_REHASHING_VALUE'', 0x02),
     (''TME_KEY_LEN'', 0x03), (''TME_SHARED_MEMORY_BLOCKS'', 0x04), (''TME_FILLED_ENTRIES'', 0x05),
     (''TME_BLOCK_SIZE'', 0x06), (''TME_EXTRA_SEGMENT_SIZE'', 0x07), (''TME_LOOKUP_CODE'', 0x08),
     (''TME_OUT_LUT_EXEC'', 0x09), (''TME_FILLED_BLOCKS'', 0x0a), (''TME_DEFAULT_EXEC'', 0x0b),
     (''TME_LUT_BASE_ADDRESS'', 0x0c), (''TME_SHARED_MEMORY_BASE_ADDRESS'', 0x0d),
     (''TME_EXTRA_SEGMENT_BASE_ADDRESS'', 0x0e), (''TME_LAST_FOUND'', 0x0f), (''TME_LAST_FOUND_BLOCK'', 0x10)]"

definition tme_defaults :: "(string \<times> u32) list" where
  "tme_defaults =
    [(''TME_LUT_ENTRIES_DEFAULT'', 32007), (''TME_REHASHING_VALUE_DEFAULT'', 1),
     (''TME_SHARED_MEMORY_BLOCKS_DEFAULT'', 16000), (''TME_BLOCK_SIZE_DEFAULT'', 64),
     (''TME_EXTRA_SEGMENT_SIZE_DEFAULT'', 0), (''TME_LOOKUP_CODE_DEFAULT'', 0), (''TME_OUT_LUT_EXEC_DEFAULT'', 0),
     (''TME_DEFAULT_EXEC_DEFAULT'', 0), (''TME_MAX_FILL_STATE_DEFAULT'', 15000)]"

text \<open>
  The register numbers are 0 to 16 without a gap. By default the look-up table is filled to less than
  its half, and every entry that may be filled has a block.
\<close>

lemma tme_register_numbers: "map snd (tme_registers) = map word_of_nat [0..<17]"
  by (simp add: tme_registers_def upt_rec)

lemma tme_default_sizes:
  "\<exists>entries blocks fill. map_of tme_defaults ''TME_LUT_ENTRIES_DEFAULT'' = Some entries
     \<and> map_of tme_defaults ''TME_SHARED_MEMORY_BLOCKS_DEFAULT'' = Some blocks
     \<and> map_of tme_defaults ''TME_MAX_FILL_STATE_DEFAULT'' = Some fill \<and> fill \<le> blocks \<and> 2 * fill < entries"
  by (simp add: tme_defaults_def)

definition IS_VALIDATED :: "u32 \<Rightarrow> nat \<Rightarrow> bool" where "IS_VALIDATED src index = (src AND push_bit index 1 \<noteq> 0)"
definition VALIDATE :: "u32 \<Rightarrow> nat \<Rightarrow> u32" where "VALIDATE src index = src OR push_bit index 1"

lemma validated_iff: "IS_VALIDATED src k \<longleftrightarrow> bit src k"
  by (simp only: IS_VALIDATED_def bit_iff_and_push_bit_not_eq_0)

lemma validate_one:
  "k < 32 \<Longrightarrow> IS_VALIDATED (VALIDATE src k) j \<longleftrightarrow> IS_VALIDATED src j \<or> j = k"
  by (auto simp: validated_iff VALIDATE_def bit_simps)

text \<open>An entry of the look-up table, and the registers of a block.\<close>

definition tme_RECORD :: ctype where "tme_RECORD = CStruct [(''block'', CInt), (''exec_fcn'', CInt)]"

record TME_DATA =
  lut_entries :: u32
  max_fill_state :: u32
  rehashing_value :: u32
  key_len :: u32
  shared_memory_blocks :: u32
  filled_entries :: u32
  block_size :: u32
  extra_segment_size :: u32
  filled_blocks :: u32
  lookup_code :: "nat option"
  default_exec :: u32
  out_lut_exec :: u32
  lut_base_address :: "nat option"
  shared_memory_base_address :: "nat option"
  extra_segment_base_address :: "nat option"
  last_read :: timeval
  enable_deletion :: u32
  last_found :: "nat option"

record TME_CORE =
  working :: u32
  active :: u32
  validated_blocks :: u32
  block_data :: "TME_DATA list"
  active_read :: u32

definition FORCE_NO_DELETION :: "timeval \<Rightarrow> timeval" where "FORCE_NO_DELETION ts = ts\<lparr>tv_sec := 0x7fffffff\<rparr>"

text \<open>\<^verbatim>\<open>DELTA_READ\<close> is two seconds; the sum is a \<^verbatim>\<open>long\<close>.\<close>

definition IS_DELETABLE :: "timeval \<Rightarrow> TME_DATA \<Rightarrow> bool" where
  "IS_DELETABLE ts data =
     (if enable_deletion data = 0 then False
      else if filled_entries data < max_fill_state data then False
      else l32 (tv_sec ts + 2) < tv_sec (last_read data))"

text \<open>
  The deletion rule: for ordinary time stamps, entries are given up only when the table is full, and only
  those last touched more than two seconds before the last reading. The time stamp that is to protect
  an entry from deletion does the opposite: adding two seconds to the largest \<^verbatim>\<open>long\<close> wraps
  around, so such an entry is the first to go.
\<close>

theorem deletion_rule:
  assumes "- (2 ^ 31) \<le> tv_sec ts" "tv_sec ts < 2 ^ 31 - 2" "- (2 ^ 31) + 1 < tv_sec (last_read data)"
  shows "IS_DELETABLE ts data \<longleftrightarrow> enable_deletion data \<noteq> 0 \<and> max_fill_state data \<le> filled_entries data
      \<and> tv_sec ts + 2 < tv_sec (last_read data)"
    and "IS_DELETABLE (FORCE_NO_DELETION ts) data
      \<longleftrightarrow> enable_deletion data \<noteq> 0 \<and> max_fill_state data \<le> filled_entries data"
proof -
  have "l32 (tv_sec ts + 2) = tv_sec ts + 2" using assms by (intro l32_id) simp_all
  then show "IS_DELETABLE ts data \<longleftrightarrow> enable_deletion data \<noteq> 0 \<and> max_fill_state data \<le> filled_entries data
      \<and> tv_sec ts + 2 < tv_sec (last_read data)"
    by (auto simp: IS_DELETABLE_def)
  have "l32 (0x7fffffff + 2) = - (2 ^ 31) + 1" by code_simp
  then show "IS_DELETABLE (FORCE_NO_DELETION ts) data
      \<longleftrightarrow> enable_deletion data \<noteq> 0 \<and> max_fill_state data \<le> filled_entries data"
    using assms(3) by (auto simp: IS_DELETABLE_def FORCE_NO_DELETION_def)
qed

section \<open>Packet functions\<close>

definition tv_layout :: ctype where "tv_layout = CStruct [(''tv_sec'', CInt), (''tv_usec'', CInt)]"

definition c_p_data :: ctype where
  "c_p_data = CStruct [(''timestamp'', tv_layout), (''packets'', CLong), (''bytes'', CLong)]"

definition tcp_session_states :: "(string \<times> u32) list" where
  "tcp_session_states = [(''UNKNOWN'', 0), (''SYN_RCV'', 1), (''SYN_ACK_RCV'', 2), (''ESTABLISHED'', 3), (''CLOSED_RST'', 4),
     (''FIN_CLN_RCV'', 5), (''FIN_SRV_RCV'', 6), (''CLOSED_FIN'', 7), (''ERROR_TCP'', 8)]"

definition tcp_session_directions :: "(string \<times> u32) list" where
  "tcp_session_directions = [(''FIRST_IS_CLN'', 0), (''FIRST_IS_SRV'', 0xffffffff), (''FIN_CLN'', 1), (''FIN_SRV'', 2),
     (''MAX_WINDOW'', 65536)]"

definition tcp_data :: ctype where
  "tcp_data = CStruct
     [(''timestamp_block'', tv_layout), (''syn_timestamp'', tv_layout), (''last_timestamp'', tv_layout),
      (''syn_ack_timestamp'', tv_layout), (''direction'', CInt), (''seq_n_0_srv'', CInt), (''seq_n_0_cln'', CInt),
      (''ack_srv'', CInt), (''ack_cln'', CInt), (''status'', CInt), (''pkts_cln_to_srv'', CInt),
      (''pkts_srv_to_cln'', CInt), (''bytes_srv_to_cln'', CInt), (''bytes_cln_to_srv'', CInt), (''close_state'', CInt)]"

definition tcp_session_flags :: "(string \<times> u8) list" where
  "tcp_session_flags = [(''FIN'', 1), (''SYN'', 2), (''RST'', 4), (''PSH'', 8), (''ACK'', 16), (''URG'', 32)]"

definition normal_lookup_codes :: "(string \<times> u32) list" where
  "normal_lookup_codes = [(''NORMAL_LUT_W_INSERT'', 0), (''NORMAL_LUT_WO_INSERT'', 1), (''DUMMY_INSERT'', 1234)]"

definition bucket_lookup_codes :: "(string \<times> u32) list" where
  "bucket_lookup_codes = [(''BUCKET_LOOKUP_INSERT'', 0x11), (''BUCKET_LOOKUP'', 0x10)]"

definition packet_function_codes :: "(string \<times> u32) list" where
  "packet_function_codes = [(''COUNT_PACKETS'', 0)]"

definition tcp_session_codes :: "(string \<times> u32) list" where "tcp_session_codes = [(''TCP_SESSION'', 0x800)]"

text \<open>
  Both records begin with the time stamp the deletion rule reads, but only the packet count fits a block
  of the default size. The codes of the look-up functions are different, as are those of the packet
  functions.
\<close>

lemma tme_blocks:
  "coffset c_p_data [''timestamp'', ''tv_sec''] = Some 0" "coffset tcp_data [''timestamp_block'', ''tv_sec''] = Some 0"
  "sizeof c_p_data = 24" "sizeof tcp_data = 76"
  by code_simp+

lemma tcp_session_too_large:
  "map_of tme_defaults ''TME_BLOCK_SIZE_DEFAULT'' = Some 64" "sizeof c_p_data \<le> 64" "64 < sizeof tcp_data"
  by code_simp+

lemma tme_codes_distinct:
  "distinct (map snd (normal_lookup_codes @ bucket_lookup_codes))"
  "distinct (map snd (packet_function_codes @ tcp_session_codes))"
  "distinct (map snd tcp_session_states)"
  by (simp_all add: normal_lookup_codes_def bucket_lookup_codes_def packet_function_codes_def tcp_session_codes_def
      tcp_session_states_def)

lemma tcp_session_flags_agree: "map snd tcp_session_flags = [TH_FIN, TH_SYN, TH_RST, TH_PUSH, TH_ACK, TH_URG]"
  by (simp add: tcp_session_flags_def)

end
