(* ===== verification/Address_Macros.thy ===== *)
theory Address_Macros
  imports Net_Tables
begin

text \<open>
  \<^verbatim>\<open>src/c/win32/WpdPack/Include/ip6_misc.h\<close>: the tests on IPv4 and IPv6 addresses, which look at
  the address as 32-bit words of the machine, against the definitions of RFC 4291 over its bytes; and the
  protocol and option numbers the header repeats.
\<close>

section \<open>Address tests\<close>

definition IN_EXPERIMENTAL :: "u32 \<Rightarrow> bool" where "IN_EXPERIMENTAL a = (a AND 0xf0000000 = 0xf0000000)"
definition IN_LOOPBACKNET :: nat where "IN_LOOPBACKNET = 127"

definition IN6ADDR_ANY_INIT :: bytes where "IN6ADDR_ANY_INIT = replicate 16 0"
definition IN6ADDR_LOOPBACK_INIT :: bytes where "IN6ADDR_LOOPBACK_INIT = replicate 15 0 @ [1]"

text \<open>An address is 16 bytes, so the words below are inside it.\<close>

definition addr32 :: "bytes \<Rightarrow> nat \<Rightarrow> u32" where
  "addr32 a k = le32 (a ! (4 * k)) (a ! (4 * k + 1)) (a ! (4 * k + 2)) (a ! (4 * k + 3))"

definition IN6_IS_ADDR_V4MAPPED :: "bytes \<Rightarrow> bool" where
  "IN6_IS_ADDR_V4MAPPED a = (addr32 a 0 = 0 \<and> addr32 a 1 = 0 \<and> addr32 a 2 = htonl 0xffff)"

definition IN6_IS_ADDR_MULTICAST :: "bytes \<Rightarrow> bool" where "IN6_IS_ADDR_MULTICAST a = (a ! 0 = 0xff)"

definition IN6_IS_ADDR_LINKLOCAL :: "bytes \<Rightarrow> bool" where
  "IN6_IS_ADDR_LINKLOCAL a = (addr32 a 0 AND htonl 0xffc00000 = htonl 0xfe800000)"

definition IN6_IS_ADDR_LOOPBACK :: "bytes \<Rightarrow> bool" where
  "IN6_IS_ADDR_LOOPBACK a = (addr32 a 0 = 0 \<and> addr32 a 1 = 0 \<and> addr32 a 2 = 0 \<and> addr32 a 3 = htonl 1)"

lemma le32_inject: "le32 a b c d = le32 a' b' c' d' \<longleftrightarrow> a = a' \<and> b = b' \<and> c = c' \<and> d = d'"
proof
  assume e: "le32 a b c d = le32 a' b' c' d'"
  have "byte32 k (le32 a b c d) = byte32 k (le32 a' b' c' d')" for k using e by simp
  from this [of 0] this [of "Suc 0"] this [of 2] this [of 3]
  show "a = a' \<and> b = b' \<and> c = c' \<and> d = d'" by simp
qed simp

lemma htonl_be32: "htonl (be32 a b c d) = le32 a b c d"
  using ntohl_le32 [of a b c d] htonl_htonl [of "le32 a b c d"] by (simp add: ntohl_def)

lemma be32_constants:
  "be32 0 0 0 0 = 0" "be32 0 0 0xff 0xff = 0xffff" "be32 0 0 0 1 = 1" "be32 0xff 0xc0 0 0 = 0xffc00000"
  "be32 0xfe 0x80 0 0 = 0xfe800000" "be32 0xf0 0 0 0 = 0xf0000000"
  unfolding be32_def le32_def by simp_all

lemmas htonl_constants = be32_constants(2-5) [THEN arg_cong [where f = htonl], unfolded htonl_be32, symmetric]

lemma le32_eq_0: "le32 a b c d = 0 \<longleftrightarrow> a = 0 \<and> b = 0 \<and> c = 0 \<and> d = 0"
  using le32_inject [of a b c d 0 0 0 0] by (simp add: be32_constants(1) [unfolded be32_def])

lemma byte32_and: "byte32 k (x AND y) = byte32 k x AND byte32 k y"
  by (rule bit_word_eqI) (auto simp: byte32_def bit_simps)

lemma le32_and: "le32 a b c d AND le32 a' b' c' d' = le32 (a AND a') (b AND b') (c AND c') (d AND d')"
  by (subst le32_byte32 [of "le32 a b c d AND le32 a' b' c' d'", symmetric]) (simp add: byte32_and del: le32_byte32)

text \<open>
  The tests over the words are the definitions of RFC 4291 over the bytes: mapped IPv4 addresses are
  \<open>::ffff:0:0/96\<close>, link-local ones \<open>fe80::/10\<close>, the loopback address is \<open>::1\<close>; an IPv4
  address is experimental when it begins with four ones.
\<close>

lemma sixteen_bytes:
  assumes "length a = 16"
  obtains a0 a1 a2 a3 a4 a5 a6 a7 a8 a9 a10 a11 a12 a13 a14 a15
    where "a = [a0, a1, a2, a3, a4, a5, a6, a7, a8, a9, a10, a11, a12, a13, a14, a15]"
  using assms by (auto simp: numeral_eq_Suc length_Suc_conv)

lemma v4mapped_bytes:
  assumes "length a = 16"
  shows "IN6_IS_ADDR_V4MAPPED a \<longleftrightarrow> take 12 a = replicate 10 0 @ [0xff, 0xff]"
  by (rule sixteen_bytes [OF assms])
     (simp add: IN6_IS_ADDR_V4MAPPED_def addr32_def le32_eq_0 htonl_constants le32_inject numeral_eq_Suc)

lemma linklocal_bytes: "IN6_IS_ADDR_LINKLOCAL a \<longleftrightarrow> a ! 0 AND 0xff = 0xfe \<and> a ! 1 AND 0xc0 = 0x80"
  by (simp add: IN6_IS_ADDR_LINKLOCAL_def addr32_def htonl_constants le32_and le32_inject)

lemma loopback_bytes:
  assumes "length a = 16"
  shows "IN6_IS_ADDR_LOOPBACK a \<longleftrightarrow> a = IN6ADDR_LOOPBACK_INIT"
  by (rule sixteen_bytes [OF assms])
     (simp add: IN6_IS_ADDR_LOOPBACK_def IN6ADDR_LOOPBACK_INIT_def addr32_def le32_eq_0 htonl_constants le32_inject
       numeral_eq_Suc)

lemma experimental_bytes: "IN_EXPERIMENTAL (be32 b0 b1 b2 b3) \<longleftrightarrow> b0 AND 0xf0 = 0xf0"
  unfolding IN_EXPERIMENTAL_def be32_constants(6) [symmetric] by (simp add: be32_def le32_and le32_inject)

text \<open>Here an address that is link-local is not a multicast one, and not the loopback address.\<close>

lemma address_kinds_disjoint:
  assumes "length a = 16" "IN6_IS_ADDR_LINKLOCAL a"
  shows "\<not> IN6_IS_ADDR_MULTICAST a" "\<not> IN6_IS_ADDR_LOOPBACK a" "\<not> IN6_IS_ADDR_V4MAPPED a"
  using assms(2) unfolding linklocal_bytes
  by (auto simp: IN6_IS_ADDR_MULTICAST_def loopback_bytes [OF assms(1)] IN6ADDR_LOOPBACK_INIT_def nth_append
      IN6_IS_ADDR_V4MAPPED_def addr32_def le32_eq_0)

section \<open>Socket addresses\<close>

definition misc_in6_addr :: ctype where
  "misc_in6_addr = CStruct [(''in6_u'', CUnion [(''u6_addr8'', CArr 16 CChar), (''u6_addr16'', CArr 8 CShort),
     (''u6_addr32'', CArr 4 CInt)])]"

definition sockaddr_in6 :: ctype where
  "sockaddr_in6 = CStruct [(''sin6_family'', CShort), (''sin6_port'', CShort), (''sin6_flowinfo'', CInt),
     (''sin6_addr'', misc_in6_addr)]"

definition addrinfo :: "ctype \<Rightarrow> ctype \<Rightarrow> ctype" where
  "addrinfo szt ptr = CStruct [(''ai_flags'', CInt), (''ai_family'', CInt), (''ai_socktype'', CInt),
     (''ai_protocol'', CInt), (''ai_addrlen'', szt), (''ai_canonname'', ptr), (''ai_addr'', ptr), (''ai_next'', ptr)]"

text \<open>The union gives the address the alignment of a word; its size stays 16.\<close>

lemma socket_layouts:
  "sizeof misc_in6_addr = sizeof in6_addr" "calign misc_in6_addr = 4" "calign in6_addr = 1"
  "sizeof sockaddr_in6 = 24" "coffset sockaddr_in6 [''sin6_addr''] = Some 8"
  "sizeof (addrinfo CInt CInt) = 32" "sizeof (addrinfo CLong CLong) = 48"
  by code_simp+

section \<open>Numbers\<close>

definition misc_protocols :: table8 where
  "misc_protocols = [(''IPPROTO_HOPOPTS'', 0), (''IPPROTO_IPV6'', 41), (''IPPROTO_ROUTING'', 43),
     (''IPPROTO_FRAGMENT'', 44), (''IPPROTO_ESP'', 50), (''IPPROTO_AH'', 51), (''IPPROTO_ICMPV6'', 58),
     (''IPPROTO_NONE'', 59), (''IPPROTO_DSTOPTS'', 60), (''IPPROTO_PIM'', 103)]"

definition IPV6_RTHDR_TYPE_0 :: u8 where "IPV6_RTHDR_TYPE_0 = 0"

definition misc_options :: table8 where
  "misc_options = [(''IP6OPT_PAD1'', 0x00), (''IP6OPT_PADN'', 0x01), (''IP6OPT_JUMBO'', 0xC2),
     (''IP6OPT_ROUTER_ALERT'', 0x05), (''IP6OPT_BINDING_UPDATE'', 0xc6), (''IP6OPT_BINDING_ACK'', 0x07),
     (''IP6OPT_BINDING_REQ'', 0x08), (''IP6OPT_HOME_ADDRESS'', 0xc9), (''IP6OPT_EID'', 0x8a)]"

definition misc_option_lengths :: "(string \<times> nat) list" where
  "misc_option_lengths = [(''IP6OPT_JUMBO_LEN'', 6), (''IP6OPT_RTALERT_LEN'', 4), (''IP6OPT_RTALERT_MLD'', 0),
     (''IP6OPT_RTALERT_RSVP'', 1), (''IP6OPT_RTALERT_ACTNET'', 2), (''IP6OPT_MINLEN'', 2)]"

definition misc_IP6OPT_TYPE :: "u8 \<Rightarrow> u8" where "misc_IP6OPT_TYPE o1 = o1 AND 0xC0"

definition misc_option_types :: table8 where
  "misc_option_types = [(''IP6OPT_TYPE_SKIP'', 0x00), (''IP6OPT_TYPE_DISCARD'', 0x40),
     (''IP6OPT_TYPE_FORCEICMP'', 0x80), (''IP6OPT_TYPE_ICMP'', 0xC0)]"

text \<open>The numbers are those of the library's own \<^verbatim>\<open>netinet/ip6.h\<close>.\<close>

lemma misc_numbers_agree:
  "misc_options = ip6_options" "misc_option_lengths = ip6_option_lengths" "misc_option_types = ip6_option_types"
  "misc_IP6OPT_TYPE = IP6OPT_TYPE"
  by (simp_all add: fun_eq_iff misc_options_def ip6_options_def misc_option_lengths_def ip6_option_lengths_def
      misc_option_types_def ip6_option_types_def misc_IP6OPT_TYPE_def IP6OPT_TYPE_def)

lemma misc_protocols_agree:
  "map (\<lambda>n. map_of misc_protocols n) [''IPPROTO_HOPOPTS'', ''IPPROTO_ROUTING'', ''IPPROTO_FRAGMENT'', ''IPPROTO_AH'',
     ''IPPROTO_DSTOPTS''] = map Some [IPPROTO_HOPOPTS, IPPROTO_ROUTING, IPPROTO_FRAGMENT, IPPROTO_AH, IPPROTO_DSTOPTS]"
  by (simp add: misc_protocols_def)

end
