(* ===== verification/Pcap_Interface.thy ===== *)
theory Pcap_Interface
  imports Prelude
begin

text \<open>
  The boundary to the capture library: the functions \<^verbatim>\<open>pcap.h\<close> declares, and every
  call the native code makes to them (\<^verbatim>\<open>JpcapCaptor.c\<close>, \<^verbatim>\<open>JpcapSender.c\<close>,
  \<^verbatim>\<open>JpcapWriter.c\<close>), with the types of the arguments and of the variable that takes the
  result. These are the calls whose answers are arguments of the other theories' definitions.
\<close>

section \<open>C types and assignment\<close>

datatype cty =
    TVoid | TChar | TUChar | TInt | TUInt | TLong | TULong | TSize
  | TNamed string               \<comment> \<open>a structure or a library type\<close>
  | TConst cty
  | TPtr cty
  | TFun "cty list" cty

fun arithmetic :: "cty \<Rightarrow> bool" where
  "arithmetic t \<longleftrightarrow> t \<in> {TChar, TUChar, TInt, TUInt, TLong, TULong, TSize}"

fun unconst :: "cty \<Rightarrow> cty" where
  "unconst (TConst t) = t"
| "unconst t = t"

text \<open>
  The constraint of C on assignment and argument passing: arithmetic types convert, a pointer may
  gain \<^verbatim>\<open>const\<close> on what it points to but not lose it, and pointers to void match any
  object pointer.
\<close>

fun assignable :: "cty \<Rightarrow> cty \<Rightarrow> bool" where
  "assignable (TPtr a) (TPtr f) \<longleftrightarrow>
     (unconst a = unconst f \<or> unconst a = TVoid \<or> unconst f = TVoid) \<and> (unconst a \<noteq> a \<longrightarrow> unconst f \<noteq> f)"
| "assignable a f \<longleftrightarrow> a = f \<or> arithmetic a \<and> arithmetic f"

record c_proto =
  cp_ret :: cty
  cp_name :: string
  cp_args :: "cty list"

abbreviation cfun :: "cty \<Rightarrow> string \<Rightarrow> cty list \<Rightarrow> c_proto" where
  "cfun r n as \<equiv> \<lparr>cp_ret = r, cp_name = n, cp_args = as\<rparr>"

abbreviation cstr :: cty where "cstr \<equiv> TPtr (TConst TChar)"
abbreviation cbuf :: cty where "cbuf \<equiv> TPtr TChar"
abbreviation pcap_t :: cty where "pcap_t \<equiv> TPtr (TNamed ''pcap'')"
abbreviation dumper_t :: cty where "dumper_t \<equiv> TPtr (TNamed ''pcap_dumper'')"
abbreviation file_t :: cty where "file_t \<equiv> TPtr (TNamed ''FILE'')"
abbreviation pkthdr_t :: cty where "pkthdr_t \<equiv> TNamed ''pcap_pkthdr''"
abbreviation program_t :: cty where "program_t \<equiv> TPtr (TNamed ''bpf_program'')"
abbreviation insn_t :: cty where "insn_t \<equiv> TPtr (TNamed ''bpf_insn'')"
abbreviation const_bytes :: cty where "const_bytes \<equiv> TPtr (TConst TUChar)"

section \<open>The declarations of \<^verbatim>\<open>pcap.h\<close>\<close>

definition pcap_handler :: cty where
  "pcap_handler = TPtr (TFun [TPtr TUChar, TPtr (TConst pkthdr_t), const_bytes] TVoid)"

definition pcap_open_h :: "c_proto list" where
  "pcap_open_h =
    [cfun cbuf ''pcap_lookupdev'' [cbuf],
     cfun TInt ''pcap_lookupnet'' [cstr, TPtr TUInt, TPtr TUInt, cbuf],
     cfun pcap_t ''pcap_open_live'' [cstr, TInt, TInt, TInt, cbuf],
     cfun pcap_t ''pcap_open_dead'' [TInt, TInt],
     cfun pcap_t ''pcap_open_offline'' [cstr, cbuf],
     cfun pcap_t ''pcap_fopen_offline'' [file_t, cbuf],
     cfun TVoid ''pcap_close'' [pcap_t]]"

definition pcap_read_h :: "c_proto list" where
  "pcap_read_h =
    [cfun TInt ''pcap_loop'' [pcap_t, TInt, pcap_handler, TPtr TUChar],
     cfun TInt ''pcap_dispatch'' [pcap_t, TInt, pcap_handler, TPtr TUChar],
     cfun const_bytes ''pcap_next'' [pcap_t, TPtr pkthdr_t],
     cfun TInt ''pcap_next_ex'' [pcap_t, TPtr (TPtr pkthdr_t), TPtr const_bytes],
     cfun TVoid ''pcap_breakloop'' [pcap_t]]"

definition pcap_control_h :: "c_proto list" where
  "pcap_control_h =
    [cfun TInt ''pcap_stats'' [pcap_t, TPtr (TNamed ''pcap_stat'')],
     cfun TInt ''pcap_setfilter'' [pcap_t, program_t],
     cfun TInt ''pcap_setdirection'' [pcap_t, TNamed ''pcap_direction_t''],
     cfun TInt ''pcap_getnonblock'' [pcap_t, cbuf],
     cfun TInt ''pcap_setnonblock'' [pcap_t, TInt, cbuf],
     cfun TVoid ''pcap_perror'' [pcap_t, cbuf],
     cfun TInt ''pcap_inject'' [pcap_t, TPtr (TConst TVoid), TSize],
     cfun TInt ''pcap_sendpacket'' [pcap_t, const_bytes, TInt],
     cfun cbuf ''pcap_strerror'' [TInt],
     cfun cbuf ''pcap_geterr'' [pcap_t]]"

definition pcap_filter_h :: "c_proto list" where
  "pcap_filter_h =
    [cfun TInt ''pcap_compile'' [pcap_t, program_t, cbuf, TInt, TUInt],
     cfun TInt ''pcap_compile_nopcap'' [TInt, TInt, program_t, cbuf, TInt, TUInt],
     cfun TVoid ''pcap_freecode'' [program_t]]"

definition pcap_datalink_h :: "c_proto list" where
  "pcap_datalink_h =
    [cfun TInt ''pcap_datalink'' [pcap_t],
     cfun TInt ''pcap_list_datalinks'' [pcap_t, TPtr (TPtr TInt)],
     cfun TInt ''pcap_set_datalink'' [pcap_t, TInt],
     cfun TInt ''pcap_datalink_name_to_val'' [cstr],
     cfun cstr ''pcap_datalink_val_to_name'' [TInt],
     cfun cstr ''pcap_datalink_val_to_description'' [TInt],
     cfun TInt ''pcap_snapshot'' [pcap_t],
     cfun TInt ''pcap_is_swapped'' [pcap_t],
     cfun TInt ''pcap_major_version'' [pcap_t],
     cfun TInt ''pcap_minor_version'' [pcap_t]]"

definition pcap_file_h :: "c_proto list" where
  "pcap_file_h =
    [cfun file_t ''pcap_file'' [pcap_t],
     cfun TInt ''pcap_fileno'' [pcap_t],
     cfun dumper_t ''pcap_dump_open'' [pcap_t, cstr],
     cfun dumper_t ''pcap_dump_fopen'' [pcap_t, file_t],
     cfun file_t ''pcap_dump_file'' [dumper_t],
     cfun TLong ''pcap_dump_ftell'' [dumper_t],
     cfun TInt ''pcap_dump_flush'' [dumper_t],
     cfun TVoid ''pcap_dump_close'' [dumper_t],
     cfun TVoid ''pcap_dump'' [TPtr TUChar, TPtr (TConst pkthdr_t), const_bytes]]"

definition pcap_devices_h :: "c_proto list" where
  "pcap_devices_h =
    [cfun TInt ''pcap_findalldevs'' [TPtr (TPtr (TNamed ''pcap_if'')), cbuf],
     cfun TVoid ''pcap_freealldevs'' [TPtr (TNamed ''pcap_if'')],
     cfun cstr ''pcap_lib_version'' []]"

definition bpf_h :: "c_proto list" where
  "bpf_h =
    [cfun TUInt ''bpf_filter'' [insn_t, TPtr TUChar, TUInt, TUInt],
     cfun TInt ''bpf_validate'' [insn_t, TInt],
     cfun cbuf ''bpf_image'' [insn_t, TInt],
     cfun TVoid ''bpf_dump'' [program_t, TInt]]"

text \<open>The declarations outside every platform branch.\<close>

definition pcap_h :: "c_proto list" where
  "pcap_h = pcap_open_h @ pcap_read_h @ pcap_control_h @ pcap_filter_h @ pcap_datalink_h @ pcap_file_h
     @ pcap_devices_h @ bpf_h"

lemmas pcap_h_defs = pcap_h_def pcap_open_h_def pcap_read_h_def pcap_control_h_def pcap_filter_h_def
  pcap_datalink_h_def pcap_file_h_def pcap_devices_h_def bpf_h_def pcap_handler_def

lemma pcap_h_distinct: "distinct (map cp_name pcap_h)"
  by code_simp

section \<open>The calls of the native code\<close>

text \<open>Function, argument types, and the type of the variable or parameter that takes the result.\<close>

record c_call =
  cc_name :: string
  cc_args :: "cty list"
  cc_result :: "cty option"

abbreviation ccall :: "string \<Rightarrow> cty list \<Rightarrow> cty option \<Rightarrow> c_call" where
  "ccall n as r \<equiv> \<lparr>cc_name = n, cc_args = as, cc_result = r\<rparr>"

definition dispatcher_handler_type :: cty where
  "dispatcher_handler_type = TPtr (TFun [TPtr TUChar, TPtr (TConst pkthdr_t), const_bytes] TVoid)"

definition device_pcap_calls :: "c_call list" where
  "device_pcap_calls =
    [ccall ''pcap_findalldevs'' [TPtr (TPtr (TNamed ''pcap_if'')), cbuf] (Some TInt),
     ccall ''pcap_open_live'' [cbuf, TInt, TInt, TInt, cbuf] (Some pcap_t),
     ccall ''pcap_datalink'' [pcap_t] (Some TInt),
     ccall ''pcap_datalink_val_to_name'' [TInt] (Some cstr),
     ccall ''pcap_datalink_val_to_description'' [TInt] (Some cstr),
     ccall ''pcap_close'' [pcap_t] None,
     ccall ''pcap_freealldevs'' [TPtr (TNamed ''pcap_if'')] None]"

definition open_pcap_calls :: "c_call list" where
  "open_pcap_calls =
    [ccall ''pcap_open_live'' [cbuf, TInt, TInt, TInt, cbuf] (Some pcap_t),
     ccall ''pcap_lookupnet'' [cbuf, TPtr TUInt, TPtr TUInt, cbuf] (Some TInt),
     ccall ''pcap_datalink'' [pcap_t] (Some TInt),
     ccall ''pcap_open_offline'' [cbuf, cbuf] (Some pcap_t),
     ccall ''pcap_datalink'' [pcap_t] (Some TInt),
     ccall ''pcap_close'' [pcap_t] None]"

definition capture_pcap_calls :: "c_call list" where
  "capture_pcap_calls =
    [ccall ''pcap_dispatch'' [pcap_t, TInt, dispatcher_handler_type, TPtr TUChar] (Some TInt),
     ccall ''pcap_loop'' [pcap_t, TInt, dispatcher_handler_type, TPtr TUChar] (Some TInt),
     ccall ''pcap_next_ex'' [pcap_t, TPtr (TPtr pkthdr_t), TPtr const_bytes] (Some TInt)]"

definition nonblock_pcap_calls :: "c_call list" where
  "nonblock_pcap_calls =
    [ccall ''pcap_setnonblock'' [pcap_t, TUChar, cbuf] None,
     ccall ''pcap_getnonblock'' [pcap_t, cbuf] (Some TInt)]"

definition filter_pcap_calls :: "c_call list" where
  "filter_pcap_calls =
    [ccall ''pcap_compile'' [pcap_t, program_t, cbuf, TInt, TUInt] (Some TInt),
     ccall ''pcap_geterr'' [pcap_t] (Some cbuf),
     ccall ''pcap_setfilter'' [pcap_t, program_t] (Some TInt),
     ccall ''pcap_geterr'' [pcap_t] (Some cbuf)]"

definition stat_pcap_calls :: "c_call list" where
  "stat_pcap_calls =
    [ccall ''pcap_breakloop'' [pcap_t] None,
     ccall ''pcap_stats'' [pcap_t, TPtr (TNamed ''pcap_stat'')] None]"

definition timeout_pcap_calls :: "c_call list" where
  "timeout_pcap_calls =
    [ccall ''pcap_fileno'' [pcap_t] (Some TInt),
     ccall ''pcap_fileno'' [pcap_t] (Some TInt)]"

definition sender_pcap_calls :: "c_call list" where
  "sender_pcap_calls =
    [ccall ''pcap_open_live'' [cbuf, TInt, TInt, TInt, cbuf] (Some pcap_t),
     ccall ''pcap_sendpacket'' [pcap_t, cbuf, TInt] (Some TInt),
     ccall ''pcap_close'' [pcap_t] None]"

definition writer_pcap_calls :: "c_call list" where
  "writer_pcap_calls =
    [ccall ''pcap_dump_open'' [pcap_t, cbuf] (Some dumper_t),
     ccall ''pcap_geterr'' [pcap_t] (Some cstr),
     ccall ''pcap_dump_close'' [dumper_t] None,
     ccall ''pcap_dump'' [TPtr TUChar, TPtr pkthdr_t, cbuf] None]"

definition pcap_calls :: "c_call list" where
  "pcap_calls = device_pcap_calls @ open_pcap_calls @ capture_pcap_calls @ nonblock_pcap_calls
     @ filter_pcap_calls @ stat_pcap_calls @ timeout_pcap_calls @ sender_pcap_calls @ writer_pcap_calls"

lemmas pcap_calls_defs = pcap_calls_def device_pcap_calls_def open_pcap_calls_def capture_pcap_calls_def
  nonblock_pcap_calls_def filter_pcap_calls_def stat_pcap_calls_def timeout_pcap_calls_def sender_pcap_calls_def
  writer_pcap_calls_def dispatcher_handler_type_def

definition call_ok :: "c_call \<Rightarrow> bool" where
  "call_ok c \<longleftrightarrow> list_ex (\<lambda>p. cp_name p = cc_name c \<and> list_all2 assignable (cc_args c) (cp_args p)
     \<and> (case cc_result c of None \<Rightarrow> True | Some t \<Rightarrow> assignable (cp_ret p) t)) pcap_h"

text \<open>
  Every call names a declared function and passes as many arguments as it takes. The types fit but
  for the two calls that hand over the packet buffer, an array of \<^verbatim>\<open>char\<close> where the
  library takes unsigned bytes.
\<close>

lemma pcap_calls_declared:
  "list_all (\<lambda>c. list_ex (\<lambda>p. cp_name p = cc_name c \<and> length (cc_args c) = length (cp_args p)) pcap_h) pcap_calls"
  by code_simp

lemma pcap_calls_typed:
  "map cc_name (filter (\<lambda>c. \<not> call_ok c) pcap_calls) = [''pcap_sendpacket'', ''pcap_dump'']"
  by code_simp

text \<open>\<^verbatim>\<open>dispatcher_handler\<close> is a \<^verbatim>\<open>pcap_handler\<close>.\<close>

lemma dispatcher_handler_typed: "dispatcher_handler_type = pcap_handler"
  by (simp add: dispatcher_handler_type_def pcap_handler_def)

text \<open>
  What the library's documentation says has to be released, and by what. Every kind of object the
  native code obtains it also releases somewhere, but for the programs \<^verbatim>\<open>setFilter\<close> has
  compiled: none is ever freed.
\<close>

definition releases :: "(string \<times> string) list" where
  "releases = [(''pcap_findalldevs'', ''pcap_freealldevs''), (''pcap_open_live'', ''pcap_close''),
     (''pcap_open_offline'', ''pcap_close''), (''pcap_dump_open'', ''pcap_dump_close''),
     (''pcap_compile'', ''pcap_freecode'')]"

lemma only_filters_leak:
  "filter (\<lambda>(get, free). get \<in> set (map cc_name pcap_calls) \<and> free \<notin> set (map cc_name pcap_calls)) releases
    = [(''pcap_compile'', ''pcap_freecode'')]"
  by code_simp

end
