(* ===== verification/Driver_Interface.thy ===== *)
theory Driver_Interface
  imports Pcap_Interface Net_Headers
begin

text \<open>
  The interface of the capture driver, from the headers of
  \<^verbatim>\<open>src/c/win32/WpdPack/Include/\<close>: the control codes of \<^verbatim>\<open>Devioctl.h\<close>,
  \<^verbatim>\<open>Ntddpack.h\<close> and \<^verbatim>\<open>Packet32.h\<close> with the macro that composes them, the
  structures the driver and its library exchange, the functions of \<^verbatim>\<open>Packet32.h\<close>,
  \<^verbatim>\<open>Win32-Extensions.h\<close> and \<^verbatim>\<open>remote-ext.h\<close>, and the capture library's own
  structures (\<^verbatim>\<open>pcap-int.h\<close>), among them the record formats of dump files.
\<close>

section \<open>Control codes\<close>

definition file_devices :: "(string \<times> u32) list" where
  "file_devices =
    [(''FILE_DEVICE_BEEP'', 0x01), (''FILE_DEVICE_CD_ROM'', 0x02), (''FILE_DEVICE_CD_ROM_FILE_SYSTEM'', 0x03),
     (''FILE_DEVICE_CONTROLLER'', 0x04), (''FILE_DEVICE_DATALINK'', 0x05), (''FILE_DEVICE_DFS'', 0x06),
     (''FILE_DEVICE_DISK'', 0x07), (''FILE_DEVICE_DISK_FILE_SYSTEM'', 0x08), (''FILE_DEVICE_FILE_SYSTEM'', 0x09),
     (''FILE_DEVICE_INPORT_PORT'', 0x0a), (''FILE_DEVICE_KEYBOARD'', 0x0b), (''FILE_DEVICE_MAILSLOT'', 0x0c),
     (''FILE_DEVICE_MIDI_IN'', 0x0d), (''FILE_DEVICE_MIDI_OUT'', 0x0e), (''FILE_DEVICE_MOUSE'', 0x0f),
     (''FILE_DEVICE_MULTI_UNC_PROVIDER'', 0x10), (''FILE_DEVICE_NAMED_PIPE'', 0x11), (''FILE_DEVICE_NETWORK'', 0x12),
     (''FILE_DEVICE_NETWORK_BROWSER'', 0x13), (''FILE_DEVICE_NETWORK_FILE_SYSTEM'', 0x14), (''FILE_DEVICE_NULL'', 0x15),
     (''FILE_DEVICE_PARALLEL_PORT'', 0x16), (''FILE_DEVICE_PHYSICAL_NETCARD'', 0x17), (''FILE_DEVICE_PRINTER'', 0x18),
     (''FILE_DEVICE_SCANNER'', 0x19), (''FILE_DEVICE_SERIAL_MOUSE_PORT'', 0x1a), (''FILE_DEVICE_SERIAL_PORT'', 0x1b),
     (''FILE_DEVICE_SCREEN'', 0x1c), (''FILE_DEVICE_SOUND'', 0x1d), (''FILE_DEVICE_STREAMS'', 0x1e),
     (''FILE_DEVICE_TAPE'', 0x1f), (''FILE_DEVICE_TAPE_FILE_SYSTEM'', 0x20), (''FILE_DEVICE_TRANSPORT'', 0x21),
     (''FILE_DEVICE_UNKNOWN'', 0x22), (''FILE_DEVICE_VIDEO'', 0x23), (''FILE_DEVICE_VIRTUAL_DISK'', 0x24),
     (''FILE_DEVICE_WAVE_IN'', 0x25), (''FILE_DEVICE_WAVE_OUT'', 0x26), (''FILE_DEVICE_8042_PORT'', 0x27),
     (''FILE_DEVICE_NETWORK_REDIRECTOR'', 0x28), (''FILE_DEVICE_BATTERY'', 0x29), (''FILE_DEVICE_BUS_EXTENDER'', 0x2a),
     (''FILE_DEVICE_MODEM'', 0x2b), (''FILE_DEVICE_VDM'', 0x2c), (''FILE_DEVICE_MASS_STORAGE'', 0x2d)]"

definition CTL_CODE :: "u32 \<Rightarrow> u32 \<Rightarrow> u32 \<Rightarrow> u32 \<Rightarrow> u32" where
  "CTL_CODE DeviceType Function Method Access =
     push_bit 16 DeviceType OR push_bit 14 Access OR push_bit 2 Function OR Method"

definition ioctl_methods :: "(string \<times> u32) list" where
  "ioctl_methods = [(''METHOD_BUFFERED'', 0), (''METHOD_IN_DIRECT'', 1), (''METHOD_OUT_DIRECT'', 2), (''METHOD_NEITHER'', 3)]"

definition ioctl_access :: "(string \<times> u32) list" where
  "ioctl_access = [(''FILE_ANY_ACCESS'', 0), (''FILE_READ_ACCESS'', 1), (''FILE_WRITE_ACCESS'', 2)]"

definition FILE_DEVICE_PROTOCOL :: u32 where "FILE_DEVICE_PROTOCOL = 0x8000"

definition packet_ioctls :: "(string \<times> u32) list" where
  "packet_ioctls =
    [(''IOCTL_PROTOCOL_STATISTICS'', CTL_CODE FILE_DEVICE_PROTOCOL 2 0 0),
     (''IOCTL_PROTOCOL_RESET'', CTL_CODE FILE_DEVICE_PROTOCOL 3 0 0),
     (''IOCTL_PROTOCOL_READ'', CTL_CODE FILE_DEVICE_PROTOCOL 4 0 0),
     (''IOCTL_PROTOCOL_WRITE'', CTL_CODE FILE_DEVICE_PROTOCOL 5 0 0),
     (''IOCTL_PROTOCOL_MACNAME'', CTL_CODE FILE_DEVICE_PROTOCOL 6 0 0),
     (''IOCTL_OPEN'', CTL_CODE FILE_DEVICE_PROTOCOL 7 0 0),
     (''IOCTL_CLOSE'', CTL_CODE FILE_DEVICE_PROTOCOL 8 0 0)]"

definition ntddpack_ioctls :: "(string \<times> u32) list" where
  "ntddpack_ioctls =
    [(''IOCTL_PROTOCOL_QUERY_OID'', CTL_CODE FILE_DEVICE_PROTOCOL 0 0 0),
     (''IOCTL_PROTOCOL_SET_OID'', CTL_CODE FILE_DEVICE_PROTOCOL 1 0 0),
     (''IOCTL_PROTOCOL_STATISTICS'', CTL_CODE FILE_DEVICE_PROTOCOL 2 0 0),
     (''IOCTL_PROTOCOL_RESET'', CTL_CODE FILE_DEVICE_PROTOCOL 3 0 0),
     (''IOCTL_PROTOCOL_READ'', CTL_CODE FILE_DEVICE_PROTOCOL 4 0 0),
     (''IOCTL_PROTOCOL_WRITE'', CTL_CODE FILE_DEVICE_PROTOCOL 5 0 0),
     (''IOCTL_PROTOCOL_MACNAME'', CTL_CODE FILE_DEVICE_PROTOCOL 6 0 0),
     (''IOCTL_OPEN'', CTL_CODE FILE_DEVICE_PROTOCOL 7 0 0),
     (''IOCTL_CLOSE'', CTL_CODE FILE_DEVICE_PROTOCOL 8 0 0)]"

definition bioc_codes :: "(string \<times> u32) list" where
  "bioc_codes =
    [(''pBIOCSETBUFFERSIZE'', 9592), (''pBIOCSETF'', 9030), (''pBIOCGSTATS'', 9031), (''pBIOCSRTIMEOUT'', 7416),
     (''pBIOCSMODE'', 7412), (''pBIOCSWRITEREP'', 7413), (''pBIOCSMINTOCOPY'', 7414), (''pBIOCSETOID'', 2147483648),
     (''pBIOCQUERYOID'', 2147483652), (''pATTACHPROCESS'', 7117), (''pDETACHPROCESS'', 7118),
     (''pBIOCSETDUMPFILENAME'', 9029), (''pBIOCEVNAME'', 7415), (''pBIOCSENDPACKETSNOSYNC'', 9032),
     (''pBIOCSENDPACKETSSYNC'', 9033), (''pBIOCSETDUMPLIMITS'', 9034), (''pBIOCISDUMPENDED'', 7411),
     (''pBIOCISETLOBBEH'', 7410), (''pBIOCSETEVENTHANDLE'', 7920), (''pBIOCSTIMEZONE'', 7471)]"

lemma bit_small: "take_bit n w = w \<Longrightarrow> bit w k \<Longrightarrow> k < n"
  by (metis bit_take_bit_iff)

text \<open>
  The macro keeps its four arguments apart, as long as each fits its field: a device type of 16 bits, a
  function of 12, method and access of two.
\<close>

theorem ctl_code_fields:
  assumes "take_bit 16 d = d" "take_bit 12 f = f" "take_bit 2 m = m" "take_bit 2 a = a"
  shows "drop_bit 16 (CTL_CODE d f m a) = d \<and> take_bit 2 (drop_bit 14 (CTL_CODE d f m a)) = a
    \<and> take_bit 12 (drop_bit 2 (CTL_CODE d f m a)) = f \<and> take_bit 2 (CTL_CODE d f m a) = m"
proof -
  note small = bit_small [OF assms(1)] bit_small [OF assms(2)] bit_small [OF assms(3)] bit_small [OF assms(4)]
  have "bit (drop_bit 16 (CTL_CODE d f m a)) k = bit d k" if "k < 32" for k
    using that small [of k] small [of "16 + k"] small [of "14 + k"] small [of "2 + k"]
    by (auto simp: CTL_CODE_def bit_simps)
  moreover have "bit (take_bit 2 (drop_bit 14 (CTL_CODE d f m a))) k = bit a k" if "k < 32" for k
    using that small [of k] small [of "14 + k"] small [of "12 + k"] by (auto simp: CTL_CODE_def bit_simps)
  moreover have "bit (take_bit 12 (drop_bit 2 (CTL_CODE d f m a))) k = bit f k" if "k < 32" for k
    using that small [of k] small [of "2 + k"] by (auto simp: CTL_CODE_def bit_simps)
  moreover have "bit (take_bit 2 (CTL_CODE d f m a)) k = bit m k" if "k < 32" for k
    using that small [of k] by (auto simp: CTL_CODE_def bit_simps)
  ultimately show ?thesis by (intro conjI bit_word_eqI) simp_all
qed

theorem ctl_code_fields_witness:
  "drop_bit 16 (CTL_CODE 0x8000 7 2 1) = 0x8000 \<and> take_bit 2 (drop_bit 14 (CTL_CODE 0x8000 7 2 1)) = 1
    \<and> take_bit 12 (drop_bit 2 (CTL_CODE 0x8000 7 2 1)) = 7 \<and> take_bit 2 (CTL_CODE 0x8000 7 2 1) = 2"
  by (rule ctl_code_fields) (simp_all add: take_bit_eq_mod)

text \<open>The two headers agree on the codes they share, and the codes are different.\<close>

lemma ioctls_agree: "drop 2 ntddpack_ioctls = packet_ioctls"
  by (simp add: ntddpack_ioctls_def packet_ioctls_def)

lemma ioctls_distinct: "distinct (map snd ntddpack_ioctls)" "distinct (map snd bioc_codes)" "distinct (map snd file_devices)"
  by code_simp+

section \<open>The driver's structures\<close>

definition packet_modes :: "(string \<times> u32) list" where
  "packet_modes = [(''PACKET_MODE_CAPT'', 0x0), (''PACKET_MODE_STAT'', 0x1), (''PACKET_MODE_MON'', 0x2),
     (''PACKET_MODE_DUMP'', 0x10), (''PACKET_MODE_STAT_DUMP'', 0x10 OR 0x1)]"

text \<open>\<^verbatim>\<open>sizeof(int)\<close> is 4.\<close>

definition Packet_ALIGNMENT :: u32 where "Packet_ALIGNMENT = 4"
definition Packet_WORDALIGN :: "u32 \<Rightarrow> u32" where
  "Packet_WORDALIGN x = (x + (Packet_ALIGNMENT - 1)) AND NOT (Packet_ALIGNMENT - 1)"

definition ndis_link_types :: "(string \<times> int) list" where
  "ndis_link_types = [(''NdisMediumNull'', - 1), (''NdisMediumCHDLC'', - 2), (''NdisMediumPPPSerial'', - 3),
     (''NdisMediumBare80211'', - 4), (''NdisMediumRadio80211'', - 5)]"

definition npf_loopback :: "(string \<times> u32) list" where
  "npf_loopback = [(''NPF_DISABLE_LOOPBACK'', 1), (''NPF_ENABLE_LOOPBACK'', 2)]"

definition NetType :: ctype where "NetType = CStruct [(''LinkType'', CInt), (''LinkSpeed'', CLong)]"

definition driver_bpf_insn :: ctype where
  "driver_bpf_insn = CStruct [(''code'', CShort), (''jt'', CChar), (''jf'', CChar), (''k'', CInt)]"

definition bpf_stat :: ctype where
  "bpf_stat = CStruct [(''bs_recv'', CInt), (''bs_drop'', CInt), (''ps_ifdrop'', CInt), (''bs_capt'', CInt)]"

definition win_timeval :: ctype where "win_timeval = CStruct [(''tv_sec'', CInt), (''tv_usec'', CInt)]"

definition bpf_hdr :: ctype where
  "bpf_hdr = CStruct [(''bh_tstamp'', win_timeval), (''bh_caplen'', CInt), (''bh_datalen'', CInt), (''bh_hdrlen'', CShort)]"

definition dump_bpf_hdr :: ctype where
  "dump_bpf_hdr = CStruct [(''ts'', win_timeval), (''caplen'', CInt), (''len'', CInt)]"

definition adapter_limits :: "(string \<times> nat) list" where
  "adapter_limits = [(''ADAPTER_NAME_LENGTH'', 256 + 12), (''ADAPTER_DESC_LENGTH'', 128), (''MAX_MAC_ADDR_LENGTH'', 8),
     (''MAX_NETWORK_ADDRESSES'', 16)]"

definition adapter_flags :: "(string \<times> u32) list" where
  "adapter_flags = [(''INFO_FLAG_NDIS_ADAPTER'', 0), (''INFO_FLAG_NDISWAN_ADAPTER'', 1), (''INFO_FLAG_DAG_CARD'', 2),
     (''INFO_FLAG_DAG_FILE'', 6), (''INFO_FLAG_DONT_EXPORT'', 8), (''INFO_FLAG_AIRPCAP_CARD'', 16),
     (''INFO_FLAG_NPFIM_DEVICE'', 32)]"

definition ADAPTER_INFO :: "ctype \<Rightarrow> ctype" where
  "ADAPTER_INFO ptr = CStruct
     [(''Next'', ptr), (''Name'', CArr 269 CChar), (''Description'', CArr 129 CChar), (''MacAddressLen'', CInt),
      (''MacAddress'', CArr 8 CChar), (''LinkLayer'', NetType), (''NNetworkAddresses'', CInt),
      (''NetworkAddresses'', ptr), (''Flags'', CInt)]"

definition ADAPTER :: "ctype \<Rightarrow> ctype" where
  "ADAPTER ptr = CStruct
     [(''hFile'', ptr), (''SymbolicLink'', CArr 64 CChar), (''NumWrites'', CInt), (''ReadEvent'', ptr),
      (''ReadTimeOut'', CInt), (''Name'', CArr 268 CChar), (''pWanAdapter'', ptr), (''Flags'', CInt)]"

definition driver_PACKET :: "ctype \<Rightarrow> ctype \<Rightarrow> ctype" where
  "driver_PACKET ptr overlapped = CStruct
     [(''hEvent'', ptr), (''OverLapped'', overlapped), (''Buffer'', ptr), (''Length'', CInt),
      (''ulBytesReceived'', CInt), (''bIoComplete'', CChar)]"

definition PACKET_OID_DATA :: ctype where
  "PACKET_OID_DATA = CStruct [(''Oid'', CInt), (''Length'', CInt), (''Data'', CArr 1 CChar)]"

definition ntdd_PACKET_OID_DATA :: ctype where
  "ntdd_PACKET_OID_DATA = CStruct [(''Oid'', CInt), (''Length'', CInt), (''Data'', CArr 1 CChar)]"

text \<open>
  The driver's packet header has 18 bytes and is padded to 20; the header of a packet in a dump buffer
  is the 16 bytes of a dump file's record header. The fields of an adapter's name leave room for the
  terminator in the adapter list, but not in the open adapter.
\<close>

lemma driver_layouts:
  "sizeof bpf_hdr = 20" "coffset bpf_hdr [''bh_hdrlen''] = Some 16" "sizeof dump_bpf_hdr = 16"
  "sizeof driver_bpf_insn = 8" "sizeof bpf_stat = 16" "sizeof NetType = 16" "sizeof PACKET_OID_DATA = 12"
  "coffset PACKET_OID_DATA [''Data''] = Some 8" "PACKET_OID_DATA = ntdd_PACKET_OID_DATA"
  by code_simp+

lemma adapter_layouts:
  "sizeof (ADAPTER_INFO CInt) = 448" "sizeof (ADAPTER CInt) = 356"
  "coffset (ADAPTER_INFO CInt) [''Description''] = Some 273"
  by code_simp+

section \<open>Functions\<close>

abbreviation adapter_t :: cty where "adapter_t \<equiv> TPtr (TNamed ''ADAPTER'')"
abbreviation packet_t :: cty where "packet_t \<equiv> TPtr (TNamed ''PACKET'')"
abbreviation boolean_t :: cty where "boolean_t \<equiv> TUChar"
abbreviation bstat_t :: cty where "bstat_t \<equiv> TPtr (TNamed ''bpf_stat'')"

definition packet_h_settings :: "c_proto list" where
  "packet_h_settings =
    [cfun cbuf ''PacketGetVersion'' [], cfun cbuf ''PacketGetDriverVersion'' [],
     cfun boolean_t ''PacketSetMinToCopy'' [adapter_t, TInt], cfun boolean_t ''PacketSetNumWrites'' [adapter_t, TInt],
     cfun boolean_t ''PacketSetMode'' [adapter_t, TInt], cfun boolean_t ''PacketSetReadTimeout'' [adapter_t, TInt],
     cfun boolean_t ''PacketSetBpf'' [adapter_t, program_t],
     cfun boolean_t ''PacketSetLoopbackBehavior'' [adapter_t, TUInt],
     cfun TInt ''PacketSetSnapLen'' [adapter_t, TInt], cfun boolean_t ''PacketGetStats'' [adapter_t, bstat_t],
     cfun boolean_t ''PacketGetStatsEx'' [adapter_t, bstat_t], cfun boolean_t ''PacketSetBuff'' [adapter_t, TInt],
     cfun boolean_t ''PacketGetNetType'' [adapter_t, TPtr (TNamed ''NetType'')]]"

definition packet_h_transfer :: "c_proto list" where
  "packet_h_transfer =
    [cfun adapter_t ''PacketOpenAdapter'' [cbuf],
     cfun boolean_t ''PacketSendPacket'' [adapter_t, packet_t, boolean_t],
     cfun TInt ''PacketSendPackets'' [adapter_t, TPtr TVoid, TULong, boolean_t],
     cfun packet_t ''PacketAllocatePacket'' [], cfun TVoid ''PacketInitPacket'' [packet_t, TPtr TVoid, TUInt],
     cfun TVoid ''PacketFreePacket'' [packet_t],
     cfun boolean_t ''PacketReceivePacket'' [adapter_t, packet_t, boolean_t],
     cfun boolean_t ''PacketSetHwFilter'' [adapter_t, TULong],
     cfun boolean_t ''PacketGetAdapterNames'' [TNamed ''PTSTR'', TPtr TULong],
     cfun boolean_t ''PacketGetNetInfoEx'' [cbuf, TPtr (TNamed ''npf_if_addr''), TPtr TLong],
     cfun boolean_t ''PacketRequest'' [adapter_t, boolean_t, TPtr (TNamed ''PACKET_OID_DATA'')],
     cfun (TNamed ''HANDLE'') ''PacketGetReadEvent'' [adapter_t],
     cfun boolean_t ''PacketSetDumpName'' [adapter_t, TPtr TVoid, TInt],
     cfun boolean_t ''PacketSetDumpLimits'' [adapter_t, TUInt, TUInt],
     cfun boolean_t ''PacketIsDumpEnded'' [adapter_t, boolean_t], cfun TInt ''PacketStopDriver'' [],
     cfun TVoid ''PacketCloseAdapter'' [adapter_t], cfun boolean_t ''PacketStartOem'' [cbuf, TUInt],
     cfun (TNamed ''PAirpcapHandle'') ''PacketGetAirPcapHandle'' [adapter_t]]"

lemma packet_h_distinct: "distinct (map cp_name (packet_h_settings @ packet_h_transfer))"
  by code_simp

text \<open>What WinPcap adds to the interface of libpcap.\<close>

definition send_queue :: "ctype \<Rightarrow> ctype" where
  "send_queue ptr = CStruct [(''maxlen'', CInt), (''len'', CInt), (''buffer'', ptr)]"

definition bpf_extensions :: "(string \<times> u16) list" where
  "bpf_extensions =
    [(''BPF_MEM_EX_IMM'', 0xc0), (''BPF_MEM_EX_IND'', 0xe0), (''BPF_MEM_EX'', 0xc0), (''BPF_TME'', 0x08),
     (''BPF_LOOKUP'', 0x90), (''BPF_EXECUTE'', 0xa0), (''BPF_INIT'', 0xb0), (''BPF_VALIDATE'', 0xc0),
     (''BPF_SET_ACTIVE'', 0xd0), (''BPF_RESET'', 0xe0), (''BPF_SET_MEMORY'', 0x80), (''BPF_GET_REGISTER_VALUE'', 0x70),
     (''BPF_SET_REGISTER_VALUE'', 0x60), (''BPF_SET_WORKING'', 0x50), (''BPF_SET_ACTIVE_READ'', 0x40),
     (''BPF_SET_AUTODELETION'', 0x30), (''BPF_SEPARATION'', 0xff)]"

abbreviation queue_t :: cty where "queue_t \<equiv> TPtr (TNamed ''pcap_send_queue'')"

definition win32_extensions_h :: "c_proto list" where
  "win32_extensions_h =
    [cfun queue_t ''pcap_sendqueue_alloc'' [TUInt], cfun TVoid ''pcap_sendqueue_destroy'' [queue_t],
     cfun TInt ''pcap_sendqueue_queue'' [queue_t, TPtr (TConst pkthdr_t), const_bytes],
     cfun TUInt ''pcap_sendqueue_transmit'' [pcap_t, queue_t, TInt], cfun (TNamed ''HANDLE'') ''pcap_getevent'' [pcap_t],
     cfun (TPtr (TNamed ''pcap_stat'')) ''pcap_stats_ex'' [pcap_t, TPtr TInt],
     cfun TInt ''pcap_setuserbuffer'' [pcap_t, TInt], cfun TInt ''pcap_live_dump'' [pcap_t, cbuf, TInt, TInt],
     cfun TInt ''pcap_live_dump_ended'' [pcap_t, TInt],
     cfun TInt ''pcap_offline_filter'' [program_t, TPtr (TConst pkthdr_t), const_bytes],
     cfun TInt ''pcap_start_oem'' [cbuf, TInt],
     cfun (TNamed ''PAirpcapHandle'') ''pcap_get_airpcap_handle'' [pcap_t]]"

definition pcap_win32_h :: "c_proto list" where
  "pcap_win32_h =
    [cfun TInt ''pcap_setbuff'' [pcap_t, TInt], cfun TInt ''pcap_setmode'' [pcap_t, TInt],
     cfun TInt ''pcap_setmintocopy'' [pcap_t, TInt]]"

definition pcap_capture_modes :: "(string \<times> u32) list" where
  "pcap_capture_modes = [(''MODE_CAPT'', 0), (''MODE_STAT'', 1), (''MODE_MON'', 2)]"

definition pcap_unix_h :: "c_proto list" where
  "pcap_unix_h = [cfun TInt ''pcap_get_selectable_fd'' [pcap_t]]"

definition remote_functions :: "c_proto list" where
  "remote_functions =
    [cfun pcap_t ''pcap_open'' [cstr, TInt, TInt, TInt, TPtr (TNamed ''pcap_rmtauth''), cbuf],
     cfun TInt ''pcap_createsrcstr'' [cbuf, TInt, cstr, cstr, cstr, cbuf],
     cfun TInt ''pcap_parsesrcstr'' [cstr, TPtr TInt, cbuf, cbuf, cbuf, cbuf],
     cfun TInt ''pcap_findalldevs_ex'' [cbuf, TPtr (TNamed ''pcap_rmtauth''), TPtr (TPtr (TNamed ''pcap_if'')), cbuf],
     cfun (TPtr (TNamed ''pcap_samp'')) ''pcap_setsampling'' [pcap_t]]"

definition remote_active_functions :: "c_proto list" where
  "remote_active_functions =
    [cfun (TNamed ''SOCKET'') ''pcap_remoteact_accept'' [cstr, cstr, cstr, cbuf, TPtr (TNamed ''pcap_rmtauth''), cbuf],
     cfun TInt ''pcap_remoteact_list'' [cbuf, TChar, TInt, cbuf], cfun TInt ''pcap_remoteact_close'' [cstr, cbuf],
     cfun TVoid ''pcap_remoteact_cleanup'' []]"

text \<open>
  The extensions add to \<^verbatim>\<open>pcap.h\<close> and declare none of its functions again, and the native
  code calls none of them.
\<close>

lemma extensions_distinct:
  "distinct (map cp_name (pcap_h @ win32_extensions_h @ pcap_win32_h @ pcap_unix_h @ remote_functions
     @ remote_active_functions))"
  by code_simp

lemma extensions_unused:
  "list_all (\<lambda>c. cc_name c \<notin> set (map cp_name (win32_extensions_h @ pcap_win32_h @ remote_functions
     @ remote_active_functions @ packet_h_settings @ packet_h_transfer))) pcap_calls"
  by code_simp

section \<open>Sources, flags and sampling of \<^verbatim>\<open>remote-ext.h\<close>\<close>

definition PCAP_BUF_SIZE :: nat where "PCAP_BUF_SIZE = 1024"
definition RPCAP_HOSTLIST_SIZE :: nat where "RPCAP_HOSTLIST_SIZE = 1024"

definition pcap_sources :: "(string \<times> int) list" where
  "pcap_sources = [(''PCAP_SRC_FILE'', 2), (''PCAP_SRC_IFLOCAL'', 3), (''PCAP_SRC_IFREMOTE'', 4)]"

definition PCAP_SRC_FILE_STRING :: string where "PCAP_SRC_FILE_STRING = ''file://''"
definition PCAP_SRC_IF_STRING :: string where "PCAP_SRC_IF_STRING = ''rpcap://''"

definition pcap_open_flags :: "(string \<times> u32) list" where
  "pcap_open_flags = [(''PCAP_OPENFLAG_PROMISCUOUS'', 1), (''PCAP_OPENFLAG_DATATX_UDP'', 2),
     (''PCAP_OPENFLAG_NOCAPTURE_RPCAP'', 4), (''PCAP_OPENFLAG_NOCAPTURE_LOCAL'', 8),
     (''PCAP_OPENFLAG_MAX_RESPONSIVENESS'', 16)]"

definition pcap_sampling :: "(string \<times> int) list" where
  "pcap_sampling = [(''PCAP_SAMP_NOSAMP'', 0), (''PCAP_SAMP_1_EVERY_N'', 1), (''PCAP_SAMP_FIRST_AFTER_N_MS'', 2)]"

definition rpcap_authentication :: "(string \<times> int) list" where
  "rpcap_authentication = [(''RPCAP_RMTAUTH_NULL'', 0), (''RPCAP_RMTAUTH_PWD'', 1)]"

definition pcap_rmtauth :: "ctype \<Rightarrow> ctype" where
  "pcap_rmtauth ptr = CStruct [(''type'', CInt), (''username'', ptr), (''password'', ptr)]"

definition pcap_samp :: ctype where "pcap_samp = CStruct [(''method'', CInt), (''value'', CInt)]"

text \<open>
  The open flags are independent bits and the prefix of a file source is not that of a device.
\<close>

lemma open_flags_independent:
  "sorted_wrt (\<lambda>(n, a) (m, b). n \<noteq> m \<and> a AND b = 0) pcap_open_flags"
  by code_simp

lemma source_strings_differ:
  "take (length PCAP_SRC_FILE_STRING) PCAP_SRC_IF_STRING \<noteq> PCAP_SRC_FILE_STRING"
  by code_simp

lemma remote_layouts:
  "sizeof (pcap_rmtauth CLong) = 24" "sizeof (pcap_rmtauth CInt) = 12" "coffset pcap_samp [''value''] = Some 4"
  by code_simp+

section \<open>The capture library's own structures\<close>

definition swapped_types :: "(string \<times> nat) list" where
  "swapped_types = [(''NOT_SWAPPED'', 0), (''SWAPPED'', 1), (''MAYBE_SWAPPED'', 2)]"

definition pcap_sf :: "ctype \<Rightarrow> ctype" where
  "pcap_sf ptr = CStruct [(''rfile'', ptr), (''swapped'', CInt), (''hdrsize'', CInt), (''lengths_swapped'', CInt),
     (''version_major'', CInt), (''version_minor'', CInt), (''base'', ptr)]"

definition pcap_timeval :: ctype where "pcap_timeval = CStruct [(''tv_sec'', CInt), (''tv_usec'', CInt)]"

definition pcap_sf_pkthdr :: ctype where
  "pcap_sf_pkthdr = CStruct [(''ts'', pcap_timeval), (''caplen'', CInt), (''len'', CInt)]"

definition pcap_sf_patched_pkthdr :: ctype where
  "pcap_sf_patched_pkthdr = CStruct [(''ts'', pcap_timeval), (''caplen'', CInt), (''len'', CInt), (''index'', CInt),
     (''protocol'', CShort), (''pkt_type'', CChar)]"

text \<open>
  A record header of a dump file is shorter than the header in memory on a 64-bit machine, and has no
  padding; the patched one has, after its last byte.
\<close>

lemma savefile_layouts:
  "sizeof pcap_sf_pkthdr = 16" "coffset pcap_sf_pkthdr [''caplen''] = Some 8" "coffset pcap_sf_pkthdr [''len''] = Some 12"
  "sizeof pcap_sf_patched_pkthdr = 24" "coffset pcap_sf_patched_pkthdr [''pkt_type''] = Some 22"
  "sizeof (pcap_sf CLong) = 40" "sizeof (pcap_sf CInt) = 28"
  by code_simp+

lemma dump_buffer_is_savefile:
  "map (coffset dump_bpf_hdr) [[''ts'', ''tv_sec''], [''ts'', ''tv_usec''], [''caplen''], [''len'']]
    = map (coffset pcap_sf_pkthdr) [[''ts'', ''tv_sec''], [''ts'', ''tv_usec''], [''caplen''], [''len'']]"
  "sizeof dump_bpf_hdr = sizeof pcap_sf_pkthdr"
  by code_simp+

definition pcap_int_reads :: "c_proto list" where
  "pcap_int_reads =
    [cfun TInt ''pcap_offline_read'' [pcap_t, TInt, pcap_handler, TPtr TUChar],
     cfun TInt ''pcap_read'' [pcap_t, TInt, pcap_handler, TPtr TUChar]]"

definition pcap_int_nonblock :: "c_proto list" where
  "pcap_int_nonblock =
    [cfun TInt ''pcap_getnonblock_fd'' [pcap_t, cbuf], cfun TInt ''pcap_setnonblock_fd'' [pcap_t, TInt, cbuf]]"

abbreviation if_list_t :: cty where "if_list_t \<equiv> TPtr (TPtr (TNamed ''pcap_if''))"
abbreviation sockaddr_t :: cty where "sockaddr_t \<equiv> TPtr (TNamed ''sockaddr'')"

definition pcap_int_devices :: "c_proto list" where
  "pcap_int_devices =
    [cfun TInt ''pcap_platform_finddevs'' [if_list_t, cbuf],
     cfun TInt ''add_addr_to_iflist'' [if_list_t, cstr, TUInt, sockaddr_t, TSize, sockaddr_t, TSize, sockaddr_t, TSize,
       sockaddr_t, TSize, cbuf],
     cfun TInt ''pcap_add_if'' [if_list_t, cstr, TUInt, cstr, cbuf],
     cfun sockaddr_t ''dup_sockaddr'' [sockaddr_t, TSize],
     cfun TInt ''add_or_find_if'' [if_list_t, if_list_t, cstr, TUInt, cstr, cbuf]]"

section \<open>Bounded string copy\<close>

definition pcap_min :: "int \<Rightarrow> int \<Rightarrow> int" where "pcap_min a b = (if a > b then b else a)"

text \<open>
  \<^verbatim>\<open>strncpy\<close> of the C library on the content of a buffer: as many characters as the string
  has, at most \<open>z\<close>, and zeros up to \<open>z\<close>. The macro \<^verbatim>\<open>strlcpy\<close> then terminates
  the buffer and returns the length of the source.
\<close>

definition strncpy :: "string \<Rightarrow> string \<Rightarrow> nat \<Rightarrow> string res" where
  "strncpy x y z = (if z \<le> length x then Inr (take z (y @ replicate z (CHR 0x00)) @ drop z x) else Inl (UB OobWrite))"

definition strlcpy :: "string \<Rightarrow> string \<Rightarrow> nat \<Rightarrow> (string \<times> nat) res" where
  "strlcpy x y z =
     bindR (strncpy x y z) (\<lambda>x. Inr (if z \<le> 0 then x else x[z - 1 := CHR 0x00], length y))"

text \<open>The C string at the start of a buffer.\<close>

definition cstring :: "string \<Rightarrow> string" where "cstring x = takeWhile (\<lambda>c. c \<noteq> CHR 0x00) x"

lemma take_last_update: "0 < z \<Longrightarrow> z \<le> length w \<Longrightarrow> (take z w)[z - 1 := c] = take (z - 1) w @ [c]"
  by (cases z) (simp_all add: take_Suc_conv_app_nth list_update_append)

lemma take_terminated:
  "0 < z \<Longrightarrow> z \<le> length w \<Longrightarrow> take z ((take z w @ r)[z - 1 := c]) = take (z - 1) w @ [c]"
  using take_last_update [of z w c] by (simp add: list_update_append)

text \<open>
  The copy is cut to the size of the buffer less one and always terminated; the result tells whether it
  was cut; and what lies behind the \<open>z\<close> characters is untouched.
\<close>

theorem strlcpy_truncates:
  assumes "0 < z" "z \<le> length x" "CHR 0x00 \<notin> set y"
  shows "\<exists>x'. strlcpy x y z = Inr (x', length y) \<and> cstring x' = take (z - 1) y \<and> length x' = length x
    \<and> drop z x' = drop z x \<and> (length y < z \<longleftrightarrow> cstring x' = y)"
proof -
  define x' where "x' = (take z (y @ replicate z (CHR 0x00)) @ drop z x)[z - 1 := CHR 0x00]"
  have len: "length x' = length x" using assms(1,2) by (simp add: x'_def)
  have front: "take z x' = take (z - 1) (y @ replicate z (CHR 0x00)) @ [CHR 0x00]"
    unfolding x'_def using assms(1,2) by (intro take_terminated) simp_all
  have "cstring x' = take (z - 1) y"
  proof -
    have "x' = take (z - 1) (y @ replicate z (CHR 0x00)) @ CHR 0x00 # drop z x'"
      using front append_take_drop_id [of z x'] by simp
    moreover have "takeWhile (\<lambda>c. c \<noteq> CHR 0x00) (take (z - 1) y @ replicate n (CHR 0x00) @ CHR 0x00 # r) = take (z - 1) y"
      for n r
    proof -
      have "takeWhile (\<lambda>c. c \<noteq> CHR 0x00) (replicate n (CHR 0x00) @ CHR 0x00 # r) = []" by (cases n) simp_all
      moreover have "\<forall>c \<in> set (take (z - 1) y). c \<noteq> CHR 0x00" using assms(3) by (auto dest: in_set_takeD)
      ultimately show ?thesis by (simp add: takeWhile_append2)
    qed
    ultimately show ?thesis by (metis append.assoc cstring_def take_append take_replicate)
  qed
  moreover have "drop z x' = drop z x" using assms(1,2) by (simp add: x'_def drop_update_cancel)
  moreover have "strlcpy x y z = Inr (x', length y)"
    using assms(1,2) unfolding strlcpy_def strncpy_def x'_def by (simp only: if_True bindR_Inr) simp
  moreover have "length y < z \<longleftrightarrow> take (z - 1) y = y" using assms(1) by auto
  ultimately show ?thesis using len by auto
qed

theorem strlcpy_truncates_witness:
  "\<exists>x'. strlcpy ''xxxxxx'' ''eth0'' 4 = Inr (x', length ''eth0'') \<and> cstring x' = take (4 - 1) ''eth0''
    \<and> length x' = length ''xxxxxx'' \<and> drop 4 x' = drop 4 ''xxxxxx'' \<and> (length ''eth0'' < 4 \<longleftrightarrow> cstring x' = ''eth0'')"
  by (rule strlcpy_truncates) simp_all

end
