(* ===== verification/Spec2Isabelle.thy ===== *)
theory Spec2Isabelle
  imports Session Device_List Stack_Headers Link_Types Driver_Memory Address_Macros Driver_Interface
begin

text \<open>
  This development verifies the native library of Jpcap 0.7, the packet capture and injection
  library that J-SDNTrace uses, under \<^verbatim>\<open>src/JpcapSource/jpcap-0.7/src\<close> (paths below are relative
  to it). Java programs open a device or a dump file, receive captured frames as objects of
  \<^verbatim>\<open>java/jpcap/packet\<close>, build such objects themselves and send them. All of this is done by C code
  between the Java virtual machine and libpcap:

  \<^item> \<^verbatim>\<open>c/JpcapCaptor.c\<close> opens and closes devices, asks libpcap for frames and turns each frame
    into a packet object (\<^verbatim>\<open>get_packet\<close>), with one \<^verbatim>\<open>analyze_*\<close> function per protocol in
    \<^verbatim>\<open>c/packet_*.c\<close>;
  \<^item> \<^verbatim>\<open>c/JpcapSender.c\<close> turns a packet object into a frame or an IP datagram (\<^verbatim>\<open>set_packet\<close>), with
    one \<^verbatim>\<open>set_*\<close> function per protocol in the same files, computes the checksums and hands the bytes
    to libpcap or to a raw socket;
  \<^item> \<^verbatim>\<open>c/JpcapWriter.c\<close> appends packets to one dump file;
  \<^item> \<^verbatim>\<open>java/jpcap/JpcapInstance.java\<close> and its subclasses hand out instance IDs, which index the
    global arrays that the three C files share.
\<close>

section \<open>The theories and what they model\<close>

text \<open>
  \<^bold>\<open>Foundations.\<close> \<^verbatim>\<open>Prelude\<close>: words, byte strings, the type of failures, sequencing, loads and
  stores of a C buffer, byte order, narrowing. A result is \<^verbatim>\<open>Inr\<close> of a value or \<^verbatim>\<open>Inl\<close> of a failure;
  a failure is either undefined behaviour of the C text (a load or store outside a buffer, a null or
  released handle, a method called on an object of another class) or a Java exception. So every
  out-of-bounds access of the source is a visible value, and a theorem that a call returns \<^verbatim>\<open>Inr\<close> says
  that there is none. \<^verbatim>\<open>Net_Headers\<close>: the wire structures of \<^verbatim>\<open>c/include/netinet\<close>, \<^verbatim>\<open>c/include/net\<close>
  and \<^verbatim>\<open>c/Jpcap_ether.h\<close> as structure types from which offsets and sizes are computed, and the
  constants the native code uses. \<^verbatim>\<open>Java_Packets\<close>: the fields of the packet classes as records, the
  class of an object as the constructor of its body, and the setters the native code calls.
  \<^verbatim>\<open>Codec\<close>: the contract between a \<^verbatim>\<open>set_*\<close> and an \<^verbatim>\<open>analyze_*\<close> function for a header of fixed size,
  as a locale, interpreted by the Ethernet and the ARP theory on the code's functions.

  \<^bold>\<open>Protocols.\<close> \<^verbatim>\<open>Checksum\<close> (\<^verbatim>\<open>in_cksum\<close> and \<^verbatim>\<open>in_cksum2\<close> of \<^verbatim>\<open>c/JpcapSender.c\<close>, with a locale
  for what makes a total a checksum), \<^verbatim>\<open>Datalink\<close>, \<^verbatim>\<open>Arp\<close>, \<^verbatim>\<open>Udp\<close>, \<^verbatim>\<open>Tcp\<close>, \<^verbatim>\<open>Ipv4\<close>, \<^verbatim>\<open>Icmp\<close>,
  \<^verbatim>\<open>Ipv6\<close>: both functions of each \<^verbatim>\<open>c/packet_*.c\<close>, field by field and in the order of the source.
  Beside the functions stand the formats of the RFCs as definitions of their own; the theorems relate
  the two. Round trips say that what one side writes the other reads back.

  \<^bold>\<open>Whole packets.\<close> \<^verbatim>\<open>Captor_Packet\<close>: \<^verbatim>\<open>get_packet\<close> as its phases (network type,
  transport protocol, truncation, object, network header, length, transport header, data), with the
  16-bit \<^verbatim>\<open>clen\<close> and \<^verbatim>\<open>hlen\<close> wrapped where the C code wraps them. \<^verbatim>\<open>Sender\<close>: \<^verbatim>\<open>set_packet\<close> as its
  phases. \<^verbatim>\<open>Send_Capture\<close>: the two composed, over the wire, for UDP and TCP.
  \<^verbatim>\<open>Session\<close>: the library as its clients use it. A captor and a sender are opened, a sequence of
  packets is sent through one and delivered by the other; this theory joins whole packets and state.

  \<^bold>\<open>State.\<close> \<^verbatim>\<open>Native_State\<close>: the global arrays \<^verbatim>\<open>pcds\<close>, \<^verbatim>\<open>linktypes\<close>, \<^verbatim>\<open>netmasks\<close>,
  \<^verbatim>\<open>jni_envs\<close>, \<^verbatim>\<open>jpcap_handlers\<close>, \<^verbatim>\<open>pcap_errbuf\<close> and the globals of sender and writer as one
  record, with the set of libpcap handles and sockets that are alive; opening and closing.
  \<^verbatim>\<open>Captor\<close>, \<^verbatim>\<open>Sender_Device\<close>, \<^verbatim>\<open>Writer\<close>: the remaining JNI functions of the three C files.
  \<^verbatim>\<open>Instances\<close>: the Java methods that reserve and give back IDs around the native calls, and the
  locale of an ID pool, interpreted on \<^verbatim>\<open>reserveID\<close> and \<^verbatim>\<open>unreserveID\<close>. \<^verbatim>\<open>Lifecycle\<close>: every public
  method that opens, closes or captures as a step of a transition system, the invariants of its
  reachable states, and the contract of the three native opening functions as a locale.

  \<^bold>\<open>Boundaries.\<close> \<^verbatim>\<open>Jni_Interface\<close>: native methods against the prototypes of the generated
  headers, class and method look-ups of \<^verbatim>\<open>set_Java_env\<close> against the Java declarations, and the
  arguments of every call into Java against the descriptor it was looked up with. \<^verbatim>\<open>Pcap_Interface\<close>:
  the functions \<^verbatim>\<open>pcap.h\<close> declares and the types of every call made to them. \<^verbatim>\<open>Device_List\<close>:
  \<^verbatim>\<open>getDeviceList\<close>. \<^verbatim>\<open>Net_Tables\<close>, \<^verbatim>\<open>Stack_Headers\<close>, \<^verbatim>\<open>Link_Types\<close>: the constants, macros and
  structures of the library's own copies of the protocol headers and of \<^verbatim>\<open>pcap.h\<close> and
  \<^verbatim>\<open>pcap-bpf.h\<close> beyond those the native code reads.

  \<^bold>\<open>The capture driver.\<close> The headers under \<^verbatim>\<open>c/win32/WpdPack/Include\<close> belong to the Windows
  driver the library can run on; there a \<^verbatim>\<open>long\<close> has 32 bits. \<^verbatim>\<open>Driver_Clock\<close>: all functions of
  \<^verbatim>\<open>time_calls.h\<close>, by which the driver relates its counters to the system time and stamps packets.
  \<^verbatim>\<open>Driver_Memory\<close>: \<^verbatim>\<open>memory_t.h\<close>, \<^verbatim>\<open>tme.h\<close> and the headers of its packet functions: byte-swapped
  memory access, the registers of the monitoring engine and its deletion rule. \<^verbatim>\<open>Address_Macros\<close>:
  the IPv6 address tests and structures of \<^verbatim>\<open>ip6_misc.h\<close>, against those of \<^verbatim>\<open>netinet/ip6.h\<close>.
  \<^verbatim>\<open>Driver_Interface\<close>: control codes, buffers and declarations of \<^verbatim>\<open>Devioctl.h\<close>, \<^verbatim>\<open>Ntddpack.h\<close>,
  \<^verbatim>\<open>Packet32.h\<close>, \<^verbatim>\<open>Win32-Extensions.h\<close>, \<^verbatim>\<open>remote-ext.h\<close> and \<^verbatim>\<open>pcap-int.h\<close>.
\<close>

section \<open>What the theorems show\<close>

text \<open>
  \<^item> \<^emph>\<open>Sessions\<close> (C1): every sequence of TCP and UDP packets over IPv4 that fit the send buffer,
    sent through an open sender, is delivered to the handler of an open captor, in order and with the
    same ports, protocol fields and payload, from any reachable state.
  \<^item> \<^emph>\<open>Sending and capturing\<close> (C2, C3): a UDP or TCP packet object over IPv4 and Ethernet that
    fits the send buffer, sent and captured again, comes back with the same addresses, ports, protocol
    fields and payload.
  \<^item> \<^emph>\<open>Capturing\<close> (C4 to C6, C19, C20, C38): which object each kind of frame becomes, truncated
    frames, fragments and link types included, and that header and data are slices of the frame.
    C4 to C6 and C19 are about frames shorter than 32768 bytes; longer ones are parsed by an
    uninitialised variable (\<^verbatim>\<open>large_frame_undecided\<close>).
  \<^item> \<^emph>\<open>Headers\<close> (C14 to C18, C21 to C25): reading and writing each protocol against its RFC,
    and a bound on the turns of the walk over IPv6 extension headers.
    Where the code departs from the RFC the theorem states what it does.
  \<^item> \<^emph>\<open>Checksums\<close> (C10 to C12): both routines against the one's complement sum of RFC 1071, and
    that every IPv4 header \<^verbatim>\<open>set_packet\<close> writes passes the receiver's test.
  \<^item> \<^emph>\<open>Bounds\<close> (C13, C32, C33): the exact sizes up to which the fixed buffers suffice.
  \<^item> \<^emph>\<open>Instances\<close> (C7 to C9, C26 to C29): the invariant of IDs and handles over all
    interleavings of operations, safety of closing, success of opening as long as there is an ID, and
    how IDs are lost or shared.
  \<^item> \<^emph>\<open>Entry points\<close> (C30, C31, C34, C35): deliveries to the handler, error reports, the dump
    file, the device list.
  \<^item> \<^emph>\<open>Interfaces\<close> (C36, C37): prototypes and method IDs.
  \<^item> \<^emph>\<open>The driver's clock\<close> (C39, C40): time stamps never decrease when the fix-up is on, and in the
    default mode they follow the performance counter exactly.

  Theorems without a number describe further behaviour: the odd-length checksum, the fragment flags of
  captured headers, large frames, raw sockets, the filter message, read timeouts, the Ethernet header,
  the one call into Java whose arguments do not fit (\<^verbatim>\<open>one_call_mismatch\<close>), the deletion rule (\<^verbatim>\<open>deletion_rule\<close>),
  byte-swapped memory access, control codes and the bounded string copy of \<^verbatim>\<open>pcap-int.h\<close>.
\<close>

section \<open>Parameters, bounds and termination\<close>

text \<open>
  The target is the one \<^verbatim>\<open>c/Makefile\<close> builds for: Linux on amd64, little endian, 64-bit
  \<^verbatim>\<open>unsigned long\<close>, 32-bit \<^verbatim>\<open>int\<close>, 16-bit \<^verbatim>\<open>short\<close>, with \<^verbatim>\<open>INET6\<close> defined as
  \<^verbatim>\<open>c/Jpcap_sub.h\<close> does. What libpcap, the operating system and the virtual machine answer is an
  argument of the definitions: the handle or message of an open call, the captured frames, the result
  of \<^verbatim>\<open>sendto\<close> and \<^verbatim>\<open>pcap_sendpacket\<close>, the addresses of a device, whether a class is found. Of these
  a theorem assumes documented behaviour only, for instance that an error message has at most 255
  characters or that a new handle is not one already in use. What an uninitialised buffer holds is
  an argument as well, and the theorems hold for any content.

  The Java setters are called on a receiver, whose class decides which method runs: the option bytes of
  a captured IPv4 header go where the class of the packet object puts them (\<^verbatim>\<open>setOption\<close>). A Java
  exception that the native code leaves pending ends the call in the model; where the code clears it
  and goes on, in \<^verbatim>\<open>set_ether\<close>, the model goes on too. Where the headers of the repository and those of
  the C library differ, the build uses the latter; the only difference that matters is the part of
  \<^verbatim>\<open>struct icmp\<close> for router advertisements (\<^verbatim>\<open>ih_rtradv\<close>).

  There is no fuel in the model. The walk over IPv6 extension headers, the search for a free ID and the parsing of
  method descriptors are recursive functions with a termination measure: the distance to the end of the
  frame, to the last ID, and the rest of the descriptor. For the walk, \<^verbatim>\<open>v6_turns\<close> counts the turns of
  the loop, and C25 gives a number that is always enough, at most one for every eight bytes left and two more. The checksum loop descends by two.
  A capture loop is the list of the frames libpcap delivers before it returns.
\<close>

section \<open>Not modelled\<close>

text \<open>
  \<^item> The branches for Windows and the BSDs of \<^verbatim>\<open>JpcapCaptor.c\<close> and \<^verbatim>\<open>JpcapSender.c\<close>, and debugging
    output: they are not compiled for the target.
  \<^item> \<^verbatim>\<open>toString\<close>, the getters and the constructors of the Java packet classes that only user code
    calls, and the Java classes that contain no native method and are not called by the C code.
  \<^item> The kernel sections of the network stack headers, which declare functions and variables of a BSD
    kernel.
  \<^item> \<^verbatim>\<open>Ntddndis.h\<close>, \<^verbatim>\<open>bittypes.h\<close>, \<^verbatim>\<open>Gnuc.h\<close> and \<^verbatim>\<open>pcap-stdinc.h\<close> under
    \<^verbatim>\<open>c/win32/WpdPack/Include\<close>: the object identifiers and structures of the Windows network stack,
    copied from a driver kit, and adaptation to compilers. Nothing of the modelled code uses them.
  \<^item> The bodies of the functions that the driver's and libpcap's headers declare, and \<^verbatim>\<open>struct pcap\<close>
    and \<^verbatim>\<open>struct pcap_md\<close>, the state behind them: they are not in the repository. What they answer is
    an argument.
  \<^item> Threads: each native call is atomic here, and captures are sequences of such calls.
  \<^item> The J-SDNTrace application itself, a separate Java program that is a client of this library.
\<close>

end
